(* ===== verification/Js_Prelude.thy ===== *)
theory Js_Prelude
  imports Main "HOL-Library.Sublist" "HOL-Library.AList"
begin

text \<open>
  The JavaScript vocabulary the component theories share.

  A JavaScript string is the list of its UTF-16 code units, so \<open>length\<close>, slicing and searching
  count what the program counts.  The string operations the sources call (\<open>trim\<close>, \<open>indexOf\<close>,
  \<open>includes\<close>, \<open>startsWith\<close>, \<open>slice\<close>, \<open>split\<close>, \<open>join\<close>), the decimal printing and reading of
  non-negative integers, \<open>[...new Set(xs)]\<close>, the \<open>Map\<close> that remembers insertion order and the
  operators \<open>||\<close> and \<open>??\<close> are executable functions here, each with the lemmas the components
  rest on.
\<close>

section \<open>Strings\<close>

type_synonym code_unit = nat
type_synonym jsstring = "code_unit list"

text \<open>A string literal of the source, for literals made of single-unit characters.\<close>

definition js :: "string \<Rightarrow> jsstring" where
  "js s = map of_char s"

lemma js_Nil [simp]: "js [] = []"
  by (simp add: js_def)

lemma js_Cons [simp]: "js (c # s) = of_char c # js s"
  by (simp add: js_def)

text \<open>
  Shared rewrite collections: \<open>js_ops\<close> unfolds the string operations on concrete strings,
  \<open>js_laws\<close> holds their algebraic laws.
\<close>

named_theorems js_ops
named_theorems js_laws

text \<open>The code units that \<open>String.prototype.trim\<close> and the class \<open>\s\<close> treat as white space.\<close>

definition is_space :: "code_unit \<Rightarrow> bool" where
  "is_space c \<longleftrightarrow>
     c \<in> {9, 10, 11, 12, 13, 32, 160, 5760, 8232, 8233, 8239, 8287, 12288, 65279}
     \<or> 8192 \<le> c \<and> c \<le> 8202"

definition is_digit :: "code_unit \<Rightarrow> bool" where
  "is_digit c \<longleftrightarrow> 48 \<le> c \<and> c \<le> 57"

definition trim :: "jsstring \<Rightarrow> jsstring" where
  "trim s = rev (dropWhile is_space (rev (dropWhile is_space s)))"

text \<open>The first position at which \<open>p\<close> occurs, \<open>None\<close> for the \<open>-1\<close> of \<open>indexOf\<close>.\<close>

fun find_sub :: "'a list \<Rightarrow> 'a list \<Rightarrow> nat option" where
  "find_sub p [] = (if p = [] then Some 0 else None)"
| "find_sub p (c # s) = (if prefix p (c # s) then Some 0 else map_option Suc (find_sub p s))"

text \<open>\<open>s.indexOf(p, from)\<close> for \<open>from \<le> s.length\<close>, and \<open>s.includes(p)\<close> as \<open>str_includes\<close>.\<close>

definition indexOf :: "jsstring \<Rightarrow> jsstring \<Rightarrow> nat \<Rightarrow> nat option" where
  "indexOf s p from = map_option (\<lambda>i. from + i) (find_sub p (drop from s))"

definition str_includes :: "jsstring \<Rightarrow> jsstring \<Rightarrow> bool" where
  "str_includes s p \<longleftrightarrow> find_sub p s \<noteq> None"

definition startsWith :: "jsstring \<Rightarrow> jsstring \<Rightarrow> bool" where
  "startsWith s p \<longleftrightarrow> prefix p s"

definition endsWith :: "jsstring \<Rightarrow> jsstring \<Rightarrow> bool" where
  "endsWith s p \<longleftrightarrow> suffix p s"

text \<open>\<open>s.slice(a, b)\<close> for non-negative bounds; \<open>s.slice(-n)\<close> is \<open>slice_last n s\<close>.\<close>

definition slice :: "'a list \<Rightarrow> nat \<Rightarrow> nat \<Rightarrow> 'a list" where
  "slice s a b = take (b - a) (drop a s)"

definition slice_last :: "nat \<Rightarrow> 'a list \<Rightarrow> 'a list" where
  "slice_last n s = drop (length s - n) s"

text \<open>\<open>s.split(c)\<close> for a one-unit separator; the empty string splits into one empty piece.\<close>

fun split_on :: "'a \<Rightarrow> 'a list \<Rightarrow> 'a list list" where
  "split_on c [] = [[]]"
| "split_on c (x # xs) =
     (if x = c then [] # split_on c xs
      else (case split_on c xs of [] \<Rightarrow> [[x]] | y # ys \<Rightarrow> (x # y) # ys))"

fun join :: "'a list \<Rightarrow> 'a list list \<Rightarrow> 'a list" where
  "join sep [] = []"
| "join sep [x] = x"
| "join sep (x # y # zs) = x @ sep @ join sep (y # zs)"

text \<open>Decimal digits: \<open>`${n}`\<close> for a non-negative integer and \<open>parseInt\<close> of a digit string.\<close>

fun dec :: "nat \<Rightarrow> jsstring" where
  "dec n = (if n < 10 then [48 + n] else dec (n div 10) @ [48 + n mod 10])"

declare dec.simps [simp del]

definition parse_dec :: "jsstring \<Rightarrow> nat" where
  "parse_dec s = foldl (\<lambda>n c. 10 * n + (c - 48)) 0 s"

definition dec_int :: "int \<Rightarrow> jsstring" where
  "dec_int i = (if i < 0 then 45 # dec (nat (- i)) else dec (nat i))"

section \<open>Truthiness, options and collections\<close>

text \<open>\<open>s || t\<close> on strings and \<open>a ?? b\<close> on optional values.\<close>

definition str_or :: "jsstring \<Rightarrow> jsstring \<Rightarrow> jsstring" where
  "str_or s t = (if s = [] then t else s)"

definition opt_str_or :: "jsstring option \<Rightarrow> jsstring \<Rightarrow> jsstring" where
  "opt_str_or s t = (case s of None \<Rightarrow> t | Some s' \<Rightarrow> str_or s' t)"

definition nullish :: "'a option \<Rightarrow> 'a \<Rightarrow> 'a" where
  "nullish a b = (case a of None \<Rightarrow> b | Some x \<Rightarrow> x)"

definition nullish_opt :: "'a option \<Rightarrow> 'a option \<Rightarrow> 'a option" where
  "nullish_opt a b = (case a of None \<Rightarrow> b | Some x \<Rightarrow> Some x)"

text \<open>\<open>set.add(x)\<close> on the insertion-ordered elements of a \<open>Set\<close>, and \<open>[...new Set(xs)]\<close>.\<close>

definition set_add :: "'a list \<Rightarrow> 'a \<Rightarrow> 'a list" where
  "set_add xs x = (if x \<in> set xs then xs else xs @ [x])"

definition uniq :: "'a list \<Rightarrow> 'a list" where
  "uniq xs = foldl set_add [] xs"

text \<open>\<open>xs.findIndex(P)\<close>, \<open>None\<close> for \<open>-1\<close>.\<close>

fun findIndex :: "('a \<Rightarrow> bool) \<Rightarrow> 'a list \<Rightarrow> nat option" where
  "findIndex P [] = None"
| "findIndex P (x # xs) = (if P x then Some 0 else map_option Suc (findIndex P xs))"

text \<open>
  A \<open>Map\<close> iterates in insertion order and keeps the place of a key that is set again: an
  association list with the library's \<open>AList.update\<close>.
\<close>

type_synonym ('k, 'v) jsmap = "('k \<times> 'v) list"

abbreviation map_get :: "('k, 'v) jsmap \<Rightarrow> 'k \<Rightarrow> 'v option" where
  "map_get m k \<equiv> map_of m k"

abbreviation map_put :: "('k, 'v) jsmap \<Rightarrow> 'k \<Rightarrow> 'v \<Rightarrow> ('k, 'v) jsmap" where
  "map_put m k v \<equiv> AList.update k v m"

section \<open>Laws\<close>

subsection \<open>White space\<close>

lemma trim_Nil [simp]: "trim [] = []"
  by (simp add: trim_def)

lemma set_trim: "set (trim s) \<subseteq> set s"
  by (auto simp: trim_def dest!: set_dropWhileD)

lemma dropWhile_id: "(s \<noteq> [] \<Longrightarrow> \<not> P (hd s)) \<Longrightarrow> dropWhile P s = s"
  by (cases s) auto

lemma hd_dropWhile_not: "dropWhile P s \<noteq> [] \<Longrightarrow> \<not> P (hd (dropWhile P s))"
  by (rule hd_dropWhile)

text \<open>A string is trimmed when neither end is white space.\<close>

definition trimmed :: "jsstring \<Rightarrow> bool" where
  "trimmed s \<longleftrightarrow> s = [] \<or> \<not> is_space (hd s) \<and> \<not> is_space (last s)"

lemma trim_id [js_laws]: "trimmed s \<Longrightarrow> trim s = s"
  by (auto simp: trim_def trimmed_def dropWhile_id hd_rev)

lemma rev_dropWhile_rev_prefix: "\<exists>t. s = rev (dropWhile P (rev s)) @ t"
proof -
  have "rev s = takeWhile P (rev s) @ dropWhile P (rev s)"
    by simp
  then have "s = rev (takeWhile P (rev s) @ dropWhile P (rev s))"
    by (metis rev_rev_ident)
  then show ?thesis
    by (metis rev_append)
qed

lemma trimmed_trim [simp]: "trimmed (trim s)"
proof (cases "trim s = []")
  case True
  then show ?thesis by (simp add: trimmed_def)
next
  case False
  let ?t = "dropWhile is_space s"
  have ne: "dropWhile is_space (rev ?t) \<noteq> []"
    using False by (simp add: trim_def)
  have last: "\<not> is_space (last (trim s))"
    using hd_dropWhile_not [OF ne] by (simp add: trim_def last_rev)
  obtain w where w: "?t = trim s @ w"
    using rev_dropWhile_rev_prefix [of ?t is_space] by (auto simp: trim_def)
  with False have tne: "?t \<noteq> []" by auto
  have "hd (trim s) = hd ?t"
    using w False by simp
  with hd_dropWhile_not [OF tne] last show ?thesis
    by (simp add: trimmed_def)
qed

lemma trim_trim [simp]: "trim (trim s) = trim s"
  by (simp add: trim_id)

lemma trim_no_space: "(\<And>c. c \<in> set s \<Longrightarrow> \<not> is_space c) \<Longrightarrow> trim s = s"
  by (rule trim_id) (auto simp: trimmed_def)

lemma filter_dropWhile: "filter (\<lambda>c. \<not> P c) (dropWhile P s) = filter (\<lambda>c. \<not> P c) s"
  by (induction s) auto

lemma filter_trim: "filter (\<lambda>c. \<not> is_space c) (trim s) = filter (\<lambda>c. \<not> is_space c) s"
  by (simp add: trim_def rev_filter[symmetric] filter_dropWhile)

lemma is_digit_not_space: "is_digit c \<Longrightarrow> \<not> is_space c"
  by (auto simp: is_digit_def is_space_def)

subsection \<open>Searching\<close>

lemma find_sub_None_iff: "find_sub p s = None \<longleftrightarrow> \<not> sublist p s"
  by (induction s) (auto simp: sublist_Cons_right)

lemma str_includes_iff [js_laws]: "str_includes s p \<longleftrightarrow> sublist p s"
  by (auto simp: str_includes_def find_sub_None_iff)

lemma find_sub_prefix: "find_sub p s = Some i \<Longrightarrow> prefix p (drop i s)"
  by (induction s arbitrary: i) (auto split: if_splits)

lemma find_sub_first: "find_sub p s = Some i \<Longrightarrow> j < i \<Longrightarrow> \<not> prefix p (drop j s)"
proof (induction s arbitrary: i j)
  case (Cons c s)
  then show ?case by (cases j) (auto split: if_splits)
qed (auto split: if_splits)

lemma find_sub_bound: "find_sub p s = Some i \<Longrightarrow> i + length p \<le> length s"
  by (induction s arbitrary: i) (auto split: if_splits dest: prefix_length_le)

lemma find_sub_split:
  assumes "find_sub p s = Some i"
  shows "s = take i s @ p @ drop (i + length p) s"
proof -
  from find_sub_prefix [OF assms] obtain t where t: "drop i s = p @ t"
    by (auto elim: prefixE)
  then have "drop (length p) (drop i s) = t" by simp
  then have "drop (i + length p) s = t" by (simp add: add.commute)
  with t show ?thesis by (metis append_take_drop_id)
qed

text \<open>
  A pattern whose first unit does not occur again cannot overlap itself: behind a text that does
  not hold it, its first occurrence is where it was put.
\<close>

lemma find_sub_after:
  assumes "p = a # q" "a \<notin> set q" "\<not> sublist p v"
  shows "find_sub p (v @ p @ rest) = Some (length v)"
  using assms(3)
proof (induction v)
  case Nil
  then show ?case using assms(1) by simp
next
  case (Cons c v)
  have "\<not> prefix p ((c # v) @ p @ rest)"
  proof
    assume "prefix p ((c # v) @ p @ rest)"
    then consider "prefix p (c # v)" | p' where "p = (c # v) @ p'" "prefix p' (p @ rest)"
      using prefix_append[of p "c # v" "p @ rest"] by blast
    then show False
    proof cases
      case 1
      then show False using Cons.prems by (auto dest: prefix_imp_sublist)
    next
      case 2
      show False
      proof (cases p')
        case Nil
        with 2 Cons.prems show False by simp
      next
        case (Cons b p'')
        with 2 assms(1) have "b = a" by simp
        moreover have "b \<in> set q" using 2 Cons assms(1) by auto
        ultimately show False using assms(2) by simp
      qed
    qed
  qed
  moreover have "\<not> sublist p v"
    using Cons.prems by (auto simp: sublist_Cons_right)
  ultimately show ?case using Cons.IH by simp
qed

lemma indexOf_after:
  assumes "p = a # q" "a \<notin> set q" "\<not> sublist p v"
  shows "indexOf (pre @ v @ p @ rest) p (length pre) = Some (length pre + length v)"
  using find_sub_after[OF assms] by (simp add: indexOf_def)

lemma indexOf_none: "\<not> sublist p v \<Longrightarrow> indexOf (pre @ v) p (length pre) = None"
  by (simp add: indexOf_def find_sub_None_iff)

lemma indexOf_bound: "indexOf s p from = Some i \<Longrightarrow> from \<le> i"
  by (auto simp: indexOf_def)

subsection \<open>Splitting and joining\<close>

lemma split_on_ne [simp]: "split_on c s \<noteq> []"
  by (induction s) (auto split: list.splits)

lemma split_on_no_sep: "x \<in> set (split_on c s) \<Longrightarrow> c \<notin> set x"
  by (induction s arbitrary: x) (auto split: list.splits if_splits)

lemma set_split_on: "x \<in> set (split_on c s) \<Longrightarrow> set x \<subseteq> set s"
  by (induction s arbitrary: x) (fastforce split: list.splits if_splits)+

lemma split_on_free: "c \<notin> set s \<Longrightarrow> split_on c s = [s]"
  by (induction s) auto

lemma split_on_append: "c \<notin> set x \<Longrightarrow> split_on c (x @ c # s) = x # split_on c s"
  by (induction x) auto

lemma split_on_join [js_laws]:
  "xs \<noteq> [] \<Longrightarrow> (\<And>x. x \<in> set xs \<Longrightarrow> c \<notin> set x) \<Longrightarrow> split_on c (join [c] xs) = xs"
  by (induction "[c]" xs rule: join.induct) (auto simp: split_on_free split_on_append)

lemma join_split_on [js_laws]: "join [c] (split_on c s) = s"
proof (induction s)
  case (Cons x s)
  obtain y ys where y: "split_on c s = y # ys"
    by (cases "split_on c s") auto
  with Cons show ?case
    by (cases ys) auto
qed simp

lemma join_Nil_sep: "join [] xs = concat xs"
  by (induction "[] :: 'a list" xs rule: join.induct) auto

lemma set_join: "set (join sep xs) \<subseteq> set sep \<union> (\<Union>x\<in>set xs. set x)"
  by (induction sep xs rule: join.induct) auto

lemma join_eq_Nil: "[] \<notin> set xs \<Longrightarrow> join sep xs = [] \<longleftrightarrow> xs = []"
  by (cases "(sep, xs)" rule: join.cases) auto

subsection \<open>Decimal numerals\<close>

lemma dec_digits: "c \<in> set (dec n) \<Longrightarrow> is_digit c"
proof (induction n arbitrary: c rule: dec.induct)
  case (1 n)
  then show ?case
    by (subst (asm) (2) dec.simps) (auto simp: is_digit_def split: if_splits)
qed

lemma dec_ne [simp]: "dec n \<noteq> []"
  by (subst dec.simps) simp

lemma parse_dec_append: "parse_dec (s @ [c]) = 10 * parse_dec s + (c - 48)"
  by (simp add: parse_dec_def)

lemma parse_dec_dec [simp, js_laws]: "parse_dec (dec n) = n"
proof (induction n rule: dec.induct)
  case (1 n)
  show ?case
  proof (cases "n < 10")
    case True
    then show ?thesis by (subst dec.simps) (simp add: parse_dec_def)
  next
    case False
    with 1 show ?thesis by (subst dec.simps) (simp add: parse_dec_append)
  qed
qed

lemma dec_inj: "dec m = dec n \<longleftrightarrow> m = n"
  by (metis parse_dec_dec)

subsection \<open>Sets and maps in insertion order\<close>

lemma set_set_add [simp]: "set (set_add xs x) = insert x (set xs)"
  by (auto simp: set_add_def)

lemma distinct_set_add [simp]: "distinct xs \<Longrightarrow> distinct (set_add xs x)"
  by (simp add: set_add_def)

lemma set_foldl_set_add: "set (foldl set_add acc xs) = set acc \<union> set xs"
  by (induction xs arbitrary: acc) auto

lemma distinct_foldl_set_add: "distinct acc \<Longrightarrow> distinct (foldl set_add acc xs)"
  by (induction xs arbitrary: acc) auto

lemma set_uniq [simp]: "set (uniq xs) = set xs"
  by (simp add: uniq_def set_foldl_set_add)

lemma distinct_uniq [simp]: "distinct (uniq xs)"
  by (simp add: uniq_def distinct_foldl_set_add)

lemma foldl_set_add_id:
  "distinct xs \<Longrightarrow> set acc \<inter> set xs = {} \<Longrightarrow> foldl set_add acc xs = acc @ xs"
  by (induction xs arbitrary: acc) (auto simp: set_add_def)

lemma uniq_id [simp]: "distinct xs \<Longrightarrow> uniq xs = xs"
  by (simp add: uniq_def foldl_set_add_id)

lemma uniq_Nil [simp]: "uniq [] = []"
  by (simp add: uniq_def)

lemma map_get_put: "map_get (map_put m k v) k' = (if k' = k then Some v else map_get m k')"
  by (simp add: update_conv')

lemma distinct_keys_put: "distinct (map fst m) \<Longrightarrow> distinct (map fst (map_put m k v))"
  by (rule distinct_update)

subsection \<open>Optional values and index search\<close>

lemma nullish_simps [simp]: "nullish None b = b" "nullish (Some x) b = x"
  by (simp_all add: nullish_def)

lemma nullish_opt_simps [simp]: "nullish_opt None b = b" "nullish_opt (Some x) b = Some x"
  by (simp_all add: nullish_opt_def)

lemma opt_str_or_simps [simp]:
  "opt_str_or None t = t" "opt_str_or (Some s) t = str_or s t"
  by (simp_all add: opt_str_or_def)

lemma str_or_simps [simp]: "str_or [] t = t" "str_or (c # s) t = c # s"
  by (simp_all add: str_or_def)

lemma findIndex_None_iff: "findIndex P xs = None \<longleftrightarrow> (\<forall>x\<in>set xs. \<not> P x)"
  by (induction xs) auto

lemma findIndex_Some: "findIndex P xs = Some i \<Longrightarrow> i < length xs \<and> P (xs ! i)"
  by (induction xs arbitrary: i) (auto split: if_splits)

lemma findIndex_first: "findIndex P xs = Some i \<Longrightarrow> j < i \<Longrightarrow> \<not> P (xs ! j)"
proof (induction xs arbitrary: i j)
  case (Cons x xs)
  then show ?case by (cases j) (auto split: if_splits)
qed simp

lemma length_filter_update:
  assumes "i < length xs" "P (xs ! i)" "\<not> P y"
  shows "Suc (length (filter P (xs[i := y]))) = length (filter P xs)"
  using assms
proof (induction xs arbitrary: i)
  case (Cons x xs)
  then show ?case by (cases i) auto
qed simp

lemma updated_last: "xs \<noteq> [] \<Longrightarrow> xs[length xs - 1 := y] = butlast xs @ [y]"
  by (induction xs) (auto simp: nth_Cons' split: nat.split)

end
