(* ===== verification/Http_Status_Rules.thy ===== *)
theory Http_Status_Rules
  imports Js_Prelude "HOL-Library.Product_Lexorder"
begin

text \<open>
  The parser for lists of HTTP status codes and ranges, \<open>lib/http-status-code-rules.ts\<close>, which
  the settings pages use to store which upstream answers are retried or disable a channel.  A
  rule text such as \<open>500-599, 429\<close> is read into ranges, the ranges are merged, and the merged
  ranges are printed back as the normal form that is saved.

  The lemmas show that merging keeps the set of codes, that its result is the canonical list of
  maximal intervals, and that printing and parsing the normal form is the identity.
\<close>

section \<open>Data and operations\<close>

record StatusCodeRange =
  range_start :: nat
  range_end :: nat

record ParsedHttpStatusCodeRules =
  ok :: bool
  ranges :: "StatusCodeRange list"
  tokens :: "jsstring list"
  normalized :: jsstring
  invalidTokens :: "jsstring list"

definition isNumber :: "jsstring \<Rightarrow> bool" where
  "isNumber s \<longleftrightarrow> s \<noteq> [] \<and> list_all is_digit s"

definition isValidCode :: "nat \<Rightarrow> bool" where
  "isValidCode code \<longleftrightarrow> 100 \<le> code \<and> code \<le> 599"

text \<open>
  \<open>cleaned.split('-')\<close> has at least two pieces when \<open>cleaned\<close> holds a hyphen; the
  destructuring \<open>[a, b]\<close> reads the first two and drops the rest.
\<close>

definition parseToken :: "jsstring \<Rightarrow> StatusCodeRange option" where
  "parseToken token =
     (let cleaned = filter (\<lambda>c. \<not> is_space c) (trim token) in
      if cleaned = [] then None
      else if 45 \<in> set cleaned then
        (case split_on 45 cleaned of
           a # b # _ \<Rightarrow>
             if \<not> isNumber a \<or> \<not> isNumber b then None
             else let s = parse_dec a; e = parse_dec b in
               if \<not> isValidCode s \<or> \<not> isValidCode e \<or> e < s then None
               else Some \<lparr>range_start = s, range_end = e\<rparr>
         | _ \<Rightarrow> None)
      else if \<not> isNumber cleaned then None
      else let code = parse_dec cleaned in
        if \<not> isValidCode code then None
        else Some \<lparr>range_start = code, range_end = code\<rparr>)"

text \<open>One step of the \<open>reduce\<close> over the sorted ranges.\<close>

definition merge_step :: "StatusCodeRange list \<Rightarrow> StatusCodeRange \<Rightarrow> StatusCodeRange list" where
  "merge_step merged current =
     (if merged = [] \<or> range_end (last merged) + 1 < range_start current
      then merged @ [current]
      else butlast merged @
        [(last merged)\<lparr>range_end := max (range_end (last merged)) (range_end current)\<rparr>])"

definition range_key :: "StatusCodeRange \<Rightarrow> nat \<times> nat" where
  "range_key r = (range_start r, range_end r)"

definition mergeRanges :: "StatusCodeRange list \<Rightarrow> StatusCodeRange list" where
  "mergeRanges rs =
     (if rs = [] then [] else foldl merge_step [] (sort_key range_key rs))"

definition range_token :: "StatusCodeRange \<Rightarrow> jsstring" where
  "range_token r =
     (if range_start r = range_end r then dec (range_start r)
      else dec (range_start r) @ [45] @ dec (range_end r))"

text \<open>The loop over the segments keeps the parsed ranges and the tokens that do not parse.\<close>

fun parse_segments ::
  "jsstring list \<Rightarrow> StatusCodeRange list \<Rightarrow> jsstring list \<Rightarrow>
     StatusCodeRange list \<times> jsstring list" where
  "parse_segments [] rs invalid = (rs, invalid)"
| "parse_segments (segment # rest) rs invalid =
     (case parseToken segment of
        None \<Rightarrow> parse_segments rest rs (invalid @ [segment])
      | Some r \<Rightarrow> parse_segments rest (rs @ [r]) invalid)"

text \<open>
  The input is \<open>None\<close> for \<open>null\<close> and \<open>undefined\<close>, otherwise what \<open>toString\<close> gives.  Code
  unit 65292 is the full-width comma, 44 the comma.
\<close>

definition parseHttpStatusCodeRules :: "jsstring option \<Rightarrow> ParsedHttpStatusCodeRules" where
  "parseHttpStatusCodeRules input =
     (let raw = trim (nullish input []) in
      if raw = [] then
        \<lparr>ok = True, ranges = [], tokens = [], normalized = [], invalidTokens = []\<rparr>
      else
        let sanitized = map (\<lambda>c. if c = 65292 then 44 else c) raw;
            segments = filter (\<lambda>s. s \<noteq> []) (map trim (split_on 44 sanitized));
            (rs, invalid) = parse_segments segments [] []
        in
        if invalid \<noteq> [] then
          \<lparr>ok = False, ranges = [], tokens = [], normalized = raw, invalidTokens = invalid\<rparr>
        else
          let merged = mergeRanges rs; toks = map range_token merged in
          \<lparr>ok = True, ranges = merged, tokens = toks, normalized = join [44] toks,
           invalidTokens = []\<rparr>)"

section \<open>Denotation and normal form\<close>

text \<open>The status codes a list of ranges stands for.\<close>

definition codes :: "StatusCodeRange list \<Rightarrow> nat set" where
  "codes rs = (\<Union>r\<in>set rs. {range_start r..range_end r})"

text \<open>
  Normal form: every range is non-empty, and between two neighbours at least one code is
  missing, so no two ranges overlap or touch.
\<close>

definition gap :: "StatusCodeRange \<Rightarrow> StatusCodeRange \<Rightarrow> bool" where
  "gap r s \<longleftrightarrow> range_end r + 1 < range_start s"

definition proper :: "StatusCodeRange \<Rightarrow> bool" where
  "proper r \<longleftrightarrow> range_start r \<le> range_end r"

fun normal :: "StatusCodeRange list \<Rightarrow> bool" where
  "normal [] \<longleftrightarrow> True"
| "normal [r] \<longleftrightarrow> proper r"
| "normal (r # s # rs) \<longleftrightarrow> proper r \<and> gap r s \<and> normal (s # rs)"

lemma codes_simps [simp]:
  "codes [] = {}"
  "codes (r # rs) = {range_start r..range_end r} \<union> codes rs"
  "codes (rs @ rs') = codes rs \<union> codes rs'"
  by (auto simp: codes_def)

lemma normal_append_one:
  "normal (rs @ [r]) \<longleftrightarrow> normal rs \<and> proper r \<and> (rs \<noteq> [] \<longrightarrow> gap (last rs) r)"
  by (induction rs rule: normal.induct) auto

lemma merge_step_codes:
  assumes "rs \<noteq> [] \<Longrightarrow> range_start (last rs) \<le> range_start r" "proper r" "normal rs"
  shows "codes (merge_step rs r) = codes rs \<union> {range_start r..range_end r}"
proof (cases "rs = [] \<or> range_end (last rs) + 1 < range_start r")
  case True
  then show ?thesis by (auto simp: merge_step_def)
next
  case False
  then obtain ini l where rs: "rs = ini @ [l]"
    by (metis append_butlast_last_id)
  with False assms have "{range_start l..max (range_end l) (range_end r)}
      = {range_start l..range_end l} \<union> {range_start r..range_end r}"
    by (auto simp: max_def)
  with False rs show ?thesis
    by (simp add: merge_step_def Un_assoc)
qed

lemma merge_step_normal:
  assumes "rs \<noteq> [] \<Longrightarrow> range_start (last rs) \<le> range_start r" "proper r" "normal rs"
  shows "normal (merge_step rs r)"
proof (cases "rs = [] \<or> range_end (last rs) + 1 < range_start r")
  case True
  with assms show ?thesis by (auto simp: merge_step_def normal_append_one gap_def)
next
  case False
  then obtain ini l where "rs = ini @ [l]"
    by (metis append_butlast_last_id)
  with False assms show ?thesis
    by (auto simp: merge_step_def normal_append_one gap_def proper_def max_def)
qed

lemma merge_step_last:
  "merge_step rs r \<noteq> []"
  "rs \<noteq> [] \<Longrightarrow> range_start (last rs) \<le> range_start r \<Longrightarrow>
     range_start (last (merge_step rs r)) \<le> range_start r"
  "rs = [] \<Longrightarrow> last (merge_step rs r) = r"
  by (auto simp: merge_step_def)

text \<open>The fold over a list sorted by start keeps the codes and the normal form.\<close>

lemma foldl_merge_step:
  assumes "sorted (map range_start rs)" "\<forall>r\<in>set rs. proper r" "normal acc"
    and "acc \<noteq> [] \<Longrightarrow> \<forall>r\<in>set rs. range_start (last acc) \<le> range_start r"
  shows "codes (foldl merge_step acc rs) = codes acc \<union> codes rs
    \<and> normal (foldl merge_step acc rs)"
  using assms
proof (induction rs arbitrary: acc)
  case (Cons r rs)
  let ?acc = "merge_step acc r"
  have le: "acc \<noteq> [] \<Longrightarrow> range_start (last acc) \<le> range_start r" and pr: "proper r"
    using Cons.prems by auto
  note step = merge_step_codes[OF le pr Cons.prems(3)] merge_step_normal[OF le pr Cons.prems(3)]
  have "range_start (last ?acc) \<le> range_start r"
    using Cons.prems merge_step_last[of acc r] by (cases "acc = []") auto
  then have "\<forall>r'\<in>set rs. range_start (last ?acc) \<le> range_start r'"
    using Cons.prems(1) by fastforce
  with Cons.IH[of ?acc] Cons.prems step show ?case
    by (auto simp: Un_assoc)
qed simp

lemma sorted_map_start: "sorted (map range_start (sort_key range_key rs))"
proof -
  have "sorted (map fst (map range_key (sort_key range_key rs)))"
    by (rule sorted_wrt_map_mono[of "(\<le>)" _ "(\<le>)" fst, unfolded sorted_wrt_map[symmetric]])
       (auto simp: less_eq_prod_def)
  then show ?thesis by (simp add: range_key_def comp_def)
qed

lemma mergeRanges_codes_normal:
  assumes "\<forall>r\<in>set rs. proper r"
  shows "codes (mergeRanges rs) = codes rs \<and> normal (mergeRanges rs)"
proof (cases "rs = []")
  case False
  have "codes (sort_key range_key rs) = codes rs"
    by (simp add: codes_def)
  with False foldl_merge_step[OF sorted_map_start, of rs "[]"] assms show ?thesis
    by (simp add: mergeRanges_def)
qed (simp add: mergeRanges_def)

text \<open>A normal form is determined by its codes.\<close>

lemma normal_proper: "normal rs \<Longrightarrow> \<forall>r\<in>set rs. proper r"
  by (induction rs rule: normal.induct) auto

lemma normal_tail: "normal (r # rs) \<Longrightarrow> normal rs"
  by (cases rs) auto

lemma normal_tail_above: "normal (r # rs) \<Longrightarrow> c \<in> codes rs \<Longrightarrow> range_end r + 1 < c"
proof (induction rs arbitrary: r)
  case (Cons s rs)
  then have g: "range_end r + 1 < range_start s" and n: "normal (s # rs)"
    by (auto simp: gap_def)
  from n have p: "range_start s \<le> range_end s"
    using normal_proper by (force simp: proper_def)
  show ?case
  proof (cases "c \<in> codes rs")
    case True
    with Cons.IH[OF n] g p show ?thesis by linarith
  next
    case False
    with Cons.prems g show ?thesis by auto
  qed
qed simp

lemma normal_head_mem: "normal (r # rs) \<Longrightarrow> range_start r \<in> codes (r # rs)"
  by (cases rs) (auto simp: proper_def)

lemma normal_head_least: "normal (r # rs) \<Longrightarrow> c \<in> codes (r # rs) \<Longrightarrow> range_start r \<le> c"
  using normal_tail_above[of r rs c] by (cases rs) (auto simp: proper_def)

lemma normal_head_end: "normal (r # rs) \<Longrightarrow> Suc (range_end r) \<notin> codes (r # rs)"
  using normal_tail_above[of r rs "Suc (range_end r)"] by auto

lemma normal_head_eq:
  assumes "normal (r # rs)" "normal (s # ss)" "codes (r # rs) = codes (s # ss)"
  shows "r = s"
proof -
  have st: "range_start r = range_start s"
    using assms normal_head_mem normal_head_least by (metis le_antisym)
  have "range_end r = range_end s"
  proof (rule ccontr)
    assume "range_end r \<noteq> range_end s"
    then consider "range_end r < range_end s" | "range_end s < range_end r"
      by linarith
    then show False
    proof cases
      case 1
      then have "Suc (range_end r) \<in> codes (s # ss)"
        using st assms(1) by (cases rs) (auto simp: proper_def)
      with normal_head_end[OF assms(1)] assms(3) show False by metis
    next
      case 2
      then have "Suc (range_end s) \<in> codes (r # rs)"
        using st assms(2) by (cases ss) (auto simp: proper_def)
      with normal_head_end[OF assms(2)] assms(3) show False by metis
    qed
  qed
  with st show ?thesis by simp
qed

lemma normal_unique:
  "normal rs \<Longrightarrow> normal ss \<Longrightarrow> codes rs = codes ss \<Longrightarrow> rs = ss"
proof (induction rs arbitrary: ss)
  case Nil
  then show ?case using normal_head_mem by (cases ss) (auto simp del: codes_simps(2))
next
  case (Cons r rs)
  then obtain s ss' where ss: "ss = s # ss'"
    using normal_head_mem by (cases ss) (auto simp del: codes_simps(2))
  with Cons.prems have rs: "r = s" by (auto intro: normal_head_eq simp del: codes_simps(2))
  have "codes rs = codes (r # rs) - {range_start r..range_end r}"
    using normal_tail_above[OF Cons.prems(1)] by fastforce
  moreover have "codes ss' = codes (s # ss') - {range_start s..range_end s}"
    using normal_tail_above[of s ss'] Cons.prems(2) ss by fastforce
  ultimately have "codes rs = codes ss'"
    using Cons.prems(3) ss rs by simp
  with Cons ss rs show ?case by (auto dest: normal_tail)
qed

lemma mergeRanges_id: "normal rs \<Longrightarrow> mergeRanges rs = rs"
  using mergeRanges_codes_normal[OF normal_proper, of rs] by (auto intro: normal_unique)

section \<open>Tokens\<close>

definition valid_range :: "StatusCodeRange \<Rightarrow> bool" where
  "valid_range r \<longleftrightarrow> isValidCode (range_start r) \<and> isValidCode (range_end r) \<and> proper r"

lemma parseToken_valid: "parseToken t = Some r \<Longrightarrow> valid_range r"
  by (auto simp: parseToken_def Let_def valid_range_def proper_def
      split: if_splits list.splits)

lemma isNumber_dec [simp]: "isNumber (dec n)"
  by (simp add: isNumber_def list_all_iff dec_digits)

lemma dec_no: "\<not> is_digit c \<Longrightarrow> c \<notin> set (dec n)"
  using dec_digits by blast

lemma range_token_units: "c \<in> set (range_token r) \<Longrightarrow> is_digit c \<or> c = 45"
  by (auto simp: range_token_def dest: dec_digits split: if_splits)

lemma range_token_no_space: "c \<in> set (range_token r) \<Longrightarrow> \<not> is_space c"
  by (auto dest!: range_token_units simp: is_digit_not_space) (simp add: is_space_def)

lemma range_token_ne [simp]: "range_token r \<noteq> []" "[] \<noteq> range_token r"
  by (auto simp: range_token_def dest: sym)

lemma trim_range_token [simp]: "trim (range_token r) = range_token r"
  by (rule trim_no_space) (rule range_token_no_space)

lemma filter_range_token [simp]: "filter (\<lambda>c. \<not> is_space c) (range_token r) = range_token r"
  by (simp add: range_token_no_space filter_id_conv)

lemma parseToken_range_token:
  assumes "valid_range r"
  shows "parseToken (range_token r) = Some r"
proof -
  have no: "45 \<notin> set (dec n)" for n
    by (rule dec_no) (simp add: is_digit_def)
  have "split_on 45 (dec (range_start r) @ 45 # dec (range_end r))
      = [dec (range_start r), dec (range_end r)]"
    using no by (simp add: split_on_append split_on_free)
  with assms no show ?thesis
    unfolding parseToken_def trim_range_token filter_range_token Let_def
    by (auto simp: range_token_def valid_range_def proper_def)
qed

lemma parse_segments_result:
  "parse_segments segs rs bad =
     (rs @ List.map_filter parseToken segs, bad @ filter (\<lambda>s. parseToken s = None) segs)"
  by (induction segs arbitrary: rs bad) (auto simp: map_filter_simps split: option.splits)

lemma map_filter_valid: "r \<in> set (List.map_filter parseToken segs) \<Longrightarrow> valid_range r"
  by (auto simp: List.map_filter_def parseToken_valid)

lemma parse_nonempty:
  fixes input
  defines "raw \<equiv> trim (nullish input [])"
  defines "segs \<equiv> filter (\<lambda>s. s \<noteq> [])
    (map trim (split_on 44 (map (\<lambda>c. if c = 65292 then 44 else c) raw)))"
  defines "merged \<equiv> mergeRanges (List.map_filter parseToken segs)"
  assumes "raw \<noteq> []"
  shows "parseHttpStatusCodeRules input =
    (if \<exists>s\<in>set segs. parseToken s = None
     then \<lparr>ok = False, ranges = [], tokens = [], normalized = raw,
           invalidTokens = filter (\<lambda>s. parseToken s = None) segs\<rparr>
     else \<lparr>ok = True, ranges = merged, tokens = map range_token merged,
           normalized = join [44] (map range_token merged), invalidTokens = []\<rparr>)"
  using assms by (auto simp: parseHttpStatusCodeRules_def Let_def parse_segments_result
      filter_empty_conv)

lemma parse_empty:
  "trim (nullish input []) = [] \<Longrightarrow> parseHttpStatusCodeRules input =
     \<lparr>ok = True, ranges = [], tokens = [], normalized = [], invalidTokens = []\<rparr>"
  by (simp add: parseHttpStatusCodeRules_def)

lemma parse_ok_fields:
  assumes "ok (parseHttpStatusCodeRules input)"
  defines "p \<equiv> parseHttpStatusCodeRules input"
  shows "p = \<lparr>ok = True, ranges = ranges p, tokens = map range_token (ranges p),
      normalized = join [44] (map range_token (ranges p)), invalidTokens = []\<rparr>"
proof (cases "trim (nullish input []) = []")
  case True
  then show ?thesis by (simp add: p_def parse_empty)
next
  case False
  with assms show ?thesis
    unfolding p_def parse_nonempty[OF False] by (simp split: if_splits)
qed

lemma parse_error_fields:
  assumes "\<not> ok (parseHttpStatusCodeRules input)"
  shows "normalized (parseHttpStatusCodeRules input) = trim (nullish input [])
    \<and> ranges (parseHttpStatusCodeRules input) = []"
proof (cases "trim (nullish input []) = []")
  case True
  with assms show ?thesis by (simp add: parse_empty)
next
  case False
  with assms show ?thesis
    unfolding parse_nonempty[OF False] by (auto split: if_splits)
qed

lemma parse_trim: "parseHttpStatusCodeRules (Some (trim (nullish input []))) =
    parseHttpStatusCodeRules input"
  by (simp add: parseHttpStatusCodeRules_def)

lemma normal_valid:
  assumes "normal rs" "codes rs \<subseteq> {100..599}" "r \<in> set rs"
  shows "valid_range r"
proof -
  have "proper r" using assms normal_proper by blast
  then have "range_start r \<in> codes rs" "range_end r \<in> codes rs"
    using assms(3) by (auto simp: codes_def proper_def)
  with assms(2) \<open>proper r\<close> show ?thesis by (auto simp: valid_range_def isValidCode_def)
qed

lemma valid_codes: "(\<And>r. r \<in> set rs \<Longrightarrow> valid_range r) \<Longrightarrow> codes rs \<subseteq> {100..599}"
  by (fastforce simp: codes_def valid_range_def isValidCode_def)

lemma mergeRanges_valid:
  assumes "\<And>r. r \<in> set rs \<Longrightarrow> valid_range r"
  shows "normal (mergeRanges rs) \<and> codes (mergeRanges rs) = codes rs
    \<and> codes (mergeRanges rs) \<subseteq> {100..599}"
proof -
  have "\<forall>r\<in>set rs. proper r" using assms by (simp add: valid_range_def)
  from mergeRanges_codes_normal[OF this] valid_codes[of rs] assms show ?thesis by auto
qed

lemma merge_parsed:
  "normal (mergeRanges (List.map_filter parseToken segs))"
  "codes (mergeRanges (List.map_filter parseToken segs)) \<subseteq> {100..599}"
  using mergeRanges_valid[of "List.map_filter parseToken segs"] map_filter_valid by blast+

lemma parse_ranges_normal:
  "normal (ranges (parseHttpStatusCodeRules input))
     \<and> codes (ranges (parseHttpStatusCodeRules input)) \<subseteq> {100..599}"
proof (cases "trim (nullish input []) = []")
  case True
  then show ?thesis by (simp add: parse_empty)
next
  case False
  show ?thesis
    unfolding parse_nonempty[OF False] by (simp add: merge_parsed)
qed

text \<open>Reading back the printed normal form of a list of ranges.\<close>

lemma parse_printed:
  assumes "normal rs" "codes rs \<subseteq> {100..599}"
  shows "parseHttpStatusCodeRules (Some (join [44] (map range_token rs))) =
    \<lparr>ok = True, ranges = rs, tokens = map range_token rs,
     normalized = join [44] (map range_token rs), invalidTokens = []\<rparr>"
proof (cases "rs = []")
  case True
  then show ?thesis by (simp add: parse_empty)
next
  case False
  let ?txt = "join [44] (map range_token rs)"
  have units: "is_digit c \<or> c = 45 \<or> c = 44" if "c \<in> set ?txt" for c
    using that set_join[of "[44]" "map range_token rs"] range_token_units by fastforce
  then have "\<not> is_space c" if "c \<in> set ?txt" for c
    using that by (fastforce simp: is_digit_def is_space_def)
  then have raw: "trim ?txt = ?txt" by (rule trim_no_space)
  have ne: "?txt \<noteq> []"
    using False by (subst join_eq_Nil) (auto simp: image_iff dest: sym)
  have san: "map (\<lambda>c. if c = 65292 then 44 else c) ?txt = ?txt"
    using units by (intro map_idI) (fastforce simp: is_digit_def)
  have split: "split_on 44 ?txt = map range_token rs"
    using False by (intro split_on_join) (auto dest!: range_token_units simp: is_digit_def)
  have segs: "filter (\<lambda>s. s \<noteq> []) (map trim (map range_token rs)) = map range_token rs"
    by (simp add: comp_def filter_id_conv)
  have tok: "parseToken (range_token r) = Some r" if "r \<in> set rs" for r
    using that assms by (intro parseToken_range_token normal_valid)
  have mf: "List.map_filter parseToken (map range_token rs) = rs"
    using tok by (induction rs) (auto simp: map_filter_simps)
  show ?thesis
    using ne tok
    by (subst parse_nonempty)
       (auto simp: raw san split segs[unfolded map_map] mf mergeRanges_id[OF assms(1)])
qed

section \<open>Properties\<close>

text \<open>Merging keeps the meaning of a rule list: the merged ranges cover exactly the
  status codes the given ranges cover, and they are in normal form, each range non-empty and
  every two neighbours separated by at least one missing code.\<close>

theorem mergeRanges_correct:
  assumes "\<forall>r\<in>set rs. proper r"
  shows "codes (mergeRanges rs) = codes rs \<and> normal (mergeRanges rs)"
  using assms by (rule mergeRanges_codes_normal)

theorem mergeRanges_correct_witness:
  "codes (mergeRanges [\<lparr>range_start = 500, range_end = 503\<rparr>, \<lparr>range_start = 429, range_end = 429\<rparr>,
       \<lparr>range_start = 504, range_end = 599\<rparr>]) = {500..503} \<union> ({429} \<union> {504..599})
   \<and> mergeRanges [\<lparr>range_start = 500, range_end = 503\<rparr>, \<lparr>range_start = 429, range_end = 429\<rparr>,
       \<lparr>range_start = 504, range_end = 599\<rparr>]
     = [\<lparr>range_start = 429, range_end = 429\<rparr>, \<lparr>range_start = 500, range_end = 599\<rparr>]"
  using mergeRanges_correct[of "[\<lparr>range_start = 500, range_end = 503\<rparr>,
      \<lparr>range_start = 429, range_end = 429\<rparr>, \<lparr>range_start = 504, range_end = 599\<rparr>]"]
  by (simp add: proper_def mergeRanges_def merge_step_def range_key_def)

text \<open>The merged list is canonical: two rule lists that stand for the same status codes are
  merged into the same list of ranges, whatever their order, overlaps and repetitions.\<close>

theorem mergeRanges_canonical:
  assumes "\<forall>r\<in>set rs. proper r" "\<forall>r\<in>set ss. proper r"
  shows "mergeRanges rs = mergeRanges ss \<longleftrightarrow> codes rs = codes ss"
  using mergeRanges_codes_normal[OF assms(1)] mergeRanges_codes_normal[OF assms(2)]
  by (metis normal_unique)

theorem mergeRanges_canonical_witness:
  "mergeRanges [\<lparr>range_start = 400, range_end = 410\<rparr>, \<lparr>range_start = 405, range_end = 420\<rparr>]
     = mergeRanges [\<lparr>range_start = 411, range_end = 420\<rparr>, \<lparr>range_start = 400, range_end = 410\<rparr>]"
  by (subst mergeRanges_canonical) (auto simp: proper_def)

text \<open>The normal form is a fixed point of the parser: parsing the \<open>normalized\<close> text of any
  parse result, successful or not, gives the same result again.\<close>

theorem parse_normalized_idem:
  "parseHttpStatusCodeRules (Some (normalized (parseHttpStatusCodeRules input)))
     = parseHttpStatusCodeRules input"
proof (cases "ok (parseHttpStatusCodeRules input)")
  case True
  from parse_ok_fields[OF this] show ?thesis
    using parse_ranges_normal[of input]
    by (metis parse_printed ParsedHttpStatusCodeRules.select_convs(4))
next
  case False
  then show ?thesis by (simp add: parse_error_fields parse_trim)
qed

text \<open>Whatever the text, the ranges a parse returns are in normal form and name only valid
  HTTP status codes, from 100 to 599.\<close>

theorem parse_ranges_valid:
  "normal (ranges (parseHttpStatusCodeRules input))
     \<and> codes (ranges (parseHttpStatusCodeRules input)) \<subseteq> {100..599}"
  by (rule parse_ranges_normal)

text \<open>A token with more than one hyphen is not rejected: everything after the second
  hyphen is dropped, so \<open>200-299-\<close> followed by any text reads as the range 200 to 299.\<close>

theorem parseToken_ignores_tail:
  assumes "isValidCode s" "isValidCode e" "s \<le> e"
  shows "parseToken (dec s @ [45] @ dec e @ [45] @ junk)
    = Some \<lparr>range_start = s, range_end = e\<rparr>"
proof -
  have keep: "filter (\<lambda>c. \<not> is_space c) (dec n) = dec n" for n
    by (auto simp: filter_id_conv dest: dec_digits is_digit_not_space)
  have no: "45 \<notin> set (dec n)" for n
    by (rule dec_no) (simp add: is_digit_def)
  have hyphen: "\<not> is_space 45" by (simp add: is_space_def)
  let ?rest = "filter (\<lambda>c. \<not> is_space c) junk"
  obtain x xs where x: "split_on 45 ?rest = x # xs"
    by (cases "split_on 45 ?rest") auto
  show ?thesis
    using assms no x hyphen by (simp add: parseToken_def filter_trim keep split_on_append)
qed

theorem parseToken_ignores_tail_witness:
  "parseToken (dec 200 @ [45] @ dec 299 @ [45] @ js ''oops'')
     = Some \<lparr>range_start = 200, range_end = 299\<rparr>"
  by (rule parseToken_ignores_tail) (simp_all add: isValidCode_def)

end
