(* ===== verification/Playground_Types.thy ===== *)
theory Playground_Types
  imports Js_Prelude
begin

text \<open>
  The data of the playground chat, \<open>features/playground/types.ts\<close> and \<open>constants.ts\<close>.  An
  optional field is an \<open>option\<close>; \<open>errorCode?: string | null\<close> has three states (absent, \<open>null\<close>, a
  string) and is a nested option.  Time stamps and durations are integers: the client fills them
  from \<open>Date.now()\<close>, and every value is far below the integers a double represents exactly.
\<close>

datatype MessageRole = USER | ASSISTANT | SYSTEM

datatype MessageStatus = LOADING | STREAMING | COMPLETE | ERROR

datatype PlaygroundMessageLayoutMode = Alternating | LayoutLeft

record MessageVersion =
  version_id :: jsstring
  version_content :: jsstring

record Reasoning =
  reasoning_content :: jsstring
  reasoning_duration :: int
  reasoning_startedAt :: "int option"
  reasoning_completedAt :: "int option"
  reasoning_durationMs :: "int option"

record Source =
  href :: jsstring
  source_title :: jsstring

record Message =
  key :: jsstring
  role_of :: MessageRole
  versions :: "MessageVersion list"
  createdAt :: "int option"
  startedAt :: "int option"
  completedAt :: "int option"
  durationMs :: "int option"
  sources :: "Source list option"
  reasoning :: "Reasoning option"
  isReasoningStreaming :: "bool option"
  isReasoningComplete :: "bool option"
  isContentComplete :: "bool option"
  status :: "MessageStatus option"
  errorCode :: "jsstring option option"

text \<open>The payload of a chat completion request; a content is a text or a list of parts.\<close>

datatype ContentPart = TextPart jsstring | ImagePart jsstring

datatype ApiContent = ContentText jsstring | ContentParts "ContentPart list"

record ChatCompletionMessage =
  api_role :: MessageRole
  api_content :: ApiContent

text \<open>
  The numeric sampling parameters are only stored and forwarded; their type is the parameter
  \<open>'n\<close> of the model.
\<close>

record 'n ChatCompletionRequest =
  req_model :: jsstring
  req_group :: "jsstring option"
  req_messages :: "ChatCompletionMessage list"
  req_stream :: bool
  req_temperature :: "'n option"
  req_top_p :: "'n option"
  req_max_tokens :: "'n option"
  req_frequency_penalty :: "'n option"
  req_presence_penalty :: "'n option"
  req_seed :: "'n option"

record ChunkDelta =
  delta_content :: "jsstring option"
  delta_reasoning_content :: "jsstring option"

text \<open>A choice of a non-streaming answer; its \<open>message\<close> may be missing at run time.\<close>

record ChoiceMessage =
  choice_content :: "jsstring option"
  choice_reasoning_content :: "jsstring option"

type_synonym ChatCompletionChoice = "ChoiceMessage option"

record 'n PlaygroundConfig =
  cfg_model :: jsstring
  cfg_group :: jsstring
  cfg_temperature :: 'n
  cfg_top_p :: 'n
  cfg_max_tokens :: 'n
  cfg_frequency_penalty :: 'n
  cfg_presence_penalty :: 'n
  cfg_seed :: "'n option"
  cfg_stream :: bool

record ParameterEnabled =
  en_temperature :: bool
  en_top_p :: bool
  en_max_tokens :: bool
  en_frequency_penalty :: bool
  en_presence_penalty :: bool
  en_seed :: bool

record ModelOption =
  model_label :: jsstring
  model_value :: jsstring

record 'n GroupOption =
  group_label :: jsstring
  group_value :: jsstring
  group_ratio :: 'n
  group_desc :: "jsstring option"

section \<open>Constants\<close>

definition API_REQUEST_ERROR :: jsstring where
  "API_REQUEST_ERROR = js ''Request error occurred''"

definition NETWORK_ERROR :: jsstring where
  "NETWORK_ERROR = js ''Network connection failed or server not responding''"

definition PARSE_ERROR :: jsstring where
  "PARSE_ERROR = js ''Error parsing response data''"

definition STREAM_START_ERROR :: jsstring where
  "STREAM_START_ERROR = js ''Error establishing connection''"

definition CONNECTION_CLOSED :: jsstring where
  "CONNECTION_CLOSED = js ''Connection closed''"

definition INTERRUPTED :: jsstring where
  "INTERRUPTED = js ''Generation was interrupted''"

definition ERROR_MESSAGES :: "jsstring list" where
  "ERROR_MESSAGES = [API_REQUEST_ERROR, NETWORK_ERROR, PARSE_ERROR, STREAM_START_ERROR,
     CONNECTION_CLOSED, INTERRUPTED]"

end
