(* ===== verification/Playground_Message.thy ===== *)
theory Playground_Message
  imports Playground_Types
begin

text \<open>
  Message values and the operations on a single message:
  \<open>lib/message/message-utils.ts\<close>, \<open>message-timing-utils.ts\<close>, \<open>message-reasoning-utils.ts\<close>
  and \<open>message-streaming-utils.ts\<close> of the playground.

  \<open>nanoid()\<close> (a package) and the clock are arguments: \<open>k\<close> and \<open>v\<close> are the identifiers drawn
  for a message and its version, \<open>now\<close> is the reading of \<open>Date.now()\<close> during the call, and
  \<open>t\<close> is the translation function of \<open>i18next\<close>.
\<close>

section \<open>Message values (\<open>message-utils.ts\<close>)\<close>

definition createMessageVersion :: "jsstring \<Rightarrow> jsstring \<Rightarrow> MessageVersion" where
  "createMessageVersion v content = \<lparr>version_id = v, version_content = content\<rparr>"

definition getCurrentVersion :: "Message \<Rightarrow> MessageVersion" where
  "getCurrentVersion m =
     (case versions m of
        [] \<Rightarrow> \<lparr>version_id = js ''default'', version_content = []\<rparr>
      | w # _ \<Rightarrow> w)"

definition getMessageContent :: "Message \<Rightarrow> jsstring" where
  "getMessageContent m = version_content (getCurrentVersion m)"

definition hasMessageContent :: "Message \<Rightarrow> bool" where
  "hasMessageContent m \<longleftrightarrow> trim (getMessageContent m) \<noteq> []"

definition updateCurrentVersionContent :: "Message \<Rightarrow> jsstring \<Rightarrow> Message" where
  "updateCurrentVersionContent m content =
     m\<lparr>versions := [(getCurrentVersion m)\<lparr>version_content := content\<rparr>]\<rparr>"

definition createUserMessage :: "jsstring \<Rightarrow> jsstring \<Rightarrow> jsstring \<Rightarrow> int \<Rightarrow> Message" where
  "createUserMessage k v content created =
     \<lparr>key = k, role_of = USER, versions = [createMessageVersion v content],
      createdAt = Some created, startedAt = None, completedAt = None, durationMs = None,
      sources = None, reasoning = None, isReasoningStreaming = None,
      isReasoningComplete = None, isContentComplete = None, status = None,
      errorCode = None\<rparr>"

definition createLoadingAssistantMessage :: "jsstring \<Rightarrow> jsstring \<Rightarrow> int \<Rightarrow> Message" where
  "createLoadingAssistantMessage k v started =
     \<lparr>key = k, role_of = ASSISTANT, versions = [createMessageVersion v []],
      createdAt = Some started, startedAt = Some started, completedAt = None,
      durationMs = None, sources = None, reasoning = None,
      isReasoningStreaming = Some False, isReasoningComplete = Some False,
      isContentComplete = Some False, status = Some LOADING, errorCode = None\<rparr>"

definition buildMessageContent :: "jsstring \<Rightarrow> jsstring list \<Rightarrow> ApiContent" where
  "buildMessageContent text imageUrls =
     (let validImages = filter (\<lambda>url. trim url \<noteq> []) imageUrls in
      if validImages = [] then ContentText text
      else ContentParts (TextPart text # map (\<lambda>url. ImagePart (trim url)) validImages))"

fun part_text :: "ContentPart \<Rightarrow> jsstring option" where
  "part_text (TextPart s) = Some s"
| "part_text (ImagePart s) = None"

fun getTextContent :: "ApiContent \<Rightarrow> jsstring" where
  "getTextContent (ContentText s) = s"
| "getTextContent (ContentParts parts) =
     (case List.map_filter part_text parts of [] \<Rightarrow> [] | s # _ \<Rightarrow> s)"

definition formatMessageForAPI :: "Message \<Rightarrow> ChatCompletionMessage" where
  "formatMessageForAPI m =
     \<lparr>api_role = role_of m, api_content = ContentText (version_content (getCurrentVersion m))\<rparr>"

definition isValidMessage :: "Message \<Rightarrow> bool" where
  "isValidMessage m \<longleftrightarrow>
     versions m \<noteq> [] \<and> \<not> (role_of m = ASSISTANT \<and> \<not> hasMessageContent m)"

section \<open>Timing (\<open>message-timing-utils.ts\<close>)\<close>

definition completeAssistantTiming :: "Message \<Rightarrow> int \<Rightarrow> Message" where
  "completeAssistantTiming m completed =
     (if role_of m \<noteq> ASSISTANT then m
      else let started = nullish (startedAt m) (nullish (createdAt m) completed) in
        m\<lparr>startedAt := Some started, completedAt := Some completed,
          durationMs := Some (max 0 (completed - started))\<rparr>)"

definition startReasoningTiming :: "Message \<Rightarrow> int \<Rightarrow> Reasoning" where
  "startReasoningTiming m started =
     (case reasoning m of
        None \<Rightarrow> \<lparr>reasoning_content = [], reasoning_duration = 0,
                 reasoning_startedAt = Some started, reasoning_completedAt = None,
                 reasoning_durationMs = None\<rparr>
      | Some r \<Rightarrow> \<lparr>reasoning_content = reasoning_content r,
                 reasoning_duration = reasoning_duration r,
                 reasoning_startedAt = Some (nullish (reasoning_startedAt r) started),
                 reasoning_completedAt = reasoning_completedAt r,
                 reasoning_durationMs = reasoning_durationMs r\<rparr>)"

text \<open>\<open>Math.ceil(ms / 1000)\<close> on integers.\<close>

definition ceil_div_1000 :: "int \<Rightarrow> int" where
  "ceil_div_1000 ms = - ((- ms) div 1000)"

definition completeReasoningTiming :: "Message \<Rightarrow> int \<Rightarrow> Message" where
  "completeReasoningTiming m completed =
     (case reasoning m of
        None \<Rightarrow> m
      | Some r \<Rightarrow>
          if reasoning_durationMs r \<noteq> None then m
          else let started = nullish (reasoning_startedAt r) (nullish (startedAt m) completed);
                   ms = max 0 (completed - started)
               in m\<lparr>reasoning := Some (r\<lparr>reasoning_startedAt := Some started,
                      reasoning_completedAt := Some completed,
                      reasoning_durationMs := Some ms,
                      reasoning_duration := ceil_div_1000 ms\<rparr>)\<rparr>)"

section \<open>Reasoning tags (\<open>message-reasoning-utils.ts\<close>)\<close>

record ParsedThinkTags =
  visibleContent :: jsstring
  think_reasoning :: jsstring
  hasUnclosedTag :: bool

definition THINK :: jsstring where
  "THINK = js ''<think>''"

definition END_THINK :: jsstring where
  "END_THINK = js ''</think>''"

lemma THINK_eq: "THINK = [60, 116, 104, 105, 110, 107, 62]"
  by (simp add: THINK_def)

lemma END_THINK_eq: "END_THINK = [60, 47, 116, 104, 105, 110, 107, 62]"
  by (simp add: END_THINK_def)

text \<open>
  The \<open>while (true)\<close> loop: \<open>pos\<close> is \<open>currentPos\<close>; the result is the two lists of parts and
  whether the last tag is unclosed.
\<close>

function think_loop ::
  "jsstring \<Rightarrow> nat \<Rightarrow> jsstring list \<Rightarrow> jsstring list \<Rightarrow> jsstring list \<times> jsstring list \<times> bool" where
  "think_loop content pos vis rea =
     (case indexOf content THINK pos of
        None \<Rightarrow>
          ((if pos < length content then vis @ [drop pos content] else vis), rea, False)
      | Some openPos \<Rightarrow>
          let vis' = (if pos < openPos then vis @ [slice content pos openPos] else vis) in
          (case indexOf content END_THINK (openPos + 7) of
             None \<Rightarrow> (vis', rea @ [drop (openPos + 7) content], True)
           | Some closePos \<Rightarrow>
               think_loop content (closePos + 8) vis'
                 (rea @ [slice content (openPos + 7) closePos])))"
  by pat_completeness auto

lemma indexOf_room: "indexOf s p from = Some i \<Longrightarrow> from \<le> length s \<Longrightarrow> i + length p \<le> length s"
  by (auto simp: indexOf_def dest!: find_sub_bound)

lemma indexOf_from: "indexOf s p from = Some i \<Longrightarrow> p \<noteq> [] \<Longrightarrow> from < length s"
  by (cases "from < length s") (auto simp: indexOf_def)

termination think_loop
proof (relation "measure (\<lambda>(content, pos, vis, rea). length content - pos)", goal_cases)
  case (2 content pos vis rea openPos vis' closePos)
  then have "pos \<le> openPos" "openPos + 7 \<le> closePos"
    using indexOf_bound by blast+
  moreover have "openPos + 7 < length content"
    using 2 by (intro indexOf_from) (auto simp: END_THINK_eq)
  ultimately show ?case by simp
qed simp

declare think_loop.simps [simp del]

definition parseThinkTags :: "jsstring \<Rightarrow> ParsedThinkTags" where
  "parseThinkTags content =
     (if \<not> str_includes content THINK
      then \<lparr>visibleContent = content, think_reasoning = [], hasUnclosedTag = False\<rparr>
      else let (vis, rea, unclosed) = think_loop content 0 [] [] in
        \<lparr>visibleContent = trim (join [] vis), think_reasoning = trim (join [10, 10] rea),
         hasUnclosedTag = unclosed\<rparr>)"

section \<open>Streaming (\<open>message-streaming-utils.ts\<close>)\<close>

definition processStreamingContent :: "Message \<Rightarrow> jsstring \<Rightarrow> int \<Rightarrow> Message" where
  "processStreamingContent m contentChunk now =
     (let fullContent = getMessageContent m @ contentChunk in
      if reasoning m = None \<and> \<not> str_includes fullContent THINK then
        (updateCurrentVersionContent m fullContent)\<lparr>isReasoningStreaming := Some False\<rparr>
      else
        let p = parseThinkTags fullContent;
            finalReasoning =
              (if think_reasoning p \<noteq> []
               then Some ((startReasoningTiming m now)\<lparr>reasoning_content := think_reasoning p\<rparr>)
               else reasoning m)
        in (updateCurrentVersionContent m fullContent)\<lparr>reasoning := finalReasoning,
              isReasoningStreaming := Some (hasUnclosedTag p)\<rparr>)"

datatype StreamChunkType = ReasoningChunk | ContentChunk

definition getAppendableChunk :: "jsstring \<Rightarrow> jsstring \<Rightarrow> jsstring" where
  "getAppendableChunk currentContent chunk =
     (if currentContent = [] \<or> \<not> startsWith chunk currentContent then chunk
      else drop (length currentContent) chunk)"

definition applyStreamingChunk :: "Message \<Rightarrow> StreamChunkType \<Rightarrow> jsstring \<Rightarrow> int \<Rightarrow> Message" where
  "applyStreamingChunk m type chunk now =
     (if status m = Some ERROR then m
      else case type of
        ReasoningChunk \<Rightarrow>
          let r = startReasoningTiming m now;
              appendable = getAppendableChunk (reasoning_content r) chunk
          in m\<lparr>reasoning := Some (r\<lparr>reasoning_content := reasoning_content r @ appendable\<rparr>),
               isReasoningStreaming := Some True, status := Some STREAMING\<rparr>
      | ContentChunk \<Rightarrow>
          let appendable = getAppendableChunk (getMessageContent m) chunk;
              contentMessage = processStreamingContent m appendable now
          in (if isReasoningStreaming contentMessage = Some True then contentMessage
              else completeReasoningTiming contentMessage now)\<lparr>status := Some STREAMING\<rparr>)"

definition finalizeMessage :: "Message \<Rightarrow> jsstring option \<Rightarrow> int \<Rightarrow> Message" where
  "finalizeMessage m apiReasoningContent now =
     (let content = getMessageContent m;
          parsed = (if str_includes content THINK then Some (parseThinkTags content) else None);
          visible = (case parsed of None \<Rightarrow> content | Some p \<Rightarrow> visibleContent p);
          finalReasoning =
            opt_str_or apiReasoningContent
              (opt_str_or (map_option reasoning_content (reasoning m))
                (opt_str_or (map_option think_reasoning parsed) []));
          finalized = (updateCurrentVersionContent m visible)\<lparr>
            reasoning := (if finalReasoning \<noteq> []
              then Some ((startReasoningTiming m now)\<lparr>reasoning_content := finalReasoning\<rparr>)
              else None),
            isReasoningStreaming := Some False\<rparr>
      in completeReasoningTiming finalized now)"

definition completeAssistantMessage :: "Message \<Rightarrow> int \<Rightarrow> Message" where
  "completeAssistantMessage m now =
     completeAssistantTiming ((finalizeMessage m None now)\<lparr>status := Some COMPLETE\<rparr>) now"

definition isAssistantMessageFinal :: "Message \<Rightarrow> bool" where
  "isAssistantMessageFinal m \<longleftrightarrow> status m = Some COMPLETE \<or> status m = Some ERROR"

definition isAssistantMessagePending :: "Message \<Rightarrow> bool" where
  "isAssistantMessagePending m \<longleftrightarrow> status m = Some LOADING \<or> status m = Some STREAMING"

definition isPendingAssistantMessage :: "Message \<Rightarrow> bool" where
  "isPendingAssistantMessage m \<longleftrightarrow> role_of m = ASSISTANT \<and> isAssistantMessagePending m"

definition hasChatCompletionChoice :: "ChatCompletionChoice list \<Rightarrow> bool" where
  "hasChatCompletionChoice choices \<longleftrightarrow> choices \<noteq> []"

definition applyChatCompletionChoice :: "Message \<Rightarrow> ChatCompletionChoice \<Rightarrow> int \<Rightarrow> Message" where
  "applyChatCompletionChoice m choice now =
     (let content = opt_str_or (Option.bind choice choice_content) [];
          api = Option.bind choice choice_reasoning_content
      in completeAssistantTiming
           ((finalizeMessage (updateCurrentVersionContent m content) api now)
              \<lparr>status := Some COMPLETE\<rparr>) now)"

definition applyChatCompletionResponse ::
  "Message \<Rightarrow> ChatCompletionChoice list \<Rightarrow> int \<Rightarrow> Message option" where
  "applyChatCompletionResponse m choices now =
     (case choices of [] \<Rightarrow> None | choice # _ \<Rightarrow> Some (applyChatCompletionChoice m choice now))"

text \<open>The downward loop of \<open>sanitizeMessagesOnLoad\<close>: the largest index below \<open>n\<close> with a pending
  assistant message.\<close>

fun last_pending_below :: "Message list \<Rightarrow> nat \<Rightarrow> nat option" where
  "last_pending_below ms 0 = None"
| "last_pending_below ms (Suc i) =
     (if isPendingAssistantMessage (ms ! i) then Some i else last_pending_below ms i)"

definition sanitized_message :: "(jsstring \<Rightarrow> jsstring) \<Rightarrow> Message \<Rightarrow> int \<Rightarrow> Message" where
  "sanitized_message t m now =
     (let finalized = finalizeMessage m None now;
          hasReasoning =
            (case reasoning finalized of None \<Rightarrow> False | Some r \<Rightarrow> trim (reasoning_content r) \<noteq> [])
      in if hasMessageContent finalized \<or> hasReasoning
         then completeAssistantTiming
           (finalized\<lparr>status := Some COMPLETE, isReasoningStreaming := Some False\<rparr>) now
         else completeAssistantTiming
           ((updateCurrentVersionContent finalized
               (t API_REQUEST_ERROR @ js '': '' @ t INTERRUPTED))
             \<lparr>status := Some ERROR, isReasoningStreaming := Some False\<rparr>) now)"

definition sanitizeMessagesOnLoad ::
  "(jsstring \<Rightarrow> jsstring) \<Rightarrow> Message list \<Rightarrow> int \<Rightarrow> Message list" where
  "sanitizeMessagesOnLoad t ms now =
     (case last_pending_below ms (length ms) of
        None \<Rightarrow> ms
      | Some i \<Rightarrow> ms[i := sanitized_message t (ms ! i) now])"

section \<open>Basic facts\<close>

lemma loading_fields [simp]:
  "getMessageContent (createLoadingAssistantMessage k v n) = []"
  "key (createLoadingAssistantMessage k v n) = k"
  "role_of (createLoadingAssistantMessage k v n) = ASSISTANT"
  "status (createLoadingAssistantMessage k v n) = Some LOADING"
  by (simp_all add: createLoadingAssistantMessage_def getMessageContent_def
      getCurrentVersion_def createMessageVersion_def)

lemma user_fields [simp]:
  "getMessageContent (createUserMessage k v s n) = s"
  "key (createUserMessage k v s n) = k"
  "role_of (createUserMessage k v s n) = USER"
  "status (createUserMessage k v s n) = None"
  by (simp_all add: createUserMessage_def getMessageContent_def
      getCurrentVersion_def createMessageVersion_def)

lemma version_content_update [simp]:
  "getMessageContent (updateCurrentVersionContent m s) = s"
  by (simp add: getMessageContent_def updateCurrentVersionContent_def getCurrentVersion_def)

lemma update_fields [simp]:
  "key (updateCurrentVersionContent m s) = key m"
  "role_of (updateCurrentVersionContent m s) = role_of m"
  "createdAt (updateCurrentVersionContent m s) = createdAt m"
  "startedAt (updateCurrentVersionContent m s) = startedAt m"
  "completedAt (updateCurrentVersionContent m s) = completedAt m"
  "reasoning (updateCurrentVersionContent m s) = reasoning m"
  "status (updateCurrentVersionContent m s) = status m"
  "length (versions (updateCurrentVersionContent m s)) = 1"
  by (simp_all add: updateCurrentVersionContent_def)

lemma getMessageContent_other_fields [simp]:
  "getMessageContent (m\<lparr>reasoning := r\<rparr>) = getMessageContent m"
  "getMessageContent (m\<lparr>status := st\<rparr>) = getMessageContent m"
  "getMessageContent (m\<lparr>isReasoningStreaming := b\<rparr>) = getMessageContent m"
  "getMessageContent (m\<lparr>createdAt := a\<rparr>) = getMessageContent m"
  "getMessageContent (m\<lparr>startedAt := a\<rparr>) = getMessageContent m"
  "getMessageContent (m\<lparr>completedAt := a\<rparr>) = getMessageContent m"
  "getMessageContent (m\<lparr>durationMs := a\<rparr>) = getMessageContent m"
  "getMessageContent (m\<lparr>errorCode := e\<rparr>) = getMessageContent m"
  by (simp_all add: getMessageContent_def getCurrentVersion_def)

lemma completeReasoningTiming_fields [simp]:
  "getMessageContent (completeReasoningTiming m now) = getMessageContent m"
  "key (completeReasoningTiming m now) = key m"
  "role_of (completeReasoningTiming m now) = role_of m"
  "status (completeReasoningTiming m now) = status m"
  "versions (completeReasoningTiming m now) = versions m"
  "startedAt (completeReasoningTiming m now) = startedAt m"
  "isReasoningStreaming (completeReasoningTiming m now) = isReasoningStreaming m"
  "map_option reasoning_content (reasoning (completeReasoningTiming m now))
     = map_option reasoning_content (reasoning m)"
  by (auto simp: completeReasoningTiming_def Let_def split: option.splits)

lemma completeAssistantTiming_fields [simp]:
  "getMessageContent (completeAssistantTiming m now) = getMessageContent m"
  "key (completeAssistantTiming m now) = key m"
  "role_of (completeAssistantTiming m now) = role_of m"
  "status (completeAssistantTiming m now) = status m"
  "versions (completeAssistantTiming m now) = versions m"
  "reasoning (completeAssistantTiming m now) = reasoning m"
  "isReasoningStreaming (completeAssistantTiming m now) = isReasoningStreaming m"
  by (auto simp: completeAssistantTiming_def Let_def)

lemma finalizeMessage_fields [simp]:
  "key (finalizeMessage m api now) = key m"
  "role_of (finalizeMessage m api now) = role_of m"
  "status (finalizeMessage m api now) = status m"
  "isReasoningStreaming (finalizeMessage m api now) = Some False"
  "length (versions (finalizeMessage m api now)) = 1"
  by (simp_all add: finalizeMessage_def Let_def)

lemma finalizeMessage_content:
  "getMessageContent (finalizeMessage m api now) =
     (if str_includes (getMessageContent m) THINK
      then visibleContent (parseThinkTags (getMessageContent m)) else getMessageContent m)"
  by (simp add: finalizeMessage_def Let_def)

lemma processStreamingContent_fields [simp]:
  "key (processStreamingContent m c now) = key m"
  "role_of (processStreamingContent m c now) = role_of m"
  "status (processStreamingContent m c now) = status m"
  "getMessageContent (processStreamingContent m c now) = getMessageContent m @ c"
  "length (versions (processStreamingContent m c now)) = 1"
  by (simp_all add: processStreamingContent_def Let_def)

lemma applyStreamingChunk_fields [simp]:
  "key (applyStreamingChunk m ty c now) = key m"
  "role_of (applyStreamingChunk m ty c now) = role_of m"
  by (auto simp: applyStreamingChunk_def Let_def split: StreamChunkType.splits)

lemma applyStreamingChunk_status:
  "status (applyStreamingChunk m ty c now) =
     (if status m = Some ERROR then Some ERROR else Some STREAMING)"
  by (auto simp: applyStreamingChunk_def Let_def split: StreamChunkType.splits)

section \<open>What \<open>parseThinkTags\<close> computes\<close>

text \<open>A text with its reasoning sections written out: pairs of visible text and reasoning.\<close>

definition render :: "(jsstring \<times> jsstring) list \<Rightarrow> jsstring" where
  "render segs = concat (map (\<lambda>(v, r). v @ THINK @ r @ END_THINK) segs)"

definition clean_segments :: "(jsstring \<times> jsstring) list \<Rightarrow> bool" where
  "clean_segments segs \<longleftrightarrow>
     (\<forall>(v, r)\<in>set segs. \<not> sublist THINK v \<and> \<not> sublist END_THINK r)"

definition nonempty :: "jsstring list \<Rightarrow> jsstring list" where
  "nonempty xs = filter (\<lambda>x. x \<noteq> []) xs"

lemma indexOf_THINK:
  "\<not> sublist THINK v \<Longrightarrow>
     indexOf (pre @ v @ THINK @ rest) THINK (length pre) = Some (length pre + length v)"
  by (rule indexOf_after[of _ 60 "tl THINK"]) (auto simp: THINK_eq)

lemma indexOf_END_THINK:
  "\<not> sublist END_THINK r \<Longrightarrow>
     indexOf (pre @ r @ END_THINK @ rest) END_THINK (length pre) = Some (length pre + length r)"
  by (rule indexOf_after[of _ 60 "tl END_THINK"]) (auto simp: END_THINK_eq)

lemma length_tags [simp]: "length THINK = 7" "length END_THINK = 8"
  by (simp_all add: THINK_eq END_THINK_eq)

lemma slice_middle [simp]: "slice (pre @ v @ rest) (length pre) (length pre + length v) = v"
  by (simp add: slice_def)

lemma think_loop_plain:
  assumes "\<not> sublist THINK tail"
  shows "think_loop (pre @ tail) (length pre) vis rea = (vis @ nonempty [tail], rea, False)"
  using indexOf_none[OF assms, of pre]
  by (subst think_loop.simps) (simp add: nonempty_def)

lemma think_loop_open:
  assumes "\<not> sublist THINK v" "\<not> sublist END_THINK r"
  shows "think_loop (pre @ v @ THINK @ r) (length pre) vis rea =
    (vis @ nonempty [v], rea @ [r], True)"
proof -
  let ?c = "pre @ v @ THINK @ r"
  have o: "indexOf ?c THINK (length pre) = Some (length pre + length v)"
    using indexOf_THINK[OF assms(1), of pre r] by simp
  have c: "indexOf ?c END_THINK (length pre + length v + 7) = None"
    using indexOf_none[OF assms(2), of "pre @ v @ THINK"] by (simp add: add.assoc)
  have "drop (length pre + length v + 7) ?c = r"
    by (simp add: add.assoc)
  with o c show ?thesis
    by (subst think_loop.simps) (simp add: nonempty_def)
qed

lemma think_loop_step:
  "indexOf content THINK pos = Some i \<Longrightarrow> indexOf content END_THINK (i + 7) = Some j \<Longrightarrow>
     think_loop content pos vis rea =
       think_loop content (j + 8) (if pos < i then vis @ [slice content pos i] else vis)
         (rea @ [slice content (i + 7) j])"
  by (subst think_loop.simps) simp

lemma think_loop_segment:
  assumes "\<not> sublist THINK v" "\<not> sublist END_THINK r"
  shows "think_loop (pre @ v @ THINK @ r @ END_THINK @ rest) (length pre) vis rea =
    think_loop (pre @ v @ THINK @ r @ END_THINK @ rest)
      (length (pre @ v @ THINK @ r @ END_THINK)) (vis @ nonempty [v]) (rea @ [r])"
proof -
  let ?c = "pre @ v @ THINK @ r @ END_THINK @ rest"
  have o: "indexOf ?c THINK (length pre) = Some (length pre + length v)"
    using indexOf_THINK[OF assms(1), of pre] by simp
  have c: "indexOf ?c END_THINK (length pre + length v + 7) =
      Some (length pre + length v + 7 + length r)"
    using indexOf_END_THINK[OF assms(2), of "pre @ v @ THINK" rest] by (simp add: add.assoc)
  have r: "slice ?c (length pre + length v + 7) (length pre + length v + 7 + length r) = r"
    using slice_middle[of "pre @ v @ THINK" r "END_THINK @ rest"] by (simp add: add.assoc)
  show ?thesis
    using think_loop_step[OF o c, of vis rea] r by (simp add: nonempty_def add.assoc)
qed

lemma think_loop_render:
  assumes "clean_segments segs"
  shows "think_loop (pre @ render segs @ tail) (length pre) vis rea =
    think_loop (pre @ render segs @ tail) (length (pre @ render segs))
      (vis @ nonempty (map fst segs)) (rea @ map snd segs)"
  using assms
proof (induction segs arbitrary: pre vis rea)
  case Nil
  then show ?case by (simp add: render_def nonempty_def)
next
  case (Cons seg segs)
  obtain v r where seg: "seg = (v, r)" by (cases seg)
  let ?pre = "pre @ v @ THINK @ r @ END_THINK"
  have c: "pre @ render (seg # segs) @ tail = ?pre @ render segs @ tail"
    by (simp add: render_def seg)
  have "think_loop (?pre @ render segs @ tail) (length pre) vis rea =
      think_loop (?pre @ render segs @ tail) (length ?pre) (vis @ nonempty [v]) (rea @ [r])"
    using think_loop_segment[of v r pre "render segs @ tail"] Cons.prems seg
    by (simp add: clean_segments_def)
  also have "\<dots> = think_loop (?pre @ render segs @ tail) (length (?pre @ render segs))
      ((vis @ nonempty [v]) @ nonempty (map fst segs)) ((rea @ [r]) @ map snd segs)"
    using Cons.prems by (intro Cons.IH) (simp add: clean_segments_def)
  finally show ?case
    unfolding c by (simp add: seg nonempty_def render_def add.assoc)
qed

lemma concat_nonempty: "concat (nonempty xs) = concat xs"
  by (induction xs) (auto simp: nonempty_def)

lemma render_includes:
  "segs \<noteq> [] \<Longrightarrow> str_includes (render segs @ tail) THINK"
  by (cases segs) (auto simp: str_includes_iff render_def intro!: sublist_appendI)

end
