(* ===== verification/Playground_Message_Laws.thy ===== *)
theory Playground_Message_Laws
  imports Playground_Message
begin

text \<open>
  What the single-message operations guarantee: which text \<open>parseThinkTags\<close> shows and hides, how
  streamed chunks accumulate, the timing invariant of a message and what loading repairs.
\<close>

section \<open>Reasoning tags\<close>

lemma parse_closed:
  assumes "clean_segments segs" "\<not> sublist THINK tail" "segs \<noteq> []"
  shows "parseThinkTags (render segs @ tail) =
    \<lparr>visibleContent = trim (concat (map fst segs) @ tail),
     think_reasoning = trim (join [10, 10] (map snd segs)), hasUnclosedTag = False\<rparr>"
  using think_loop_render[OF assms(1), of "[]" tail "[]" "[]"]
    think_loop_plain[OF assms(2), of "render segs"]
    concat_nonempty[of "map fst segs"] concat_nonempty[of "[tail]"]
  by (simp add: parseThinkTags_def render_includes[OF assms(3)] join_Nil_sep)

lemma parse_open:
  assumes "clean_segments segs" "\<not> sublist THINK v" "\<not> sublist END_THINK r"
  shows "parseThinkTags (render segs @ v @ THINK @ r) =
    \<lparr>visibleContent = trim (concat (map fst segs) @ v),
     think_reasoning = trim (join [10, 10] (map snd segs @ [r])), hasUnclosedTag = True\<rparr>"
proof -
  have "str_includes (render segs @ v @ THINK @ r) THINK"
    unfolding str_includes_iff by (metis append.assoc sublist_appendI)
  then show ?thesis
    using think_loop_render[OF assms(1), of "[]" "v @ THINK @ r" "[]" "[]"]
      think_loop_open[OF assms(2,3), of "render segs"]
      concat_nonempty[of "map fst segs"] concat_nonempty[of "[v]"]
    by (simp add: parseThinkTags_def join_Nil_sep)
qed

text \<open>Every text has one of the three shapes: no tag, closed sections, or an open last section.\<close>

lemma clean_segments_Cons:
  "clean_segments ((v, r) # segs) \<longleftrightarrow>
     \<not> sublist THINK v \<and> \<not> sublist END_THINK r \<and> clean_segments segs"
  by (auto simp: clean_segments_def)

lemma find_sub_clean:
  assumes "find_sub p s = Some i" "p \<noteq> []"
  shows "\<not> sublist p (take i s)"
proof
  assume "sublist p (take i s)"
  then obtain a b where ab: "take i s = a @ p @ b"
    by (auto simp: sublist_def)
  have "prefix p (drop (length a) (take i s))"
    by (simp add: ab)
  then have "prefix p (drop (length a) s)"
    by (metis append_take_drop_id drop_take prefix_order.order_trans take_is_prefix)
  moreover have "length a < i"
    using ab assms(2) by (metis length_append length_greater_0_conv length_take less_add_same_cancel1
        min_less_iff_conj trans_less_add1 add.left_commute add_gr_0)
  ultimately show False
    using find_sub_first[OF assms(1)] by blast
qed

lemma think_shape:
  "(\<exists>segs tail. c = render segs @ tail \<and> clean_segments segs \<and> \<not> sublist THINK tail)
   \<or> (\<exists>segs v r. c = render segs @ v @ THINK @ r \<and> clean_segments segs
        \<and> \<not> sublist THINK v \<and> \<not> sublist END_THINK r)"
proof (induction c rule: length_induct)
  case (1 c)
  show ?case
  proof (cases "find_sub THINK c")
    case None
    then show ?thesis
      by (intro disjI1 exI[of _ "[]"] exI[of _ c])
         (simp add: render_def clean_segments_def find_sub_None_iff)
  next
    case (Some i)
    define v where "v = take i c"
    define rest where "rest = drop (i + 7) c"
    have c: "c = v @ THINK @ rest"
      using find_sub_split[OF Some] by (simp add: v_def rest_def)
    have v: "\<not> sublist THINK v"
      using find_sub_clean[OF Some] by (simp add: v_def THINK_eq)
    show ?thesis
    proof (cases "find_sub END_THINK rest")
      case None
      with c v show ?thesis
        by (intro disjI2 exI[of _ "[]"] exI[of _ v] exI[of _ rest])
           (simp add: render_def clean_segments_def find_sub_None_iff)
    next
      case j: (Some j)
      define r where "r = take j rest"
      define c' where "c' = drop (j + 8) rest"
      have rest: "rest = r @ END_THINK @ c'"
        using find_sub_split[OF j] by (simp add: r_def c'_def)
      have r: "\<not> sublist END_THINK r"
        using find_sub_clean[OF j] by (simp add: r_def END_THINK_eq)
      have "length c' < length c"
        by (simp add: c rest)
      with 1 have IH: "(\<exists>segs tail. c' = render segs @ tail \<and> clean_segments segs
            \<and> \<not> sublist THINK tail)
          \<or> (\<exists>segs v r. c' = render segs @ v @ THINK @ r \<and> clean_segments segs
            \<and> \<not> sublist THINK v \<and> \<not> sublist END_THINK r)"
        by blast
      have ext: "c = render ((v, r) # segs) @ s" if "c' = render segs @ s" for segs s
        using that by (simp add: c rest render_def)
      from IH v r ext show ?thesis
        by (metis clean_segments_Cons)
    qed
  qed
qed

text \<open>C27: \<open>parseThinkTags\<close> is total and does what its name says.  Every text is a sequence of
  visible texts and reasoning sections, closed by the end of the text or ending in a section that
  was not closed; the visible texts are joined and trimmed, the reasoning texts are joined with a
  blank line and trimmed, and the flag tells whether the last section is open.  Only a text
  without any tag is returned untrimmed.\<close>

theorem parseThinkTags_spec:
  "(\<not> sublist THINK c \<and> parseThinkTags c =
      \<lparr>visibleContent = c, think_reasoning = [], hasUnclosedTag = False\<rparr>)
   \<or> (\<exists>segs tail. segs \<noteq> [] \<and> clean_segments segs \<and> \<not> sublist THINK tail
        \<and> c = render segs @ tail \<and> parseThinkTags c =
      \<lparr>visibleContent = trim (concat (map fst segs) @ tail),
       think_reasoning = trim (join [10, 10] (map snd segs)), hasUnclosedTag = False\<rparr>)
   \<or> (\<exists>segs v r. clean_segments segs \<and> \<not> sublist THINK v \<and> \<not> sublist END_THINK r
        \<and> c = render segs @ v @ THINK @ r \<and> parseThinkTags c =
      \<lparr>visibleContent = trim (concat (map fst segs) @ v),
       think_reasoning = trim (join [10, 10] (map snd segs @ [r])), hasUnclosedTag = True\<rparr>)"
proof (cases "sublist THINK c")
  case False
  then show ?thesis by (simp add: parseThinkTags_def str_includes_iff)
next
  case True
  from think_shape[of c] show ?thesis
  proof (elim disjE exE conjE)
    fix segs tail
    assume a: "c = render segs @ tail" "clean_segments segs" "\<not> sublist THINK tail"
    with True have "segs \<noteq> []" by (auto simp: render_def)
    with a parse_closed[OF a(2,3)] show ?thesis by blast
  next
    fix segs v r
    assume a: "c = render segs @ v @ THINK @ r" "clean_segments segs" "\<not> sublist THINK v"
      "\<not> sublist END_THINK r"
    with parse_open[OF a(2-4)] show ?thesis by blast
  qed
qed

section \<open>Streamed chunks\<close>

text \<open>What a content chunk does to the text of a message.\<close>

definition absorb :: "jsstring \<Rightarrow> jsstring \<Rightarrow> jsstring" where
  "absorb old chunk = old @ getAppendableChunk old chunk"

lemma absorb_cases:
  "absorb old chunk = (if old \<noteq> [] \<and> prefix old chunk then chunk else old @ chunk)"
  by (auto simp: absorb_def getAppendableChunk_def startsWith_def prefix_def)

lemma absorb_prefix: "prefix old (absorb old chunk)"
  by (simp add: absorb_def)

lemma content_after_chunk:
  "status m \<noteq> Some ERROR \<Longrightarrow>
     getMessageContent (applyStreamingChunk m ContentChunk chunk now)
       = absorb (getMessageContent m) chunk"
  by (simp add: applyStreamingChunk_def Let_def absorb_def)

lemma reasoning_after_chunk:
  "status m \<noteq> Some ERROR \<Longrightarrow>
     map_option reasoning_content (reasoning (applyStreamingChunk m ReasoningChunk chunk now))
       = Some (absorb (case reasoning m of None \<Rightarrow> [] | Some r \<Rightarrow> reasoning_content r) chunk)"
  by (simp add: applyStreamingChunk_def Let_def absorb_def startReasoningTiming_def
      split: option.splits)

text \<open>A sequence of content chunks, each with the time at which it is applied.\<close>

fun stream_content :: "Message \<Rightarrow> (jsstring \<times> int) list \<Rightarrow> Message" where
  "stream_content m [] = m"
| "stream_content m ((chunk, now) # rest) =
     stream_content (applyStreamingChunk m ContentChunk chunk now) rest"

lemma stream_content_text:
  "status m \<noteq> Some ERROR \<Longrightarrow>
     getMessageContent (stream_content m chunks)
       = foldl absorb (getMessageContent m) (map fst chunks)"
  by (induction m chunks rule: stream_content.induct)
     (auto simp: content_after_chunk applyStreamingChunk_status)

text \<open>
  Two ways an upstream streams: increments, none of which starts with everything received so far,
  or snapshots, each of which extends the one before.
\<close>

fun increments :: "jsstring \<Rightarrow> jsstring list \<Rightarrow> bool" where
  "increments old [] \<longleftrightarrow> True"
| "increments old (c # cs) \<longleftrightarrow> (old = [] \<or> \<not> prefix old c) \<and> increments (old @ c) cs"

fun snapshots :: "jsstring \<Rightarrow> jsstring list \<Rightarrow> bool" where
  "snapshots old [] \<longleftrightarrow> True"
| "snapshots old (c # cs) \<longleftrightarrow> prefix old c \<and> snapshots c cs"

lemma foldl_absorb_increments: "increments old cs \<Longrightarrow> foldl absorb old cs = old @ concat cs"
  by (induction old cs rule: increments.induct) (auto simp: absorb_cases)

lemma foldl_absorb_snapshots: "snapshots old cs \<Longrightarrow> foldl absorb old cs = last (old # cs)"
  by (induction old cs rule: snapshots.induct) (auto simp: absorb_cases)

text \<open>Streaming into a message that has not failed keeps the text that was already there as
  a prefix; chunks that are increments are appended in order, and chunks that are growing
  snapshots replace the text by the last snapshot.\<close>

theorem stream_content_accumulates:
  assumes "status m \<noteq> Some ERROR"
  shows "prefix (getMessageContent m) (getMessageContent (stream_content m chunks))
    \<and> (increments (getMessageContent m) (map fst chunks) \<longrightarrow>
        getMessageContent (stream_content m chunks)
          = getMessageContent m @ concat (map fst chunks))
    \<and> (snapshots (getMessageContent m) (map fst chunks) \<longrightarrow>
        getMessageContent (stream_content m chunks)
          = last (getMessageContent m # map fst chunks))"
proof -
  have "prefix old (foldl absorb old cs)" for old cs
    by (induction cs arbitrary: old) (auto intro: prefix_order.order_trans[OF absorb_prefix])
  then show ?thesis
    by (simp add: stream_content_text[OF assms] foldl_absorb_increments foldl_absorb_snapshots)
qed

theorem stream_content_accumulates_witness:
  "getMessageContent (stream_content (createLoadingAssistantMessage (js ''k'') (js ''v'') 0)
     [(js ''Hel'', 1), (js ''lo'', 2), (js ''!'', 3)]) = js ''Hello!''
   \<and> getMessageContent (stream_content (createLoadingAssistantMessage (js ''k'') (js ''v'') 0)
     [(js ''Hel'', 1), (js ''Hello'', 2)]) = js ''Hello''"
  using stream_content_accumulates[of "createLoadingAssistantMessage (js ''k'') (js ''v'') 0"
      "[(js ''Hel'', 1), (js ''lo'', 2), (js ''!'', 3)]"]
    stream_content_accumulates[of "createLoadingAssistantMessage (js ''k'') (js ''v'') 0"
      "[(js ''Hel'', 1), (js ''Hello'', 2)]"]
  by simp

text \<open>The snapshot rule loses text of an incremental stream: when the next increment starts
  with everything received so far, the text received so far is dropped, so two equal first
  increments leave the text of one.\<close>

theorem repeated_increment_lost:
  assumes "status m \<noteq> Some ERROR" "getMessageContent m = []" "chunk \<noteq> []"
  shows "getMessageContent (stream_content m [(chunk, t1), (chunk @ suffix_text, t2)]) = chunk @ suffix_text"
  unfolding stream_content_text[OF assms(1)] using assms by (simp add: absorb_cases)

theorem repeated_increment_lost_witness:
  "getMessageContent (stream_content (createLoadingAssistantMessage (js ''k'') (js ''v'') 0)
     [(js ''ha'', 1), (js ''ha'' @ js '' ha'', 2)]) = js ''ha ha''"
  by (subst repeated_increment_lost) simp_all

section \<open>The message invariant\<close>

text \<open>
  A message the client made: exactly one version; measured durations are not negative and come
  with their end points; a reasoning section is either still being timed or has a duration in
  whole seconds, rounded up, that agrees with its milliseconds; only assistant messages have a
  status.
\<close>

definition reasoning_ok :: "Reasoning \<Rightarrow> bool" where
  "reasoning_ok r \<longleftrightarrow> reasoning_startedAt r \<noteq> None \<and>
     (case reasoning_durationMs r of
        None \<Rightarrow> reasoning_completedAt r = None \<and> reasoning_duration r = 0
      | Some ms \<Rightarrow> 0 \<le> ms \<and> reasoning_duration r = ceil_div_1000 ms
          \<and> reasoning_completedAt r \<noteq> None)"

definition timing_ok :: "Message \<Rightarrow> bool" where
  "timing_ok m \<longleftrightarrow>
     (case durationMs m of
        None \<Rightarrow> completedAt m = None
      | Some ms \<Rightarrow> \<exists>a b. startedAt m = Some a \<and> completedAt m = Some b \<and> ms = max 0 (b - a))"

definition message_ok :: "Message \<Rightarrow> bool" where
  "message_ok m \<longleftrightarrow> length (versions m) = 1 \<and> timing_ok m
     \<and> (\<forall>r. reasoning m = Some r \<longrightarrow> reasoning_ok r)
     \<and> (status m \<noteq> None \<longrightarrow> role_of m = ASSISTANT)"

text \<open>The single-message operations of the client, as steps.\<close>

inductive message_step :: "Message \<Rightarrow> Message \<Rightarrow> bool" where
  chunk: "role_of m = ASSISTANT \<Longrightarrow> message_step m (applyStreamingChunk m ty c now)"
| complete: "role_of m = ASSISTANT \<Longrightarrow> message_step m (completeAssistantMessage m now)"
| answer: "role_of m = ASSISTANT \<Longrightarrow> message_step m (applyChatCompletionChoice m choice now)"
| sanitize: "role_of m = ASSISTANT \<Longrightarrow> message_step m (sanitized_message t m now)"
| edit: "message_step m (updateCurrentVersionContent m s)"

inductive message_reachable :: "Message \<Rightarrow> bool" where
  user: "message_reachable (createUserMessage k v s now)"
| loading: "message_reachable (createLoadingAssistantMessage k v now)"
| step: "message_reachable m \<Longrightarrow> message_step m m' \<Longrightarrow> message_reachable m'"

lemma timing_ok_fields [simp]:
  "timing_ok (m\<lparr>isReasoningStreaming := b\<rparr>) = timing_ok m"
  "timing_ok (m\<lparr>status := st\<rparr>) = timing_ok m"
  "timing_ok (m\<lparr>reasoning := r\<rparr>) = timing_ok m"
  "timing_ok (m\<lparr>versions := vs\<rparr>) = timing_ok m"
  by (simp_all add: timing_ok_def split: option.split)

lemma start_reasoning_ok:
  "(\<And>r. reasoning m = Some r \<Longrightarrow> reasoning_ok r) \<Longrightarrow>
     reasoning_ok ((startReasoningTiming m now)\<lparr>reasoning_content := s\<rparr>)"
  by (auto simp: startReasoningTiming_def reasoning_ok_def split: option.splits)

lemma complete_reasoning_ok:
  "message_ok m \<Longrightarrow> message_ok (completeReasoningTiming m now)"
  by (auto simp: completeReasoningTiming_def message_ok_def reasoning_ok_def Let_def
      split: option.splits)

lemma complete_timing_ok:
  "message_ok m \<Longrightarrow> role_of m = ASSISTANT \<Longrightarrow> message_ok (completeAssistantTiming m now)"
  by (auto simp: completeAssistantTiming_def message_ok_def timing_ok_def Let_def)

lemma update_content_ok: "message_ok m \<Longrightarrow> message_ok (updateCurrentVersionContent m s)"
  by (auto simp: updateCurrentVersionContent_def message_ok_def)

lemma message_ok_flag: "message_ok m \<Longrightarrow> message_ok (m\<lparr>isReasoningStreaming := b\<rparr>)"
  by (simp add: message_ok_def)

lemma message_ok_status:
  "message_ok m \<Longrightarrow> role_of m = ASSISTANT \<Longrightarrow> message_ok (m\<lparr>status := st\<rparr>)"
  by (simp add: message_ok_def)

lemma message_ok_reasoning:
  "message_ok m \<Longrightarrow> (\<And>x. r = Some x \<Longrightarrow> reasoning_ok x) \<Longrightarrow> message_ok (m\<lparr>reasoning := r\<rparr>)"
  by (auto simp: message_ok_def)

lemma message_ok_reasoningD: "message_ok m \<Longrightarrow> reasoning m = Some r \<Longrightarrow> reasoning_ok r"
  by (simp add: message_ok_def)

lemmas message_ok_intros = complete_reasoning_ok complete_timing_ok update_content_ok
  message_ok_flag message_ok_status message_ok_reasoning start_reasoning_ok

lemma process_ok: "message_ok m \<Longrightarrow> message_ok (processStreamingContent m c now)"
  by (auto simp: processStreamingContent_def Let_def
      intro!: message_ok_intros dest: message_ok_reasoningD)

lemma chunk_ok:
  "message_ok m \<Longrightarrow> role_of m = ASSISTANT \<Longrightarrow> message_ok (applyStreamingChunk m ty c now)"
  by (cases ty) (auto simp: applyStreamingChunk_def Let_def
      intro!: message_ok_intros process_ok dest: message_ok_reasoningD)

lemma finalize_ok: "message_ok m \<Longrightarrow> message_ok (finalizeMessage m api now)"
  unfolding finalizeMessage_def Let_def
  by (intro complete_reasoning_ok message_ok_flag message_ok_reasoning update_content_ok)
     (auto intro!: start_reasoning_ok dest: message_ok_reasoningD split: if_splits)

lemma sanitized_ok:
  "message_ok m \<Longrightarrow> role_of m = ASSISTANT \<Longrightarrow> message_ok (sanitized_message t m now)"
  using message_ok_flag[of _ "Some False"]
  by (auto simp: sanitized_message_def Let_def
      intro!: complete_timing_ok message_ok_flag message_ok_status update_content_ok finalize_ok)

lemma message_step_ok: "message_step m m' \<Longrightarrow> message_ok m \<Longrightarrow> message_ok m'"
  by (induction rule: message_step.induct)
     (auto simp: completeAssistantMessage_def applyChatCompletionChoice_def Let_def
       intro!: chunk_ok sanitized_ok update_content_ok complete_timing_ok message_ok_status
         finalize_ok)



section \<open>Repair on load\<close>

lemma last_pending_below_Some:
  "last_pending_below ms n = Some i \<Longrightarrow>
     i < n \<and> isPendingAssistantMessage (ms ! i)
     \<and> (\<forall>j. i < j \<longrightarrow> j < n \<longrightarrow> \<not> isPendingAssistantMessage (ms ! j))"
  by (induction n) (auto split: if_splits simp: less_Suc_eq)

lemma last_pending_below_None:
  "last_pending_below ms n = None \<longleftrightarrow> (\<forall>j<n. \<not> isPendingAssistantMessage (ms ! j))"
  by (induction n) (auto simp: less_Suc_eq)

lemma sanitized_final:
  "isAssistantMessageFinal (sanitized_message t m now)"
  "\<not> isAssistantMessagePending (sanitized_message t m now)"
  by (simp_all add: sanitized_message_def Let_def isAssistantMessageFinal_def
      isAssistantMessagePending_def)

lemma sanitized_fields [simp]:
  "key (sanitized_message t m now) = key m"
  "role_of (sanitized_message t m now) = role_of m"
  by (simp_all add: sanitized_message_def Let_def)

text \<open>Loading repairs exactly one stuck message.  When some assistant message is still
  loading or streaming, the last such message becomes final, keeps its key and its place, every
  other message is untouched, and the number of pending messages drops by one; stuck messages
  before it stay pending.\<close>

theorem sanitize_repairs_last:
  assumes "\<exists>m\<in>set ms. isPendingAssistantMessage m"
  shows "\<exists>i. i < length ms \<and> isPendingAssistantMessage (ms ! i)
    \<and> (\<forall>j. i < j \<and> j < length ms \<longrightarrow> \<not> isPendingAssistantMessage (ms ! j))
    \<and> sanitizeMessagesOnLoad t ms now = ms[i := sanitized_message t (ms ! i) now]
    \<and> isAssistantMessageFinal (sanitized_message t (ms ! i) now)
    \<and> key (sanitized_message t (ms ! i) now) = key (ms ! i)
    \<and> Suc (length (filter isPendingAssistantMessage (sanitizeMessagesOnLoad t ms now)))
         = length (filter isPendingAssistantMessage ms)"
proof -
  from assms obtain j where "j < length ms" "isPendingAssistantMessage (ms ! j)"
    by (metis in_set_conv_nth)
  then obtain i where i: "last_pending_below ms (length ms) = Some i"
    using last_pending_below_None[of ms "length ms"] by fastforce
  note b = last_pending_below_Some[OF i]
  have s: "sanitizeMessagesOnLoad t ms now = ms[i := sanitized_message t (ms ! i) now]"
    by (simp add: sanitizeMessagesOnLoad_def i)
  have "\<not> isPendingAssistantMessage (sanitized_message t (ms ! i) now)"
    by (simp add: isPendingAssistantMessage_def sanitized_final)
  with length_filter_update[of i ms isPendingAssistantMessage] b s sanitized_final(1)
  show ?thesis by auto
qed

theorem sanitize_repairs_last_witness:
  "length (filter isPendingAssistantMessage (sanitizeMessagesOnLoad id
     [createLoadingAssistantMessage (js ''a'') (js ''v'') 1,
      createLoadingAssistantMessage (js ''b'') (js ''w'') 2] 9)) = 1"
  using sanitize_repairs_last[of "[createLoadingAssistantMessage (js ''a'') (js ''v'') 1,
      createLoadingAssistantMessage (js ''b'') (js ''w'') 2]" id 9]
  by (auto simp: isPendingAssistantMessage_def isAssistantMessagePending_def)

end
