(* ===== verification/Playground_Conversation.thy ===== *)
theory Playground_Conversation
  imports Playground_Message_Laws
begin

text \<open>
  Operations on the list of messages of a conversation and what the message views show:
  \<open>message-update-utils.ts\<close>, \<open>conversation-message-utils.ts\<close>, \<open>message-content-utils.ts\<close>,
  \<open>message-action-utils.ts\<close>, \<open>message-editor-utils.ts\<close>, \<open>message-error-utils.ts\<close>,
  \<open>message-layout-utils.ts\<close>, and the request payload of \<open>streaming/payload-builder.ts\<close>.
\<close>

section \<open>Updating the last message (\<open>message-update-utils.ts\<close>)\<close>

definition updateLastAssistantMessage ::
  "Message list \<Rightarrow> (Message \<Rightarrow> Message) \<Rightarrow> Message list" where
  "updateLastAssistantMessage ms updater =
     (if ms = [] then ms
      else if role_of (last ms) \<noteq> ASSISTANT then ms
      else ms[length ms - 1 := updater (last ms)])"

definition updateAssistantMessageWithError ::
  "Message list \<Rightarrow> jsstring \<Rightarrow> jsstring option \<Rightarrow> jsstring option \<Rightarrow> int \<Rightarrow> Message list" where
  "updateAssistantMessageWithError ms errorMessage code title now =
     updateLastAssistantMessage ms (\<lambda>m.
       completeAssistantTiming
         ((updateCurrentVersionContent m
             (nullish title API_REQUEST_ERROR @ js '': '' @ errorMessage))
            \<lparr>status := Some ERROR, isReasoningStreaming := Some False,
             errorCode := Some (case code of None \<Rightarrow> None
                                | Some c \<Rightarrow> if c = [] then None else Some c)\<rparr>) now)"

section \<open>Conversation operations (\<open>conversation-message-utils.ts\<close>)\<close>

text \<open>Identifiers are drawn in the order of the calls: the user message, then the placeholder.\<close>

definition appendUserMessagePair ::
  "Message list \<Rightarrow> jsstring \<Rightarrow> jsstring \<times> jsstring \<Rightarrow> jsstring \<times> jsstring \<Rightarrow> int \<Rightarrow> Message list" where
  "appendUserMessagePair ms content ids ids' submitted =
     ms @ [createUserMessage (fst ids) (snd ids) content submitted,
           createLoadingAssistantMessage (fst ids') (snd ids') submitted]"

definition createRegeneratedMessages ::
  "Message list \<Rightarrow> jsstring \<Rightarrow> jsstring \<times> jsstring \<Rightarrow> int \<Rightarrow> Message list option" where
  "createRegeneratedMessages ms messageKey ids now =
     (case findIndex (\<lambda>m. key m = messageKey) ms of
        None \<Rightarrow> None
      | Some i \<Rightarrow>
          if role_of (ms ! i) = USER
          then Some (take (i + 1) ms @ [createLoadingAssistantMessage (fst ids) (snd ids) now])
          else Some (take i ms @ [createLoadingAssistantMessage (fst ids) (snd ids) now]))"

definition removeMessageByKey :: "Message list \<Rightarrow> jsstring \<Rightarrow> Message list" where
  "removeMessageByKey ms messageKey = filter (\<lambda>m. key m \<noteq> messageKey) ms"

text \<open>The loop reads \<open>messages[index]\<close> for every index below \<open>beforeIndex\<close>; an index past the end
  would read \<open>undefined\<close> and throw, so the caller passes at most the length.\<close>

fun getPreviousUserMessage :: "Message list \<Rightarrow> nat \<Rightarrow> Message option" where
  "getPreviousUserMessage ms 0 = None"
| "getPreviousUserMessage ms (Suc i) =
     (if role_of (ms ! i) = USER then Some (ms ! i) else getPreviousUserMessage ms i)"

record ApplyMessageEditResult =
  edit_messages :: "Message list"
  shouldSend :: bool

definition applyMessageEdit ::
  "Message list \<Rightarrow> jsstring \<Rightarrow> jsstring \<Rightarrow> bool \<Rightarrow> jsstring \<times> jsstring \<Rightarrow> int \<Rightarrow>
     ApplyMessageEditResult option" where
  "applyMessageEdit ms messageKey content shouldSubmit ids submitted =
     (case findIndex (\<lambda>m. key m = messageKey) ms of
        None \<Rightarrow> None
      | Some i \<Rightarrow>
          let updated = map (\<lambda>m. if key m = messageKey
                then (updateCurrentVersionContent m content)
                  \<lparr>createdAt := (if shouldSubmit then Some submitted else createdAt m)\<rparr>
                else m) ms
          in if \<not> shouldSubmit \<or> role_of (updated ! i) \<noteq> USER
             then Some \<lparr>edit_messages = updated, shouldSend = False\<rparr>
             else Some \<lparr>edit_messages = take (i + 1) updated
                   @ [createLoadingAssistantMessage (fst ids) (snd ids) submitted],
                 shouldSend = True\<rparr>)"

definition getEditingMessageContent :: "Message list \<Rightarrow> jsstring option \<Rightarrow> jsstring" where
  "getEditingMessageContent ms editingKey =
     (case editingKey of
        None \<Rightarrow> []
      | Some k \<Rightarrow>
          if k = [] then []
          else (case List.find (\<lambda>m. key m = k) ms of None \<Rightarrow> [] | Some m \<Rightarrow> getMessageContent m))"

record ChatMessageRenderState =
  alwaysShowActions :: bool
  render_content :: jsstring
  isEditing :: bool

definition getChatMessageRenderState ::
  "Message list \<Rightarrow> Message \<Rightarrow> nat \<Rightarrow> jsstring option \<Rightarrow> ChatMessageRenderState" where
  "getChatMessageRenderState ms m messageIndex editingKey =
     \<lparr>alwaysShowActions = (messageIndex + 1 = length ms \<and> role_of m = ASSISTANT),
      render_content = getMessageContent m, isEditing = (editingKey = Some (key m))\<rparr>"

section \<open>Views of a message\<close>

record MessageActionState =
  action_content :: jsstring
  action_hasContent :: bool
  action_isAssistant :: bool
  action_isLoading :: bool
  action_isUser :: bool

definition getMessageActionState :: "Message \<Rightarrow> MessageActionState" where
  "getMessageActionState m =
     \<lparr>action_content = getMessageContent m, action_hasContent = hasMessageContent m,
      action_isAssistant = (role_of m = ASSISTANT),
      action_isLoading = (status m = Some LOADING \<or> status m = Some STREAMING),
      action_isUser = (role_of m = USER)\<rparr>"

definition getMessageActionsVisibilityClass :: "bool \<Rightarrow> jsstring" where
  "getMessageActionsVisibilityClass alwaysVisible =
     (if alwaysVisible then js ''opacity-100''
      else js ''opacity-0 group-hover:opacity-100 max-md:opacity-100'')"

record MessageContentState =
  displayContent :: jsstring
  hasSources :: bool
  content_isAssistant :: bool
  showLoader :: bool
  showMessageContent :: bool
  content_sources :: "Source list"
  hasReasoning :: bool
  content_reasoning :: "jsstring option"

definition shouldShowMessageLoader :: "Message \<Rightarrow> bool \<Rightarrow> jsstring \<Rightarrow> bool" where
  "shouldShowMessageLoader m isAssistant versionContent \<longleftrightarrow>
     isAssistant \<and> isReasoningStreaming m \<noteq> Some True
     \<and> (status m = Some LOADING \<or> status m = Some STREAMING \<and> versionContent = [])"

definition shouldShowMessageContent :: "Message \<Rightarrow> jsstring \<Rightarrow> bool" where
  "shouldShowMessageContent m versionContent \<longleftrightarrow>
     (role_of m = USER \<or> isReasoningStreaming m \<noteq> Some True) \<and> versionContent \<noteq> []"

definition getDisplayContent :: "Message \<Rightarrow> jsstring \<Rightarrow> jsstring" where
  "getDisplayContent m versionContent =
     (if role_of m \<noteq> ASSISTANT then versionContent
      else if \<not> str_includes versionContent THINK then versionContent
      else visibleContent (parseThinkTags versionContent))"

definition getMessageContentState :: "Message \<Rightarrow> jsstring \<Rightarrow> MessageContentState" where
  "getMessageContentState m versionContent =
     (let isAssistant = (role_of m = ASSISTANT);
          srcs = nullish (sources m) [];
          reasoningContent =
            (if isAssistant then map_option reasoning_content (reasoning m) else None);
          base = \<lparr>displayContent = getDisplayContent m versionContent, hasSources = (srcs \<noteq> []),
            content_isAssistant = isAssistant,
            showLoader = shouldShowMessageLoader m isAssistant versionContent,
            showMessageContent = shouldShowMessageContent m versionContent,
            content_sources = srcs, hasReasoning = False, content_reasoning = None\<rparr>
      in case reasoningContent of
           None \<Rightarrow> base
         | Some r \<Rightarrow>
             if r = [] then base else base\<lparr>hasReasoning := True, content_reasoning := Some r\<rparr>)"

record MessageEditorState =
  canSave :: bool
  hasChanged :: bool
  showSaveAndSubmit :: bool

definition getMessageEditorState :: "Message \<Rightarrow> jsstring \<Rightarrow> jsstring \<Rightarrow> MessageEditorState" where
  "getMessageEditorState m editText originalText =
     (let hasText = (trim editText \<noteq> []); changed = (editText \<noteq> originalText) in
      \<lparr>canSave = (hasText \<and> changed), hasChanged = changed,
       showSaveAndSubmit = (role_of m = USER)\<rparr>)"

datatype MessageErrorKind = GenericError | ModelPriceError

record MessageErrorState =
  error_content :: jsstring
  error_kind :: MessageErrorKind
  showSettingsLink :: bool

definition isAdminRole :: "int option \<Rightarrow> bool" where
  "isAdminRole role \<longleftrightarrow> (case role of None \<Rightarrow> False | Some r \<Rightarrow> 10 \<le> r)"

definition isErrorMessage :: "Message \<Rightarrow> bool" where
  "isErrorMessage m \<longleftrightarrow> status m = Some ERROR"

definition getMessageErrorState :: "Message \<Rightarrow> bool \<Rightarrow> MessageErrorState option" where
  "getMessageErrorState m isAdmin =
     (if \<not> isErrorMessage m then None
      else let price = (errorCode m = Some (Some (js ''model_price_error''))) in
        Some \<lparr>error_content = str_or (getMessageContent m) (js ''An unknown error occurred''),
              error_kind = (if price then ModelPriceError else GenericError),
              showSettingsLink = (price \<and> isAdmin)\<rparr>)"

datatype MessageAlignment = AlignLeft | AlignRight

definition getMessageAlignment ::
  "Message \<Rightarrow> PlaygroundMessageLayoutMode \<Rightarrow> MessageAlignment" where
  "getMessageAlignment m layoutMode =
     (if layoutMode = LayoutLeft then AlignLeft
      else if role_of m = USER then AlignRight else AlignLeft)"

definition getMessageAlignmentClass :: "MessageAlignment \<Rightarrow> jsstring" where
  "getMessageAlignmentClass alignment =
     (if alignment = AlignRight then js ''items-end text-right'' else js ''items-start text-left'')"

section \<open>The request payload (\<open>payload-builder.ts\<close>)\<close>

definition buildChatCompletionPayload ::
  "Message list \<Rightarrow> 'n PlaygroundConfig \<Rightarrow> ParameterEnabled \<Rightarrow> 'n ChatCompletionRequest" where
  "buildChatCompletionPayload ms config enabled =
     \<lparr>req_model = cfg_model config, req_group = Some (cfg_group config),
      req_messages = map formatMessageForAPI (filter isValidMessage ms),
      req_stream = cfg_stream config,
      req_temperature = (if en_temperature enabled then Some (cfg_temperature config) else None),
      req_top_p = (if en_top_p enabled then Some (cfg_top_p config) else None),
      req_max_tokens = (if en_max_tokens enabled then Some (cfg_max_tokens config) else None),
      req_frequency_penalty =
        (if en_frequency_penalty enabled then Some (cfg_frequency_penalty config) else None),
      req_presence_penalty =
        (if en_presence_penalty enabled then Some (cfg_presence_penalty config) else None),
      req_seed = (if en_seed enabled then cfg_seed config else None)\<rparr>"

section \<open>Lemmas\<close>

lemma updateLast_length [simp]: "length (updateLastAssistantMessage ms f) = length ms"
  by (simp add: updateLastAssistantMessage_def)

lemma updateLast_butlast [simp]: "butlast (updateLastAssistantMessage ms f) = butlast ms"
  using updated_last[of ms] by (simp add: updateLastAssistantMessage_def)

lemma updateLast_last:
  "ms \<noteq> [] \<Longrightarrow> last (updateLastAssistantMessage ms f) =
     (if role_of (last ms) = ASSISTANT then f (last ms) else last ms)"
  using updated_last[of ms] by (simp add: updateLastAssistantMessage_def)

lemma updateLast_keys:
  "(\<And>m. key (f m) = key m) \<Longrightarrow> map key (updateLastAssistantMessage ms f) = map key ms"
  by (auto simp: updateLastAssistantMessage_def map_update last_conv_nth
      intro: list_update_same_conv[THEN iffD2])

lemma updateLast_snoc:
  "updateLastAssistantMessage (ms @ [m]) f = ms @ [if role_of m = ASSISTANT then f m else m]"
  by (simp add: updateLastAssistantMessage_def)

lemma map_key_edit:
  "map key (map (\<lambda>m. if key m = k then (updateCurrentVersionContent m s)\<lparr>createdAt := g m\<rparr> else m) ms)
     = map key ms"
  by (induction ms) auto

lemma findIndex_key:
  "findIndex (\<lambda>m. key m = k) ms = Some i \<Longrightarrow> i < length ms \<and> key (ms ! i) = k"
  using findIndex_Some by fastforce

section \<open>Every conversation keeps its keys distinct\<close>

text \<open>
  One step of the conversation: the operations of \<open>usePlaygroundConversation\<close>, each drawing
  identifiers that are not keys of the conversation, and the updates of the last message by the
  chat handler, none of which changes a key.
\<close>

inductive conversation_step :: "Message list \<Rightarrow> Message list \<Rightarrow> bool" where
  send: "fst a \<notin> key ` set ms \<Longrightarrow> fst b \<notin> key ` set ms \<Longrightarrow> fst a \<noteq> fst b \<Longrightarrow>
    conversation_step ms (appendUserMessagePair ms text a b now)"
| regenerate: "createRegeneratedMessages ms k a now = Some ms' \<Longrightarrow> fst a \<notin> key ` set ms \<Longrightarrow>
    conversation_step ms ms'"
| edit: "applyMessageEdit ms k text submit a now = Some r \<Longrightarrow> fst a \<notin> key ` set ms \<Longrightarrow>
    conversation_step ms (edit_messages r)"
| delete: "conversation_step ms (removeMessageByKey ms k)"
| chunk: "conversation_step ms
    (updateLastAssistantMessage ms (\<lambda>m. applyStreamingChunk m ty c now))"
| complete: "conversation_step ms
    (updateLastAssistantMessage ms (\<lambda>m. completeAssistantMessage m now))"
| fail: "conversation_step ms (updateAssistantMessageWithError ms err code title now)"

inductive conversation_reachable :: "Message list \<Rightarrow> bool" where
  fresh: "conversation_reachable []"
| more: "conversation_reachable ms \<Longrightarrow> conversation_step ms ms' \<Longrightarrow> conversation_reachable ms'"

lemma keys_take: "distinct (map key ms) \<Longrightarrow> k \<notin> key ` set ms \<Longrightarrow>
    distinct (map key (take i ms @ [createLoadingAssistantMessage k v n]))"
  by (auto simp: take_map[symmetric] dest: in_set_takeD)

lemma keys_take_as:
  assumes "map key us = map key ms" "distinct (map key ms)" "k \<notin> key ` set ms"
  shows "distinct (map key (take i us @ [createLoadingAssistantMessage k v n]))"
  using keys_take[of us k] assms by (metis list.set_map)

lemma regenerate_keys:
  "createRegeneratedMessages ms k a now = Some ms' \<Longrightarrow> distinct (map key ms) \<Longrightarrow>
     fst a \<notin> key ` set ms \<Longrightarrow> distinct (map key ms')"
  using keys_take[of ms "fst a"]
  by (auto simp del: map_append simp: createRegeneratedMessages_def
      split: option.splits if_splits)

lemma edit_keys:
  "applyMessageEdit ms k s b a now = Some r \<Longrightarrow> distinct (map key ms) \<Longrightarrow>
     fst a \<notin> key ` set ms \<Longrightarrow> distinct (map key (edit_messages r))"
  using keys_take_as[OF map_key_edit]
  by (auto simp del: map_append map_map simp: applyMessageEdit_def Let_def map_key_edit
      split: option.splits if_splits)

lemma complete_key [simp]: "key (completeAssistantMessage m now) = key m"
  by (simp add: completeAssistantMessage_def)

lemma error_keys: "map key (updateAssistantMessageWithError ms e c t now) = map key ms"
  by (simp add: updateAssistantMessageWithError_def updateLast_keys)

lemma conversation_step_keys:
  "conversation_step ms ms' \<Longrightarrow> distinct (map key ms) \<Longrightarrow> distinct (map key ms')"
proof (induction rule: conversation_step.induct)
  case (delete ms k)
  then show ?case by (simp add: removeMessageByKey_def distinct_map_filter)
qed (auto simp: appendUserMessagePair_def regenerate_keys edit_keys updateLast_keys error_keys)

text \<open>Message keys stay distinct.  Whatever a user does in a conversation (send, regenerate,
  edit with or without submitting, delete) and whatever the streamed answer does to the last
  message, no two messages share a key, provided the generated identifiers are not already in
  use.\<close>

theorem conversation_keys_distinct:
  assumes "conversation_reachable ms"
  shows "distinct (map key ms)"
  using assms by induction (simp_all add: conversation_step_keys)

theorem conversation_keys_distinct_witness:
  "distinct (map key (appendUserMessagePair [] (js ''hi'') (js ''a'', js ''v'') (js ''b'', js ''w'') 1))"
  by (rule conversation_keys_distinct,
      rule conversation_reachable.more[OF conversation_reachable.fresh],
      rule conversation_step.send) simp_all

section \<open>Editing and sending\<close>

text \<open>Saving and submitting an edited user message cuts the conversation after it.  The
  messages before it are unchanged, the message carries the new text, its key and the submission
  time, everything after it is replaced by one loading answer, and the edit asks for a new
  request.\<close>

theorem edit_and_submit:
  assumes "distinct (map key ms)" "i < length ms" "role_of (ms ! i) = USER"
  shows "\<exists>r m. applyMessageEdit ms (key (ms ! i)) text True ids now = Some r \<and> shouldSend r
    \<and> edit_messages r = take i ms @ [m, createLoadingAssistantMessage (fst ids) (snd ids) now]
    \<and> key m = key (ms ! i) \<and> role_of m = USER \<and> getMessageContent m = text
    \<and> createdAt m = Some now"
proof -
  let ?k = "key (ms ! i)"
  let ?f = "\<lambda>m. if key m = ?k then (updateCurrentVersionContent m text)\<lparr>createdAt := Some now\<rparr> else m"
  have other: "key (ms ! j) \<noteq> ?k" if "j < i" for j
    using assms that by (auto simp: distinct_conv_nth)
  have idx: "findIndex (\<lambda>m. key m = ?k) ms = Some i"
  proof (cases "findIndex (\<lambda>m. key m = ?k) ms")
    case None
    with assms(2) show ?thesis by (auto simp: findIndex_None_iff)
  next
    case (Some j)
    with findIndex_key[OF Some] assms(1,2) show ?thesis by (auto simp: distinct_conv_nth)
  qed
  have "take i (map ?f ms) = take i ms"
    using other assms(2) by (intro nth_equalityI) auto
  then have "take (i + 1) (map ?f ms) = take i ms @ [?f (ms ! i)]"
    using assms(2) by (simp add: take_Suc_conv_app_nth)
  with idx assms(2,3) show ?thesis by (simp add: applyMessageEdit_def cong: if_cong)
qed

theorem edit_and_submit_witness:
  "\<exists>r. applyMessageEdit [createUserMessage (js ''a'') (js ''v'') (js ''hi'') 1,
       createLoadingAssistantMessage (js ''b'') (js ''w'') 1] (js ''a'') (js ''yo'') True
       (js ''c'', js ''x'') 5 = Some r \<and> shouldSend r"
  using edit_and_submit[of "[createUserMessage (js ''a'') (js ''v'') (js ''hi'') 1,
       createLoadingAssistantMessage (js ''b'') (js ''w'') 1]" 0 "js ''yo''" "(js ''c'', js ''x'')" 5]
  by auto

lemma placeholder_invalid: "\<not> isValidMessage (createLoadingAssistantMessage k v n)"
  by (simp add: isValidMessage_def hasMessageContent_def trim_def)

lemma user_versions [simp]: "versions (createUserMessage k v s n) = [createMessageVersion v s]"
  by (simp add: createUserMessage_def)

lemma user_valid: "isValidMessage (createUserMessage k v s n)"
  by (simp add: isValidMessage_def)

text \<open>The request for a sent message ends with that message.  The payload built from the
  conversation with the new pair appended is the payload of the old conversation followed by the
  user's text; the empty placeholder is never sent, and no assistant message sent is blank.\<close>

theorem payload_after_send:
  "req_messages (buildChatCompletionPayload (appendUserMessagePair ms text a b now) cfg en) =
     req_messages (buildChatCompletionPayload ms cfg en)
       @ [\<lparr>api_role = USER, api_content = ContentText text\<rparr>]
   \<and> (\<nexists>m. m \<in> set (req_messages (buildChatCompletionPayload ms cfg en))
        \<and> api_role m = ASSISTANT \<and> trim (getTextContent (api_content m)) = [])"
  by (auto simp: buildChatCompletionPayload_def appendUserMessagePair_def placeholder_invalid
      user_valid formatMessageForAPI_def isValidMessage_def hasMessageContent_def
      getMessageContent_def[symmetric])

end
