(* ===== verification/Event_Machine.thy ===== *)
theory Event_Machine
  imports Js_Prelude
begin

text \<open>
  Components driven by events.  The stream controller, the chat handler, the persistence of the
  conversation, the session, a token refresh and a call of the HTTP client are all functions from an event
  and a state to a state; the order of the events is not known.  The locales state what such a component
  shows of one event, and derive what holds after any number of them: an invariant is kept, fuel runs out,
  a budget is not exceeded.  \<open>allowed\<close> restricts the events where a law needs it.
\<close>

locale kept_invariant =
  fixes step :: "'e \<Rightarrow> 's \<Rightarrow> 's"
    and ok :: "'s \<Rightarrow> bool"
    and allowed :: "'e \<Rightarrow> bool"
  assumes keeps: "allowed e \<Longrightarrow> ok s \<Longrightarrow> ok (step e s)"
begin

lemma run_kept: "ok s \<Longrightarrow> list_all allowed es \<Longrightarrow> ok (fold step es s)"
  by (induction es arbitrary: s) (simp_all add: keeps)

end

text \<open>Every event burns fuel; a component without fuel is settled.\<close>

locale bounded_machine = kept_invariant step ok "\<lambda>_. True" for step :: "'e \<Rightarrow> 's \<Rightarrow> 's" and ok +
  fixes fuel :: "'s \<Rightarrow> nat"
  assumes burns: "ok s \<Longrightarrow> fuel (step e s) \<le> fuel s - 1"
begin

lemma fuel_after: "ok s \<Longrightarrow> fuel (fold step es s) \<le> fuel s - length es"
proof (induction es arbitrary: s)
  case (Cons e es)
  have "ok (step e s)" by (rule keeps [OF TrueI Cons.prems])
  from Cons.IH [OF this] burns [OF Cons.prems, of e] show ?case by simp
qed simp

lemma exhausted: "ok s \<Longrightarrow> fuel s \<le> length es \<Longrightarrow> ok (fold step es s) \<and> fuel (fold step es s) = 0"
  using fuel_after [of s es] run_kept [of s es] by (simp add: list_all_iff)

end

text \<open>What was spent and what may still be spent never grow together.\<close>

locale budgeted_machine = kept_invariant +
  fixes spent :: "'s \<Rightarrow> nat" and credit :: "'s \<Rightarrow> nat"
  assumes spends: "allowed e \<Longrightarrow> ok s \<Longrightarrow> spent (step e s) + credit (step e s) \<le> spent s + credit s"
begin

lemma within_budget: "ok s \<Longrightarrow> list_all allowed es \<Longrightarrow> spent (fold step es s) \<le> spent s + credit s"
proof (induction es arbitrary: s)
  case (Cons e es)
  then have a: "allowed e" "list_all allowed es" by simp_all
  from Cons.IH [OF keeps [OF a(1) Cons.prems(1)] a(2)] spends [OF a(1) Cons.prems(1)] show ?case by simp
qed simp

end

end
