(* ===== verification/Generation_Guard.thy ===== *)
theory Generation_Guard
  imports Event_Machine
begin

text \<open>
  The contract of a generation counter.  The stream controller, the chat handler and the session
  refresh all number their asynchronous work: starting or cancelling bumps a counter, and every
  late event carries the number it was started under and is dropped when the counter has moved
  on.  The locale states that contract once and derives what a client may rely on: events of a
  superseded generation can be erased from any run without changing its result.
\<close>

locale generation_guard =
  fixes gen :: "'s \<Rightarrow> nat"
    and step :: "'e \<Rightarrow> 's \<Rightarrow> 's"
    and tag :: "'e \<Rightarrow> nat option"
  assumes stale: "tag e = Some g \<Longrightarrow> g \<noteq> gen s \<Longrightarrow> step e s = s"
    and mono: "gen s \<le> gen (step e s)"

text \<open>A generation that was reached is never left again.\<close>

sublocale generation_guard < later: kept_invariant step "\<lambda>s. n \<le> gen s" "\<lambda>_. True" for n
  by unfold_locales (use mono order_trans in blast)

context generation_guard
begin

lemma run_mono: "gen s \<le> gen (fold step es s)"
  by (rule later.run_kept) (simp_all add: list_all_iff)

lemma stale_run:
  assumes "\<And>e. e \<in> set es \<Longrightarrow> \<exists>g. tag e = Some g \<and> g < gen s"
  shows "fold step es s = s"
  using assms
proof (induction es)
  case (Cons e es)
  then obtain g where "tag e = Some g" "g < gen s" by auto
  then have "step e s = s" by (intro stale[of e g]) simp_all
  with Cons show ?case by simp
qed simp

lemma superseded_erasable:
  "g < gen s \<Longrightarrow> fold step es s = fold step (filter (\<lambda>e. tag e \<noteq> Some g) es) s"
proof (induction es arbitrary: s)
  case (Cons e es)
  have "g < gen (step e s)" using Cons.prems mono less_le_trans by blast
  note ih = Cons.IH[OF this]
  show ?case
  proof (cases "tag e = Some g")
    case True
    with Cons.prems have "step e s = s" by (intro stale[of e g]) simp_all
    with ih True show ?thesis by simp
  qed (use ih in simp)
qed simp

end

end
