(* ===== verification/Playground_Stream.thy ===== *)
theory Playground_Stream
  imports Playground_Conversation Generation_Guard
begin

text \<open>
  Streaming: \<open>stream-utils.ts\<close>, \<open>request-error-utils.ts\<close> and the controller
  \<open>createStreamRequestController\<close> of \<open>use-stream-request.ts\<close>.  \<open>JSON.parse\<close> followed by the type
  assertion of the source is a parameter that returns \<open>None\<close> where the call throws; the theorems
  hold for every such function.  A request is named by its \<open>requestGeneration\<close>, and so is the
  event source it opens, since a request opens at most one.
\<close>

section \<open>Stream messages (\<open>stream-utils.ts\<close>)\<close>

record StreamMessageUpdate =
  update_type :: StreamChunkType
  update_chunk :: jsstring

text \<open>A chunk: its \<open>choices\<close> may be missing, and so may the \<open>delta\<close> of the first one.\<close>

record ChatCompletionChunk =
  chunk_choices :: "ChunkDelta option list option"

record StreamError =
  stream_error_code :: "jsstring option"
  stream_error_message :: "jsstring option"

record StreamErrorPayload =
  payload_error :: "StreamError option"

record StreamErrorDetails =
  details_code :: "jsstring option"
  details_message :: jsstring

definition STREAM_DONE_MESSAGE :: jsstring where
  "STREAM_DONE_MESSAGE = js ''[DONE]''"

definition STREAM_CLOSED_READY_STATE :: int where
  "STREAM_CLOSED_READY_STATE = 2"

text \<open>\<open>s || undefined\<close> on an optional string.\<close>

definition truthy :: "jsstring option \<Rightarrow> jsstring option" where
  "truthy s = (if s = Some [] then None else s)"

definition parseStreamErrorDetails ::
  "(jsstring \<Rightarrow> StreamErrorPayload option) \<Rightarrow> jsstring option \<Rightarrow> StreamErrorDetails" where
  "parseStreamErrorDetails parse data =
     (case truthy data of
        None \<Rightarrow> \<lparr>details_code = None, details_message = API_REQUEST_ERROR\<rparr>
      | Some d \<Rightarrow>
          (case Option.bind (parse d) payload_error of
             None \<Rightarrow> \<lparr>details_code = None, details_message = d\<rparr>
           | Some e \<Rightarrow> \<lparr>details_code = truthy (stream_error_code e),
                        details_message = opt_str_or (stream_error_message e) d\<rparr>))"

definition first_delta :: "ChatCompletionChunk \<Rightarrow> ChunkDelta option" where
  "first_delta c = (case chunk_choices c of Some (d # _) \<Rightarrow> d | _ \<Rightarrow> None)"

definition push_update :: "StreamChunkType \<Rightarrow> jsstring option \<Rightarrow> StreamMessageUpdate list" where
  "push_update ty s =
     (case truthy s of None \<Rightarrow> [] | Some c \<Rightarrow> [\<lparr>update_type = ty, update_chunk = c\<rparr>])"

definition parseStreamMessageUpdates ::
  "(jsstring \<Rightarrow> ChatCompletionChunk option) \<Rightarrow> jsstring \<Rightarrow> StreamMessageUpdate list option" where
  "parseStreamMessageUpdates parse data =
     (case parse data of
        None \<Rightarrow> None
      | Some chunk \<Rightarrow>
          (case first_delta chunk of
             None \<Rightarrow> Some []
           | Some delta \<Rightarrow> Some (push_update ReasoningChunk (delta_reasoning_content delta)
                                @ push_update ContentChunk (delta_content delta))))"

definition isStreamDoneMessage :: "jsstring \<Rightarrow> bool" where
  "isStreamDoneMessage data \<longleftrightarrow> data = STREAM_DONE_MESSAGE"

definition isStreamClosedReadyState :: "int option \<Rightarrow> bool" where
  "isStreamClosedReadyState readyState \<longleftrightarrow> readyState = Some STREAM_CLOSED_READY_STATE"

definition getStreamReadyStateError :: "int option \<Rightarrow> int option \<Rightarrow> jsstring option" where
  "getStreamReadyStateError eventReadyState status_code =
     (case (eventReadyState, status_code) of
        (Some r, Some st) \<Rightarrow>
          if STREAM_CLOSED_READY_STATE \<le> r \<and> st \<noteq> 200
          then Some (js ''HTTP '' @ dec_int st @ js '': '' @ CONNECTION_CLOSED) else None
      | _ \<Rightarrow> None)"

section \<open>Request errors (\<open>request-error-utils.ts\<close>)\<close>

record RequestErrorData =
  data_error_code :: "jsstring option"
  data_message :: "jsstring option"

text \<open>\<open>error?.message\<close> and \<open>error?.response?.data\<close> of the value thrown.\<close>

record RequestErrorLike =
  request_message :: "jsstring option"
  response_data :: "RequestErrorData option"

definition parseRequestErrorDetails :: "RequestErrorLike \<Rightarrow> StreamErrorDetails" where
  "parseRequestErrorDetails e =
     \<lparr>details_code = truthy (Option.bind (response_data e) data_error_code),
      details_message =
        opt_str_or (Option.bind (response_data e) data_message)
          (opt_str_or (request_message e) API_REQUEST_ERROR)\<rparr>"

section \<open>The stream request controller (\<open>use-stream-request.ts\<close>)\<close>

datatype StreamCallback =
    OnUpdate StreamChunkType jsstring
  | OnComplete
  | OnError jsstring "jsstring option"

text \<open>
  \<open>ctl_source\<close> and \<open>ctl_generation\<close> are the two variables of the closure, \<open>ctl_streaming\<close> the last
  value given to \<open>runtime.setStreaming\<close>.  \<open>ctl_completed\<close> holds the requests whose local
  \<open>completed\<close> is true.  \<open>ctl_awaiting\<close> is the latest request still suspended at
  \<open>await runtime.getHeaders()\<close>; a promise settles once.  \<open>ctl_opened\<close>, \<open>ctl_closed\<close> and \<open>ctl_log\<close>
  record the calls of \<open>createSource\<close>, \<open>close\<close> and the callbacks, in order.
\<close>

record StreamController =
  ctl_source :: "nat option"
  ctl_generation :: nat
  ctl_streaming :: bool
  ctl_completed :: "nat list"
  ctl_awaiting :: "nat option"
  ctl_opened :: "nat list"
  ctl_closed :: "nat list"
  ctl_log :: "(nat \<times> StreamCallback) list"

definition createStreamRequestController :: StreamController where
  "createStreamRequestController =
     \<lparr>ctl_source = None, ctl_generation = 0, ctl_streaming = False, ctl_completed = [],
      ctl_awaiting = None, ctl_opened = [], ctl_closed = [], ctl_log = []\<rparr>"

definition close_source :: "nat \<Rightarrow> StreamController \<Rightarrow> StreamController" where
  "close_source g s = s\<lparr>ctl_closed := ctl_closed s @ [g]\<rparr>"

definition close_optional :: "nat option \<Rightarrow> StreamController \<Rightarrow> StreamController" where
  "close_optional src s = (case src of None \<Rightarrow> s | Some g \<Rightarrow> close_source g s)"

definition callback :: "nat \<Rightarrow> StreamCallback \<Rightarrow> StreamController \<Rightarrow> StreamController" where
  "callback g c s = s\<lparr>ctl_log := ctl_log s @ [(g, c)]\<rparr>"

definition closeActiveSource :: "nat \<Rightarrow> StreamController \<Rightarrow> StreamController" where
  "closeActiveSource g s =
     (let s' = close_source g s in
      if ctl_source s' = Some g then s'\<lparr>ctl_source := None, ctl_streaming := False\<rparr> else s')"

text \<open>\<open>send\<close> up to its \<open>await\<close>.\<close>

definition send_start :: "StreamController \<Rightarrow> StreamController" where
  "send_start s =
     (let g = ctl_generation s + 1; previous = ctl_source s in
      (close_optional previous (s\<lparr>ctl_generation := g, ctl_source := None\<rparr>))
        \<lparr>ctl_streaming := False, ctl_awaiting := Some g\<rparr>)"

text \<open>The \<open>catch\<close> of the \<open>await\<close>: the message when the value thrown is an \<open>Error\<close>.\<close>

definition send_headers_failed :: "nat \<Rightarrow> jsstring option \<Rightarrow> StreamController \<Rightarrow> StreamController" where
  "send_headers_failed g err s =
     (if ctl_generation s \<noteq> g \<or> ctl_awaiting s \<noteq> Some g then s
      else callback g (OnError (nullish err STREAM_START_ERROR) None) (s\<lparr>ctl_awaiting := None\<rparr>))"

definition send_headers_ready :: "nat \<Rightarrow> StreamController \<Rightarrow> StreamController" where
  "send_headers_ready g s =
     (if ctl_generation s \<noteq> g \<or> ctl_awaiting s \<noteq> Some g then s
      else s\<lparr>ctl_awaiting := None, ctl_opened := ctl_opened s @ [g], ctl_source := Some g,
             ctl_streaming := True\<rparr>)"

definition isCurrent :: "nat \<Rightarrow> StreamController \<Rightarrow> bool" where
  "isCurrent g s \<longleftrightarrow> ctl_generation s = g \<and> ctl_source s = Some g"

definition ignores :: "nat \<Rightarrow> StreamController \<Rightarrow> bool" where
  "ignores g s \<longleftrightarrow> \<not> isCurrent g s \<or> g \<in> set (ctl_completed s)"

definition mark_completed :: "nat \<Rightarrow> StreamController \<Rightarrow> StreamController" where
  "mark_completed g s = s\<lparr>ctl_completed := g # ctl_completed s\<rparr>"

definition handleError ::
  "nat \<Rightarrow> jsstring \<Rightarrow> jsstring option \<Rightarrow> StreamController \<Rightarrow> StreamController" where
  "handleError g msg code s =
     (if ignores g s then s
      else closeActiveSource g (callback g (OnError msg code) (mark_completed g s)))"

definition emit_update :: "nat \<Rightarrow> StreamMessageUpdate \<Rightarrow> StreamController \<Rightarrow> StreamController" where
  "emit_update g u s = callback g (OnUpdate (update_type u) (update_chunk u)) s"

definition on_message ::
  "(jsstring \<Rightarrow> ChatCompletionChunk option) \<Rightarrow> nat \<Rightarrow> jsstring option \<Rightarrow> StreamController \<Rightarrow>
     StreamController" where
  "on_message parse g event_data s =
     (if ignores g s then s
      else let data = nullish event_data [] in
        if isStreamDoneMessage data
        then callback g OnComplete (closeActiveSource g (mark_completed g s))
        else (case parseStreamMessageUpdates parse data of
                None \<Rightarrow> handleError g PARSE_ERROR None s
              | Some us \<Rightarrow> fold (emit_update g) us s))"

definition on_error ::
  "(jsstring \<Rightarrow> StreamErrorPayload option) \<Rightarrow> nat \<Rightarrow> int option \<Rightarrow> jsstring option \<Rightarrow>
     StreamController \<Rightarrow> StreamController" where
  "on_error parse g readyState event_data s =
     (if ignores g s then s
      else if isStreamClosedReadyState readyState then s
      else let d = parseStreamErrorDetails parse event_data in
        handleError g (details_message d) (details_code d) s)"

definition on_readystatechange ::
  "nat \<Rightarrow> int option \<Rightarrow> int option \<Rightarrow> StreamController \<Rightarrow> StreamController" where
  "on_readystatechange g eventReadyState status_code s =
     (if ignores g s then s
      else (case getStreamReadyStateError eventReadyState status_code of
              None \<Rightarrow> s
            | Some msg \<Rightarrow> if msg = [] then s else handleError g msg None s))"

text \<open>The \<open>catch\<close> around \<open>nextSource.stream()\<close>.\<close>

definition stream_threw :: "nat \<Rightarrow> StreamController \<Rightarrow> StreamController" where
  "stream_threw g s = (if ignores g s then s else handleError g STREAM_START_ERROR None s)"

definition cancel :: "bool \<Rightarrow> StreamController \<Rightarrow> StreamController" where
  "cancel notify s =
     (let active = ctl_source s;
          s' = close_optional active (s\<lparr>ctl_generation := ctl_generation s + 1, ctl_source := None\<rparr>)
      in if notify then s'\<lparr>ctl_streaming := False\<rparr> else s')"

definition stop :: "StreamController \<Rightarrow> StreamController" where
  "stop s = cancel True s"

definition dispose :: "StreamController \<Rightarrow> StreamController" where
  "dispose s = cancel False s"

section \<open>Runs of the controller\<close>

datatype ControllerEvent =
    Send
  | HeadersFailed nat "jsstring option"
  | HeadersReady nat
  | SourceMessage nat "jsstring option"
  | SourceError nat "int option" "jsstring option"
  | SourceReadyState nat "int option" "int option"
  | StreamThrew nat
  | Stop
  | Dispose

fun controller_step ::
  "(jsstring \<Rightarrow> ChatCompletionChunk option) \<Rightarrow> (jsstring \<Rightarrow> StreamErrorPayload option) \<Rightarrow>
     ControllerEvent \<Rightarrow> StreamController \<Rightarrow> StreamController" where
  "controller_step pc pe Send s = send_start s"
| "controller_step pc pe (HeadersFailed g err) s = send_headers_failed g err s"
| "controller_step pc pe (HeadersReady g) s = send_headers_ready g s"
| "controller_step pc pe (SourceMessage g d) s = on_message pc g d s"
| "controller_step pc pe (SourceError g r d) s = on_error pe g r d s"
| "controller_step pc pe (SourceReadyState g r st) s = on_readystatechange g r st s"
| "controller_step pc pe (StreamThrew g) s = stream_threw g s"
| "controller_step pc pe Stop s = stop s"
| "controller_step pc pe Dispose s = dispose s"

fun event_request :: "ControllerEvent \<Rightarrow> nat option" where
  "event_request (HeadersFailed g _) = Some g"
| "event_request (HeadersReady g) = Some g"
| "event_request (SourceMessage g _) = Some g"
| "event_request (SourceError g _ _) = Some g"
| "event_request (SourceReadyState g _ _) = Some g"
| "event_request (StreamThrew g) = Some g"
| "event_request _ = None"

definition controller_run ::
  "(jsstring \<Rightarrow> ChatCompletionChunk option) \<Rightarrow> (jsstring \<Rightarrow> StreamErrorPayload option) \<Rightarrow>
     ControllerEvent list \<Rightarrow> StreamController" where
  "controller_run pc pe es = fold (controller_step pc pe) es createStreamRequestController"

end
