(* ===== verification/Playground_Stream_Laws.thy ===== *)
theory Playground_Stream_Laws
  imports Playground_Stream
begin

text \<open>
  What the stream controller guarantees its client: an ordered protocol of callbacks for every
  request, no callback of a superseded request, no leaked event source and a streaming flag that
  tells whether a source is open.  The controller is an instance of the generation contract.
\<close>

section \<open>Superseded requests are silent\<close>

lemma generation_simps [simp]:
  "ctl_generation (callback g c s) = ctl_generation s"
  "ctl_generation (close_source g s) = ctl_generation s"
  "ctl_generation (close_optional src s) = ctl_generation s"
  "ctl_generation (mark_completed g s) = ctl_generation s"
  "ctl_generation (closeActiveSource g s) = ctl_generation s"
  "ctl_generation (handleError g m code s) = ctl_generation s"
  by (simp_all add: callback_def close_source_def close_optional_def mark_completed_def
      closeActiveSource_def handleError_def Let_def split: option.splits)

lemma generation_emit [simp]: "ctl_generation (fold (emit_update g) us s) = ctl_generation s"
  by (induction us arbitrary: s) (simp_all add: emit_update_def)

lemmas controller_defs = send_start_def send_headers_failed_def send_headers_ready_def
  on_message_def on_error_def on_readystatechange_def stream_threw_def cancel_def stop_def
  dispose_def Let_def

interpretation stream_guard: generation_guard ctl_generation "controller_step pc pe" event_request
  for pc pe
proof
  fix e :: ControllerEvent and g :: nat and s :: StreamController
  show "event_request e = Some g \<Longrightarrow> g \<noteq> ctl_generation s \<Longrightarrow> controller_step pc pe e s = s"
    by (cases e) (auto simp: controller_defs ignores_def isCurrent_def)
next
  fix s :: StreamController and e :: ControllerEvent
  show "ctl_generation s \<le> ctl_generation (controller_step pc pe e s)"
    by (cases e) (auto simp: controller_defs split: option.splits)
qed

section \<open>The invariant\<close>

fun terminal :: "StreamCallback \<Rightarrow> bool" where
  "terminal (OnUpdate _ _) = False"
| "terminal OnComplete = True"
| "terminal (OnError _ _) = True"

definition callbacks_of :: "nat \<Rightarrow> (nat \<times> StreamCallback) list \<Rightarrow> StreamCallback list" where
  "callbacks_of g l = map snd (filter (\<lambda>p. fst p = g) l)"

definition open_log :: "nat \<Rightarrow> (nat \<times> StreamCallback) list \<Rightarrow> bool" where
  "open_log g l \<longleftrightarrow> (\<forall>c\<in>set (callbacks_of g l). \<not> terminal c)"

definition protocol :: "(nat \<times> StreamCallback) list \<Rightarrow> bool" where
  "protocol l \<longleftrightarrow> (\<forall>g. \<forall>c\<in>set (butlast (callbacks_of g l)). \<not> terminal c)"

definition controller_ok :: "StreamController \<Rightarrow> bool" where
  "controller_ok s \<longleftrightarrow>
     (\<forall>g. ctl_source s = Some g \<longrightarrow>
        g = ctl_generation s \<and> g \<in> set (ctl_opened s) \<and> g \<notin> set (ctl_closed s)
        \<and> g \<notin> set (ctl_completed s) \<and> ctl_streaming s \<and> ctl_awaiting s \<noteq> Some g
        \<and> open_log g (ctl_log s))
   \<and> (\<forall>g. ctl_awaiting s = Some g \<longrightarrow>
        g \<le> ctl_generation s \<and> g \<notin> set (ctl_opened s) \<and> g \<notin> set (ctl_closed s)
        \<and> g \<notin> set (ctl_completed s) \<and> open_log g (ctl_log s))
   \<and> (\<forall>g\<in>set (ctl_opened s). g \<le> ctl_generation s
        \<and> (g \<in> set (ctl_closed s) \<or> ctl_source s = Some g))
   \<and> (\<forall>g\<in>set (ctl_closed s) \<union> set (ctl_completed s). g \<le> ctl_generation s)
   \<and> (\<forall>g\<in>fst ` set (ctl_log s). g \<le> ctl_generation s)
   \<and> distinct (ctl_opened s) \<and> distinct (ctl_closed s) \<and> protocol (ctl_log s)"

lemma callbacks_of_snoc [simp]:
  "callbacks_of g (l @ [(h, c)]) = callbacks_of g l @ (if h = g then [c] else [])"
  by (simp add: callbacks_of_def)

lemma open_log_snoc: "open_log g (l @ [(h, c)]) \<longleftrightarrow> open_log g l \<and> (h = g \<longrightarrow> \<not> terminal c)"
  by (auto simp: open_log_def)

lemma protocol_snoc: "protocol l \<Longrightarrow> open_log g l \<Longrightarrow> protocol (l @ [(g, c)])"
  by (auto simp: protocol_def open_log_def)

lemma fresh_open_log: "g \<notin> fst ` set l \<Longrightarrow> open_log g l"
  by (force simp: open_log_def callbacks_of_def)

lemma Suc_fresh: "\<forall>g\<in>A. g \<le> n \<Longrightarrow> Suc n \<notin> A"
  by auto

lemma ok_bump:
  assumes "controller_ok s"
  shows "controller_ok (close_optional (ctl_source s)
           (s\<lparr>ctl_generation := ctl_generation s + 1, ctl_source := None\<rparr>))"
proof (cases "ctl_source s")
  case None
  with assms show ?thesis
    by (auto simp: controller_ok_def close_optional_def intro: le_SucI)
next
  case (Some g)
  with assms show ?thesis
    by (auto simp: controller_ok_def close_optional_def close_source_def intro: le_SucI)
qed

lemma ok_flag: "controller_ok s \<Longrightarrow> ctl_source s = None \<Longrightarrow> controller_ok (s\<lparr>ctl_streaming := b\<rparr>)"
  by (simp add: controller_ok_def)

lemma ok_await:
  assumes "controller_ok s" "ctl_source s = None" "g = ctl_generation s"
    "g \<notin> set (ctl_opened s) \<union> set (ctl_closed s) \<union> set (ctl_completed s) \<union> fst ` set (ctl_log s)"
  shows "controller_ok (s\<lparr>ctl_awaiting := Some g\<rparr>)"
  using assms fresh_open_log[of g "ctl_log s"] by (simp add: controller_ok_def)

lemma close_optional_fields [simp]:
  "ctl_source (close_optional src s) = ctl_source s"
  "ctl_opened (close_optional src s) = ctl_opened s"
  "ctl_completed (close_optional src s) = ctl_completed s"
  "ctl_log (close_optional src s) = ctl_log s"
  "set (ctl_closed (close_optional src s)) = set (ctl_closed s) \<union> set_option src"
  by (auto simp: close_optional_def close_source_def split: option.splits)

lemma ok_cancel: "controller_ok s \<Longrightarrow> controller_ok (cancel b s)"
  by (simp add: cancel_def Let_def ok_bump[simplified] ok_flag)

lemma ok_send:
  assumes "controller_ok s"
  shows "controller_ok (send_start s)"
proof -
  have "Suc (ctl_generation s) \<notin> set (ctl_opened s) \<union> set (ctl_closed s)
      \<union> set (ctl_completed s) \<union> fst ` set (ctl_log s) \<union> set_option (ctl_source s)"
    using assms by (intro Suc_fresh) (auto simp: controller_ok_def)
  then show ?thesis
    unfolding send_start_def Let_def
    by (intro ok_await ok_flag ok_bump[OF assms]) auto
qed

lemma ok_headers_failed: "controller_ok s \<Longrightarrow> controller_ok (send_headers_failed g err s)"
  unfolding controller_ok_def send_headers_failed_def callback_def
  by (auto simp: open_log_snoc protocol_snoc)

lemma ok_headers_ready: "controller_ok s \<Longrightarrow> controller_ok (send_headers_ready g s)"
  unfolding controller_ok_def send_headers_ready_def
  by auto

lemma ok_update: "controller_ok s \<Longrightarrow> \<not> ignores g s \<Longrightarrow>
    controller_ok (emit_update g u s) \<and> \<not> ignores g (emit_update g u s)"
  unfolding controller_ok_def emit_update_def callback_def ignores_def isCurrent_def
  by (auto simp: open_log_snoc protocol_snoc)

lemma ok_updates: "controller_ok s \<Longrightarrow> \<not> ignores g s \<Longrightarrow> controller_ok (fold (emit_update g) us s)"
  by (induction us arbitrary: s) (simp_all add: ok_update)

lemma ok_error: "controller_ok s \<Longrightarrow> controller_ok (handleError g m c s)"
  unfolding controller_ok_def handleError_def ignores_def isCurrent_def closeActiveSource_def
    callback_def mark_completed_def close_source_def Let_def
  by (auto simp: open_log_snoc protocol_snoc)

lemma ok_done: "controller_ok s \<Longrightarrow> \<not> ignores g s \<Longrightarrow>
    controller_ok (callback g OnComplete (closeActiveSource g (mark_completed g s)))"
  unfolding controller_ok_def ignores_def isCurrent_def closeActiveSource_def
    callback_def mark_completed_def close_source_def Let_def
  by (auto simp: open_log_snoc protocol_snoc)

lemmas controller_ok_rules = ok_send ok_cancel ok_headers_failed ok_headers_ready ok_updates
  ok_error ok_done

lemma controller_step_ok: "controller_ok s \<Longrightarrow> controller_ok (controller_step pc pe e s)"
  by (cases e) (auto simp: stop_def dispose_def on_message_def on_error_def Let_def
      on_readystatechange_def stream_threw_def intro!: controller_ok_rules split: option.splits)

lemma controller_init_ok: "controller_ok createStreamRequestController"
  by (simp add: controller_ok_def createStreamRequestController_def protocol_def callbacks_of_def)

interpretation stream_ok: kept_invariant "controller_step pc pe" controller_ok "\<lambda>_. True" for pc pe
  by unfold_locales (rule controller_step_ok)

lemma controller_run_ok: "controller_ok (controller_run pc pe es)"
  unfolding controller_run_def by (rule stream_ok.run_kept [OF controller_init_ok]) (simp add: list_all_iff)

section \<open>Properties\<close>

text \<open>C1: The callback protocol.  Whatever the sources, the header promises and the user do, in
  any order, each request gets some updates and then at most one terminal callback, completion or
  error, and nothing after it.\<close>

theorem stream_protocol:
  "filter terminal (butlast (callbacks_of g (ctl_log (controller_run pc pe es)))) = []"
  using controller_run_ok[of pc pe es]
  by (simp add: controller_ok_def protocol_def filter_empty_conv)

lemma log_simps [simp]:
  "ctl_log (callback g c s) = ctl_log s @ [(g, c)]"
  "ctl_log (mark_completed g s) = ctl_log s"
  "ctl_log (closeActiveSource g s) = ctl_log s"
  by (simp_all add: callback_def mark_completed_def closeActiveSource_def close_source_def Let_def)

lemma log_emit [simp]:
  "h \<noteq> g \<Longrightarrow> callbacks_of g (ctl_log (fold (emit_update h) us s)) = callbacks_of g (ctl_log s)"
  by (induction us arbitrary: s) (simp_all add: emit_update_def)

lemma log_other:
  "event_request e \<noteq> Some g \<Longrightarrow>
     callbacks_of g (ctl_log (controller_step pc pe e s)) = callbacks_of g (ctl_log s)"
  by (cases e) (auto simp: controller_defs handleError_def split: option.splits)

lemma log_others:
  "(\<And>e. e \<in> set es \<Longrightarrow> event_request e \<noteq> Some g) \<Longrightarrow>
     callbacks_of g (ctl_log (fold (controller_step pc pe) es s)) = callbacks_of g (ctl_log s)"
  by (induction es arbitrary: s) (simp_all add: log_other)

text \<open>A superseded request is silent.  Once a later \<open>send\<close>, \<open>stop\<close> or \<open>dispose\<close> has moved the
  generation past a request, no callback of that request runs any more, and its late events
  (headers, messages, errors) can be erased without changing anything in the controller.\<close>

theorem superseded_request_silent:
  assumes "g < ctl_generation (controller_run pc pe es)"
  shows "callbacks_of g (ctl_log (controller_run pc pe (es @ fs)))
       = callbacks_of g (ctl_log (controller_run pc pe es))
     \<and> controller_run pc pe (es @ fs)
       = controller_run pc pe (es @ filter (\<lambda>e. event_request e \<noteq> Some g) fs)"
proof -
  let ?s = "controller_run pc pe es" and ?fs = "filter (\<lambda>e. event_request e \<noteq> Some g) fs"
  have app: "controller_run pc pe (es @ xs) = fold (controller_step pc pe) xs ?s" for xs
    by (simp add: controller_run_def)
  have "fold (controller_step pc pe) fs ?s = fold (controller_step pc pe) ?fs ?s"
    by (rule stream_guard.superseded_erasable[OF assms])
  moreover have "callbacks_of g (ctl_log (fold (controller_step pc pe) ?fs ?s))
      = callbacks_of g (ctl_log ?s)"
    by (rule log_others) auto
  ultimately show ?thesis unfolding app by simp
qed

theorem superseded_request_silent_witness:
  "callbacks_of 1 (ctl_log (controller_run (\<lambda>_. None) (\<lambda>_. None)
     ([Send, HeadersReady 1, Stop] @ [SourceMessage 1 (Some (js ''[DONE]''))]))) = []"
  using superseded_request_silent[of 1 "\<lambda>_. None" "\<lambda>_. None" "[Send, HeadersReady 1, Stop]"
      "[SourceMessage 1 (Some (js ''[DONE]''))]"]
  by (simp add: controller_run_def createStreamRequestController_def controller_defs
      close_optional_def close_source_def callbacks_of_def)

definition flag_ok :: "StreamController \<Rightarrow> bool" where
  "flag_ok s \<longleftrightarrow> (ctl_streaming s \<longrightarrow> ctl_source s \<noteq> None)"

lemma flag_emit [simp]: "flag_ok (fold (emit_update g) us s) = flag_ok s"
  by (induction us arbitrary: s) (simp_all add: emit_update_def callback_def flag_ok_def)

lemma flag_close [simp]:
  "flag_ok (callback g c s) = flag_ok s" "flag_ok (mark_completed g s) = flag_ok s"
  "flag_ok s \<Longrightarrow> flag_ok (closeActiveSource g s)"
  by (simp_all add: flag_ok_def callback_def mark_completed_def closeActiveSource_def
      close_source_def Let_def)

lemma flag_error [simp]: "flag_ok s \<Longrightarrow> flag_ok (handleError g m c s)"
  by (simp add: handleError_def)

lemma flag_fields: "\<not> ctl_streaming s \<Longrightarrow> flag_ok s" "ctl_source s = Some g \<Longrightarrow> flag_ok s"
  by (simp_all add: flag_ok_def)

lemma flag_await: "flag_ok (s\<lparr>ctl_awaiting := a\<rparr>) = flag_ok s"
  by (simp add: flag_ok_def)

lemma flag_step: "flag_ok s \<Longrightarrow> e \<noteq> Dispose \<Longrightarrow> flag_ok (controller_step pc pe e s)"
  by (cases e) (auto simp: controller_defs flag_await intro: flag_fields split: option.splits)

interpretation stream_flag: kept_invariant "controller_step pc pe" flag_ok "\<lambda>e. e \<noteq> Dispose" for pc pe
  by unfold_locales (rule flag_step)

text \<open>No event source leaks.  At every moment the sources opened and not yet closed are
  exactly the active one, no source is closed twice, and as long as the controller is not
  disposed the streaming flag is set exactly while a source is active.\<close>

theorem no_source_leak:
  "set (ctl_opened (controller_run pc pe es)) - set (ctl_closed (controller_run pc pe es))
     = set_option (ctl_source (controller_run pc pe es))
   \<and> distinct (ctl_closed (controller_run pc pe es))
   \<and> (Dispose \<notin> set es \<longrightarrow>
        ctl_streaming (controller_run pc pe es) = (ctl_source (controller_run pc pe es) \<noteq> None))"
proof -
  let ?s = "controller_run pc pe es"
  have ok: "controller_ok ?s" by (rule controller_run_ok)
  have "Dispose \<notin> set es \<longrightarrow> flag_ok ?s"
    using stream_flag.run_kept [OF flag_fields(1), of createStreamRequestController es pc pe]
    by (auto simp: controller_run_def createStreamRequestController_def list_all_iff)
  with ok show ?thesis by (auto simp: controller_ok_def flag_ok_def)
qed

theorem no_source_leak_witness:
  "ctl_streaming (controller_run (\<lambda>_. None) (\<lambda>_. None) [Send, HeadersReady 1])"
  using no_source_leak[of "\<lambda>_. None" "\<lambda>_. None" "[Send, HeadersReady 1]"]
  by (simp add: controller_run_def createStreamRequestController_def controller_defs
      close_optional_def close_source_def)

end
