(* ===== verification/Playground_Chat.thy ===== *)
theory Playground_Chat
  imports Playground_Stream
begin

text \<open>
  The chat handler \<open>use-chat-handler.ts\<close> and the hooks around it
  (\<open>use-playground-conversation.ts\<close>, \<open>use-message-action-guard.ts\<close>,
  \<open>playground-state-utils.ts\<close>).

  \<open>onMessageUpdate\<close> hands an updater to React's \<open>setMessages\<close>.  React evaluates an updater at once
  only when no update is waiting for a render (and then only as an optimisation); otherwise the
  updaters are evaluated in order at the next render.  An updater of the handler reads
  \<open>requestGenerationRef\<close> when it is evaluated, so the model keeps updaters as data in a queue:
  \<open>chat_messages\<close> is the state evaluated so far, \<open>chat_queue\<close> the updaters still to evaluate, and
  the argument \<open>eager\<close> of a handler says whether React takes the early path.  Calls that leave the
  handler (the stream controller, the HTTP client, toasts) are recorded in \<open>chat_effects\<close>.
\<close>

section \<open>State\<close>

record PendingStreamChunks =
  pending_generation :: nat
  pending_content :: jsstring
  pending_reasoning :: jsstring

datatype MessageUpdate =
    SetMessages "Message list"
  | RemoveMessage jsstring
  | FlushUpdate nat PendingStreamChunks
  | CompleteUpdate nat
  | ErrorUpdate nat jsstring "jsstring option" jsstring
  | ResponseUpdate nat "ChatCompletionChoice list"
  | StopUpdate nat

datatype 'n ChatEffect =
    SendStreamRequest nat "'n ChatCompletionRequest"
  | StopStream
  | SendChatCompletion nat "'n ChatCompletionRequest"
  | Abort nat
  | ToastError jsstring

record 'n ChatHandler =
  chat_generation :: nat
  chat_pending :: PendingStreamChunks
  chat_timer :: "nat option"
  chat_abort :: "nat option"
  chat_aborted :: "nat list"
  chat_requesting :: bool
  chat_messages :: "Message list"
  chat_queue :: "MessageUpdate list"
  chat_scheduled :: bool
  chat_effects :: "'n ChatEffect list"

definition no_chunks :: "nat \<Rightarrow> PendingStreamChunks" where
  "no_chunks g = \<lparr>pending_generation = g, pending_content = [], pending_reasoning = []\<rparr>"

definition useChatHandler :: "Message list \<Rightarrow> 'n ChatHandler" where
  "useChatHandler ms =
     \<lparr>chat_generation = 0, chat_pending = no_chunks 0, chat_timer = None, chat_abort = None,
      chat_aborted = [], chat_requesting = False, chat_messages = ms, chat_queue = [],
      chat_scheduled = False, chat_effects = []\<rparr>"

definition mergePendingStreamChunk :: "jsstring \<Rightarrow> jsstring \<Rightarrow> jsstring" where
  "mergePendingStreamChunk currentChunk nextChunk =
     (if currentChunk = [] \<or> \<not> startsWith nextChunk currentChunk then currentChunk @ nextChunk
      else nextChunk)"

section \<open>The updaters\<close>

definition flush_message :: "PendingStreamChunks \<Rightarrow> int \<Rightarrow> Message \<Rightarrow> Message" where
  "flush_message p now m =
     (let m' = (if pending_reasoning p \<noteq> []
                then applyStreamingChunk m ReasoningChunk (pending_reasoning p) now else m)
      in if pending_content p \<noteq> []
         then applyStreamingChunk m' ContentChunk (pending_content p) now else m')"

fun apply_update :: "nat \<Rightarrow> int \<Rightarrow> MessageUpdate \<Rightarrow> Message list \<Rightarrow> Message list" where
  "apply_update current now (SetMessages ms) prev = ms"
| "apply_update current now (RemoveMessage k) prev = removeMessageByKey prev k"
| "apply_update current now (FlushUpdate g p) prev =
     (if g \<noteq> current then prev else updateLastAssistantMessage prev (flush_message p now))"
| "apply_update current now (CompleteUpdate g) prev =
     (if g \<noteq> current then prev
      else updateLastAssistantMessage prev
        (\<lambda>m. if isAssistantMessageFinal m then m else completeAssistantMessage m now))"
| "apply_update current now (ErrorUpdate g msg code title) prev =
     (if g \<noteq> current then prev
      else updateAssistantMessageWithError prev msg code (Some title) now)"
| "apply_update current now (ResponseUpdate g choices) prev =
     (if g \<noteq> current then prev
      else updateLastAssistantMessage prev
        (\<lambda>m. nullish (applyChatCompletionResponse m choices now) m))"
| "apply_update current now (StopUpdate g) prev =
     (if g \<noteq> current then prev
      else updateLastAssistantMessage prev
        (\<lambda>m. if isAssistantMessagePending m then completeAssistantMessage m now else m))"

definition onMessageUpdate ::
  "bool \<Rightarrow> int \<Rightarrow> MessageUpdate \<Rightarrow> 'n ChatHandler \<Rightarrow> 'n ChatHandler" where
  "onMessageUpdate eager now u h =
     (if eager \<and> \<not> chat_scheduled h
      then h\<lparr>chat_messages := apply_update (chat_generation h) now u (chat_messages h),
             chat_scheduled := True\<rparr>
      else h\<lparr>chat_queue := chat_queue h @ [u], chat_scheduled := True\<rparr>)"

definition render_messages :: "int \<Rightarrow> 'n ChatHandler \<Rightarrow> Message list" where
  "render_messages now h =
     fold (apply_update (chat_generation h) now) (chat_queue h) (chat_messages h)"

definition react_render :: "int \<Rightarrow> 'n ChatHandler \<Rightarrow> 'n ChatHandler" where
  "react_render now h =
     h\<lparr>chat_messages := render_messages now h, chat_queue := [], chat_scheduled := False\<rparr>"

section \<open>Callbacks of the handler\<close>

definition effect :: "'n ChatEffect \<Rightarrow> 'n ChatHandler \<Rightarrow> 'n ChatHandler" where
  "effect e h = h\<lparr>chat_effects := chat_effects h @ [e]\<rparr>"

definition abort_active :: "'n ChatHandler \<Rightarrow> 'n ChatHandler" where
  "abort_active h =
     (case chat_abort h of
        None \<Rightarrow> h
      | Some a \<Rightarrow> effect (Abort a) (h\<lparr>chat_abort := None, chat_aborted := a # chat_aborted h\<rparr>))"

definition discardPendingStreamUpdates :: "nat \<Rightarrow> 'n ChatHandler \<Rightarrow> 'n ChatHandler" where
  "discardPendingStreamUpdates g h = h\<lparr>chat_timer := None, chat_pending := no_chunks g\<rparr>"

definition flushStreamUpdates :: "bool \<Rightarrow> int \<Rightarrow> nat \<Rightarrow> 'n ChatHandler \<Rightarrow> 'n ChatHandler" where
  "flushStreamUpdates eager now g h =
     (if g \<noteq> chat_generation h then h
      else let h1 = h\<lparr>chat_timer := None\<rparr>; p = chat_pending h1 in
        if pending_generation p \<noteq> g then h1
        else if pending_reasoning p = [] \<and> pending_content p = [] then h1
        else onMessageUpdate eager now (FlushUpdate g p) (h1\<lparr>chat_pending := no_chunks g\<rparr>))"

definition scheduleStreamFlush :: "nat \<Rightarrow> 'n ChatHandler \<Rightarrow> 'n ChatHandler" where
  "scheduleStreamFlush g h =
     (if g \<noteq> chat_generation h then h
      else if chat_timer h \<noteq> None then h
      else h\<lparr>chat_timer := Some g\<rparr>)"

text \<open>The timer set by \<open>scheduleStreamFlush\<close> fires; a cleared timer does not.\<close>

definition flush_timer :: "bool \<Rightarrow> int \<Rightarrow> nat \<Rightarrow> 'n ChatHandler \<Rightarrow> 'n ChatHandler" where
  "flush_timer eager now g h =
     (if chat_timer h = Some g then flushStreamUpdates eager now g h else h)"

definition unmount :: "'n ChatHandler \<Rightarrow> 'n ChatHandler" where
  "unmount h = abort_active (h\<lparr>chat_generation := chat_generation h + 1\<rparr>)"

definition getDisplayError :: "(jsstring \<Rightarrow> jsstring) \<Rightarrow> jsstring \<Rightarrow> jsstring" where
  "getDisplayError t error =
     (if error \<in> set ERROR_MESSAGES then t error
      else if endsWith error (js '': '' @ CONNECTION_CLOSED)
      then take (length error - length CONNECTION_CLOSED) error @ t CONNECTION_CLOSED
      else error)"

fun pending_merge ::
  "StreamChunkType \<Rightarrow> jsstring \<Rightarrow> PendingStreamChunks \<Rightarrow> PendingStreamChunks" where
  "pending_merge ReasoningChunk c p =
     p\<lparr>pending_reasoning := mergePendingStreamChunk (pending_reasoning p) c\<rparr>"
| "pending_merge ContentChunk c p =
     p\<lparr>pending_content := mergePendingStreamChunk (pending_content p) c\<rparr>"

definition handleStreamUpdate ::
  "nat \<Rightarrow> StreamChunkType \<Rightarrow> jsstring \<Rightarrow> 'n ChatHandler \<Rightarrow> 'n ChatHandler" where
  "handleStreamUpdate g type chunk h =
     (if g \<noteq> chat_generation h then h
      else if pending_generation (chat_pending h) \<noteq> g then h
      else scheduleStreamFlush g
        (h\<lparr>chat_pending := pending_merge type chunk (chat_pending h)\<rparr>))"

definition handleStreamComplete :: "bool \<Rightarrow> int \<Rightarrow> nat \<Rightarrow> 'n ChatHandler \<Rightarrow> 'n ChatHandler" where
  "handleStreamComplete eager now g h =
     (if g \<noteq> chat_generation h then h
      else onMessageUpdate eager now (CompleteUpdate g)
        ((flushStreamUpdates eager now g h)\<lparr>chat_requesting := False\<rparr>))"

definition handleStreamError ::
  "(jsstring \<Rightarrow> jsstring) \<Rightarrow> bool \<Rightarrow> int \<Rightarrow> nat \<Rightarrow> jsstring \<Rightarrow> jsstring option \<Rightarrow>
     'n ChatHandler \<Rightarrow> 'n ChatHandler" where
  "handleStreamError t eager now g error code h =
     (if g \<noteq> chat_generation h then h
      else let h1 = (flushStreamUpdates eager now g h)\<lparr>chat_requesting := False\<rparr>;
               displayError = getDisplayError t error
           in onMessageUpdate eager now (ErrorUpdate g displayError code (t API_REQUEST_ERROR))
                (effect (ToastError displayError) h1))"

section \<open>Requests\<close>

definition sendStreamingChat ::
  "'n PlaygroundConfig \<Rightarrow> ParameterEnabled \<Rightarrow> Message list \<Rightarrow> 'n ChatHandler \<Rightarrow> 'n ChatHandler" where
  "sendStreamingChat config enabled ms h =
     (let g = chat_generation h + 1;
          h1 = abort_active (h\<lparr>chat_generation := g\<rparr>);
          h2 = (discardPendingStreamUpdates g h1)\<lparr>chat_requesting := True\<rparr>
      in effect (SendStreamRequest g (buildChatCompletionPayload ms config enabled)) h2)"

text \<open>\<open>sendNonStreamingChat\<close> up to its \<open>await\<close>, and its two continuations, each followed by the
  \<open>finally\<close> block.\<close>

definition sendNonStreamingChat ::
  "'n PlaygroundConfig \<Rightarrow> ParameterEnabled \<Rightarrow> Message list \<Rightarrow> 'n ChatHandler \<Rightarrow> 'n ChatHandler" where
  "sendNonStreamingChat config enabled ms h =
     (let payload = buildChatCompletionPayload ms config enabled;
          g = chat_generation h + 1;
          h1 = effect StopStream (h\<lparr>chat_generation := g\<rparr>);
          h2 = abort_active (discardPendingStreamUpdates g h1);
          h3 = h2\<lparr>chat_abort := Some g, chat_requesting := True\<rparr>
      in effect (SendChatCompletion g payload) h3)"

definition request_finally :: "nat \<Rightarrow> 'n ChatHandler \<Rightarrow> 'n ChatHandler" where
  "request_finally g h =
     (if chat_generation h = g then h\<lparr>chat_abort := None, chat_requesting := False\<rparr> else h)"

definition request_resolved ::
  "(jsstring \<Rightarrow> jsstring) \<Rightarrow> bool \<Rightarrow> int \<Rightarrow> nat \<Rightarrow> ChatCompletionChoice list \<Rightarrow>
     'n ChatHandler \<Rightarrow> 'n ChatHandler" where
  "request_resolved t eager now g response h =
     request_finally g
       (if g \<in> set (chat_aborted h) \<or> chat_generation h \<noteq> g then h
        else if \<not> hasChatCompletionChoice response
        then handleStreamError t eager now g API_REQUEST_ERROR None h
        else onMessageUpdate eager now (ResponseUpdate g response) h)"

definition request_rejected ::
  "(jsstring \<Rightarrow> jsstring) \<Rightarrow> bool \<Rightarrow> int \<Rightarrow> nat \<Rightarrow> RequestErrorLike \<Rightarrow>
     'n ChatHandler \<Rightarrow> 'n ChatHandler" where
  "request_rejected t eager now g error h =
     request_finally g
       (if g \<in> set (chat_aborted h) \<or> chat_generation h \<noteq> g then h
        else let d = parseRequestErrorDetails error in
          handleStreamError t eager now g (details_message d) (details_code d) h)"

definition sendChat ::
  "'n PlaygroundConfig \<Rightarrow> ParameterEnabled \<Rightarrow> Message list \<Rightarrow> 'n ChatHandler \<Rightarrow> 'n ChatHandler" where
  "sendChat config enabled ms h =
     (if cfg_stream config then sendStreamingChat config enabled ms h
      else sendNonStreamingChat config enabled ms h)"

definition stopGeneration :: "bool \<Rightarrow> int \<Rightarrow> 'n ChatHandler \<Rightarrow> 'n ChatHandler" where
  "stopGeneration eager now h =
     (let stopped = chat_generation h;
          h1 = flushStreamUpdates eager now stopped h;
          idle = stopped + 1;
          h2 = discardPendingStreamUpdates idle (h1\<lparr>chat_generation := idle\<rparr>);
          h3 = abort_active (effect StopStream h2)
      in onMessageUpdate eager now (StopUpdate idle) (h3\<lparr>chat_requesting := False\<rparr>))"

definition isGenerating :: "bool \<Rightarrow> 'n ChatHandler \<Rightarrow> bool" where
  "isGenerating isStreaming h \<longleftrightarrow> isStreaming \<or> chat_requesting h"

section \<open>The conversation hook\<close>

text \<open>\<open>messages\<close> is the value the callback closed over, the one of the last render; \<open>a\<close> and \<open>b\<close> are
  the identifiers drawn for the messages created.\<close>

record 'n Conversation =
  conv_chat :: "'n ChatHandler"
  editingMessageKey :: "jsstring option"

definition applyMessageStateUpdate ::
  "Message list \<Rightarrow> Message list + (Message list \<Rightarrow> Message list) \<Rightarrow> Message list" where
  "applyMessageStateUpdate previous updater =
     (case updater of Inl ms \<Rightarrow> ms | Inr f \<Rightarrow> f previous)"

definition submit_messages ::
  "bool \<Rightarrow> int \<Rightarrow> 'n PlaygroundConfig \<Rightarrow> ParameterEnabled \<Rightarrow> Message list \<Rightarrow>
     'n Conversation \<Rightarrow> 'n Conversation" where
  "submit_messages eager now config enabled next c =
     c\<lparr>conv_chat := sendChat config enabled next
          (onMessageUpdate eager now (SetMessages next) (conv_chat c))\<rparr>"

definition handleSendMessage ::
  "bool \<Rightarrow> int \<Rightarrow> 'n PlaygroundConfig \<Rightarrow> ParameterEnabled \<Rightarrow> Message list \<Rightarrow> jsstring \<Rightarrow>
     jsstring \<times> jsstring \<Rightarrow> jsstring \<times> jsstring \<Rightarrow> 'n Conversation \<Rightarrow> 'n Conversation" where
  "handleSendMessage eager now config enabled messages text a b c =
     submit_messages eager now config enabled (appendUserMessagePair messages text a b now) c"

definition handleRegenerateMessage ::
  "bool \<Rightarrow> int \<Rightarrow> 'n PlaygroundConfig \<Rightarrow> ParameterEnabled \<Rightarrow> Message list \<Rightarrow> Message \<Rightarrow>
     jsstring \<times> jsstring \<Rightarrow> 'n Conversation \<Rightarrow> 'n Conversation" where
  "handleRegenerateMessage eager now config enabled messages m a c =
     (case createRegeneratedMessages messages (key m) a now of
        None \<Rightarrow> c
      | Some next \<Rightarrow> submit_messages eager now config enabled next c)"

definition handleEditMessage :: "Message \<Rightarrow> 'n Conversation \<Rightarrow> 'n Conversation" where
  "handleEditMessage m c = c\<lparr>editingMessageKey := Some (key m)\<rparr>"

definition handleEditOpenChange :: "bool \<Rightarrow> 'n Conversation \<Rightarrow> 'n Conversation" where
  "handleEditOpenChange is_open c = (if is_open then c else c\<lparr>editingMessageKey := None\<rparr>)"

definition applyEdit ::
  "bool \<Rightarrow> int \<Rightarrow> 'n PlaygroundConfig \<Rightarrow> ParameterEnabled \<Rightarrow> Message list \<Rightarrow> jsstring \<Rightarrow> bool \<Rightarrow>
     jsstring \<times> jsstring \<Rightarrow> 'n Conversation \<Rightarrow> 'n Conversation" where
  "applyEdit eager now config enabled messages newContent shouldSubmit a c =
     (case truthy (editingMessageKey c) of
        None \<Rightarrow> c
      | Some k \<Rightarrow>
          (case applyMessageEdit messages k newContent shouldSubmit a now of
             None \<Rightarrow> c
           | Some r \<Rightarrow>
               let h = onMessageUpdate eager now (SetMessages (edit_messages r)) (conv_chat c)
               in \<lparr>conv_chat = (if shouldSend r then sendChat config enabled (edit_messages r) h
                                else h),
                   editingMessageKey = None\<rparr>))"

definition handleDeleteMessage ::
  "bool \<Rightarrow> int \<Rightarrow> Message \<Rightarrow> 'n Conversation \<Rightarrow> 'n Conversation" where
  "handleDeleteMessage eager now m c =
     c\<lparr>conv_chat := onMessageUpdate eager now (RemoveMessage (key m)) (conv_chat c)\<rparr>"

text \<open>\<open>useMessageActionGuard\<close>: the action, or the warning to show.\<close>

definition guardAction ::
  "(jsstring \<Rightarrow> jsstring) \<Rightarrow> bool \<Rightarrow> ('s \<Rightarrow> 's) \<Rightarrow> 's \<Rightarrow> 's \<times> jsstring option" where
  "guardAction t generating action s =
     (if generating
      then (s, Some (t (js ''Please wait for the current generation to complete'')))
      else (action s, None))"

section \<open>Events of a chat\<close>

datatype 'n ChatEvent =
    SendChat "'n PlaygroundConfig" ParameterEnabled "Message list"
  | UpdateMessages MessageUpdate
  | StreamUpdate nat StreamChunkType jsstring
  | StreamComplete nat
  | StreamFailed nat jsstring "jsstring option"
  | FlushTimer nat
  | Resolved nat "ChatCompletionChoice list"
  | Rejected nat RequestErrorLike
  | StopGeneration
  | Unmount
  | Render

text \<open>A step with the time at which it happens and the choice React makes.\<close>

type_synonym 'n timed_event = "bool \<times> int \<times> 'n ChatEvent"

fun chat_step ::
  "(jsstring \<Rightarrow> jsstring) \<Rightarrow> 'n timed_event \<Rightarrow> 'n ChatHandler \<Rightarrow> 'n ChatHandler" where
  "chat_step t (eager, now, SendChat config en ms) h =
     sendChat config en ms (onMessageUpdate eager now (SetMessages ms) h)"
| "chat_step t (eager, now, UpdateMessages u) h = onMessageUpdate eager now u h"
| "chat_step t (eager, now, StreamUpdate g ty c) h = handleStreamUpdate g ty c h"
| "chat_step t (eager, now, StreamComplete g) h = handleStreamComplete eager now g h"
| "chat_step t (eager, now, StreamFailed g e code) h = handleStreamError t eager now g e code h"
| "chat_step t (eager, now, FlushTimer g) h = flush_timer eager now g h"
| "chat_step t (eager, now, Resolved g r) h = request_resolved t eager now g r h"
| "chat_step t (eager, now, Rejected g e) h = request_rejected t eager now g e h"
| "chat_step t (eager, now, StopGeneration) h = stopGeneration eager now h"
| "chat_step t (eager, now, Unmount) h = unmount h"
| "chat_step t (eager, now, Render) h = react_render now h"

fun chat_event_generation :: "'n ChatEvent \<Rightarrow> nat option" where
  "chat_event_generation (StreamUpdate g _ _) = Some g"
| "chat_event_generation (StreamComplete g) = Some g"
| "chat_event_generation (StreamFailed g _ _) = Some g"
| "chat_event_generation (FlushTimer g) = Some g"
| "chat_event_generation (Resolved g _) = Some g"
| "chat_event_generation (Rejected g _) = Some g"
| "chat_event_generation _ = None"

definition timed_generation :: "'n timed_event \<Rightarrow> nat option" where
  "timed_generation e = chat_event_generation (snd (snd e))"

end
