(* ===== verification/Playground_Chat_Laws.thy ===== *)
theory Playground_Chat_Laws
  imports Playground_Chat
begin

text \<open>
  What the chat handler guarantees: late events of a superseded request change nothing; stopping,
  completing and failing each leave the last message settled; batching the streamed chunks does
  not change the text; and where the batching of React's updates does lose text.
\<close>

section \<open>The generation contract\<close>

lemma chat_generation_simps [simp]:
  "chat_generation (onMessageUpdate eg now u h) = chat_generation h"
  "chat_generation (react_render now h) = chat_generation h"
  "chat_generation (effect e h) = chat_generation h"
  "chat_generation (abort_active h) = chat_generation h"
  "chat_generation (discardPendingStreamUpdates g h) = chat_generation h"
  "chat_generation (scheduleStreamFlush g h) = chat_generation h"
  "chat_generation (request_finally g h) = chat_generation h"
  by (simp_all add: onMessageUpdate_def react_render_def effect_def abort_active_def
      discardPendingStreamUpdates_def scheduleStreamFlush_def request_finally_def
      split: option.splits)

lemma chat_generation_flush [simp]:
  "chat_generation (flushStreamUpdates eg now g h) = chat_generation h"
  by (simp add: flushStreamUpdates_def Let_def)

lemma chat_generation_handlers [simp]:
  "chat_generation (handleStreamUpdate g ty c h) = chat_generation h"
  "chat_generation (handleStreamComplete eg now g h) = chat_generation h"
  "chat_generation (handleStreamError t eg now g e code h) = chat_generation h"
  "chat_generation (flush_timer eg now g h) = chat_generation h"
  "chat_generation (request_resolved t eg now g r h) = chat_generation h"
  "chat_generation (request_rejected t eg now g err h) = chat_generation h"
  by (simp_all add: handleStreamUpdate_def handleStreamComplete_def handleStreamError_def
      flush_timer_def request_resolved_def request_rejected_def Let_def)

interpretation chat_guard: generation_guard chat_generation "chat_step t" timed_generation
  for t
proof
  fix e :: "'n timed_event" and g :: nat and h :: "'n ChatHandler"
  obtain eg now ev where "e = (eg, now, ev)" by (cases e) auto
  then show "timed_generation e = Some g \<Longrightarrow> g \<noteq> chat_generation h \<Longrightarrow> chat_step t e h = h"
    by (cases ev) (auto simp: timed_generation_def handleStreamUpdate_def handleStreamComplete_def
        handleStreamError_def flush_timer_def flushStreamUpdates_def request_resolved_def
        request_rejected_def request_finally_def)
next
  fix h :: "'n ChatHandler" and e :: "'n timed_event"
  obtain eg now ev where "e = (eg, now, ev)" by (cases e) auto
  then show "chat_generation h \<le> chat_generation (chat_step t e h)"
    by (cases ev) (auto simp: sendChat_def sendStreamingChat_def sendNonStreamingChat_def
        stopGeneration_def unmount_def Let_def)
qed

section \<open>Settling the last message\<close>

definition settled :: "Message list \<Rightarrow> bool" where
  "settled ms \<longleftrightarrow> (ms \<noteq> [] \<longrightarrow> \<not> isPendingAssistantMessage (last ms))"

lemma settled_update:
  assumes "\<And>m. role_of (f m) = role_of m" "\<And>m. \<not> isAssistantMessagePending (f m)"
  shows "settled (updateLastAssistantMessage ms f)"
proof (cases "ms = []")
  case False
  then have "last (updateLastAssistantMessage ms f) =
      (if role_of (last ms) = ASSISTANT then f (last ms) else last ms)"
    by (rule updateLast_last)
  with assms show ?thesis by (auto simp: settled_def isPendingAssistantMessage_def)
qed (simp add: settled_def updateLastAssistantMessage_def)

lemma complete_fields [simp]:
  "role_of (completeAssistantMessage m now) = role_of m"
  "status (completeAssistantMessage m now) = Some COMPLETE"
  by (simp_all add: completeAssistantMessage_def)

lemma settled_complete: "settled (apply_update g now (CompleteUpdate g) ms)"
  by (auto intro!: settled_update split: if_splits
      simp: isAssistantMessageFinal_def isAssistantMessagePending_def)

lemma settled_stop: "settled (apply_update g now (StopUpdate g) ms)"
  by (auto intro!: settled_update simp: isAssistantMessagePending_def split: if_splits)

lemma settled_error: "settled (apply_update g now (ErrorUpdate g msg code title) ms)"
  by (auto simp: updateAssistantMessageWithError_def isAssistantMessagePending_def
      intro!: settled_update)

lemma render_onMessageUpdate_queued:
  "chat_scheduled h \<or> \<not> eg \<Longrightarrow>
     render_messages now' (onMessageUpdate eg now u h)
       = apply_update (chat_generation h) now' u (render_messages now' h)"
  by (auto simp: onMessageUpdate_def render_messages_def)

lemma render_onMessageUpdate_settled:
  assumes "\<And>now ms. settled (apply_update (chat_generation h) now u ms)"
    "\<not> chat_scheduled h \<Longrightarrow> chat_queue h = []"
  shows "settled (render_messages now' (onMessageUpdate eg now u h))"
  using assms by (auto simp: onMessageUpdate_def render_messages_def)

definition queue_ok :: "'n ChatHandler \<Rightarrow> bool" where
  "queue_ok h \<longleftrightarrow> (chat_queue h = [] \<or> chat_scheduled h)"

lemma queue_ok_update [simp]: "queue_ok (onMessageUpdate eg now u h)"
  by (simp add: queue_ok_def onMessageUpdate_def)

lemma queue_ok_render [simp]: "queue_ok (react_render now h)"
  by (simp add: queue_ok_def react_render_def)

lemma queue_ok_fields [simp]:
  "queue_ok (h\<lparr>chat_generation := g\<rparr>) = queue_ok h" "queue_ok (h\<lparr>chat_pending := p\<rparr>) = queue_ok h"
  "queue_ok (h\<lparr>chat_timer := tm\<rparr>) = queue_ok h" "queue_ok (h\<lparr>chat_abort := a\<rparr>) = queue_ok h"
  "queue_ok (h\<lparr>chat_aborted := as\<rparr>) = queue_ok h" "queue_ok (h\<lparr>chat_requesting := b\<rparr>) = queue_ok h"
  "queue_ok (h\<lparr>chat_effects := es\<rparr>) = queue_ok h"
  by (simp_all add: queue_ok_def)

lemma queue_ok_parts [simp]:
  "queue_ok (effect e h) = queue_ok h" "queue_ok (abort_active h) = queue_ok h"
  "queue_ok (discardPendingStreamUpdates g h) = queue_ok h"
  "queue_ok (scheduleStreamFlush g h) = queue_ok h"
  "queue_ok (request_finally g h) = queue_ok h"
  by (simp_all add: effect_def abort_active_def discardPendingStreamUpdates_def
      scheduleStreamFlush_def request_finally_def split: option.splits)

lemma queue_ok_flush [simp]: "queue_ok h \<Longrightarrow> queue_ok (flushStreamUpdates eg now g h)"
  by (simp add: flushStreamUpdates_def Let_def)

lemma queue_ok_step: "queue_ok h \<Longrightarrow> queue_ok (chat_step t (eg, now, ev) h)"
  by (cases ev) (simp_all add: sendChat_def sendStreamingChat_def sendNonStreamingChat_def
      handleStreamUpdate_def handleStreamComplete_def handleStreamError_def flush_timer_def
      request_resolved_def request_rejected_def stopGeneration_def unmount_def Let_def)

interpretation chat_queue: kept_invariant "chat_step t" queue_ok "\<lambda>_. True" for t
  by unfold_locales (auto simp: queue_ok_step)

lemma queue_ok_run: "queue_ok h \<Longrightarrow> queue_ok (fold (chat_step t) es h)"
  by (rule chat_queue.run_kept) (simp_all add: list_all_iff)

lemma queue_ok_init: "queue_ok (useChatHandler ms)"
  by (simp add: queue_ok_def useChatHandler_def)

lemma render_settled:
  assumes "queue_ok h" "\<And>now ms. settled (apply_update (chat_generation h) now u ms)"
  shows "settled (render_messages now' (onMessageUpdate eg now u h))"
  using assms by (auto intro!: render_onMessageUpdate_settled simp: queue_ok_def)

lemma requesting_simps [simp]:
  "chat_requesting (onMessageUpdate eg now u h) = chat_requesting h"
  "chat_requesting (effect e h) = chat_requesting h"
  by (simp_all add: onMessageUpdate_def effect_def)

lemma stop_result:
  "queue_ok h \<Longrightarrow> settled (render_messages now' (stopGeneration eg now h))
     \<and> \<not> chat_requesting (stopGeneration eg now h)
     \<and> chat_generation (stopGeneration eg now h) = chat_generation h + 1"
  by (auto simp: stopGeneration_def Let_def simp del: apply_update.simps
      intro!: render_settled settled_stop)

text \<open>C6: Stopping settles the conversation for good.  In any reachable state of the chat, after
  the user stops the generation and whatever late events of the stopped or earlier requests then
  arrive (chunks, completion, errors, timers, HTTP answers), the rendered conversation does not
  end in a loading or streaming answer, and no request is shown as running.\<close>

theorem stop_settles:
  fixes h :: "'n ChatHandler"
  assumes "h = fold (chat_step t) es (useChatHandler ms)"
    and late: "\<forall>e\<in>set fs. \<exists>g\<le>chat_generation h. timed_generation e = Some g"
  shows "settled (render_messages now' (fold (chat_step t) fs (stopGeneration eg now h)))
    \<and> \<not> chat_requesting (fold (chat_step t) fs (stopGeneration eg now h))"
proof -
  let ?h = "stopGeneration eg now h"
  have "queue_ok h" unfolding assms(1) by (intro queue_ok_run queue_ok_init)
  note r = stop_result[OF this, of now' eg now]
  have "fold (chat_step t) fs ?h = ?h"
    using late r by (intro chat_guard.stale_run) (force simp: less_Suc_eq_le)
  with r show ?thesis by simp
qed

theorem stop_settles_witness:
  "settled (render_messages 9 (fold (chat_step id) [(True, 8, StreamUpdate 0 ContentChunk (js ''x''))]
     (stopGeneration True 7 (useChatHandler [createLoadingAssistantMessage (js ''a'') (js ''v'') 1]
        :: nat ChatHandler))))"
  using stop_settles[of "useChatHandler [createLoadingAssistantMessage (js ''a'') (js ''v'') 1]
        :: nat ChatHandler" id "[]" "[createLoadingAssistantMessage (js ''a'') (js ''v'') 1]"
        "[(True, 8, StreamUpdate 0 ContentChunk (js ''x''))]" 9 True 7]
  by (simp add: timed_generation_def)

text \<open>The end of a stream settles the conversation.  When the current request completes or
  fails, no request is shown as running any more, and the conversation rendered next does not
  end in a loading or streaming answer.\<close>

theorem terminal_event_settles:
  fixes h :: "'n ChatHandler"
  assumes "h = fold (chat_step t) es (useChatHandler ms)"
    and "ev \<in> {StreamComplete (chat_generation h), StreamFailed (chat_generation h) err code}"
  shows "settled (render_messages now' (chat_step t (eg, now, ev) h))
    \<and> \<not> chat_requesting (chat_step t (eg, now, ev) h)"
proof -
  have "queue_ok h" unfolding assms(1) by (intro queue_ok_run queue_ok_init)
  with assms(2) show ?thesis
    by (auto simp: handleStreamComplete_def handleStreamError_def Let_def
        simp del: apply_update.simps intro!: render_settled settled_complete settled_error)
qed

theorem terminal_event_settles_witness:
  "settled (render_messages 9 (chat_step id (False, 8, StreamComplete 0)
     (useChatHandler [createLoadingAssistantMessage (js ''a'') (js ''v'') 1] :: nat ChatHandler)))"
  using terminal_event_settles[of "useChatHandler
        [createLoadingAssistantMessage (js ''a'') (js ''v'') 1] :: nat ChatHandler" id "[]"
        "[createLoadingAssistantMessage (js ''a'') (js ''v'') 1]" "StreamComplete 0" "[]" None 9 False 8]
  by (simp add: useChatHandler_def)

text \<open>Events of a superseded request can be erased.  Once the chat has moved past the
  generation of a request, dropping all its later chunks, completions, errors, timers and
  answers from a run of the chat does not change its final state.\<close>

theorem superseded_chat_events_erasable:
  assumes "g < chat_generation h"
  shows "fold (chat_step t) es h
       = fold (chat_step t) (filter (\<lambda>e. timed_generation e \<noteq> Some g) es) h"
  by (rule chat_guard.superseded_erasable[OF assms])

theorem superseded_chat_events_erasable_witness:
  "fold (chat_step id) [(True, 1, StreamComplete 0)]
     (stopGeneration True 0 (useChatHandler [] :: nat ChatHandler))
   = stopGeneration True 0 (useChatHandler [])"
  using superseded_chat_events_erasable[of 0 "stopGeneration True 0 (useChatHandler [] :: nat ChatHandler)"
      id "[(True, 1, StreamComplete 0)]"]
  by (simp add: timed_generation_def stopGeneration_def Let_def)

section \<open>Batching keeps the streamed text\<close>

definition shows_text :: "jsstring \<Rightarrow> Message list \<Rightarrow> bool" where
  "shows_text v ms \<longleftrightarrow> ms \<noteq> [] \<and> isPendingAssistantMessage (last ms)
     \<and> getMessageContent (last ms) = v"

text \<open>A chat that streams request \<open>g\<close>: \<open>v\<close> is the text the next render shows, \<open>p\<close> the text not yet
  flushed.\<close>

definition streaming :: "nat \<Rightarrow> jsstring \<Rightarrow> jsstring \<Rightarrow> 'n ChatHandler \<Rightarrow> bool" where
  "streaming g v p h \<longleftrightarrow> chat_generation h = g \<and> pending_generation (chat_pending h) = g
     \<and> pending_content (chat_pending h) = p \<and> queue_ok h
     \<and> (\<forall>now. shows_text v (render_messages now h))"

definition grow :: "jsstring \<Rightarrow> jsstring \<Rightarrow> jsstring" where
  "grow v p = (if p = [] then v else absorb v p)"

fun streams :: "nat \<Rightarrow> 'n ChatEvent \<Rightarrow> bool" where
  "streams g (StreamUpdate g' _ _) = (g' = g)"
| "streams g (FlushTimer g') = (g' = g)"
| "streams g Render = True"
| "streams g _ = False"

fun content_chunk :: "'n ChatEvent \<Rightarrow> jsstring list" where
  "content_chunk (StreamUpdate _ ContentChunk c) = [c]"
| "content_chunk _ = []"

lemma reasoning_chunk_content [simp]:
  "getMessageContent (applyStreamingChunk m ReasoningChunk c now) = getMessageContent m"
  by (simp add: applyStreamingChunk_def Let_def)

lemma flush_message_text:
  assumes "isPendingAssistantMessage m"
  shows "isPendingAssistantMessage (flush_message p now m)
    \<and> getMessageContent (flush_message p now m) = grow (getMessageContent m) (pending_content p)"
  using assms
  by (auto simp: flush_message_def Let_def grow_def isPendingAssistantMessage_def
      isAssistantMessagePending_def applyStreamingChunk_status content_after_chunk)

lemma shows_flush:
  "shows_text v ms \<Longrightarrow>
     shows_text (grow v (pending_content p)) (apply_update g now (FlushUpdate g p) ms)"
  using flush_message_text[of "last ms" p now]
  by (auto simp: shows_text_def updateLast_last isPendingAssistantMessage_def
      simp flip: length_greater_0_conv)

lemma streaming_flush:
  assumes "streaming g v p h"
  shows "streaming g (grow v p) [] (flushStreamUpdates eg now g h)"
proof (cases "pending_reasoning (chat_pending h) = [] \<and> p = []")
  case True
  with assms show ?thesis
    by (auto simp: streaming_def flushStreamUpdates_def grow_def render_messages_def)
next
  case False
  let ?h = "h\<lparr>chat_timer := None, chat_pending := no_chunks g\<rparr>" and ?q = "chat_pending h"
  have eq: "flushStreamUpdates eg now g h = onMessageUpdate eg now (FlushUpdate g ?q) ?h"
    using assms False by (auto simp: streaming_def flushStreamUpdates_def Let_def)
  have "shows_text (grow v p) (render_messages n (onMessageUpdate eg now (FlushUpdate g ?q) ?h))" for n
  proof (cases "eg \<and> \<not> chat_scheduled h")
    case True
    then have "render_messages n (onMessageUpdate eg now (FlushUpdate g ?q) ?h)
        = apply_update g now (FlushUpdate g ?q) (render_messages n h)"
      using assms by (auto simp: streaming_def onMessageUpdate_def render_messages_def queue_ok_def)
    with assms show ?thesis
      using shows_flush[of v "render_messages n h" ?q g now] by (simp add: streaming_def)
  next
    case False
    then have "render_messages n (onMessageUpdate eg now (FlushUpdate g ?q) ?h)
        = apply_update g n (FlushUpdate g ?q) (render_messages n h)"
      using assms by (auto simp: streaming_def onMessageUpdate_def render_messages_def)
    with assms show ?thesis
      using shows_flush[of v "render_messages n h" ?q g n] by (simp add: streaming_def)
  qed
  with assms show ?thesis
    by (simp add: eq streaming_def onMessageUpdate_def no_chunks_def queue_ok_def)
qed

lemma streaming_update:
  "streaming g v p h \<Longrightarrow>
     streaming g v (fold (\<lambda>c p. mergePendingStreamChunk p c)
       (content_chunk (StreamUpdate g ty c :: 'n ChatEvent)) p) (handleStreamUpdate g ty c h)"
  by (cases ty) (auto simp: streaming_def handleStreamUpdate_def scheduleStreamFlush_def
      render_messages_def queue_ok_def)

lemma streaming_render: "streaming g v p h \<Longrightarrow> streaming g v p (react_render now h)"
  by (auto simp: streaming_def react_render_def render_messages_def queue_ok_def)

lemma streaming_step:
  assumes "streaming g v p h" "streams g ev"
  shows "streaming g v (fold (\<lambda>c p. mergePendingStreamChunk p c) (content_chunk ev) p)
           (chat_step t (eg, now, ev) h)
    \<or> content_chunk ev = [] \<and> streaming g (grow v p) [] (chat_step t (eg, now, ev) h)"
  using assms streaming_update[OF assms(1)] streaming_flush[OF assms(1)] streaming_render[OF assms(1)]
  by (cases ev) (auto simp: flush_timer_def)

text \<open>
  A list of increments that no batching can misread: no chunk starts with the concatenation of
  the chunks just before it, and no run of chunks starts with everything before the run.
\<close>

definition unambiguous :: "jsstring list \<Rightarrow> bool" where
  "unambiguous cs \<longleftrightarrow>
     (\<forall>j<length cs. \<forall>i<j. \<not> prefix (concat (drop i (take j cs))) (cs ! j))
   \<and> (\<forall>k\<le>length cs. \<forall>j<k. 0 < j \<longrightarrow> \<not> prefix (concat (take j cs)) (concat (drop j (take k cs))))"

definition batched :: "jsstring list \<Rightarrow> nat \<Rightarrow> jsstring \<Rightarrow> jsstring \<Rightarrow> bool" where
  "batched cs n v p \<longleftrightarrow> n \<le> length cs
     \<and> (\<exists>j\<le>n. v = concat (take j cs) \<and> p = concat (drop j (take n cs)))"

definition latest :: "jsstring \<Rightarrow> jsstring \<Rightarrow> jsstring \<Rightarrow> bool" where
  "latest l v p \<longleftrightarrow> (if p = [] then v = l else p = l \<and> prefix v p)"

lemma merge_cases:
  "mergePendingStreamChunk p c = (if p \<noteq> [] \<and> prefix p c then c else p @ c)"
  by (auto simp: mergePendingStreamChunk_def startsWith_def)

lemma batched_flush:
  assumes "unambiguous cs" "batched cs n v p"
  shows "batched cs n (grow v p) []"
proof -
  obtain j where j: "j \<le> n" "v = concat (take j cs)" "p = concat (drop j (take n cs))"
      and n: "n \<le> length cs"
    using assms(2) by (auto simp: batched_def)
  have vp: "v @ p = concat (take n cs)"
    using j by (metis append_take_drop_id concat_append min.absorb1 take_take)
  have "\<not> prefix v p" if "v \<noteq> []" "p \<noteq> []"
  proof -
    have "0 < j" using that j by (cases j) auto
    moreover have "j < n" using that j by (auto simp: not_less intro: ccontr)
    ultimately show ?thesis using assms(1) n j by (auto simp: unambiguous_def)
  qed
  then have "grow v p = v @ p" by (auto simp: grow_def absorb_cases)
  with vp n show ?thesis by (auto simp: batched_def intro!: exI[of _ n])
qed

lemma batched_update:
  assumes "unambiguous cs" "batched cs n v p" "n < length cs"
  shows "batched cs (Suc n) v (mergePendingStreamChunk p (cs ! n))"
proof -
  obtain j where j: "j \<le> n" "v = concat (take j cs)" "p = concat (drop j (take n cs))"
    using assms(2) by (auto simp: batched_def)
  have "\<not> prefix p (cs ! n)" if "p \<noteq> []"
  proof -
    have "j < n" using that j by (auto simp: not_less intro: ccontr)
    with assms(1,3) j show ?thesis by (auto simp: unambiguous_def)
  qed
  then have "mergePendingStreamChunk p (cs ! n) = p @ cs ! n" by (auto simp: merge_cases)
  with j assms(3) show ?thesis
    by (auto simp: batched_def take_Suc_conv_app_nth intro!: exI[of _ j])
qed

lemma latest_flush: "latest l v p \<Longrightarrow> latest l (grow v p) []"
  by (auto simp: latest_def grow_def absorb_cases split: if_splits)

lemma latest_update: "latest l v p \<Longrightarrow> prefix l c \<Longrightarrow> latest c v (mergePendingStreamChunk p c)"
  by (auto simp: latest_def merge_cases split: if_splits
      dest: prefix_order.order_trans)

definition chunks_of :: "'n timed_event list \<Rightarrow> jsstring list" where
  "chunks_of es = concat (map (\<lambda>e. content_chunk (snd (snd e))) es)"

lemma drop_eq_Cons:
  assumes "drop n xs = c # ys"
  shows "n < length xs \<and> xs ! n = c \<and> drop (Suc n) xs = ys"
proof -
  have n: "n < length xs" using assms by (cases "n < length xs") auto
  with assms show ?thesis by (simp flip: Cons_nth_drop_Suc)
qed

lemma content_chunk_cases: "content_chunk ev = [] \<or> (\<exists>c. content_chunk ev = [c])"
  by (cases ev rule: content_chunk.cases) auto

lemma run_increments:
  assumes "unambiguous cs"
  shows "streaming g v p h \<Longrightarrow> batched cs n v p \<Longrightarrow> drop n cs = chunks_of es \<Longrightarrow>
    \<forall>e\<in>set es. streams g (snd (snd e)) \<Longrightarrow>
    \<exists>v' p'. streaming g v' p' (fold (chat_step t) es h) \<and> batched cs (length cs) v' p'"
proof (induction es arbitrary: v p h n)
  case Nil
  then have "n = length cs" by (auto simp: chunks_of_def batched_def)
  with Nil show ?case by auto
next
  case (Cons e es)
  obtain eg now ev where e: "e = (eg, now, ev)" by (cases e) auto
  have rest: "content_chunk ev @ chunks_of es = drop n cs" "streams g ev"
    using Cons.prems by (auto simp: e chunks_of_def)
  from streaming_step[OF Cons.prems(1) rest(2), of t eg now] content_chunk_cases[of ev]
  consider (none) "content_chunk ev = []" "streaming g v p (chat_step t e h)"
    | (flush) "content_chunk ev = []" "streaming g (grow v p) [] (chat_step t e h)"
    | (chunk) c where "content_chunk ev = [c]"
        "streaming g v (mergePendingStreamChunk p c) (chat_step t e h)"
    by (auto simp: e)
  then show ?case
  proof cases
    case none
    with Cons.IH[OF none(2) Cons.prems(2)] Cons.prems rest show ?thesis by auto
  next
    case flush
    with Cons.IH[OF flush(2) batched_flush[OF assms Cons.prems(2)]] Cons.prems rest
    show ?thesis by auto
  next
    case chunk
    then have "n < length cs" "cs ! n = c" "drop (Suc n) cs = chunks_of es"
      using rest drop_eq_Cons[of n cs c "chunks_of es"] by auto
    with Cons.IH[of v "mergePendingStreamChunk p c" _ "Suc n"] chunk
      batched_update[OF assms Cons.prems(2)] Cons.prems
    show ?thesis by auto
  qed
qed

lemma run_snapshots:
  "streaming g v p h \<Longrightarrow> latest l v p \<Longrightarrow> snapshots l (chunks_of es) \<Longrightarrow>
    \<forall>e\<in>set es. streams g (snd (snd e)) \<Longrightarrow>
    \<exists>v' p'. streaming g v' p' (fold (chat_step t) es h) \<and> latest (last (l # chunks_of es)) v' p'"
proof (induction es arbitrary: v p h l)
  case Nil
  then show ?case by (auto simp: chunks_of_def)
next
  case (Cons e es)
  obtain eg now ev where e: "e = (eg, now, ev)" by (cases e) auto
  have split: "chunks_of (e # es) = content_chunk ev @ chunks_of es" and ev: "streams g ev"
    using Cons.prems by (auto simp: e chunks_of_def)
  from streaming_step[OF Cons.prems(1) ev, of t eg now] content_chunk_cases[of ev]
  consider (none) "content_chunk ev = []" "streaming g v p (chat_step t e h)"
    | (flush) "content_chunk ev = []" "streaming g (grow v p) [] (chat_step t e h)"
    | (chunk) c where "content_chunk ev = [c]"
        "streaming g v (mergePendingStreamChunk p c) (chat_step t e h)"
    by (auto simp: e)
  then show ?case
  proof cases
    case none
    with Cons.IH[OF none(2) Cons.prems(2)] Cons.prems split show ?thesis by auto
  next
    case flush
    with Cons.IH[OF flush(2) latest_flush[OF Cons.prems(2)]] Cons.prems split show ?thesis by auto
  next
    case chunk
    then have "prefix l c" "snapshots c (chunks_of es)" using Cons.prems(3) split by auto
    with Cons.IH[OF chunk(2) latest_update[OF Cons.prems(2)]] Cons.prems(4) chunk split
    show ?thesis by auto
  qed
qed

definition final_text :: "jsstring \<Rightarrow> jsstring" where
  "final_text s = (if str_includes s THINK then visibleContent (parseThinkTags s) else s)"

lemma complete_content:
  "getMessageContent (completeAssistantMessage m now) = final_text (getMessageContent m)"
  by (simp add: completeAssistantMessage_def finalizeMessage_content final_text_def)

lemma shows_complete:
  "shows_text v ms \<Longrightarrow>
     getMessageContent (last (apply_update g now (CompleteUpdate g) ms)) = final_text v"
  by (auto simp: shows_text_def updateLast_last complete_content isPendingAssistantMessage_def
      isAssistantMessagePending_def isAssistantMessageFinal_def)

lemma streaming_complete:
  assumes "streaming g v p h"
  shows "getMessageContent (last (render_messages n (handleStreamComplete eg now g h)))
    = final_text (grow v p)"
proof -
  let ?h = "(flushStreamUpdates eg now g h)\<lparr>chat_requesting := False\<rparr>"
  have f: "streaming g (grow v p) [] ?h"
    using streaming_flush[OF assms, of eg now]
    by (auto simp: streaming_def render_messages_def)
  have "render_messages n (onMessageUpdate eg now (CompleteUpdate g) ?h)
      = apply_update g (if eg \<and> \<not> chat_scheduled ?h then now else n) (CompleteUpdate g)
          (render_messages n ?h)"
    using f by (auto simp: streaming_def onMessageUpdate_def render_messages_def queue_ok_def
        simp del: apply_update.simps)
  moreover have "chat_generation h = g" using assms by (simp add: streaming_def)
  ultimately show ?thesis
    using f shows_complete by (simp add: handleStreamComplete_def streaming_def del: apply_update.simps)
qed

lemma streaming_start:
  assumes "queue_ok h" "cfg_stream config"
  shows "streaming (chat_generation h + 1) [] []
    (chat_step t (eg, now, SendChat config en (ms @ [createLoadingAssistantMessage k v n])) h)"
  using assms
  by (auto simp: streaming_def sendChat_def sendStreamingChat_def Let_def effect_def
      discardPendingStreamUpdates_def abort_active_def no_chunks_def onMessageUpdate_def queue_ok_def
      render_messages_def shows_text_def isPendingAssistantMessage_def isAssistantMessagePending_def
      split: option.splits)

lemma increments_text:
  assumes "streaming g [] [] h" "unambiguous (chunks_of es)" "\<forall>e\<in>set es. streams g (snd (snd e))"
  shows "\<exists>v p. streaming g v p (fold (chat_step t) es h) \<and> grow v p = concat (chunks_of es)"
proof -
  let ?cs = "chunks_of es"
  have b0: "batched ?cs 0 [] []" by (simp add: batched_def)
  obtain v p where s: "streaming g v p (fold (chat_step t) es h)" and b: "batched ?cs (length ?cs) v p"
    using run_increments[OF assms(2,1) b0 _ assms(3), of t] by auto
  have "batched ?cs (length ?cs) (grow v p) []" by (rule batched_flush[OF assms(2) b])
  then have "grow v p = concat ?cs"
    by (auto simp: batched_def) (metis append_take_drop_id concat_append append_Nil2 concat_eq_Nil_conv)
  with s show ?thesis by blast
qed

lemma snapshots_text:
  assumes "streaming g [] [] h" "snapshots [] (chunks_of es)" "\<forall>e\<in>set es. streams g (snd (snd e))"
  shows "\<exists>v p. streaming g v p (fold (chat_step t) es h) \<and> grow v p = last ([] # chunks_of es)"
proof -
  have l0: "latest [] [] []" by (simp add: latest_def)
  obtain v p where "streaming g v p (fold (chat_step t) es h)" "latest (last ([] # chunks_of es)) v p"
    using run_snapshots[OF assms(1) l0 assms(2,3), of t] by auto
  with latest_flush show ?thesis by (fastforce simp: latest_def)
qed


definition sample_config :: "nat PlaygroundConfig" where
  "sample_config = \<lparr>cfg_model = js ''m'', cfg_group = js ''g'', cfg_temperature = 1, cfg_top_p = 1,
     cfg_max_tokens = 1, cfg_frequency_penalty = 0, cfg_presence_penalty = 0, cfg_seed = None,
     cfg_stream = True\<rparr>"

definition sample_enabled :: ParameterEnabled where
  "sample_enabled = \<lparr>en_temperature = True, en_top_p = True, en_max_tokens = False,
     en_frequency_penalty = True, en_presence_penalty = True, en_seed = False\<rparr>"

definition sample_stream :: "nat timed_event list" where
  "sample_stream = [(True, 1, StreamUpdate 1 ContentChunk (js ''Hel'')), (True, 2, FlushTimer 1),
     (True, 3, StreamUpdate 1 ContentChunk (js ''lo'')), (True, 4, Render)]"

lemma sample_stream_facts:
  "chunks_of sample_stream = [js ''Hel'', js ''lo'']" "unambiguous [js ''Hel'', js ''lo'']"
  "\<forall>e\<in>set sample_stream. streams 1 (snd (snd e))" "final_text (js ''Hello'') = js ''Hello''"
  by (auto simp: sample_stream_def chunks_of_def unambiguous_def final_text_def str_includes_iff
      THINK_eq less_Suc_eq le_Suc_eq numeral_2_eq_2 sublist_code)


section \<open>Stopping and the text not yet flushed\<close>

lemma stop_chat_parts [simp]:
  "chat_messages (abort_active (effect e h)) = chat_messages h"
  "chat_queue (abort_active (effect e h)) = chat_queue h"
  "chat_scheduled (abort_active (effect e h)) = chat_scheduled h"
  by (simp_all add: abort_active_def effect_def split: option.splits)

lemma apply_stale_flush: "g \<noteq> c \<Longrightarrow> apply_update c now (FlushUpdate g p) ms = ms"
  by simp

text \<open>Stopping drops the unflushed text unless React evaluates early.  \<open>stopGeneration\<close> flushes
  the pending chunks and then moves the generation on; when the flush is not evaluated at once,
  because another update is waiting for a render or because React does not take the early path,
  its updater sees the new generation and returns the messages unchanged.  The rendered
  conversation is the one that would result had the pending text never arrived.\<close>

theorem stop_drops_unflushed_text:
  assumes "chat_scheduled h \<or> \<not> eager"
  shows "render_messages now' (stopGeneration eager now h)
       = render_messages now' (stopGeneration eager now (h\<lparr>chat_pending := no_chunks (chat_generation h)\<rparr>))"
  using assms
  by (auto simp: stopGeneration_def Let_def flushStreamUpdates_def onMessageUpdate_def
      discardPendingStreamUpdates_def render_messages_def no_chunks_def)

theorem stop_drops_unflushed_text_witness:
  "getMessageContent (last (render_messages 6 (stopGeneration False 5
     ((useChatHandler [createLoadingAssistantMessage (js ''a'') (js ''v'') 0] :: nat ChatHandler)
        \<lparr>chat_pending := \<lparr>pending_generation = 0, pending_content = js ''Hello'',
           pending_reasoning = []\<rparr>\<rparr>)))) = []"
  using stop_drops_unflushed_text[of "(useChatHandler [createLoadingAssistantMessage (js ''a'') (js ''v'') 0] :: nat ChatHandler)
        \<lparr>chat_pending := \<lparr>pending_generation = 0, pending_content = js ''Hello'',
           pending_reasoning = []\<rparr>\<rparr>" False 6 5]
  by (simp add: stopGeneration_def Let_def flushStreamUpdates_def onMessageUpdate_def
      discardPendingStreamUpdates_def render_messages_def no_chunks_def useChatHandler_def
      updateLastAssistantMessage_def complete_content final_text_def str_includes_def indexOf_def
      THINK_eq isAssistantMessagePending_def)

end
