(* ===== verification/Playground_Page.thy ===== *)
theory Playground_Page
  imports Playground_Stream_Laws Playground_Chat_Laws
begin

text \<open>
  The chat handler and the stream controller together, as \<open>useChatHandler\<close> wires them through
  \<open>useStreamRequest\<close>.  A call of \<open>sendStreamRequest\<close> or \<open>stopStream\<close> runs the controller at once; a
  callback of the controller runs the handler that \<open>sendStreamingChat\<close> closed over, with the chat
  generation of that call.  The two components number their requests separately; \<open>page_links\<close> records
  which chat generation the callbacks of a stream request carry, and \<open>page_http\<close> the requests whose
  promise has not settled yet.
\<close>

section \<open>The composed page\<close>

record 'n Page =
  page_chat :: "'n ChatHandler"
  page_stream :: StreamController
  page_links :: "(nat \<times> nat) list"
  page_http :: "nat list"

definition open_page :: "Message list \<Rightarrow> 'n Page" where
  "open_page ms = \<lparr>page_chat = useChatHandler ms, page_stream = createStreamRequestController,
     page_links = [], page_http = []\<rparr>"

text \<open>What the calls of the chat handler do to the rest of the page.  A toast and an abort change none of
  its state: the promise of an aborted request settles later.\<close>

fun run_effect :: "'n ChatEffect \<Rightarrow> 'n Page \<Rightarrow> 'n Page" where
  "run_effect (SendStreamRequest g payload) p =
     (let s = send_start (page_stream p) in
      p\<lparr>page_stream := s, page_links := (ctl_generation s, g) # page_links p\<rparr>)"
| "run_effect StopStream p = p\<lparr>page_stream := stop (page_stream p)\<rparr>"
| "run_effect (SendChatCompletion g payload) p = p\<lparr>page_http := g # page_http p\<rparr>"
| "run_effect (Abort a) p = p"
| "run_effect (ToastError e) p = p"

definition new_effects :: "'n ChatHandler \<Rightarrow> 'n ChatHandler \<Rightarrow> 'n ChatEffect list" where
  "new_effects h h' = drop (length (chat_effects h)) (chat_effects h')"

definition on_chat :: "(jsstring \<Rightarrow> jsstring) \<Rightarrow> 'n timed_event \<Rightarrow> 'n Page \<Rightarrow> 'n Page" where
  "on_chat t e p =
     (let h = chat_step t e (page_chat p) in
      fold run_effect (new_effects (page_chat p) h) (p\<lparr>page_chat := h\<rparr>))"

text \<open>The three callbacks \<open>sendStreamingChat\<close> passes on.\<close>

fun callback_event :: "nat \<Rightarrow> StreamCallback \<Rightarrow> 'n ChatEvent" where
  "callback_event g (OnUpdate ty c) = StreamUpdate g ty c"
| "callback_event g OnComplete = StreamComplete g"
| "callback_event g (OnError e code) = StreamFailed g e code"

definition run_callback ::
  "(jsstring \<Rightarrow> jsstring) \<Rightarrow> bool \<Rightarrow> int \<Rightarrow> nat \<times> StreamCallback \<Rightarrow> 'n Page \<Rightarrow> 'n Page" where
  "run_callback t eager now rc p =
     (case map_of (page_links p) (fst rc) of
        None \<Rightarrow> p
      | Some g \<Rightarrow> on_chat t (eager, now, callback_event g (snd rc)) p)"

text \<open>An event of the network: a settled header promise or an event of a source.\<close>

definition on_source ::
  "(jsstring \<Rightarrow> ChatCompletionChunk option) \<Rightarrow> (jsstring \<Rightarrow> StreamErrorPayload option) \<Rightarrow>
   (jsstring \<Rightarrow> jsstring) \<Rightarrow> bool \<Rightarrow> int \<Rightarrow> ControllerEvent \<Rightarrow> 'n Page \<Rightarrow> 'n Page" where
  "on_source pc pe t eager now e p =
     (let s = controller_step pc pe e (page_stream p);
          cs = drop (length (ctl_log (page_stream p))) (ctl_log s)
      in fold (run_callback t eager now) cs (p\<lparr>page_stream := s\<rparr>))"

datatype 'n PageEvent =
    PageSend "'n PlaygroundConfig" ParameterEnabled "Message list"
  | PageStop
  | PageSet "Message list"
  | PageTimer nat
  | PageRender
  | PageAnswer nat "ChatCompletionChoice list"
  | PageAnswerFailed nat RequestErrorLike
  | PageSource ControllerEvent

definition answered ::
  "(jsstring \<Rightarrow> jsstring) \<Rightarrow> bool \<Rightarrow> int \<Rightarrow> nat \<Rightarrow> 'n ChatEvent \<Rightarrow> 'n Page \<Rightarrow> 'n Page" where
  "answered t eager now g ev p =
     (if g \<in> set (page_http p)
      then on_chat t (eager, now, ev) (p\<lparr>page_http := filter (\<lambda>x. x \<noteq> g) (page_http p)\<rparr>) else p)"

fun page_step ::
  "(jsstring \<Rightarrow> ChatCompletionChunk option) \<Rightarrow> (jsstring \<Rightarrow> StreamErrorPayload option) \<Rightarrow>
   (jsstring \<Rightarrow> jsstring) \<Rightarrow> bool \<times> int \<times> 'n PageEvent \<Rightarrow> 'n Page \<Rightarrow> 'n Page" where
  "page_step pc pe t (eager, now, PageSend config en ms) p = on_chat t (eager, now, SendChat config en ms) p"
| "page_step pc pe t (eager, now, PageStop) p = on_chat t (eager, now, StopGeneration) p"
| "page_step pc pe t (eager, now, PageSet ms) p = on_chat t (eager, now, UpdateMessages (SetMessages ms)) p"
| "page_step pc pe t (eager, now, PageTimer g) p = on_chat t (eager, now, FlushTimer g) p"
| "page_step pc pe t (eager, now, PageRender) p = on_chat t (eager, now, Render) p"
| "page_step pc pe t (eager, now, PageAnswer g r) p = answered t eager now g (Resolved g r) p"
| "page_step pc pe t (eager, now, PageAnswerFailed g e) p = answered t eager now g (Rejected g e) p"
| "page_step pc pe t (eager, now, PageSource e) p =
     (if event_request e = None then p else on_source pc pe t eager now e p)"

section \<open>What one event does\<close>

definition live :: "StreamController \<Rightarrow> bool" where
  "live s \<longleftrightarrow> ctl_source s \<noteq> None \<or> ctl_awaiting s = Some (ctl_generation s)"

lemma emit_updates:
  "fold (emit_update r) us s = s\<lparr>ctl_log := ctl_log s @ map (\<lambda>u. (r, OnUpdate (update_type u) (update_chunk u))) us\<rparr>"
  by (induction us arbitrary: s) (simp_all add: emit_update_def callback_def)

text \<open>An event of the network is ignored, opens the source, passes on some updates, or ends the request.\<close>

definition ends_request :: "nat \<Rightarrow> StreamCallback \<Rightarrow> StreamController \<Rightarrow> StreamController \<Rightarrow> bool" where
  "ends_request r c s s' \<longleftrightarrow> live s \<and> r = ctl_generation s \<and> terminal c \<and> ctl_log s' = ctl_log s @ [(r, c)]
     \<and> \<not> live s' \<and> ctl_generation s' = r"

lemma error_ends:
  assumes "controller_ok s" "\<not> ignores r s"
  shows "ends_request r (OnError msg code) s (handleError r msg code s)"
  using assms by (auto simp: ends_request_def live_def handleError_def ignores_def isCurrent_def controller_ok_def
      closeActiveSource_def close_source_def callback_def mark_completed_def Let_def)

lemma done_ends:
  assumes "controller_ok s" "\<not> ignores r s"
  shows "ends_request r OnComplete s (callback r OnComplete (closeActiveSource r (mark_completed r s)))"
  using assms by (auto simp: ends_request_def live_def ignores_def isCurrent_def controller_ok_def
      closeActiveSource_def close_source_def callback_def mark_completed_def Let_def)

lemma headers_failed_ends:
  assumes "controller_ok s" "ctl_generation s = r" "ctl_awaiting s = Some r"
  shows "ends_request r (OnError (nullish err STREAM_START_ERROR) None) s (send_headers_failed r err s)"
proof -
  have "ctl_source s = None" using assms by (cases "ctl_source s") (auto simp: controller_ok_def)
  with assms show ?thesis by (auto simp: ends_request_def live_def send_headers_failed_def callback_def)
qed

lemma source_cases:
  assumes "controller_ok s" "event_request e = Some r"
  obtains (same) "controller_step pc pe e s = s"
  | (opened) "e = HeadersReady r" "live s" "r = ctl_generation s"
      "controller_step pc pe e s = s\<lparr>ctl_awaiting := None, ctl_opened := ctl_opened s @ [r], ctl_source := Some r,
         ctl_streaming := True\<rparr>"
  | (updates) us d where "e = SourceMessage r d" "ctl_source s = Some r" "r = ctl_generation s"
      "parseStreamMessageUpdates pc (nullish d []) = Some us" "nullish d [] \<noteq> STREAM_DONE_MESSAGE"
      "controller_step pc pe e s = fold (emit_update r) us s"
  | (ended) c where "ends_request r c s (controller_step pc pe e s)"
proof (cases "controller_step pc pe e s = s")
  case False
  show thesis
  proof (cases e)
    case (HeadersFailed g err)
    then have g: "g = r" using assms(2) by simp
    with False HeadersFailed have "ctl_generation s = r" "ctl_awaiting s = Some r"
      by (simp_all add: send_headers_failed_def split: if_splits)
    from headers_failed_ends [OF assms(1) this] HeadersFailed g show thesis by (intro ended) simp
  next
    case (HeadersReady g)
    then have g: "g = r" using assms(2) by simp
    with False HeadersReady have "ctl_generation s = r" "ctl_awaiting s = Some r"
      by (simp_all add: send_headers_ready_def split: if_splits)
    with HeadersReady g show thesis by (intro opened) (simp_all add: live_def send_headers_ready_def)
  next
    case (SourceMessage g d)
    then have g: "g = r" using assms(2) by simp
    have live: "\<not> ignores r s" using False SourceMessage g by (simp add: on_message_def split: if_splits)
    show thesis
    proof (cases "nullish d [] = STREAM_DONE_MESSAGE")
      case True
      with done_ends [OF assms(1) live] SourceMessage g live show thesis
        by (intro ended) (simp add: on_message_def isStreamDoneMessage_def)
    next
      case no_done: False
      show thesis
      proof (cases "parseStreamMessageUpdates pc (nullish d [])")
        case None
        with error_ends [OF assms(1) live, of PARSE_ERROR None] no_done SourceMessage g live show thesis
          by (intro ended) (simp add: on_message_def isStreamDoneMessage_def)
      next
        case (Some us)
        from live have "ctl_source s = Some r" "r = ctl_generation s" by (simp_all add: ignores_def isCurrent_def)
        with Some no_done SourceMessage g live show thesis
          by (intro updates [of d us]) (simp_all add: on_message_def isStreamDoneMessage_def)
      qed
    qed
  next
    case (SourceError g st d)
    then have g: "g = r" using assms(2) by simp
    have live: "\<not> ignores r s" "\<not> isStreamClosedReadyState st"
      using False SourceError g by (simp_all add: on_error_def split: if_splits)
    from error_ends [OF assms(1) live(1)] SourceError g live show thesis
      by (intro ended) (simp add: on_error_def Let_def)
  next
    case (SourceReadyState g st code)
    then have g: "g = r" using assms(2) by simp
    from False SourceReadyState g obtain msg where "\<not> ignores r s" "getStreamReadyStateError st code = Some msg" "msg \<noteq> []"
      by (simp add: on_readystatechange_def split: if_splits option.splits)
    with error_ends [OF assms(1), of r msg None] SourceReadyState g show thesis
      by (intro ended) (simp add: on_readystatechange_def)
  next
    case (StreamThrew g)
    then have g: "g = r" using assms(2) by simp
    have live: "\<not> ignores r s" using False StreamThrew g by (simp add: stream_threw_def split: if_splits)
    from error_ends [OF assms(1) live] StreamThrew g live show thesis by (intro ended) (simp add: stream_threw_def)
  qed (use assms(2) in auto)
qed

section \<open>What the chat handler calls\<close>

lemma effects_simps [simp]:
  "chat_effects (onMessageUpdate eg now u h) = chat_effects h"
  "chat_effects (react_render now h) = chat_effects h"
  "chat_effects (discardPendingStreamUpdates g h) = chat_effects h"
  "chat_effects (scheduleStreamFlush g h) = chat_effects h"
  "chat_effects (request_finally g h) = chat_effects h"
  "chat_effects (effect e h) = chat_effects h @ [e]"
  by (simp_all add: onMessageUpdate_def react_render_def discardPendingStreamUpdates_def scheduleStreamFlush_def
      request_finally_def effect_def)

lemma effects_flush [simp]: "chat_effects (flushStreamUpdates eg now g h) = chat_effects h"
  by (simp add: flushStreamUpdates_def Let_def)

lemma effects_abort:
  "chat_effects (abort_active h) = chat_effects h @ (case chat_abort h of None \<Rightarrow> [] | Some a \<Rightarrow> [Abort a])"
  by (simp add: abort_active_def split: option.splits)

fun calls_nothing :: "'n ChatEvent \<Rightarrow> bool" where
  "calls_nothing (SendChat _ _ _) = False"
| "calls_nothing StopGeneration = False"
| "calls_nothing Unmount = False"
| "calls_nothing _ = True"

lemma local_effects:
  assumes "calls_nothing ev"
  shows "\<exists>xs. chat_effects (chat_step t (eg, now, ev) h) = chat_effects h @ map ToastError xs"
proof (cases "chat_effects (chat_step t (eg, now, ev) h) = chat_effects h")
  case True
  then show ?thesis by (intro exI [of _ "[]"]) simp
next
  case False
  have one: "\<exists>x. chat_effects (handleStreamError t eg now g e code h) = chat_effects h @ [ToastError x]"
    if "chat_effects (handleStreamError t eg now g e code h) \<noteq> chat_effects h" for g e code
    using that by (simp add: handleStreamError_def Let_def split: if_splits)
  from False assms have "\<exists>x. chat_effects (chat_step t (eg, now, ev) h) = chat_effects h @ [ToastError x]"
    by (cases ev) (simp_all add: handleStreamUpdate_def handleStreamComplete_def flush_timer_def
        request_resolved_def request_rejected_def Let_def one split: if_splits)
  then obtain x where "chat_effects (chat_step t (eg, now, ev) h) = chat_effects h @ map ToastError [x]" by auto
  then show ?thesis by blast
qed

lemma toasts_inert: "fold run_effect (map ToastError xs) p = p"
  by (induction xs) simp_all

lemma on_chat_local:
  assumes "calls_nothing ev"
  shows "on_chat t (eg, now, ev) p = p\<lparr>page_chat := chat_step t (eg, now, ev) (page_chat p)\<rparr>"
proof -
  obtain xs where "chat_effects (chat_step t (eg, now, ev) (page_chat p)) = chat_effects (page_chat p) @ map ToastError xs"
    using local_effects [OF assms] by blast
  then show ?thesis by (simp add: on_chat_def new_effects_def toasts_inert)
qed

lemma on_chat_stream:
  assumes "cfg_stream config"
  shows "on_chat t (eg, now, SendChat config en ms) p =
    p\<lparr>page_chat := chat_step t (eg, now, SendChat config en ms) (page_chat p),
      page_stream := send_start (page_stream p),
      page_links := (ctl_generation (send_start (page_stream p)), chat_generation (page_chat p) + 1) # page_links p\<rparr>"
  using assms by (simp add: on_chat_def new_effects_def sendChat_def sendStreamingChat_def effects_abort Let_def
      onMessageUpdate_def split: option.splits)

lemma on_chat_http:
  assumes "\<not> cfg_stream config"
  shows "on_chat t (eg, now, SendChat config en ms) p =
    p\<lparr>page_chat := chat_step t (eg, now, SendChat config en ms) (page_chat p),
      page_stream := stop (page_stream p), page_http := (chat_generation (page_chat p) + 1) # page_http p\<rparr>"
  using assms by (simp add: on_chat_def new_effects_def sendChat_def sendNonStreamingChat_def effects_abort Let_def
      onMessageUpdate_def split: option.splits)

lemma on_chat_stop:
  "on_chat t (eg, now, StopGeneration) p =
    p\<lparr>page_chat := stopGeneration eg now (page_chat p), page_stream := stop (page_stream p)\<rparr>"
  by (simp add: on_chat_def new_effects_def stopGeneration_def effects_abort Let_def split: option.splits)

section \<open>The chat handler between events\<close>

definition nothing_pending :: "'n ChatHandler \<Rightarrow> bool" where
  "nothing_pending h \<longleftrightarrow> pending_reasoning (chat_pending h) = [] \<and> pending_content (chat_pending h) = []"

definition idle_ok :: "'n ChatHandler \<Rightarrow> bool" where
  "idle_ok h \<longleftrightarrow> nothing_pending h \<and> (\<forall>now. settled (render_messages now h))"

text \<open>Aborted requests belong to earlier generations.\<close>

definition aborts_ok :: "'n ChatHandler \<Rightarrow> bool" where
  "aborts_ok h \<longleftrightarrow> (\<forall>a\<in>set (chat_aborted h). a < chat_generation h) \<and> (\<forall>a. chat_abort h = Some a \<longrightarrow> a \<le> chat_generation h)"

definition chat_ok :: "'n ChatHandler \<Rightarrow> bool" where
  "chat_ok h \<longleftrightarrow> queue_ok h \<and> aborts_ok h \<and> pending_generation (chat_pending h) = chat_generation h
     \<and> (\<not> chat_requesting h \<longrightarrow> idle_ok h)"

lemma pending_simps [simp]:
  "chat_pending (onMessageUpdate eg now u h) = chat_pending h"
  "chat_pending (effect e h) = chat_pending h"
  "chat_pending (abort_active h) = chat_pending h"
  "chat_pending (discardPendingStreamUpdates g h) = no_chunks g"
  "chat_pending (react_render now h) = chat_pending h"
  "chat_pending (scheduleStreamFlush g h) = chat_pending h"
  "chat_pending (request_finally g h) = chat_pending h"
  by (simp_all add: onMessageUpdate_def effect_def abort_active_def discardPendingStreamUpdates_def react_render_def
      scheduleStreamFlush_def request_finally_def split: option.splits)

lemma requesting_more [simp]:
  "chat_requesting (abort_active h) = chat_requesting h"
  "chat_requesting (discardPendingStreamUpdates g h) = chat_requesting h"
  "chat_requesting (react_render now h) = chat_requesting h"
  "chat_requesting (scheduleStreamFlush g h) = chat_requesting h"
  "chat_requesting (flushStreamUpdates eg now g h) = chat_requesting h"
  by (simp_all add: abort_active_def discardPendingStreamUpdates_def react_render_def effect_def
      scheduleStreamFlush_def flushStreamUpdates_def Let_def onMessageUpdate_def split: option.splits)

lemma no_chunks_fields [simp]:
  "pending_generation (no_chunks g) = g" "pending_content (no_chunks g) = []" "pending_reasoning (no_chunks g) = []"
  by (simp_all add: no_chunks_def)

lemma pending_flush:
  "pending_generation (chat_pending h) = g \<Longrightarrow> chat_generation h = g \<Longrightarrow>
     chat_pending (flushStreamUpdates eg now g h) = no_chunks g"
  by (cases "chat_pending h") (simp add: flushStreamUpdates_def Let_def no_chunks_def)

lemma aborts_simps [simp]:
  "aborts_ok (onMessageUpdate eg now u h) = aborts_ok h"
  "aborts_ok (effect e h) = aborts_ok h"
  "aborts_ok (discardPendingStreamUpdates g h) = aborts_ok h"
  "aborts_ok (react_render now h) = aborts_ok h"
  "aborts_ok (scheduleStreamFlush g h) = aborts_ok h"
  "aborts_ok (h\<lparr>chat_requesting := b\<rparr>) = aborts_ok h"
  "aborts_ok (h\<lparr>chat_pending := c\<rparr>) = aborts_ok h"
  "aborts_ok (h\<lparr>chat_timer := tm\<rparr>) = aborts_ok h"
  by (simp_all add: aborts_ok_def onMessageUpdate_def effect_def discardPendingStreamUpdates_def react_render_def
      scheduleStreamFlush_def)

lemma aborts_flush [simp]: "aborts_ok (flushStreamUpdates eg now g h) = aborts_ok h"
  by (simp add: flushStreamUpdates_def Let_def)

lemma aborts_next:
  assumes "aborts_ok h"
  shows "aborts_ok (abort_active (h\<lparr>chat_generation := Suc (chat_generation h)\<rparr>))"
    "chat_abort (abort_active k) = None"
  using assms by (auto simp: aborts_ok_def abort_active_def effect_def less_Suc_eq_le split: option.splits)

lemma aborts_set: "aborts_ok h \<Longrightarrow> g \<le> chat_generation h \<Longrightarrow> aborts_ok (h\<lparr>chat_abort := Some g\<rparr>)"
  by (simp add: aborts_ok_def)

lemma aborts_after [simp]:
  "aborts_ok (abort_active (effect e h)) = aborts_ok (abort_active h)"
  "aborts_ok (abort_active (discardPendingStreamUpdates g h)) = aborts_ok (abort_active h)"
  by (simp_all add: abort_active_def effect_def discardPendingStreamUpdates_def aborts_ok_def split: option.splits)

lemma aborts_effects [simp]: "aborts_ok (h\<lparr>chat_effects := es\<rparr>) = aborts_ok h"
  by (simp add: aborts_ok_def)

lemma aborts_send:
  assumes "aborts_ok h"
  shows "aborts_ok (chat_step t (eg, now, SendChat config en ms) h)" "aborts_ok (stopGeneration eg now h)"
proof -
  have b: "aborts_ok (abort_active (k\<lparr>chat_generation := Suc (chat_generation k)\<rparr>))" if "aborts_ok k" for k :: "'a ChatHandler"
    by (rule aborts_next [OF that])
  have k: "aborts_ok (onMessageUpdate eg now (SetMessages ms) h)" using assms by simp
  show "aborts_ok (chat_step t (eg, now, SendChat config en ms) h)"
    using b [OF k] by (simp add: sendChat_def sendStreamingChat_def sendNonStreamingChat_def Let_def aborts_set)
  show "aborts_ok (stopGeneration eg now h)"
    using b [of "flushStreamUpdates eg now (chat_generation h) h"] assms
    by (simp add: stopGeneration_def Let_def)
qed

lemma chat_ok_send: "chat_ok h \<Longrightarrow> chat_ok (chat_step t (eg, now, SendChat config en ms) h) \<and> chat_requesting (chat_step t (eg, now, SendChat config en ms) h)
    \<and> chat_generation (chat_step t (eg, now, SendChat config en ms) h) = chat_generation h + 1"
  using aborts_send(1) [of h t eg now config en ms]
  by (simp add: chat_ok_def sendChat_def sendStreamingChat_def sendNonStreamingChat_def Let_def)

lemma chat_ok_stop:
  assumes "chat_ok h"
  shows "chat_ok (stopGeneration eg now h)"
proof -
  have "chat_pending (stopGeneration eg now h) = no_chunks (chat_generation h + 1)" "queue_ok (stopGeneration eg now h)"
    by (simp_all add: stopGeneration_def Let_def)
  with assms stop_result [of h] aborts_send(2) [of h] show ?thesis by (simp add: chat_ok_def idle_ok_def nothing_pending_def)
qed

lemma chat_ok_terminal:
  assumes "chat_ok h" "terminal c"
  shows "chat_ok (chat_step t (eg, now, callback_event (chat_generation h) c) h)
    \<and> \<not> chat_requesting (chat_step t (eg, now, callback_event (chat_generation h) c) h)"
  using assms by (cases c) (auto simp: chat_ok_def idle_ok_def nothing_pending_def handleStreamComplete_def handleStreamError_def Let_def pending_flush
      simp del: apply_update.simps intro!: render_settled settled_complete settled_error)

lemma chat_ok_update:
  assumes "chat_ok h" "chat_requesting h"
  shows "chat_ok (handleStreamUpdate g ty c h) \<and> chat_requesting (handleStreamUpdate g ty c h)"
  using assms by (cases ty) (auto simp: chat_ok_def handleStreamUpdate_def)

lemma chat_ok_timer:
  assumes "chat_ok h"
  shows "chat_ok (flush_timer eg now g h) \<and> chat_requesting (flush_timer eg now g h) = chat_requesting h"
proof (cases "chat_requesting h")
  case True
  with assms show ?thesis
    by (cases "g = chat_generation h") (auto simp: chat_ok_def flush_timer_def pending_flush, auto simp: flushStreamUpdates_def)
next
  case False
  with assms show ?thesis
    by (auto simp: chat_ok_def idle_ok_def nothing_pending_def flush_timer_def flushStreamUpdates_def Let_def render_messages_def)
qed

lemma chat_ok_render: "chat_ok h \<Longrightarrow> chat_ok (react_render now h)"
  by (auto simp: chat_ok_def idle_ok_def nothing_pending_def) (simp add: render_messages_def react_render_def)

lemma chat_ok_set:
  assumes "chat_ok h" "settled ms"
  shows "chat_ok (onMessageUpdate eg now (SetMessages ms) h)"
  using assms by (auto simp: chat_ok_def idle_ok_def nothing_pending_def intro!: render_settled)

lemma settled_response:
  "r \<noteq> [] \<Longrightarrow> settled (apply_update g now (ResponseUpdate g r) ms)"
  by (cases r) (auto intro!: settled_update simp: applyChatCompletionResponse_def applyChatCompletionChoice_def
      isAssistantMessagePending_def Let_def)

lemma finally_current: "chat_generation h = g \<Longrightarrow> request_finally g h = h\<lparr>chat_abort := None, chat_requesting := False\<rparr>"
  by (simp add: request_finally_def)

lemma answer_done:
  assumes "chat_ok k" "idle_ok k" "chat_generation k = g"
  shows "chat_ok (request_finally g k) \<and> \<not> chat_requesting (request_finally g k)"
  using assms by (simp add: finally_current chat_ok_def idle_ok_def nothing_pending_def aborts_ok_def render_messages_def)

lemma chat_ok_answer:
  assumes "chat_ok h" "ev = Resolved g r \<or> ev = Rejected g err" "g = chat_generation h" "nothing_pending h"
  shows "chat_ok (chat_step t (eg, now, ev) h) \<and> \<not> chat_requesting (chat_step t (eg, now, ev) h)"
proof -
  have na: "g \<notin> set (chat_aborted h)" using assms(1,3) by (auto simp: chat_ok_def aborts_ok_def)
  have err: "chat_ok (request_finally g (handleStreamError t eg now g e code h))
      \<and> \<not> chat_requesting (request_finally g (handleStreamError t eg now g e code h))" for e code
  proof (rule answer_done)
    show k: "chat_ok (handleStreamError t eg now g e code h)"
      using chat_ok_terminal [OF assms(1), of "OnError e code" t eg now] assms(3) by simp
    show "idle_ok (handleStreamError t eg now g e code h)"
      using k chat_ok_terminal [OF assms(1), of "OnError e code" t eg now] assms(3) by (simp add: chat_ok_def)
  qed (use assms(3) in simp)
  let ?k = "onMessageUpdate eg now (ResponseUpdate g r) h"
  have res: "chat_ok (request_finally g ?k) \<and> \<not> chat_requesting (request_finally g ?k)" if "r \<noteq> []"
  proof (rule answer_done)
    have "settled (render_messages n ?k)" for n
      using assms(1,3) settled_response [OF that] by (intro render_settled) (simp_all add: chat_ok_def)
    then show i: "idle_ok ?k" using assms(4) by (simp add: idle_ok_def nothing_pending_def)
    then show "chat_ok ?k" using assms(1,3) by (simp add: chat_ok_def)
  qed (use assms(3) in simp)
  from assms(2) show ?thesis
  proof
    assume "ev = Resolved g r"
    then show ?thesis using na err res assms(3) by (cases "r = []") (simp_all add: request_resolved_def hasChatCompletionChoice_def)
  next
    assume "ev = Rejected g err"
    then show ?thesis using na err assms(3) by (simp add: request_rejected_def Let_def)
  qed
qed

section \<open>The page between events\<close>

text \<open>A request is outstanding: the stream request is waiting for its headers or its source is open, or
  the promise of the current HTTP request has not settled.\<close>

definition outstanding :: "'n Page \<Rightarrow> bool" where
  "outstanding p \<longleftrightarrow> live (page_stream p) \<or> chat_generation (page_chat p) \<in> set (page_http p)"

definition page_ok :: "'n Page \<Rightarrow> bool" where
  "page_ok p \<longleftrightarrow> controller_ok (page_stream p) \<and> flag_ok (page_stream p) \<and> chat_ok (page_chat p)
     \<and> (live (page_stream p) \<longrightarrow>
          map_of (page_links p) (ctl_generation (page_stream p)) = Some (chat_generation (page_chat p)))
     \<and> (chat_requesting (page_chat p) \<longleftrightarrow> outstanding p)
     \<and> (\<forall>g\<in>set (page_http p). g \<le> chat_generation (page_chat p))
     \<and> (chat_generation (page_chat p) \<in> set (page_http p) \<longrightarrow>
          \<not> live (page_stream p) \<and> nothing_pending (page_chat p))"

lemma stream_live:
  "live (send_start s)" "ctl_generation (send_start s) = Suc (ctl_generation s)" "flag_ok (send_start s)"
  "controller_ok s \<Longrightarrow> \<not> live (stop s)" "flag_ok (stop s)"
  by (auto simp: live_def send_start_def stop_def cancel_def flag_ok_def Let_def controller_ok_def close_optional_def
      close_source_def split: option.splits)

lemma page_ok_local:
  assumes "page_ok p" "chat_ok h" "chat_generation h = chat_generation (page_chat p)"
    "chat_requesting h = chat_requesting (page_chat p)" "nothing_pending (page_chat p) \<longrightarrow> nothing_pending h"
  shows "page_ok (p\<lparr>page_chat := h\<rparr>)"
  using assms by (simp add: page_ok_def outstanding_def)

lemma page_ok_send: "page_ok p \<Longrightarrow> page_ok (on_chat t (eg, now, SendChat config en ms) p)"
proof (cases "cfg_stream config")
  case True
  moreover assume "page_ok p"
  ultimately show ?thesis
    using chat_ok_send [of "page_chat p" t eg now config en ms] stream_live [of "page_stream p"] ok_send [of "page_stream p"]
    by (auto simp: page_ok_def outstanding_def on_chat_stream simp del: chat_step.simps)
next
  case False
  have n: "nothing_pending (chat_step t (eg, now, SendChat config en ms) (page_chat p))"
    using False by (simp add: nothing_pending_def sendChat_def sendNonStreamingChat_def Let_def)
  assume "page_ok p"
  with False n show ?thesis
    using chat_ok_send [of "page_chat p" t eg now config en ms] stream_live [of "page_stream p"] ok_cancel [of "page_stream p" True]
    by (auto simp: page_ok_def outstanding_def on_chat_http stop_def [symmetric] simp del: chat_step.simps)
qed

lemma page_ok_stop:
  assumes "page_ok p"
  shows "page_ok (on_chat t (eg, now, StopGeneration) p)"
proof -
  have "queue_ok (page_chat p)" "chat_ok (page_chat p)" using assms by (auto simp: page_ok_def chat_ok_def)
  then show ?thesis
    using assms stop_result [of "page_chat p" now eg now] chat_ok_stop [of "page_chat p" eg now] stream_live [of "page_stream p"]
      ok_cancel [of "page_stream p" True]
    by (auto simp: page_ok_def outstanding_def on_chat_stop stop_def [symmetric])
qed

lemma page_ok_answered:
  assumes "page_ok p" "ev = Resolved g r \<or> ev = Rejected g err"
  shows "page_ok (answered t eg now g ev p)"
proof (cases "g \<in> set (page_http p)")
  case True
  let ?h = "chat_step t (eg, now, ev) (page_chat p)"
  have "calls_nothing ev" using assms(2) by auto
  from on_chat_local [OF this] True have a: "answered t eg now g ev p =
      p\<lparr>page_http := filter (\<lambda>x. x \<noteq> g) (page_http p), page_chat := ?h\<rparr>" by (simp add: answered_def)
  show ?thesis
  proof (cases "g = chat_generation (page_chat p)")
    case current: True
    have "chat_generation ?h = chat_generation (page_chat p)" using assms(2) by auto
    with assms(1) current True chat_ok_answer [OF _ assms(2) current, of t eg now] show ?thesis
      unfolding a by (auto simp: page_ok_def outstanding_def simp del: chat_step.simps)
  next
    case False
    then have "?h = page_chat p" using assms(2) by (intro chat_guard.stale [of _ g]) (auto simp: timed_generation_def)
    with assms(1) False show ?thesis unfolding a by (auto simp: page_ok_def outstanding_def)
  qed
qed (use assms(1) in \<open>simp add: answered_def\<close>)

lemma page_ok_timer:
  assumes "page_ok p"
  shows "page_ok (on_chat t (eg, now, FlushTimer g) p)"
proof -
  have "nothing_pending (page_chat p) \<longrightarrow> nothing_pending (flush_timer eg now g (page_chat p))"
    by (simp add: nothing_pending_def flush_timer_def flushStreamUpdates_def Let_def)
  with assms chat_ok_timer [of "page_chat p" eg now g] show ?thesis
    by (simp add: on_chat_local) (rule page_ok_local, auto simp: page_ok_def)
qed

lemma page_ok_shown:
  assumes "page_ok p" "settled ms"
  shows "page_ok (on_chat t (eg, now, UpdateMessages (SetMessages ms)) p)"
  using assms chat_ok_set [of "page_chat p" ms eg now]
  by (simp add: on_chat_local) (rule page_ok_local, auto simp: page_ok_def nothing_pending_def)

lemma page_ok_render: "page_ok p \<Longrightarrow> page_ok (on_chat t (eg, now, Render) p)"
  using chat_ok_render [of "page_chat p" now]
  by (simp add: on_chat_local) (rule page_ok_local, auto simp: page_ok_def nothing_pending_def)

lemma callback_updates:
  assumes "map_of (page_links p) r = Some g"
  shows "fold (run_callback t eg now) (map (\<lambda>u. (r, OnUpdate (update_type u) (update_chunk u))) us) p =
    p\<lparr>page_chat := fold (\<lambda>u. handleStreamUpdate g (update_type u) (update_chunk u)) us (page_chat p)\<rparr>"
  using assms by (induction us arbitrary: p) (simp_all add: run_callback_def on_chat_local)

lemma chat_ok_updates:
  assumes "chat_ok h" "chat_requesting h"
  shows "chat_ok (fold (\<lambda>u. handleStreamUpdate g (update_type u) (update_chunk u)) us h)
    \<and> chat_requesting (fold (\<lambda>u. handleStreamUpdate g (update_type u) (update_chunk u)) us h)
    \<and> chat_generation (fold (\<lambda>u. handleStreamUpdate g (update_type u) (update_chunk u)) us h) = chat_generation h"
  using assms by (induction us arbitrary: h) (simp_all add: chat_ok_update)

text \<open>What an event of the network does to the page, in each of the four cases.\<close>

lemma source_same: "controller_step pc pe e (page_stream p) = page_stream p \<Longrightarrow> on_source pc pe t eg now e p = p"
  by (simp add: on_source_def)

lemma source_updates:
  assumes "map_of (page_links p) r = Some g" "controller_step pc pe e (page_stream p) = fold (emit_update r) us (page_stream p)"
  shows "on_source pc pe t eg now e p =
    p\<lparr>page_stream := fold (emit_update r) us (page_stream p),
      page_chat := fold (\<lambda>u. handleStreamUpdate g (update_type u) (update_chunk u)) us (page_chat p)\<rparr>"
  using callback_updates [of "p\<lparr>page_stream := fold (emit_update r) us (page_stream p)\<rparr>" r g t eg now us] assms
  by (simp add: on_source_def emit_updates)

lemma source_ended:
  fixes p :: "'n Page"
  assumes "map_of (page_links p) r = Some g" "ends_request r c (page_stream p) (controller_step pc pe e (page_stream p))"
  shows "on_source pc pe t eg now e p =
    p\<lparr>page_stream := controller_step pc pe e (page_stream p),
      page_chat := chat_step t (eg, now, callback_event g c) (page_chat p)\<rparr>"
proof -
  have "calls_nothing (callback_event g c :: 'n ChatEvent)" by (cases c) simp_all
  then show ?thesis
    using assms by (simp add: on_source_def ends_request_def run_callback_def on_chat_local del: chat_step.simps)
qed

lemma page_ok_source:
  assumes ok: "page_ok p" and e: "event_request e = Some r"
  shows "page_ok (on_source pc pe t eg now e p)"
proof -
  let ?s = "page_stream p" and ?h = "page_chat p"
  have c: "controller_ok ?s" "flag_ok ?s" "chat_ok ?h" using ok by (simp_all add: page_ok_def)
  have nd: "e \<noteq> Dispose" using e by (cases e) simp_all
  have c': "controller_ok (controller_step pc pe e ?s)" "flag_ok (controller_step pc pe e ?s)"
    using controller_step_ok [OF c(1)] flag_step [OF c(2) nd] by simp_all
  have link: "live ?s \<Longrightarrow> map_of (page_links p) (ctl_generation ?s) = Some (chat_generation ?h)"
    and busy: "live ?s \<Longrightarrow> chat_requesting ?h \<and> chat_generation ?h \<notin> set (page_http p)"
    using ok by (auto simp: page_ok_def outstanding_def)
  from c(1) e show ?thesis
  proof (cases rule: source_cases [where pc = pc and pe = pe])
    case same
    then show ?thesis using ok by (simp add: source_same)
  next
    case opened
    then have s: "on_source pc pe t eg now e p = p\<lparr>page_stream := controller_step pc pe e ?s\<rparr>"
      by (simp add: on_source_def)
    have "live (controller_step pc pe e ?s)" "ctl_generation (controller_step pc pe e ?s) = ctl_generation ?s"
      using opened by (simp_all add: live_def)
    with ok c' link busy opened(2) show ?thesis unfolding s by (auto simp: page_ok_def outstanding_def)
  next
    case (updates us d)
    then have l: "live ?s" by (simp add: live_def)
    let ?s' = "fold (emit_update r) us ?s"
    have "live ?s'" "ctl_generation ?s' = ctl_generation ?s" using updates(2) by (simp_all add: live_def emit_updates)
    with ok c' link [OF l] busy [OF l] chat_ok_updates [OF c(3)] show ?thesis
      unfolding source_updates [OF link [OF l, folded updates(3)] updates(6)] updates(6)
      by (auto simp: page_ok_def outstanding_def)
  next
    case (ended cb)
    then have l: "live ?s" "r = ctl_generation ?s" "terminal cb" "\<not> live (controller_step pc pe e ?s)"
      by (simp_all add: ends_request_def)
    have "chat_generation (chat_step t (eg, now, callback_event (chat_generation ?h) cb) ?h) = chat_generation ?h"
      by (cases cb) simp_all
    with ok c' busy [OF l(1)] chat_ok_terminal [OF c(3) l(3), of t eg now] l(4) show ?thesis
      unfolding source_ended [OF link [OF l(1), folded l(2)] ended]
      by (auto simp: page_ok_def outstanding_def simp del: chat_step.simps)
  qed
qed

section \<open>Any number of events\<close>

text \<open>Replaced messages, such as a loaded conversation, do not end in a pending answer.\<close>

fun event_ok :: "bool \<times> int \<times> 'n PageEvent \<Rightarrow> bool" where
  "event_ok (eager, now, PageSet ms) = settled ms"
| "event_ok _ = True"

interpretation page: kept_invariant "page_step pc pe t" page_ok event_ok for pc pe t
proof
  fix e :: "bool \<times> int \<times> 'n PageEvent" and p :: "'n Page"
  assume "event_ok e" "page_ok p"
  moreover obtain eg now ev where "e = (eg, now, ev)" by (cases e) auto
  ultimately show "page_ok (page_step pc pe t e p)"
    by (cases ev) (auto simp: page_ok_send page_ok_stop page_ok_answered page_ok_timer page_ok_shown page_ok_render
        page_ok_source)
qed

definition page_run ::
  "(jsstring \<Rightarrow> ChatCompletionChunk option) \<Rightarrow> (jsstring \<Rightarrow> StreamErrorPayload option) \<Rightarrow>
   (jsstring \<Rightarrow> jsstring) \<Rightarrow> (bool \<times> int \<times> 'n PageEvent) list \<Rightarrow> Message list \<Rightarrow> 'n Page" where
  "page_run pc pe t es ms = fold (page_step pc pe t) es (open_page ms)"

lemma open_page_ok: "settled ms \<Longrightarrow> page_ok (open_page ms)"
  by (simp add: page_ok_def open_page_def outstanding_def live_def createStreamRequestController_def flag_ok_def
      controller_init_ok [unfolded createStreamRequestController_def] chat_ok_def useChatHandler_def queue_ok_def aborts_ok_def
      idle_ok_def nothing_pending_def render_messages_def)

lemma page_run_ok: "settled ms \<Longrightarrow> list_all event_ok es \<Longrightarrow> page_ok (page_run pc pe t es ms)"
  unfolding page_run_def by (rule page.run_kept [OF open_page_ok])

lemma generating_busy: "page_ok p \<Longrightarrow> isGenerating (ctl_streaming (page_stream p)) (page_chat p) = outstanding p"
  by (auto simp: page_ok_def isGenerating_def outstanding_def flag_ok_def live_def)

section \<open>The streamed text\<close>

text \<open>The chat events of one page event while stream request \<open>r\<close> runs with chat generation \<open>g\<close>.\<close>

definition message_updates :: "(jsstring \<Rightarrow> ChatCompletionChunk option) \<Rightarrow> jsstring option \<Rightarrow> StreamMessageUpdate list" where
  "message_updates pc d = nullish (parseStreamMessageUpdates pc (nullish d [])) []"

fun chat_events ::
  "(jsstring \<Rightarrow> ChatCompletionChunk option) \<Rightarrow> nat \<Rightarrow> bool \<times> int \<times> 'n PageEvent \<Rightarrow> 'n timed_event list" where
  "chat_events pc g (eg, now, PageSource (SourceMessage r d)) =
     map (\<lambda>u. (eg, now, StreamUpdate g (update_type u) (update_chunk u))) (message_updates pc d)"
| "chat_events pc g (eg, now, PageTimer x) = [(eg, now, FlushTimer x)]"
| "chat_events pc g (eg, now, PageRender) = [(eg, now, Render)]"
| "chat_events pc g _ = []"

fun stream_event :: "(jsstring \<Rightarrow> ChatCompletionChunk option) \<Rightarrow> nat \<Rightarrow> nat \<Rightarrow> bool \<times> int \<times> 'n PageEvent \<Rightarrow> bool" where
  "stream_event pc r g (eg, now, PageSource (SourceMessage r' d)) \<longleftrightarrow>
     r' = r \<and> nullish d [] \<noteq> STREAM_DONE_MESSAGE \<and> parseStreamMessageUpdates pc (nullish d []) \<noteq> None"
| "stream_event pc r g (eg, now, PageTimer x) \<longleftrightarrow> x = g"
| "stream_event pc r g (eg, now, PageRender) \<longleftrightarrow> True"
| "stream_event pc r g _ \<longleftrightarrow> False"

definition streams_on :: "nat \<Rightarrow> nat \<Rightarrow> 'n Page \<Rightarrow> bool" where
  "streams_on r g p \<longleftrightarrow> page_ok p \<and> ctl_source (page_stream p) = Some r \<and> chat_generation (page_chat p) = g"

lemma fold_updates:
  "fold (chat_step t) (map (\<lambda>u. (eg, now, StreamUpdate g (update_type u) (update_chunk u))) us) h =
   fold (\<lambda>u. handleStreamUpdate g (update_type u) (update_chunk u)) us h"
  by (induction us arbitrary: h) simp_all

lemma streams_on_message:
  assumes "streams_on r g p" "nullish d [] \<noteq> STREAM_DONE_MESSAGE" "parseStreamMessageUpdates pc (nullish d []) = Some us"
  shows "page_step pc pe t (eg, now, PageSource (SourceMessage r d)) p =
    p\<lparr>page_stream := fold (emit_update r) us (page_stream p),
      page_chat := fold (\<lambda>u. handleStreamUpdate g (update_type u) (update_chunk u)) us (page_chat p)\<rparr>"
proof -
  let ?s = "page_stream p"
  have ok: "controller_ok ?s" "ctl_source ?s = Some r" using assms(1) by (simp_all add: streams_on_def page_ok_def)
  then have r: "ctl_generation ?s = r" "r \<notin> set (ctl_completed ?s)" by (auto simp: controller_ok_def)
  have "live ?s" using ok by (simp add: live_def)
  then have link: "map_of (page_links p) r = Some g" using assms(1) r by (simp add: streams_on_def page_ok_def)
  have "\<not> ignores r ?s" using ok r by (simp add: ignores_def isCurrent_def)
  then have "controller_step pc pe (SourceMessage r d) ?s = fold (emit_update r) us ?s"
    using assms(2,3) by (simp add: on_message_def isStreamDoneMessage_def)
  from source_updates [OF link this] show ?thesis by simp
qed

lemma streams_on_step:
  assumes "streams_on r g p" "stream_event pc r g e"
  shows "streams_on r g (page_step pc pe t e p) \<and> page_chat (page_step pc pe t e p) = fold (chat_step t) (chat_events pc g e) (page_chat p)"
proof -
  obtain eg now ev where e: "e = (eg, now, ev)" by (cases e) auto
  have "event_ok e" using assms(2) by (cases ev) (auto simp: e)
  then have ok: "page_ok (page_step pc pe t e p)" using assms(1) by (intro page.keeps) (simp_all add: streams_on_def)
  from assms(2) consider (message) d us where "ev = PageSource (SourceMessage r d)" "nullish d [] \<noteq> STREAM_DONE_MESSAGE"
      "parseStreamMessageUpdates pc (nullish d []) = Some us"
    | (timer) "ev = PageTimer g" | (render) "ev = PageRender"
    unfolding e by (cases "(pc, r, g, (eg, now, ev))" rule: stream_event.cases) auto
  then show ?thesis
  proof cases
    case (message d us)
    have gen: "chat_generation (fold (\<lambda>u. handleStreamUpdate g (update_type u) (update_chunk u)) us h) = chat_generation h" for h :: "'a ChatHandler"
      by (induction us arbitrary: h) simp_all
    show ?thesis
      using ok assms(1) streams_on_message [OF assms(1) message(2,3), of pe t eg now] message gen
      by (simp add: e streams_on_def emit_updates message_updates_def fold_updates)
  qed (use ok assms(1) in \<open>simp_all add: e streams_on_def on_chat_local\<close>)
qed

lemma streams_on_run:
  "streams_on r g p \<Longrightarrow> list_all (stream_event pc r g) es \<Longrightarrow>
     streams_on r g (fold (page_step pc pe t) es p)
     \<and> page_chat (fold (page_step pc pe t) es p) = fold (chat_step t) (concat (map (chat_events pc g) es)) (page_chat p)"
proof (induction es arbitrary: p)
  case (Cons e es)
  then have "streams_on r g (page_step pc pe t e p)"
    "page_chat (page_step pc pe t e p) = fold (chat_step t) (chat_events pc g e) (page_chat p)"
    using streams_on_step [of r g p pc e pe t] by simp_all
  with Cons show ?case by simp
qed simp

text \<open>The content the server streams, in order.\<close>

fun event_text :: "(jsstring \<Rightarrow> ChatCompletionChunk option) \<Rightarrow> bool \<times> int \<times> 'n PageEvent \<Rightarrow> jsstring list" where
  "event_text pc (eg, now, PageSource (SourceMessage r d)) =
     map update_chunk (filter (\<lambda>u. update_type u = ContentChunk) (message_updates pc d))"
| "event_text pc _ = []"

definition streamed_text :: "(jsstring \<Rightarrow> ChatCompletionChunk option) \<Rightarrow> (bool \<times> int \<times> 'n PageEvent) list \<Rightarrow> jsstring list" where
  "streamed_text pc es = concat (map (event_text pc) es)"

lemma update_chunks:
  "chunks_of (map (\<lambda>u. (eg, now, StreamUpdate g (update_type u) (update_chunk u) :: 'n ChatEvent)) us) =
   map update_chunk (filter (\<lambda>u. update_type u = ContentChunk) us)"
proof (induction us)
  case (Cons u us)
  then show ?case by (cases "update_type u") (simp_all add: chunks_of_def)
qed (simp add: chunks_of_def)

lemma chat_events_text:
  assumes "stream_event pc r g e"
  shows "chunks_of (chat_events pc g e) = event_text pc e" "\<forall>x\<in>set (chat_events pc g e). streams g (snd (snd x))"
  using assms by (induction pc r g e rule: stream_event.induct) (auto simp: update_chunks, simp_all add: chunks_of_def)

lemma chunks_append [simp]: "chunks_of (xs @ ys) = chunks_of xs @ chunks_of ys"
  by (simp add: chunks_of_def)

lemma run_text:
  assumes "list_all (stream_event pc r g) es"
  shows "chunks_of (concat (map (chat_events pc g) es)) = streamed_text pc es
    \<and> (\<forall>x\<in>set (concat (map (chat_events pc g) es)). streams g (snd (snd x)))"
  using assms
proof (induction es)
  case (Cons e es)
  then have "chunks_of (chat_events pc g e) = event_text pc e" "\<forall>x\<in>set (chat_events pc g e). streams g (snd (snd x))"
    using chat_events_text [of pc r g e] by simp_all
  with Cons show ?case by (auto simp: streamed_text_def)
qed (simp add: streamed_text_def chunks_of_def)

lemma stream_started:
  assumes "page_ok p" "cfg_stream config" "r = ctl_generation (page_stream p) + 1" "g = chat_generation (page_chat p) + 1"
    and p'_def: "p' = fold (page_step pc pe t) [(eg, now, PageSend config en ms), (eg1, now1, PageSource (HeadersReady r))] p"
  shows "streams_on r g p' \<and> page_chat p' = chat_step t (eg, now, SendChat config en ms) (page_chat p)"
proof -
  let ?q = "page_step pc pe t (eg, now, PageSend config en ms) p"
  have q: "?q = on_chat t (eg, now, SendChat config en ms) p" by simp
  have s: "page_stream ?q = send_start (page_stream p)" and c: "page_chat ?q = chat_step t (eg, now, SendChat config en ms) (page_chat p)"
    unfolding q on_chat_stream [OF assms(2)] by simp_all
  have ok: "page_ok p'" unfolding p'_def by (rule page.run_kept [OF assms(1)]) simp
  have p': "p' = ?q\<lparr>page_stream := send_headers_ready r (page_stream ?q)\<rparr>"
    unfolding p'_def by (simp add: on_source_def s send_headers_ready_def del: page_step.simps(1) add: page_step.simps(8))
  have "ctl_source (page_stream p') = Some r"
    unfolding p' s using assms(3) by (simp add: send_start_def send_headers_ready_def Let_def)
  moreover have "chat_generation (page_chat p') = g"
    using assms(1,4) chat_ok_send [of "page_chat p" t eg now config en ms]
    unfolding p' by (simp add: c page_ok_def del: chat_step.simps page_step.simps)
  ultimately show ?thesis using ok c unfolding p' by (simp add: streams_on_def del: chat_step.simps page_step.simps)
qed

lemma stream_done:
  assumes "streams_on r g p"
  shows "page_chat (page_step pc pe t (eg, now, PageSource (SourceMessage r (Some STREAM_DONE_MESSAGE))) p) =
      handleStreamComplete eg now g (page_chat p)
    \<and> \<not> outstanding (page_step pc pe t (eg, now, PageSource (SourceMessage r (Some STREAM_DONE_MESSAGE))) p)"
proof -
  let ?s = "page_stream p" and ?e = "SourceMessage r (Some STREAM_DONE_MESSAGE)"
  have ok: "page_ok p" "controller_ok ?s" "ctl_source ?s = Some r" using assms by (auto simp: streams_on_def page_ok_def)
  then have r: "ctl_generation ?s = r" "r \<notin> set (ctl_completed ?s)" "live ?s" by (auto simp: controller_ok_def live_def)
  then have link: "map_of (page_links p) r = Some g" and h: "g \<notin> set (page_http p)" "chat_generation (page_chat p) = g"
    using assms ok(1) by (auto simp: streams_on_def page_ok_def)
  have n: "\<not> ignores r ?s" using ok r by (simp add: ignores_def isCurrent_def)
  have "controller_step pc pe ?e ?s = callback r OnComplete (closeActiveSource r (mark_completed r ?s))"
    using n by (simp add: on_message_def isStreamDoneMessage_def)
  with done_ends [OF ok(2) n] have e: "ends_request r OnComplete ?s (controller_step pc pe ?e ?s)" by simp
  then have d: "\<not> live (controller_step pc pe ?e ?s)" unfolding ends_request_def by blast
  have "chat_generation (handleStreamComplete eg now g (page_chat p)) = g" using h(2) by simp
  with source_ended [OF link e, of t eg now] d h show ?thesis by (simp add: outstanding_def del: controller_step.simps)
qed

section \<open>Properties\<close>

text \<open>C3: The page shows a running generation exactly while a request is outstanding, and when it shows none
  the conversation does not end in a loading or streaming answer.  This holds after any sequence of
  sends in both modes, stops, loaded conversations, timers, renders, header promises, source events and
  HTTP answers, for requests of any age.\<close>

theorem generating_iff_outstanding:
  assumes "settled ms" "list_all event_ok es" "p = page_run pc pe t es ms"
  shows "isGenerating (ctl_streaming (page_stream p)) (page_chat p) = outstanding p
    \<and> (\<not> outstanding p \<longrightarrow> settled (render_messages now (page_chat p)))"
proof -
  have ok: "page_ok p" unfolding assms(3) by (rule page_run_ok [OF assms(1,2)])
  then have "\<not> outstanding p \<longrightarrow> settled (render_messages now (page_chat p))"
    by (auto simp: page_ok_def chat_ok_def idle_ok_def)
  with generating_busy [OF ok] show ?thesis by blast
qed

text \<open>A parser whose every chunk carries its own text as content.\<close>

definition echo :: "jsstring \<Rightarrow> ChatCompletionChunk option" where
  "echo d = Some \<lparr>chunk_choices = Some [Some \<lparr>delta_content = Some d, delta_reasoning_content = None\<rparr>]\<rparr>"

definition sample_page :: "nat Page" where
  "sample_page = page_run echo (\<lambda>_. None) id
     [(True, 1, PageSend sample_config sample_enabled [createLoadingAssistantMessage (js ''a'') (js ''v'') 1]),
      (True, 2, PageSource (HeadersReady 1))] []"

theorem generating_iff_outstanding_witness:
  "isGenerating (ctl_streaming (page_stream sample_page)) (page_chat sample_page) = outstanding sample_page"
  using generating_iff_outstanding [OF _ _ sample_page_def] by (simp add: settled_def)

text \<open>The two request counters agree.  The stream controller and the chat handler number their requests
  separately; whenever a stream request can still call back, its callbacks carry the current generation
  of the chat handler, so the handler drops none of them.\<close>

theorem live_callbacks_current:
  assumes "settled ms" "list_all event_ok es" "p = page_run pc pe t es ms" "live (page_stream p)"
  shows "map_of (page_links p) (ctl_generation (page_stream p)) = Some (chat_generation (page_chat p))"
  using page_run_ok [OF assms(1,2), of pc pe t] assms(3,4) by (simp add: page_ok_def)

lemma sample_page_live: "ctl_source (page_stream sample_page) = Some 1" "live (page_stream sample_page)"
  by (simp_all add: sample_page_def page_run_def open_page_def on_chat_stream on_source_def sample_config_def live_def
      createStreamRequestController_def send_start_def send_headers_ready_def close_optional_def Let_def)

theorem live_callbacks_current_witness:
  "map_of (page_links sample_page) (ctl_generation (page_stream sample_page)) = Some (chat_generation (page_chat sample_page))"
  by (rule live_callbacks_current [OF _ _ sample_page_def sample_page_live(2)]) (simp_all add: settled_def)


definition sample_source :: "(bool \<times> int \<times> nat PageEvent) list" where
  "sample_source = [(True, 3, PageSource (SourceMessage 1 (Some (js ''Hel'')))), (True, 4, PageTimer 1),
     (False, 5, PageSource (SourceMessage 1 (Some (js ''lo'')))), (True, 6, PageRender)]"

lemma sample_source_facts:
  "list_all (stream_event echo 1 1) sample_source" "streamed_text echo sample_source = [js ''Hel'', js ''lo'']"
  by (simp_all add: sample_source_def streamed_text_def message_updates_def parseStreamMessageUpdates_def echo_def
      first_delta_def push_update_def truthy_def STREAM_DONE_MESSAGE_def)


text \<open>C30: A stream that ends without the done message leaves the page generating.  When the source of the
  running request reports that it is closed with status 200, or an error in the closed state, no callback
  runs and nothing changes: the page keeps showing a generation until the user stops it.\<close>

theorem closed_stream_keeps_generating:
  assumes "settled ms" "list_all event_ok es" "p = page_run pc pe t es ms" "ctl_source (page_stream p) = Some r"
    and "\<forall>e\<in>set fs. snd (snd e) \<in> {PageSource (SourceReadyState r st (Some 200)), PageSource (SourceError r (Some 2) d)}"
  shows "fold (page_step pc pe t) fs p = p \<and> isGenerating (ctl_streaming (page_stream p)) (page_chat p)"
proof -
  have "page_step pc pe t e p = p" if "e \<in> set fs" for e
  proof -
    obtain eg now ev where e: "e = (eg, now, ev)" by (cases e) auto
    with assms(5) that have "ev \<in> {PageSource (SourceReadyState r st (Some 200)), PageSource (SourceError r (Some 2) d)}" by force
    then show ?thesis
      by (auto simp: e on_source_def on_readystatechange_def getStreamReadyStateError_def on_error_def
          isStreamClosedReadyState_def STREAM_CLOSED_READY_STATE_def split: option.splits)
  qed
  then have "fold (page_step pc pe t) fs p = p" by (induction fs) simp_all
  moreover have "outstanding p" using assms(4) by (simp add: outstanding_def live_def)
  ultimately show ?thesis using generating_busy [OF page_run_ok [OF assms(1,2)]] assms(3) by simp
qed

theorem closed_stream_keeps_generating_witness:
  "fold (page_step echo (\<lambda>_. None) id) [(True, 3, PageSource (SourceReadyState 1 (Some 2) (Some 200)))] sample_page = sample_page
   \<and> isGenerating (ctl_streaming (page_stream sample_page)) (page_chat sample_page)"
  by (rule closed_stream_keeps_generating [OF _ _ sample_page_def sample_page_live(1), where st = "Some 2"])
    (simp_all add: settled_def)

end
