(* ===== verification/Js_Json.thy ===== *)
theory Js_Json
  imports Js_Prelude
begin

text \<open>
  JSON values.  Numbers are a parameter of the type: \<open>int json\<close> where the client only stores
  integers, \<open>rat json\<close> where it stores sampling parameters.  An object is the list of its
  properties in order.  The text form (\<open>JSON.parse\<close>, \<open>JSON.stringify\<close>) is a pair of functions given
  to the definitions that use it; \<open>parse\<close> returns \<open>None\<close> where the call throws.
\<close>

datatype 'n json =
    JNull
  | JBool bool
  | JNum 'n
  | JStr jsstring
  | JArr "'n json list"
  | JObj "(jsstring \<times> 'n json) list"

text \<open>\<open>!value\<close>.\<close>

fun json_falsy :: "'n::zero json \<Rightarrow> bool" where
  "json_falsy JNull = True"
| "json_falsy (JBool b) = (\<not> b)"
| "json_falsy (JNum n) = (n = 0)"
| "json_falsy (JStr s) = (s = [])"
| "json_falsy _ = False"

text \<open>Readers in the style of the schemas: \<open>None\<close> where the schema rejects the value.\<close>

fun as_string :: "'n json \<Rightarrow> jsstring option" where
  "as_string (JStr s) = Some s"
| "as_string _ = None"

fun as_number :: "'n json \<Rightarrow> 'n option" where
  "as_number (JNum n) = Some n"
| "as_number _ = None"

fun as_boolean :: "'n json \<Rightarrow> bool option" where
  "as_boolean (JBool b) = Some b"
| "as_boolean _ = None"

fun as_nullable :: "('n json \<Rightarrow> 'a option) \<Rightarrow> 'n json \<Rightarrow> 'a option option" where
  "as_nullable f JNull = Some None"
| "as_nullable f v = map_option Some (f v)"

fun sequence :: "'a option list \<Rightarrow> 'a list option" where
  "sequence [] = Some []"
| "sequence (x # xs) = Option.bind x (\<lambda>a. map_option (Cons a) (sequence xs))"

fun as_array :: "('n json \<Rightarrow> 'a option) \<Rightarrow> 'n json \<Rightarrow> 'a list option" where
  "as_array f (JArr vs) = sequence (map f vs)"
| "as_array f _ = None"

text \<open>A required and an optional property: the outer \<open>None\<close> is a rejected value.\<close>

definition required :: "('n json \<Rightarrow> 'a option) \<Rightarrow> (jsstring \<times> 'n json) list \<Rightarrow> jsstring \<Rightarrow> 'a option" where
  "required f ps k = Option.bind (map_of ps k) f"

definition optional ::
  "('n json \<Rightarrow> 'a option) \<Rightarrow> (jsstring \<times> 'n json) list \<Rightarrow> jsstring \<Rightarrow> 'a option option" where
  "optional f ps k = (case map_of ps k of None \<Rightarrow> Some None | Some v \<Rightarrow> map_option Some (f v))"

text \<open>Writing: a property whose value is \<open>undefined\<close> is left out.\<close>

definition prop_opt :: "jsstring \<Rightarrow> ('a \<Rightarrow> 'n json) \<Rightarrow> 'a option \<Rightarrow> (jsstring \<times> 'n json) list" where
  "prop_opt k f v = (case v of None \<Rightarrow> [] | Some a \<Rightarrow> [(k, f a)])"

definition nullable_json :: "('a \<Rightarrow> 'n json) \<Rightarrow> 'a option \<Rightarrow> 'n json" where
  "nullable_json f v = (case v of None \<Rightarrow> JNull | Some a \<Rightarrow> f a)"

lemma sequence_map_Some: "(\<And>x. x \<in> set xs \<Longrightarrow> f (g x) = Some x) \<Longrightarrow> sequence (map f (map g xs)) = Some xs"
  by (induction xs) simp_all

lemma as_array_map: "(\<And>x. x \<in> set xs \<Longrightarrow> f (g x) = Some x) \<Longrightarrow> as_array f (JArr (map g xs)) = Some xs"
  using sequence_map_Some[of xs f g] by simp

lemma prop_opt_simps [simp]: "prop_opt k f None = []" "prop_opt k f (Some a) = [(k, f a)]"
  by (simp_all add: prop_opt_def)

lemma map_of_prop_opt [simp]:
  "map_of (prop_opt k f v) k' = (if k' = k then map_option f v else None)"
  by (cases v) simp_all

text \<open>Looking up a property of an object written piece by piece.\<close>

lemma lookup_here: "map_of ys k = None \<Longrightarrow> map_of (prop_opt k f v @ ys) k = map_option f v"
  by (cases v) simp_all

lemma lookup_skip: "k' \<noteq> k \<Longrightarrow> map_of (prop_opt k f v @ ys) k' = map_of ys k'"
  by (cases v) simp_all

lemma as_nullable_ne: "v \<noteq> JNull \<Longrightarrow> as_nullable f v = map_option Some (f v)"
  by (cases v) simp_all

lemma as_nullable_json:
  assumes "\<And>a. f (g a) = Some a" "\<And>a. g a \<noteq> JNull"
  shows "as_nullable f (nullable_json g v) = Some v"
  using assms by (cases v) (simp_all add: nullable_json_def as_nullable_ne)

lemma optional_prop:
  "map_of ps k = map_option g v \<Longrightarrow> (\<And>a. f (g a) = Some a) \<Longrightarrow> optional f ps k = Some v"
  by (cases v) (simp_all add: optional_def)

lemmas json_lookup = lookup_here lookup_skip required_def

end
