(* ===== verification/Playground_Storage.thy ===== *)
theory Playground_Storage
  imports Complex_Main Playground_Chat Js_Json
begin

text \<open>
  The playground's \<open>localStorage\<close>: \<open>storage/storage-schema.ts\<close>, \<open>storage/storage.ts\<close>,
  \<open>state/playground-state-utils.ts\<close> and the persistence of \<open>use-playground-state.ts\<close>.  The storage
  is a map from keys to texts.  A schema is a function that returns \<open>None\<close> where \<open>parse\<close> of the
  schema library throws; properties a schema does not name are dropped, as the library does.
\<close>

section \<open>Schemas (\<open>storage-schema.ts\<close>)\<close>

definition STORAGE_VERSION :: int where "STORAGE_VERSION = 1"
definition MAX_STORED_MESSAGES :: nat where "MAX_STORED_MESSAGES = 100"
definition MAX_STORED_MESSAGES_BYTES :: nat where "MAX_STORED_MESSAGES_BYTES = 1024 * 1024"
definition MAX_LOADED_MESSAGES_CHARS :: nat where "MAX_LOADED_MESSAGES_CHARS = 120000"
definition MAX_LOADED_MESSAGE_CHARS :: nat where "MAX_LOADED_MESSAGE_CHARS = 40000"

definition messageRoleSchema :: "'n json \<Rightarrow> MessageRole option" where
  "messageRoleSchema v = Option.bind (as_string v)
     (map_of [(js ''user'', USER), (js ''assistant'', ASSISTANT), (js ''system'', SYSTEM)])"

definition messageStatusSchema :: "'n json \<Rightarrow> MessageStatus option" where
  "messageStatusSchema v = Option.bind (as_string v)
     (map_of [(js ''loading'', LOADING), (js ''streaming'', STREAMING), (js ''complete'', COMPLETE),
        (js ''error'', ERROR)])"

fun messageVersionSchema :: "'n json \<Rightarrow> MessageVersion option" where
  "messageVersionSchema (JObj ps) =
     Option.bind (required as_string ps (js ''id'')) (\<lambda>i.
     Option.bind (required as_string ps (js ''content'')) (\<lambda>c.
       Some \<lparr>version_id = i, version_content = c\<rparr>))"
| "messageVersionSchema _ = None"

fun sourceSchema :: "'n json \<Rightarrow> Source option" where
  "sourceSchema (JObj ps) =
     Option.bind (required as_string ps (js ''href'')) (\<lambda>h.
     Option.bind (required as_string ps (js ''title'')) (\<lambda>t.
       Some \<lparr>href = h, source_title = t\<rparr>))"
| "sourceSchema _ = None"

fun reasoningSchema :: "int json \<Rightarrow> Reasoning option" where
  "reasoningSchema (JObj ps) =
     Option.bind (required as_string ps (js ''content'')) (\<lambda>c.
     Option.bind (required as_number ps (js ''duration'')) (\<lambda>d.
     Option.bind (optional as_number ps (js ''startedAt'')) (\<lambda>s.
     Option.bind (optional as_number ps (js ''completedAt'')) (\<lambda>e.
     Option.bind (optional as_number ps (js ''durationMs'')) (\<lambda>ms.
       Some \<lparr>reasoning_content = c, reasoning_duration = d, reasoning_startedAt = s,
             reasoning_completedAt = e, reasoning_durationMs = ms\<rparr>)))))"
| "reasoningSchema _ = None"

definition versionsSchema :: "'n json \<Rightarrow> MessageVersion list option" where
  "versionsSchema v = Option.bind (as_array messageVersionSchema v)
     (\<lambda>vs. if vs = [] then None else Some vs)"

fun messageSchema :: "int json \<Rightarrow> Message option" where
  "messageSchema (JObj ps) =
     Option.bind (required as_string ps (js ''key'')) (\<lambda>k.
     Option.bind (required messageRoleSchema ps (js ''from'')) (\<lambda>r.
     Option.bind (required versionsSchema ps (js ''versions'')) (\<lambda>vs.
     Option.bind (optional as_number ps (js ''createdAt'')) (\<lambda>ca.
     Option.bind (optional as_number ps (js ''startedAt'')) (\<lambda>sa.
     Option.bind (optional as_number ps (js ''completedAt'')) (\<lambda>ea.
     Option.bind (optional as_number ps (js ''durationMs'')) (\<lambda>d.
     Option.bind (optional (as_array sourceSchema) ps (js ''sources'')) (\<lambda>so.
     Option.bind (optional reasoningSchema ps (js ''reasoning'')) (\<lambda>re.
     Option.bind (optional as_boolean ps (js ''isReasoningStreaming'')) (\<lambda>rs.
     Option.bind (optional as_boolean ps (js ''isReasoningComplete'')) (\<lambda>rc.
     Option.bind (optional as_boolean ps (js ''isContentComplete'')) (\<lambda>cc.
     Option.bind (optional messageStatusSchema ps (js ''status'')) (\<lambda>st.
     Option.bind (optional (as_nullable as_string) ps (js ''errorCode'')) (\<lambda>ec.
       Some \<lparr>key = k, role_of = r, versions = vs, createdAt = ca, startedAt = sa,
         completedAt = ea, durationMs = d, sources = so, reasoning = re,
         isReasoningStreaming = rs, isReasoningComplete = rc, isContentComplete = cc,
         status = st, errorCode = ec\<rparr>))))))))))))))"
| "messageSchema _ = None"

definition messagesSchema :: "int json \<Rightarrow> Message list option" where
  "messagesSchema v = as_array messageSchema v"

section \<open>Values written (\<open>JSON.stringify\<close> of a message)\<close>

fun role_json :: "MessageRole \<Rightarrow> 'n json" where
  "role_json USER = JStr (js ''user'')"
| "role_json ASSISTANT = JStr (js ''assistant'')"
| "role_json SYSTEM = JStr (js ''system'')"

fun status_json :: "MessageStatus \<Rightarrow> 'n json" where
  "status_json LOADING = JStr (js ''loading'')"
| "status_json STREAMING = JStr (js ''streaming'')"
| "status_json COMPLETE = JStr (js ''complete'')"
| "status_json ERROR = JStr (js ''error'')"

definition version_json :: "MessageVersion \<Rightarrow> 'n json" where
  "version_json w = JObj [(js ''id'', JStr (version_id w)), (js ''content'', JStr (version_content w))]"

definition source_json :: "Source \<Rightarrow> 'n json" where
  "source_json s = JObj [(js ''href'', JStr (href s)), (js ''title'', JStr (source_title s))]"

definition reasoning_json :: "Reasoning \<Rightarrow> int json" where
  "reasoning_json r = JObj ([(js ''content'', JStr (reasoning_content r)),
       (js ''duration'', JNum (reasoning_duration r))]
     @ prop_opt (js ''startedAt'') JNum (reasoning_startedAt r)
     @ prop_opt (js ''completedAt'') JNum (reasoning_completedAt r)
     @ prop_opt (js ''durationMs'') JNum (reasoning_durationMs r))"

definition message_json :: "Message \<Rightarrow> int json" where
  "message_json m = JObj ([(js ''key'', JStr (key m)), (js ''from'', role_json (role_of m)),
       (js ''versions'', JArr (map version_json (versions m)))]
     @ prop_opt (js ''createdAt'') JNum (createdAt m)
     @ prop_opt (js ''startedAt'') JNum (startedAt m)
     @ prop_opt (js ''completedAt'') JNum (completedAt m)
     @ prop_opt (js ''durationMs'') JNum (durationMs m)
     @ prop_opt (js ''sources'') (\<lambda>ss. JArr (map source_json ss)) (sources m)
     @ prop_opt (js ''reasoning'') reasoning_json (reasoning m)
     @ prop_opt (js ''isReasoningStreaming'') JBool (isReasoningStreaming m)
     @ prop_opt (js ''isReasoningComplete'') JBool (isReasoningComplete m)
     @ prop_opt (js ''isContentComplete'') JBool (isContentComplete m)
     @ prop_opt (js ''status'') status_json (status m)
     @ prop_opt (js ''errorCode'') (nullable_json JStr) (errorCode m))"

definition messages_json :: "Message list \<Rightarrow> int json" where
  "messages_json ms = JArr (map message_json ms)"

section \<open>Trimming and truncation (\<open>storage.ts\<close>)\<close>

definition TRUNCATED_CONTENT_SUFFIX :: jsstring where
  "TRUNCATED_CONTENT_SUFFIX = [10, 10] @ js ''[...]''"

definition MIN_PREFIX_COLLAPSE_LENGTH :: nat where "MIN_PREFIX_COLLAPSE_LENGTH = 2000"
definition MIN_REPEATED_SECTION_COUNT :: nat where "MIN_REPEATED_SECTION_COUNT = 3"

definition trimMessages :: "'a list \<Rightarrow> 'a list" where
  "trimMessages ms =
     (if length ms \<le> MAX_STORED_MESSAGES then ms else slice_last MAX_STORED_MESSAGES ms)"

definition getMessageSize :: "Message \<Rightarrow> nat" where
  "getMessageSize m =
     sum_list (map (\<lambda>w. length (version_content w)) (versions m))
     + nullish (map_option (\<lambda>r. length (reasoning_content r)) (reasoning m)) 0"

definition truncateText :: "jsstring \<Rightarrow> nat \<Rightarrow> jsstring" where
  "truncateText text maxLength =
     (if length text \<le> maxLength then text
      else if maxLength \<le> length TRUNCATED_CONTENT_SUFFIX then take maxLength text
      else take (maxLength - length TRUNCATED_CONTENT_SUFFIX) text @ TRUNCATED_CONTENT_SUFFIX)"

text \<open>The downward loop: \<open>acc\<close> is \<open>result\<close> in its final order.\<close>

fun size_loop :: "Message list \<Rightarrow> nat \<Rightarrow> Message list \<Rightarrow> Message list" where
  "size_loop [] totalSize acc = acc"
| "size_loop (m # ms) totalSize acc =
     (if acc \<noteq> [] \<and> MAX_LOADED_MESSAGES_CHARS < totalSize + getMessageSize m then acc
      else size_loop ms (totalSize + getMessageSize m) (m # acc))"

definition trimMessagesByContentSize :: "Message list \<Rightarrow> Message list" where
  "trimMessagesByContentSize ms = size_loop (rev ms) 0 []"

section \<open>Repeated section snapshots\<close>

text \<open>
  The pattern \<open>/^#{2,6}\s+\d+\.\s+.+$/gm\<close>, spelled out.  Each of the first three repetitions is
  followed by a character outside its class, so a match takes each of them whole.  \<open>\s+\<close> before
  \<open>.+\<close> also takes whole the white space after the dot; only where nothing follows does it give
  characters back, until \<open>.+\<close> has one that is not a line terminator.  \<open>.+$\<close> runs to the end of the
  line.
\<close>

definition is_line_terminator :: "code_unit \<Rightarrow> bool" where
  "is_line_terminator c \<longleftrightarrow> c = 10 \<or> c = 13 \<or> c = 8232 \<or> c = 8233"

text \<open>The length of \<open>\s+.+\<close> at the start of \<open>s\<close>.\<close>

definition heading_tail :: "jsstring \<Rightarrow> nat option" where
  "heading_tail s =
     (let w = length (takeWhile is_space s);
          ks = filter (\<lambda>k. k < length s \<and> \<not> is_line_terminator (s ! k)) (rev [1..<Suc w])
      in case ks of
           [] \<Rightarrow> None
         | k # _ \<Rightarrow> Some (k + length (takeWhile (\<lambda>c. \<not> is_line_terminator c) (drop k s))))"

definition heading_match :: "jsstring \<Rightarrow> nat option" where
  "heading_match s =
     (let h = length (takeWhile (\<lambda>c. c = 35) s); s1 = drop h s;
          w = length (takeWhile is_space s1); s2 = drop w s1;
          d = length (takeWhile is_digit s2); s3 = drop d s2
      in if h < 2 \<or> 6 < h \<or> w = 0 \<or> d = 0 \<or> take 1 s3 \<noteq> [46] then None
         else map_option (\<lambda>n. h + w + d + 1 + n) (heading_tail (drop 1 s3)))"

record SectionOccurrence =
  heading :: jsstring
  occ_index :: nat

text \<open>\<open>matchAll\<close>: \<open>at_line\<close> says whether position \<open>i\<close> starts a line, \<open>skip\<close> counts the characters of
  the last match still to pass.\<close>

fun scan_sections :: "bool \<Rightarrow> nat \<Rightarrow> nat \<Rightarrow> jsstring \<Rightarrow> SectionOccurrence list" where
  "scan_sections at_line skip i [] = []"
| "scan_sections at_line (Suc n) i (c # s) = scan_sections (is_line_terminator c) n (Suc i) s"
| "scan_sections at_line 0 i (c # s) =
     (case (if at_line then heading_match (c # s) else None) of
        None \<Rightarrow> scan_sections (is_line_terminator c) 0 (Suc i) s
      | Some n \<Rightarrow> \<lparr>heading = take n (c # s), occ_index = i\<rparr>
                  # scan_sections (is_line_terminator c) (n - 1) (Suc i) s)"

definition getSectionOccurrences :: "jsstring \<Rightarrow> SectionOccurrence list" where
  "getSectionOccurrences text = scan_sections True 0 0 text"

definition getHeadingCounts :: "SectionOccurrence list \<Rightarrow> (jsstring, nat) jsmap" where
  "getHeadingCounts occs =
     foldl (\<lambda>counts oc. map_put counts (heading oc) (nullish (map_get counts (heading oc)) 0 + 1)) [] occs"

text \<open>The downward loop over the occurrences, given in the order it visits them.\<close>

fun last_repeated :: "(jsstring, nat) jsmap \<Rightarrow> jsstring list \<Rightarrow> SectionOccurrence list \<Rightarrow> nat list" where
  "last_repeated counts seen [] = []"
| "last_repeated counts seen (oc # occs) =
     (if nullish (map_get counts (heading oc)) 0 < MIN_REPEATED_SECTION_COUNT
         \<or> heading oc \<in> set seen
      then last_repeated counts seen occs
      else occ_index oc # last_repeated counts (heading oc # seen) occs)"

definition findLastRepeatedSectionRunStart :: "jsstring \<Rightarrow> nat option" where
  "findLastRepeatedSectionRunStart text =
     (let occs = getSectionOccurrences text;
          idxs = last_repeated (getHeadingCounts occs) [] (rev occs)
      in if idxs = [] then None else Some (Min (set idxs)))"

definition collapseRepeatedSectionSnapshots :: "jsstring \<Rightarrow> jsstring" where
  "collapseRepeatedSectionSnapshots text =
     (if length text < MIN_PREFIX_COLLAPSE_LENGTH then text
      else (case findLastRepeatedSectionRunStart text of None \<Rightarrow> text | Some i \<Rightarrow> drop i text))"

section \<open>Loading and saving\<close>

definition normalized_version :: "MessageVersion \<Rightarrow> MessageVersion" where
  "normalized_version w = w\<lparr>version_content :=
     truncateText (collapseRepeatedSectionSnapshots (version_content w)) MAX_LOADED_MESSAGE_CHARS\<rparr>"

definition version_changed :: "MessageVersion \<Rightarrow> bool" where
  "version_changed w \<longleftrightarrow> \<not> (version_content (normalized_version w) = version_content w
     \<and> collapseRepeatedSectionSnapshots (version_content w) = version_content w)"

definition truncated_reasoning :: "Reasoning \<Rightarrow> Reasoning" where
  "truncated_reasoning r =
     r\<lparr>reasoning_content := truncateText (reasoning_content r) MAX_LOADED_MESSAGE_CHARS\<rparr>"

definition stored_changed :: "Message \<Rightarrow> bool" where
  "stored_changed m \<longleftrightarrow> list_ex version_changed (versions m)
     \<or> map_option (reasoning_content \<circ> truncated_reasoning) (reasoning m)
         \<noteq> map_option reasoning_content (reasoning m)"

definition stored_normalized :: "Message \<Rightarrow> Message" where
  "stored_normalized m =
     (if stored_changed m
      then m\<lparr>versions := map (\<lambda>w. if version_changed w then normalized_version w else w) (versions m),
             reasoning := map_option truncated_reasoning (reasoning m)\<rparr>
      else m)"

definition has_text :: "Message \<Rightarrow> bool" where
  "has_text m \<longleftrightarrow> hasMessageContent m
     \<or> (case reasoning m of None \<Rightarrow> False | Some r \<Rightarrow> trim (reasoning_content r) \<noteq> [])"

definition normalizeStoredMessageForLoad :: "Message \<Rightarrow> int \<Rightarrow> Message" where
  "normalizeStoredMessageForLoad m now =
     (let normalized = stored_normalized m in
      if \<not> isAssistantMessagePending normalized then normalized
      else if \<not> has_text normalized then normalized
      else let completed =
             nullish (completedAt normalized)
               (nullish (Option.bind (reasoning normalized) reasoning_completedAt)
                 (nullish (startedAt normalized) (nullish (createdAt normalized) now)))
           in completeAssistantTiming
                ((finalizeMessage normalized None now)
                  \<lparr>status := Some COMPLETE, isReasoningStreaming := Some False\<rparr>) completed)"

text \<open>Whether \<open>normalizeStoredMessageForLoad\<close> returns another object than its argument.\<close>

definition stored_replaced :: "Message \<Rightarrow> bool" where
  "stored_replaced m \<longleftrightarrow> stored_changed m
     \<or> isAssistantMessagePending (stored_normalized m) \<and> has_text (stored_normalized m)"

type_synonym local_storage = "(jsstring, jsstring) jsmap"

definition CONFIG :: jsstring where "CONFIG = js ''playground_config''"
definition MESSAGES :: jsstring where "MESSAGES = js ''playground_messages''"
definition PARAMETER_ENABLED :: jsstring where "PARAMETER_ENABLED = js ''playground_parameter_enabled''"

definition removeItem :: "jsstring \<Rightarrow> local_storage \<Rightarrow> local_storage" where
  "removeItem k st = AList.delete k st"

text \<open>The result of reading: the call throws, there is nothing, or there is a value.\<close>

datatype 'a read_result = Throws | Nothing | Value 'a

definition readStoredValue ::
  "(jsstring \<Rightarrow> 'n json option) \<Rightarrow> local_storage \<Rightarrow> jsstring \<Rightarrow> 'n json read_result" where
  "readStoredValue parse st k =
     (case map_get st k of
        None \<Rightarrow> Nothing
      | Some saved \<Rightarrow>
          if saved = [] then Nothing
          else (case parse saved of None \<Rightarrow> Throws | Some v \<Rightarrow> Value v))"

definition readStoredMessagesValue ::
  "(jsstring \<Rightarrow> int json option) \<Rightarrow> local_storage \<Rightarrow> int json read_result \<times> local_storage" where
  "readStoredMessagesValue parse st =
     (case map_get st MESSAGES of
        None \<Rightarrow> (Nothing, st)
      | Some saved \<Rightarrow>
          if saved = [] then (Nothing, st)
          else if MAX_STORED_MESSAGES_BYTES < length saved then (Nothing, removeItem MESSAGES st)
          else (case parse saved of None \<Rightarrow> (Throws, st) | Some v \<Rightarrow> (Value v, st)))"

fun unwrapStoredValue :: "'n json \<Rightarrow> 'n json" where
  "unwrapStoredValue (JObj ps) =
     (case (map_of ps (js ''version''), map_of ps (js ''data'')) of
        (Some _, Some d) \<Rightarrow> d
      | _ \<Rightarrow> JObj ps)"
| "unwrapStoredValue v = v"

definition envelope :: "'n \<Rightarrow> 'n json \<Rightarrow> 'n json" where
  "envelope ver d = JObj [(js ''version'', JNum ver), (js ''data'', d)]"

text \<open>\<open>setItem\<close> with the text of the envelope; \<open>stringify\<close> gives \<open>None\<close> where the write throws.\<close>

definition writeStoredValue ::
  "('n json \<Rightarrow> jsstring option) \<Rightarrow> jsstring \<Rightarrow> 'n \<Rightarrow> 'n json \<Rightarrow> local_storage \<Rightarrow> local_storage option" where
  "writeStoredValue stringify k ver d st =
     map_option (\<lambda>text. map_put st k text) (stringify (envelope ver d))"

definition saveMessages ::
  "(int json \<Rightarrow> jsstring option) \<Rightarrow> Message list \<Rightarrow> local_storage \<Rightarrow> local_storage" where
  "saveMessages stringify ms st =
     (case messagesSchema (messages_json (trimMessages ms)) of
        None \<Rightarrow> st
      | Some parsed \<Rightarrow>
          nullish (writeStoredValue stringify MESSAGES STORAGE_VERSION (messages_json parsed) st) st)"

text \<open>
  \<open>!==\<close> on the arrays compares objects: \<open>trimMessages\<close> makes a new one only when it cuts,
  \<open>trimMessagesByContentSize\<close> always does, \<open>sanitizeMessagesOnLoad\<close> only when it repairs.
\<close>

definition load_changed :: "Message list \<Rightarrow> Message list \<Rightarrow> bool" where
  "load_changed parsed sizeTrimmed \<longleftrightarrow>
     list_ex stored_replaced parsed \<or> MAX_STORED_MESSAGES < length parsed \<or> True
     \<or> last_pending_below sizeTrimmed (length sizeTrimmed) \<noteq> None"

definition loadMessages ::
  "(jsstring \<Rightarrow> jsstring) \<Rightarrow> (jsstring \<Rightarrow> int json option) \<Rightarrow> (int json \<Rightarrow> jsstring option) \<Rightarrow>
     int \<Rightarrow> local_storage \<Rightarrow> Message list option \<times> local_storage" where
  "loadMessages t parse stringify now st =
     (case readStoredMessagesValue parse st of
        (Throws, st') \<Rightarrow> (None, st')
      | (Nothing, st') \<Rightarrow> (None, st')
      | (Value saved, st') \<Rightarrow>
          if json_falsy saved then (None, st')
          else (case messagesSchema (unwrapStoredValue saved) of
             None \<Rightarrow> (None, st')
           | Some parsed \<Rightarrow>
               let normalized = map (\<lambda>m. normalizeStoredMessageForLoad m now) parsed;
                   trimmed = trimMessages normalized;
                   sizeTrimmed = trimMessagesByContentSize trimmed;
                   sanitized = sanitizeMessagesOnLoad t sizeTrimmed now
               in (Some sanitized,
                   if load_changed parsed sizeTrimmed then saveMessages stringify sanitized st'
                   else st')))"

definition clearPlaygroundData :: "local_storage \<Rightarrow> local_storage" where
  "clearPlaygroundData st =
     removeItem MESSAGES (removeItem PARAMETER_ENABLED (removeItem CONFIG st))"

section \<open>Configuration\<close>

text \<open>\<open>Partial<PlaygroundConfig>\<close> and \<open>Partial<ParameterEnabled>\<close>.\<close>

record PartialConfig =
  pc_model :: "jsstring option"
  pc_group :: "jsstring option"
  pc_temperature :: "rat option"
  pc_top_p :: "rat option"
  pc_max_tokens :: "rat option"
  pc_frequency_penalty :: "rat option"
  pc_presence_penalty :: "rat option"
  pc_seed :: "rat option option"
  pc_stream :: "bool option"

record PartialEnabled =
  pe_temperature :: "bool option"
  pe_top_p :: "bool option"
  pe_max_tokens :: "bool option"
  pe_frequency_penalty :: "bool option"
  pe_presence_penalty :: "bool option"
  pe_seed :: "bool option"

definition no_config :: PartialConfig where
  "no_config = \<lparr>pc_model = None, pc_group = None, pc_temperature = None, pc_top_p = None,
     pc_max_tokens = None, pc_frequency_penalty = None, pc_presence_penalty = None,
     pc_seed = None, pc_stream = None\<rparr>"

definition no_enabled :: PartialEnabled where
  "no_enabled = \<lparr>pe_temperature = None, pe_top_p = None, pe_max_tokens = None,
     pe_frequency_penalty = None, pe_presence_penalty = None, pe_seed = None\<rparr>"

definition DEFAULT_CONFIG :: "rat PlaygroundConfig" where
  "DEFAULT_CONFIG = \<lparr>cfg_model = js ''gpt-4o'', cfg_group = js ''default'', cfg_temperature = 7 / 10,
     cfg_top_p = 1, cfg_max_tokens = 4096, cfg_frequency_penalty = 0, cfg_presence_penalty = 0,
     cfg_seed = None, cfg_stream = True\<rparr>"

definition DEFAULT_PARAMETER_ENABLED :: ParameterEnabled where
  "DEFAULT_PARAMETER_ENABLED = \<lparr>en_temperature = True, en_top_p = True, en_max_tokens = False,
     en_frequency_penalty = True, en_presence_penalty = True, en_seed = False\<rparr>"

fun playgroundConfigSchema :: "rat json \<Rightarrow> PartialConfig option" where
  "playgroundConfigSchema (JObj ps) =
     Option.bind (optional as_string ps (js ''model'')) (\<lambda>m.
     Option.bind (optional as_string ps (js ''group'')) (\<lambda>g.
     Option.bind (optional as_number ps (js ''temperature'')) (\<lambda>te.
     Option.bind (optional as_number ps (js ''top_p'')) (\<lambda>tp.
     Option.bind (optional as_number ps (js ''max_tokens'')) (\<lambda>mt.
     Option.bind (optional as_number ps (js ''frequency_penalty'')) (\<lambda>fp.
     Option.bind (optional as_number ps (js ''presence_penalty'')) (\<lambda>pp.
     Option.bind (optional (as_nullable as_number) ps (js ''seed'')) (\<lambda>sd.
     Option.bind (optional as_boolean ps (js ''stream'')) (\<lambda>st.
       Some \<lparr>pc_model = m, pc_group = g, pc_temperature = te, pc_top_p = tp, pc_max_tokens = mt,
         pc_frequency_penalty = fp, pc_presence_penalty = pp, pc_seed = sd, pc_stream = st\<rparr>)))))))))"
| "playgroundConfigSchema _ = None"

fun parameterEnabledSchema :: "rat json \<Rightarrow> PartialEnabled option" where
  "parameterEnabledSchema (JObj ps) =
     Option.bind (optional as_boolean ps (js ''temperature'')) (\<lambda>te.
     Option.bind (optional as_boolean ps (js ''top_p'')) (\<lambda>tp.
     Option.bind (optional as_boolean ps (js ''max_tokens'')) (\<lambda>mt.
     Option.bind (optional as_boolean ps (js ''frequency_penalty'')) (\<lambda>fp.
     Option.bind (optional as_boolean ps (js ''presence_penalty'')) (\<lambda>pp.
     Option.bind (optional as_boolean ps (js ''seed'')) (\<lambda>sd.
       Some \<lparr>pe_temperature = te, pe_top_p = tp, pe_max_tokens = mt,
         pe_frequency_penalty = fp, pe_presence_penalty = pp, pe_seed = sd\<rparr>))))))"
| "parameterEnabledSchema _ = None"

definition config_json :: "PartialConfig \<Rightarrow> rat json" where
  "config_json c = JObj (prop_opt (js ''model'') JStr (pc_model c)
     @ prop_opt (js ''group'') JStr (pc_group c)
     @ prop_opt (js ''temperature'') JNum (pc_temperature c)
     @ prop_opt (js ''top_p'') JNum (pc_top_p c)
     @ prop_opt (js ''max_tokens'') JNum (pc_max_tokens c)
     @ prop_opt (js ''frequency_penalty'') JNum (pc_frequency_penalty c)
     @ prop_opt (js ''presence_penalty'') JNum (pc_presence_penalty c)
     @ prop_opt (js ''seed'') (nullable_json JNum) (pc_seed c)
     @ prop_opt (js ''stream'') JBool (pc_stream c))"

definition enabled_json :: "PartialEnabled \<Rightarrow> rat json" where
  "enabled_json e = JObj (prop_opt (js ''temperature'') JBool (pe_temperature e)
     @ prop_opt (js ''top_p'') JBool (pe_top_p e)
     @ prop_opt (js ''max_tokens'') JBool (pe_max_tokens e)
     @ prop_opt (js ''frequency_penalty'') JBool (pe_frequency_penalty e)
     @ prop_opt (js ''presence_penalty'') JBool (pe_presence_penalty e)
     @ prop_opt (js ''seed'') JBool (pe_seed e))"

definition full_config :: "rat PlaygroundConfig \<Rightarrow> PartialConfig" where
  "full_config c = \<lparr>pc_model = Some (cfg_model c), pc_group = Some (cfg_group c),
     pc_temperature = Some (cfg_temperature c), pc_top_p = Some (cfg_top_p c),
     pc_max_tokens = Some (cfg_max_tokens c), pc_frequency_penalty = Some (cfg_frequency_penalty c),
     pc_presence_penalty = Some (cfg_presence_penalty c), pc_seed = Some (cfg_seed c),
     pc_stream = Some (cfg_stream c)\<rparr>"

definition full_enabled :: "ParameterEnabled \<Rightarrow> PartialEnabled" where
  "full_enabled e = \<lparr>pe_temperature = Some (en_temperature e), pe_top_p = Some (en_top_p e),
     pe_max_tokens = Some (en_max_tokens e), pe_frequency_penalty = Some (en_frequency_penalty e),
     pe_presence_penalty = Some (en_presence_penalty e), pe_seed = Some (en_seed e)\<rparr>"

definition load_with ::
  "(rat json \<Rightarrow> 'a option) \<Rightarrow> 'a \<Rightarrow> (jsstring \<Rightarrow> rat json option) \<Rightarrow> jsstring \<Rightarrow> local_storage \<Rightarrow> 'a" where
  "load_with schema nothing parse k st =
     (case readStoredValue parse st k of
        Value saved \<Rightarrow>
          if json_falsy saved then nothing else nullish (schema (unwrapStoredValue saved)) nothing
      | _ \<Rightarrow> nothing)"

definition loadConfig :: "(jsstring \<Rightarrow> rat json option) \<Rightarrow> local_storage \<Rightarrow> PartialConfig" where
  "loadConfig parse st = load_with playgroundConfigSchema no_config parse CONFIG st"

definition loadParameterEnabled :: "(jsstring \<Rightarrow> rat json option) \<Rightarrow> local_storage \<Rightarrow> PartialEnabled" where
  "loadParameterEnabled parse st =
     load_with parameterEnabledSchema no_enabled parse PARAMETER_ENABLED st"

definition saveConfig ::
  "(rat json \<Rightarrow> jsstring option) \<Rightarrow> PartialConfig \<Rightarrow> local_storage \<Rightarrow> local_storage" where
  "saveConfig stringify config st =
     (case playgroundConfigSchema (config_json config) of
        None \<Rightarrow> st
      | Some parsed \<Rightarrow> nullish (writeStoredValue stringify CONFIG 1 (config_json parsed) st) st)"

definition saveParameterEnabled ::
  "(rat json \<Rightarrow> jsstring option) \<Rightarrow> PartialEnabled \<Rightarrow> local_storage \<Rightarrow> local_storage" where
  "saveParameterEnabled stringify enabled st =
     (case parameterEnabledSchema (enabled_json enabled) of
        None \<Rightarrow> st
      | Some parsed \<Rightarrow>
          nullish (writeStoredValue stringify PARAMETER_ENABLED 1 (enabled_json parsed) st) st)"

text \<open>\<open>{ ...DEFAULT, ...loaded }\<close>.\<close>

definition getInitialPlaygroundConfig ::
  "(jsstring \<Rightarrow> rat json option) \<Rightarrow> local_storage \<Rightarrow> rat PlaygroundConfig" where
  "getInitialPlaygroundConfig parse st =
     (let c = loadConfig parse st; d = DEFAULT_CONFIG in
      \<lparr>cfg_model = nullish (pc_model c) (cfg_model d), cfg_group = nullish (pc_group c) (cfg_group d),
       cfg_temperature = nullish (pc_temperature c) (cfg_temperature d),
       cfg_top_p = nullish (pc_top_p c) (cfg_top_p d),
       cfg_max_tokens = nullish (pc_max_tokens c) (cfg_max_tokens d),
       cfg_frequency_penalty = nullish (pc_frequency_penalty c) (cfg_frequency_penalty d),
       cfg_presence_penalty = nullish (pc_presence_penalty c) (cfg_presence_penalty d),
       cfg_seed = nullish (pc_seed c) (cfg_seed d), cfg_stream = nullish (pc_stream c) (cfg_stream d)\<rparr>)"

definition getInitialParameterEnabled ::
  "(jsstring \<Rightarrow> rat json option) \<Rightarrow> local_storage \<Rightarrow> ParameterEnabled" where
  "getInitialParameterEnabled parse st =
     (let c = loadParameterEnabled parse st; d = DEFAULT_PARAMETER_ENABLED in
      \<lparr>en_temperature = nullish (pe_temperature c) (en_temperature d),
       en_top_p = nullish (pe_top_p c) (en_top_p d),
       en_max_tokens = nullish (pe_max_tokens c) (en_max_tokens d),
       en_frequency_penalty = nullish (pe_frequency_penalty c) (en_frequency_penalty d),
       en_presence_penalty = nullish (pe_presence_penalty c) (en_presence_penalty d),
       en_seed = nullish (pe_seed c) (en_seed d)\<rparr>)"

definition getInitialMessages ::
  "(jsstring \<Rightarrow> jsstring) \<Rightarrow> (jsstring \<Rightarrow> int json option) \<Rightarrow> (int json \<Rightarrow> jsstring option) \<Rightarrow>
     int \<Rightarrow> local_storage \<Rightarrow> Message list \<times> local_storage" where
  "getInitialMessages t parse stringify now st =
     (case loadMessages t parse stringify now st of (r, st') \<Rightarrow> (nullish r [], st'))"

section \<open>Debounced persistence (\<open>use-playground-state.ts\<close>)\<close>

text \<open>\<open>ps_timer\<close> tells whether a save is scheduled; \<open>ps_mounted\<close> is the negation of \<open>cancelled\<close>.\<close>

record PlaygroundPersistence =
  ps_latest :: "Message list"
  ps_loaded :: bool
  ps_timer :: bool
  ps_mounted :: bool
  ps_messages :: "Message list"
  ps_loading :: bool
  ps_storage :: local_storage

definition persistMessages :: "Message list \<Rightarrow> PlaygroundPersistence \<Rightarrow> PlaygroundPersistence" where
  "persistMessages ms s =
     (let s' = s\<lparr>ps_latest := ms\<rparr> in if \<not> ps_loaded s' then s' else s'\<lparr>ps_timer := True\<rparr>)"

definition save_timer ::
  "(int json \<Rightarrow> jsstring option) \<Rightarrow> PlaygroundPersistence \<Rightarrow> PlaygroundPersistence" where
  "save_timer stringify s =
     (if ps_timer s
      then s\<lparr>ps_timer := False, ps_storage := saveMessages stringify (ps_latest s) (ps_storage s)\<rparr>
      else s)"

definition load_timer ::
  "(jsstring \<Rightarrow> jsstring) \<Rightarrow> (jsstring \<Rightarrow> int json option) \<Rightarrow> (int json \<Rightarrow> jsstring option) \<Rightarrow> int \<Rightarrow>
     PlaygroundPersistence \<Rightarrow> PlaygroundPersistence" where
  "load_timer t parse stringify now s =
     (case loadMessages t parse stringify now (ps_storage s) of (r, st) \<Rightarrow>
        let s' = s\<lparr>ps_storage := st\<rparr> in
        if \<not> ps_mounted s' then s'
        else s'\<lparr>ps_latest := nullish r [], ps_loaded := True, ps_messages := nullish r [],
                ps_loading := False\<rparr>)"

definition state_unmount ::
  "(int json \<Rightarrow> jsstring option) \<Rightarrow> PlaygroundPersistence \<Rightarrow> PlaygroundPersistence" where
  "state_unmount stringify s =
     (let s' = s\<lparr>ps_mounted := False\<rparr> in
      if ps_timer s'
      then s'\<lparr>ps_timer := False, ps_storage := saveMessages stringify (ps_latest s') (ps_storage s')\<rparr>
      else s')"

definition updateMessages ::
  "Message list + (Message list \<Rightarrow> Message list) \<Rightarrow> PlaygroundPersistence \<Rightarrow> PlaygroundPersistence" where
  "updateMessages updater s =
     (let ms = applyMessageStateUpdate (ps_messages s) updater in
      persistMessages ms (s\<lparr>ps_messages := ms\<rparr>))"

definition clearMessages :: "PlaygroundPersistence \<Rightarrow> PlaygroundPersistence" where
  "clearMessages s = updateMessages (Inl []) s"

end
