(* ===== verification/Playground_Storage_Laws.thy ===== *)
theory Playground_Storage_Laws
  imports Playground_Storage
begin

text \<open>
  What storing and loading guarantee: values survive the schemas, trimming keeps the longest
  recent part within the limits, a settled conversation is loaded exactly as it was saved, and
  every change made after loading reaches the storage.
\<close>

section \<open>Schemas read what was written\<close>

lemma role_roundtrip: "messageRoleSchema (role_json r) = Some r"
  by (cases r) (simp_all add: messageRoleSchema_def)

lemma status_roundtrip: "messageStatusSchema (status_json r) = Some r"
  by (cases r) (simp_all add: messageStatusSchema_def)

lemma version_roundtrip: "messageVersionSchema (version_json w) = Some w"
  by (simp add: version_json_def required_def)

lemma source_roundtrip: "sourceSchema (source_json s) = Some s"
  by (simp add: source_json_def required_def)

lemma versions_roundtrip:
  "vs \<noteq> [] \<Longrightarrow> versionsSchema (JArr (map version_json vs)) = Some vs"
  unfolding versionsSchema_def by (subst as_array_map) (simp_all add: version_roundtrip)

lemma sources_roundtrip: "as_array sourceSchema (JArr (map source_json ss)) = Some ss"
  by (rule as_array_map) (rule source_roundtrip)

lemma reasoning_roundtrip: "reasoningSchema (reasoning_json r) = Some r"
proof -
  define ps where "ps = [(js ''content'', JStr (reasoning_content r)), (js ''duration'', JNum (reasoning_duration r))]
     @ prop_opt (js ''startedAt'') JNum (reasoning_startedAt r)
     @ prop_opt (js ''completedAt'') JNum (reasoning_completedAt r)
     @ prop_opt (js ''durationMs'') JNum (reasoning_durationMs r)"
  have "optional as_number ps (js ''startedAt'') = Some (reasoning_startedAt r)"
    "optional as_number ps (js ''completedAt'') = Some (reasoning_completedAt r)"
    "optional as_number ps (js ''durationMs'') = Some (reasoning_durationMs r)"
    by (rule optional_prop[where g = JNum], simp add: ps_def json_lookup del: map_of_append, simp)+
  moreover have "required as_string ps (js ''content'') = Some (reasoning_content r)"
    "required as_number ps (js ''duration'') = Some (reasoning_duration r)"
    by (simp_all add: ps_def json_lookup del: map_of_append)
  moreover have "reasoning_json r = JObj ps" by (simp add: reasoning_json_def ps_def)
  ultimately show ?thesis by (simp del: js_Cons)
qed

definition message_props :: "Message \<Rightarrow> (jsstring \<times> int json) list" where
  "message_props m = (case message_json m of JObj ps \<Rightarrow> ps | _ \<Rightarrow> [])"

lemma message_json_props: "message_json m = JObj (message_props m)"
  by (simp add: message_props_def message_json_def)

lemmas message_lookup = message_props_def message_json_def json_lookup

lemma message_required:
  "required as_string (message_props m) (js ''key'') = Some (key m)"
  "required messageRoleSchema (message_props m) (js ''from'') = Some (role_of m)"
  "versions m \<noteq> [] \<Longrightarrow> required versionsSchema (message_props m) (js ''versions'') = Some (versions m)"
  by (simp_all add: message_lookup role_roundtrip versions_roundtrip del: map_of_append)

lemma message_numbers:
  "optional as_number (message_props m) (js ''createdAt'') = Some (createdAt m)"
  "optional as_number (message_props m) (js ''startedAt'') = Some (startedAt m)"
  "optional as_number (message_props m) (js ''completedAt'') = Some (completedAt m)"
  "optional as_number (message_props m) (js ''durationMs'') = Some (durationMs m)"
  by (rule optional_prop[where g = JNum], simp add: message_lookup del: map_of_append, simp)+

lemma message_booleans:
  "optional as_boolean (message_props m) (js ''isReasoningStreaming'') = Some (isReasoningStreaming m)"
  "optional as_boolean (message_props m) (js ''isReasoningComplete'') = Some (isReasoningComplete m)"
  "optional as_boolean (message_props m) (js ''isContentComplete'') = Some (isContentComplete m)"
  by (rule optional_prop[where g = JBool], simp add: message_lookup del: map_of_append, simp)+

lemma message_parts:
  "optional (as_array sourceSchema) (message_props m) (js ''sources'') = Some (sources m)"
  "optional reasoningSchema (message_props m) (js ''reasoning'') = Some (reasoning m)"
  "optional messageStatusSchema (message_props m) (js ''status'') = Some (status m)"
  "optional (as_nullable as_string) (message_props m) (js ''errorCode'') = Some (errorCode m)"
  by (rule optional_prop, simp add: message_lookup del: map_of_append,
      rule sources_roundtrip reasoning_roundtrip status_roundtrip as_nullable_json; simp)+

lemma message_roundtrip: "versions m \<noteq> [] \<Longrightarrow> messageSchema (message_json m) = Some m"
  by (simp add: message_json_props message_required message_numbers message_booleans message_parts
      del: js_Cons)

lemma messages_roundtrip:
  "(\<And>m. m \<in> set ms \<Longrightarrow> versions m \<noteq> []) \<Longrightarrow> messagesSchema (messages_json ms) = Some ms"
  unfolding messagesSchema_def messages_json_def by (rule as_array_map) (rule message_roundtrip)

definition config_props :: "PartialConfig \<Rightarrow> (jsstring \<times> rat json) list" where
  "config_props c = (case config_json c of JObj ps \<Rightarrow> ps | _ \<Rightarrow> [])"

lemma config_json_props: "config_json c = JObj (config_props c)"
  by (simp add: config_props_def config_json_def)

lemmas config_lookup = config_props_def config_json_def json_lookup

lemma config_optional:
  "optional as_string (config_props c) (js ''model'') = Some (pc_model c)"
  "optional as_string (config_props c) (js ''group'') = Some (pc_group c)"
  "optional as_number (config_props c) (js ''temperature'') = Some (pc_temperature c)"
  "optional as_number (config_props c) (js ''top_p'') = Some (pc_top_p c)"
  "optional as_number (config_props c) (js ''max_tokens'') = Some (pc_max_tokens c)"
  "optional as_number (config_props c) (js ''frequency_penalty'') = Some (pc_frequency_penalty c)"
  "optional as_number (config_props c) (js ''presence_penalty'') = Some (pc_presence_penalty c)"
  "optional (as_nullable as_number) (config_props c) (js ''seed'') = Some (pc_seed c)"
  "optional as_boolean (config_props c) (js ''stream'') = Some (pc_stream c)"
  by (rule optional_prop, simp add: config_lookup del: map_of_append, simp add: as_nullable_json)+

lemma config_roundtrip: "playgroundConfigSchema (config_json c) = Some c"
  by (simp add: config_json_props config_optional del: js_Cons)

section \<open>Trimming by size\<close>

definition total_size :: "Message list \<Rightarrow> nat" where
  "total_size ms = sum_list (map getMessageSize ms)"

lemma total_size_simps [simp]:
  "total_size [] = 0" "total_size (m # ms) = getMessageSize m + total_size ms"
  "total_size (ms @ ms') = total_size ms + total_size ms'"
  by (simp_all add: total_size_def)

text \<open>The kept part is within the limit or one message, and one more message would exceed it.\<close>

definition kept_ok :: "Message list \<Rightarrow> Message list \<Rightarrow> bool" where
  "kept_ok dropped kept \<longleftrightarrow>
     (total_size kept \<le> MAX_LOADED_MESSAGES_CHARS \<or> length kept = 1)
   \<and> (dropped \<noteq> [] \<longrightarrow> kept \<noteq> []
       \<and> MAX_LOADED_MESSAGES_CHARS < total_size (last dropped # kept))"

lemma size_loop_spec:
  assumes "total_size acc \<le> MAX_LOADED_MESSAGES_CHARS \<or> length acc = 1"
  shows "\<exists>kept dropped. xs = kept @ dropped \<and> size_loop xs (total_size acc) acc = rev kept @ acc
    \<and> kept_ok (rev dropped) (rev kept @ acc)"
  using assms
proof (induction xs arbitrary: acc)
  case Nil
  then show ?case by (auto simp: kept_ok_def)
next
  case (Cons m xs)
  show ?case
  proof (cases "acc \<noteq> [] \<and> MAX_LOADED_MESSAGES_CHARS < total_size acc + getMessageSize m")
    case True
    with Cons.prems show ?thesis
      by (intro exI[of _ "[]"] exI[of _ "m # xs"]) (simp add: kept_ok_def)
  next
    case False
    then have "total_size (m # acc) \<le> MAX_LOADED_MESSAGES_CHARS \<or> length (m # acc) = 1" by auto
    from Cons.IH[OF this] obtain kept dropped where
      k: "xs = kept @ dropped" "size_loop xs (total_size (m # acc)) (m # acc) = rev kept @ m # acc"
         "kept_ok (rev dropped) (rev kept @ m # acc)"
      by auto
    with False show ?thesis
      by (intro exI[of _ "m # kept"] exI[of _ dropped]) (auto simp: add.commute)
  qed
qed

lemma trim_by_size:
  "\<exists>dropped. ms = dropped @ trimMessagesByContentSize ms \<and> kept_ok dropped (trimMessagesByContentSize ms)"
proof -
  obtain kept dropped where k: "rev ms = kept @ dropped" "size_loop (rev ms) 0 [] = rev kept"
      "kept_ok (rev dropped) (rev kept)"
    using size_loop_spec[of "[]" "rev ms"] by auto
  from k(1) have "ms = rev dropped @ rev kept" by (metis rev_append rev_rev_ident)
  with k show ?thesis by (auto simp: trimMessagesByContentSize_def)
qed

lemma trim_by_size_id: "total_size ms \<le> MAX_LOADED_MESSAGES_CHARS \<Longrightarrow> trimMessagesByContentSize ms = ms"
proof -
  assume small: "total_size ms \<le> MAX_LOADED_MESSAGES_CHARS"
  obtain dropped where d: "ms = dropped @ trimMessagesByContentSize ms"
      "kept_ok dropped (trimMessagesByContentSize ms)"
    using trim_by_size by blast
  have "dropped = []"
  proof (rule ccontr)
    assume ne: "dropped \<noteq> []"
    have "total_size dropped = total_size (butlast dropped @ [last dropped])" using ne by simp
    then have "total_size dropped = total_size (butlast dropped) + getMessageSize (last dropped)"
      by (simp only: total_size_simps)
    moreover have "total_size ms = total_size dropped + total_size (trimMessagesByContentSize ms)"
      using d(1) total_size_simps(3) by metis
    ultimately show False using d(2) ne small by (auto simp: kept_ok_def)
  qed
  with d(1) show ?thesis by simp
qed

lemma trimMessages_spec: "length (trimMessages ms) \<le> 100 \<and> suffix (trimMessages ms) ms"
  by (auto simp: trimMessages_def MAX_STORED_MESSAGES_def slice_last_def suffix_drop)

lemma sanitize_length [simp]: "length (sanitizeMessagesOnLoad t ms now) = length ms"
  by (simp add: sanitizeMessagesOnLoad_def split: option.splits)

lemma truncateText_bound: "length (truncateText s n) \<le> n"
  by (simp add: truncateText_def)

section \<open>Properties of loading\<close>

lemma load_cases:
  assumes "loadMessages t parse stringify now st = (Some ms, st')"
  shows "\<exists>parsed. ms = sanitizeMessagesOnLoad t (trimMessagesByContentSize (trimMessages
      (map (\<lambda>m. normalizeStoredMessageForLoad m now) parsed))) now"
  using assms
  by (auto simp: loadMessages_def Let_def split: read_result.splits prod.splits option.splits if_splits)


definition sample_message :: Message where
  "sample_message = createUserMessage (js ''k'') (js ''v'') (js ''hi'') 1"

definition sample_store :: local_storage where
  "sample_store = [(MESSAGES, js ''x'')]"

lemma sample_facts:
  "\<not> stored_changed sample_message" "\<not> isAssistantMessagePending sample_message"
  "getMessageSize sample_message = 2" "versions sample_message \<noteq> []" "role_of sample_message = USER"
  "reasoning sample_message = None"
  by (auto simp: sample_message_def stored_changed_def version_changed_def
      normalized_version_def collapseRepeatedSectionSnapshots_def MIN_PREFIX_COLLAPSE_LENGTH_def
      createMessageVersion_def truncateText_def MAX_LOADED_MESSAGE_CHARS_def createUserMessage_def
      isAssistantMessagePending_def getMessageSize_def)

lemma sample_schema: "messagesSchema (messages_json [sample_message]) = Some [sample_message]"
  by (rule messages_roundtrip) (simp add: sample_message_def)

lemma messages_json_plain:
  "unwrapStoredValue (messages_json ms) = messages_json ms" "\<not> json_falsy (messages_json ms)"
  by (simp_all add: messages_json_def)

text \<open>A message that loading leaves alone.\<close>

definition calm :: "Message \<Rightarrow> bool" where
  "calm m \<longleftrightarrow> versions m \<noteq> [] \<and> \<not> stored_changed m \<and> \<not> isAssistantMessagePending m"

lemma normalize_calm: "calm m \<Longrightarrow> normalizeStoredMessageForLoad m now = m"
  by (simp add: calm_def normalizeStoredMessageForLoad_def stored_normalized_def)

lemma sanitize_calm: "(\<And>m. m \<in> set ms \<Longrightarrow> calm m) \<Longrightarrow> sanitizeMessagesOnLoad t ms now = ms"
proof -
  assume c: "\<And>m. m \<in> set ms \<Longrightarrow> calm m"
  then have "last_pending_below ms n = None" if "n \<le> length ms" for n
    using that by (induction n) (auto simp: isPendingAssistantMessage_def calm_def)
  then show ?thesis by (simp add: sanitizeMessagesOnLoad_def)
qed

lemma save_text:
  assumes "\<And>m. m \<in> set ms \<Longrightarrow> versions m \<noteq> []" "length ms \<le> 100"
    "stringify (envelope STORAGE_VERSION (messages_json ms)) = Some text"
  shows "saveMessages stringify ms st = map_put st MESSAGES text"
  using assms
  by (simp add: saveMessages_def trimMessages_def MAX_STORED_MESSAGES_def messages_roundtrip
      writeStoredValue_def)

lemma read_saved:
  "text \<noteq> [] \<Longrightarrow> readStoredMessagesValue parse (map_put st MESSAGES text) =
     (if MAX_STORED_MESSAGES_BYTES < length text
      then (Nothing, removeItem MESSAGES (map_put st MESSAGES text))
      else (case parse text of None \<Rightarrow> (Throws, map_put st MESSAGES text)
            | Some v \<Rightarrow> (Value v, map_put st MESSAGES text)))"
  by (simp add: readStoredMessagesValue_def map_get_put)

lemma unwrap_envelope: "unwrapStoredValue (envelope v d) = d" "\<not> json_falsy (envelope v d)"
  by (simp_all add: envelope_def)

lemma map_put_twice: "map_put (map_put st k v) k v = map_put st k v"
  by (induction st) auto




text \<open>A conversation whose stored text is longer than 1048576 characters is lost.  Saving does
  not look at the length; the next load finds the text too long, returns nothing and removes it
  from the storage.\<close>

theorem oversized_history_deleted:
  assumes "\<forall>m\<in>set ms. versions m \<noteq> []" "length ms \<le> 100"
    and "stringify (envelope STORAGE_VERSION (messages_json ms)) = Some text"
    and "1024 * 1024 < length text"
  shows "map_get (saveMessages stringify ms st) MESSAGES = Some text
    \<and> fst (loadMessages t parse stringify now (saveMessages stringify ms st)) = None
    \<and> map_get (snd (loadMessages t parse stringify now (saveMessages stringify ms st))) MESSAGES = None"
proof -
  have s: "saveMessages stringify ms st = map_put st MESSAGES text"
    using assms by (intro save_text) auto
  have "text \<noteq> []" using assms(4) by auto
  with assms(4) show ?thesis
    by (simp add: s loadMessages_def read_saved MAX_STORED_MESSAGES_BYTES_def map_get_put
        removeItem_def delete_conv)
qed

theorem oversized_history_deleted_witness:
  "fst (loadMessages id (\<lambda>_. None) (\<lambda>_. Some (replicate 1048577 120)) 5
     (saveMessages (\<lambda>_. Some (replicate 1048577 120)) [sample_message] [])) = None"
  using oversized_history_deleted[of "[sample_message]" "\<lambda>_. Some (replicate 1048577 120)"
      "replicate 1048577 120" "[]" id "\<lambda>_. None" 5]
  by (simp add: sample_facts)

section \<open>Collapsing repeated sections\<close>

lemma scan_sections_spec:
  "oc \<in> set (scan_sections b k i s) \<Longrightarrow>
     i \<le> occ_index oc \<and> prefix (heading oc) (drop (occ_index oc - i) s)"
proof (induction b k i s rule: scan_sections.induct)
  case (2 b n i c s)
  then have "Suc i \<le> occ_index oc" "prefix (heading oc) (drop (occ_index oc - Suc i) s)" by auto
  then show ?case by (simp add: Suc_le_eq drop_Cons')
next
  case (3 b i c s)
  have later: ?case if "Suc i \<le> occ_index oc \<and> prefix (heading oc) (drop (occ_index oc - Suc i) s)"
    using that by (simp add: drop_Cons')
  show ?case
  proof (cases "if b then heading_match (c # s) else None")
    case None
    with 3 later show ?thesis by simp
  next
    case (Some n)
    with 3 later show ?thesis by (auto simp: take_is_prefix)
  qed
qed simp

definition occurrences :: "SectionOccurrence list \<Rightarrow> jsstring \<Rightarrow> nat" where
  "occurrences occs h = length (filter (\<lambda>oc. heading oc = h) occs)"

lemma heading_counts_acc:
  "nullish (map_get (foldl (\<lambda>counts oc. map_put counts (heading oc)
       (nullish (map_get counts (heading oc)) 0 + 1)) m occs) h) 0
     = nullish (map_get m h) 0 + occurrences occs h"
  by (induction occs arbitrary: m) (auto simp: occurrences_def map_get_put)

lemma heading_counts: "nullish (map_get (getHeadingCounts occs) h) 0 = occurrences occs h"
  using heading_counts_acc[of "[]" occs h] by (simp add: getHeadingCounts_def)

lemma last_repeated_sound:
  "i \<in> set (last_repeated counts seen occs) \<Longrightarrow>
     \<exists>oc\<in>set occs. occ_index oc = i \<and> \<not> nullish (map_get counts (heading oc)) 0 < 3"
  by (induction counts seen occs rule: last_repeated.induct)
     (auto simp: MIN_REPEATED_SECTION_COUNT_def split: if_splits)

lemma last_repeated_complete:
  "oc \<in> set occs \<Longrightarrow> heading oc \<notin> set seen \<Longrightarrow> 3 \<le> nullish (map_get counts (heading oc)) 0 \<Longrightarrow>
     \<exists>oc'\<in>set occs. heading oc' = heading oc \<and> occ_index oc' \<in> set (last_repeated counts seen occs)"
proof (induction counts seen occs rule: last_repeated.induct)
  case (2 counts seen o1 occs)
  show ?case
  proof (cases "heading o1 = heading oc")
    case True
    with 2 show ?thesis by (auto simp: MIN_REPEATED_SECTION_COUNT_def)
  next
    case False
    with 2 show ?thesis by (auto simp: MIN_REPEATED_SECTION_COUNT_def)
  qed
qed simp

text \<open>Collapsing keeps a tail that starts a section.  The result is a suffix of the text.  When
  something is cut, the text is at least 2000 characters long, the result starts with a numbered
  heading that occurs at least three times, and an occurrence of every heading repeated that
  often is kept.\<close>

theorem collapse_keeps_tail:
  "suffix (collapseRepeatedSectionSnapshots s) s
   \<and> (collapseRepeatedSectionSnapshots s \<noteq> s \<longrightarrow> 2000 \<le> length s
      \<and> (\<exists>h. 3 \<le> occurrences (getSectionOccurrences s) h
            \<and> prefix h (collapseRepeatedSectionSnapshots s))
      \<and> (\<forall>h. 3 \<le> occurrences (getSectionOccurrences s) h \<longrightarrow>
            (\<exists>oc\<in>set (getSectionOccurrences s). heading oc = h
               \<and> length s - length (collapseRepeatedSectionSnapshots s) \<le> occ_index oc)))"
proof (cases "length s < 2000 \<or> findLastRepeatedSectionRunStart s = None")
  case True
  then have "collapseRepeatedSectionSnapshots s = s"
    by (auto simp: collapseRepeatedSectionSnapshots_def MIN_PREFIX_COLLAPSE_LENGTH_def)
  then show ?thesis by simp
next
  case False
  let ?occs = "getSectionOccurrences s"
  let ?idxs = "last_repeated (getHeadingCounts ?occs) [] (rev ?occs)"
  from False have ne: "?idxs \<noteq> []" and
      c: "collapseRepeatedSectionSnapshots s = drop (Min (set ?idxs)) s"
    by (auto simp: findLastRepeatedSectionRunStart_def collapseRepeatedSectionSnapshots_def
        MIN_PREFIX_COLLAPSE_LENGTH_def Let_def split: if_splits)
  have "Min (set ?idxs) \<in> set ?idxs" using ne by simp
  then obtain oc where oc: "oc \<in> set ?occs" "occ_index oc = Min (set ?idxs)"
      "3 \<le> occurrences ?occs (heading oc)"
    using last_repeated_sound heading_counts by fastforce
  moreover have "prefix (heading oc) (drop (occ_index oc) s)"
    using scan_sections_spec[of oc True 0 0 s] oc(1) by (simp add: getSectionOccurrences_def)
  moreover have "\<exists>o2\<in>set ?occs. heading o2 = h \<and> Min (set ?idxs) \<le> occ_index o2"
    if h: "3 \<le> occurrences ?occs h" for h
  proof -
    have "filter (\<lambda>x. heading x = h) ?occs \<noteq> []" using h by (auto simp: occurrences_def)
    then obtain o1 where "o1 \<in> set (rev ?occs)" "heading o1 = h" by (auto simp: filter_empty_conv)
    then obtain o2 where "o2 \<in> set ?occs" "heading o2 = h" "occ_index o2 \<in> set ?idxs"
      using last_repeated_complete[of o1 "rev ?occs" "[]" "getHeadingCounts ?occs"] h
      by (auto simp: heading_counts)
    then show ?thesis by (auto intro: bexI[of _ o2])
  qed
  ultimately show ?thesis
    using False by (fastforce simp: c suffix_drop intro: order_trans)
qed

definition sample_sections :: jsstring where
  "sample_sections = (let h = js ''## 1. a'' @ [10] in h @ h @ h @ replicate 2000 120)"

lemma scan_plain: "scan_sections b 0 i (replicate n 120) = []"
  by (induction n arbitrary: b i) (simp_all add: heading_match_def is_line_terminator_def)

lemma sample_occurrences:
  "getSectionOccurrences sample_sections =
     map (\<lambda>i. \<lparr>heading = js ''## 1. a'', occ_index = i\<rparr>) [0, 8, 16]"
  by (simp add: getSectionOccurrences_def sample_sections_def Let_def heading_match_def
      heading_tail_def is_line_terminator_def is_space_def is_digit_def scan_plain)

lemma sample_collapse: "collapseRepeatedSectionSnapshots sample_sections \<noteq> sample_sections"
proof -
  have "findLastRepeatedSectionRunStart sample_sections = Some 16"
    by (simp add: findLastRepeatedSectionRunStart_def sample_occurrences Let_def heading_counts
        occurrences_def MIN_REPEATED_SECTION_COUNT_def)
  moreover have "length sample_sections = 2024" by (simp add: sample_sections_def Let_def)
  ultimately have "length (collapseRepeatedSectionSnapshots sample_sections) = 2008"
    by (simp add: collapseRepeatedSectionSnapshots_def MIN_PREFIX_COLLAPSE_LENGTH_def)
  with \<open>length sample_sections = 2024\<close> show ?thesis by auto
qed

theorem collapse_keeps_tail_witness:
  "collapseRepeatedSectionSnapshots sample_sections \<noteq> sample_sections
   \<and> (\<exists>h. 3 \<le> occurrences (getSectionOccurrences sample_sections) h
        \<and> prefix h (collapseRepeatedSectionSnapshots sample_sections))"
  using collapse_keeps_tail[of sample_sections] sample_collapse by blast

section \<open>Configuration and persistence\<close>

text \<open>A saved configuration is read back.  After \<open>saveConfig\<close> of a full configuration the next
  start of the playground has exactly that configuration, whatever the defaults are, an unset
  seed included.\<close>

theorem config_survives_reload:
  assumes "stringify (envelope 1 (config_json (full_config c))) = Some body" "body \<noteq> []"
    and "parse body = Some (envelope 1 (config_json (full_config c)))"
  shows "getInitialPlaygroundConfig parse (saveConfig stringify (full_config c) st) = c"
  using assms
  by (simp add: saveConfig_def config_roundtrip writeStoredValue_def getInitialPlaygroundConfig_def
      loadConfig_def load_with_def readStoredValue_def map_get_put unwrap_envelope full_config_def)

theorem config_survives_reload_witness:
  "getInitialPlaygroundConfig (\<lambda>_. Some (envelope 1 (config_json (full_config DEFAULT_CONFIG))))
     (saveConfig (\<lambda>_. Some (js ''x'')) (full_config DEFAULT_CONFIG) []) = DEFAULT_CONFIG"
  by (rule config_survives_reload[where body = "js ''x''"]) simp_all

datatype PersistEvent = Update "Message list" | SaveTimer

fun persist_step ::
  "(int json \<Rightarrow> jsstring option) \<Rightarrow> PersistEvent \<Rightarrow> PlaygroundPersistence \<Rightarrow> PlaygroundPersistence" where
  "persist_step stringify (Update ms) s = updateMessages (Inl ms) s"
| "persist_step stringify SaveTimer s = save_timer stringify s"

definition persist_ok :: "(int json \<Rightarrow> jsstring option) \<Rightarrow> PlaygroundPersistence \<Rightarrow> bool" where
  "persist_ok stringify s \<longleftrightarrow> ps_loaded s \<and> ps_latest s = ps_messages s
     \<and> (\<not> ps_timer s \<longrightarrow> (\<exists>st. ps_storage s = saveMessages stringify (ps_messages s) st))"

lemma persist_update: "ps_loaded s \<Longrightarrow> persist_ok sf (persist_step sf (Update ms) s)"
  by (simp add: persist_ok_def updateMessages_def persistMessages_def applyMessageStateUpdate_def Let_def)

interpretation persistence: kept_invariant "persist_step sf" "persist_ok sf" "\<lambda>_. True" for sf
proof
  fix e s
  assume "persist_ok sf s"
  then show "persist_ok sf (persist_step sf e s)"
    using persist_update [of s sf] by (cases e) (simp, auto simp: persist_ok_def save_timer_def)
qed

text \<open>No change is lost by the debounced save.  Once the conversation has been loaded, after a
  change and any further changes and expirations of the save timer, leaving the page stores
  exactly the conversation shown last.\<close>

theorem unmount_saves_latest:
  assumes "ps_loaded s"
  shows "\<exists>st. ps_storage (state_unmount sf (fold (persist_step sf) (Update ms # es) s))
    = saveMessages sf (ps_messages (fold (persist_step sf) (Update ms # es) s)) st"
  using persistence.run_kept [OF persist_update [OF assms, of sf ms], of es]
  by (auto simp: persist_ok_def state_unmount_def Let_def list_all_iff)

theorem unmount_saves_latest_witness:
  "\<exists>st. ps_storage (state_unmount (\<lambda>_. Some (js ''x'')) (fold (persist_step (\<lambda>_. Some (js ''x'')))
     [Update [sample_message], SaveTimer, Update []]
     \<lparr>ps_latest = [], ps_loaded = True, ps_timer = False, ps_mounted = True, ps_messages = [],
      ps_loading = False, ps_storage = []\<rparr>)) = saveMessages (\<lambda>_. Some (js ''x'')) [] st"
  using unmount_saves_latest[of "\<lparr>ps_latest = [], ps_loaded = True, ps_timer = False, ps_mounted = True,
      ps_messages = [], ps_loading = False, ps_storage = []\<rparr>" "\<lambda>_. Some (js ''x'')" "[sample_message]"
      "[SaveTimer, Update []]"]
  by (simp add: updateMessages_def persistMessages_def applyMessageStateUpdate_def save_timer_def Let_def)

end
