(* ===== verification/Playground_Controls.thy ===== *)
theory Playground_Controls
  imports Playground_Storage
begin

text \<open>
  The controls around the conversation: \<open>playground-parameters.ts\<close>, \<open>playground-option-utils.ts\<close>,
  \<open>input-control-utils.ts\<close>, \<open>input-tool-utils.ts\<close> and the effects of \<open>use-playground-options.ts\<close>.
  Numbers are exact rationals with the two infinities and \<open>NaN\<close>; the rounding of decimals to
  doubles is not modelled.  \<open>Number.parseFloat\<close> is an argument.
\<close>

section \<open>Sampling parameters (\<open>playground-parameters.ts\<close>)\<close>

datatype jsnum = Fin rat | PosInf | NegInf | NaN

datatype PlaygroundParameterKey =
    KTemperature | KTopP | KFrequencyPenalty | KPresencePenalty | KMaxTokens | KSeed

datatype ParameterValueType = SliderValue | NumberValue

record PlaygroundParameterControl =
  control_key :: PlaygroundParameterKey
  labelKey :: jsstring
  descriptionKey :: jsstring
  valueType :: ParameterValueType
  control_min :: rat
  control_max :: rat
  control_step :: rat

definition PLAYGROUND_PARAMETER_CONTROLS :: "PlaygroundParameterControl list" where
  "PLAYGROUND_PARAMETER_CONTROLS =
     [\<lparr>control_key = KTemperature, labelKey = js ''Temperature'',
       descriptionKey = js ''Controls randomness and creativity'', valueType = SliderValue,
       control_min = 1 / 10, control_max = 1, control_step = 1 / 10\<rparr>,
      \<lparr>control_key = KTopP, labelKey = js ''Top P'',
       descriptionKey = js ''Limits token selection to a probability mass'', valueType = SliderValue,
       control_min = 1 / 10, control_max = 1, control_step = 1 / 10\<rparr>,
      \<lparr>control_key = KFrequencyPenalty, labelKey = js ''Frequency Penalty'',
       descriptionKey = js ''Reduces repeated wording'', valueType = SliderValue,
       control_min = -2, control_max = 2, control_step = 1 / 10\<rparr>,
      \<lparr>control_key = KPresencePenalty, labelKey = js ''Presence Penalty'',
       descriptionKey = js ''Encourages new topics'', valueType = SliderValue,
       control_min = -2, control_max = 2, control_step = 1 / 10\<rparr>,
      \<lparr>control_key = KMaxTokens, labelKey = js ''Max Tokens'',
       descriptionKey = js ''Caps the response length'', valueType = NumberValue,
       control_min = 0, control_max = 200000, control_step = 1\<rparr>,
      \<lparr>control_key = KSeed, labelKey = js ''Seed'',
       descriptionKey = js ''Keeps compatible responses more repeatable'', valueType = NumberValue,
       control_min = 0, control_max = 2147483647, control_step = 1\<rparr>]"

text \<open>\<open>Math.min(max, Math.max(min, x))\<close> for a number that is not \<open>NaN\<close>.\<close>

fun clamp :: "rat \<Rightarrow> rat \<Rightarrow> jsnum \<Rightarrow> rat" where
  "clamp lo hi (Fin x) = min hi (max lo x)"
| "clamp lo hi PosInf = hi"
| "clamp lo hi NegInf = min hi lo"
| "clamp lo hi NaN = 0"

definition math_trunc :: "rat \<Rightarrow> rat" where
  "math_trunc x = (if 0 \<le> x then of_int \<lfloor>x\<rfloor> else of_int \<lceil>x\<rceil>)"

text \<open>\<open>Number(x.toFixed(p))\<close>: the nearest multiple of \<open>10\<^sup>-\<^sup>p\<close>, halves away from zero.\<close>

definition to_fixed :: "nat \<Rightarrow> rat \<Rightarrow> rat" where
  "to_fixed p x =
     (if 0 \<le> x then of_int \<lfloor>x * 10 ^ p + 1 / 2\<rfloor> / 10 ^ p
      else - (of_int \<lfloor>- x * 10 ^ p + 1 / 2\<rfloor> / 10 ^ p))"

text \<open>The number of digits after the point in \<open>String(step)\<close>; at most 20 are looked at.\<close>

fun decimals_within :: "nat \<Rightarrow> rat \<Rightarrow> nat" where
  "decimals_within 0 x = 0"
| "decimals_within (Suc n) x = (if of_int \<lfloor>x\<rfloor> = x then 0 else 1 + decimals_within n (10 * x))"

definition control_precision :: "PlaygroundParameterControl \<Rightarrow> nat" where
  "control_precision c = decimals_within 20 (control_step c)"

definition normalizeParameterNumberValue ::
  "(jsstring \<Rightarrow> jsnum) \<Rightarrow> PlaygroundParameterKey \<Rightarrow> jsstring + jsnum \<Rightarrow> rat option" where
  "normalizeParameterNumberValue parseFloat k value =
     (let unset = (if k = KSeed then None else Some 0) in
      if value = Inl [] then unset
      else let control = List.find (\<lambda>c. control_key c = k) PLAYGROUND_PARAMETER_CONTROLS;
               parsed = (case value of Inr n \<Rightarrow> n | Inl s \<Rightarrow> parseFloat s)
           in case control of
                None \<Rightarrow> unset
              | Some c \<Rightarrow>
                  if parsed = NaN then unset
                  else let clamped = clamp (control_min c) (control_max c) parsed in
                    if 1 \<le> control_step c then Some (math_trunc clamped)
                    else Some (to_fixed (control_precision c) clamped))"

section \<open>Option fallbacks (\<open>playground-option-utils.ts\<close>)\<close>

definition getModelFallback :: "ModelOption list \<Rightarrow> jsstring \<Rightarrow> jsstring option" where
  "getModelFallback models currentModel =
     (if list_ex (\<lambda>m. model_value m = currentModel) models \<or> models = [] then None
      else Some (model_value (hd models)))"

definition shouldClearModelForGroup :: "ModelOption list \<Rightarrow> jsstring \<Rightarrow> bool" where
  "shouldClearModelForGroup models currentModel \<longleftrightarrow>
     (if currentModel = [] then False
      else \<not> list_ex (\<lambda>m. model_value m = currentModel) models)"

definition getGroupFallback :: "'n GroupOption list \<Rightarrow> jsstring \<Rightarrow> jsstring option" where
  "getGroupFallback groups currentGroup =
     (if list_ex (\<lambda>g. group_value g = currentGroup) groups \<or> groups = [] then None
      else Some (nullish (map_option group_value
             (List.find (\<lambda>g. group_value g = js ''default'') groups)) (group_value (hd groups))))"

definition getOptionLoadErrorMessage :: "jsstring option \<Rightarrow> jsstring \<Rightarrow> jsstring" where
  "getOptionLoadErrorMessage error fallbackMessage = nullish error fallbackMessage"

text \<open>The two effects of \<open>usePlaygroundOptions\<close> that react to loaded data: the configuration after
  them.  \<open>if (fallback)\<close> is false for an empty string.\<close>

definition models_effect :: "ModelOption list \<Rightarrow> 'n PlaygroundConfig \<Rightarrow> 'n PlaygroundConfig" where
  "models_effect models config =
     (case truthy (getModelFallback models (cfg_model config)) of
        Some fallback \<Rightarrow> config\<lparr>cfg_model := fallback\<rparr>
      | None \<Rightarrow> if shouldClearModelForGroup models (cfg_model config)
                then config\<lparr>cfg_model := []\<rparr> else config)"

definition groups_effect :: "'n GroupOption list \<Rightarrow> 'n PlaygroundConfig \<Rightarrow> 'n PlaygroundConfig" where
  "groups_effect groups config =
     (case truthy (getGroupFallback groups (cfg_group config)) of
        Some fallback \<Rightarrow> config\<lparr>cfg_group := fallback\<rparr>
      | None \<Rightarrow> config)"

section \<open>Input (\<open>input-control-utils.ts\<close>, \<open>input-tool-utils.ts\<close>)\<close>

record InputControlState =
  canSubmit :: bool
  isSelectorDisabled :: bool
  shouldShowStop :: bool

definition getSubmittableInputText :: "jsstring option \<Rightarrow> bool \<Rightarrow> jsstring option" where
  "getSubmittableInputText text disabled =
     (case text of
        None \<Rightarrow> None
      | Some s \<Rightarrow> if disabled \<or> trim s = [] then None else Some s)"

definition getInputControlState ::
  "bool \<Rightarrow> 'n GroupOption list \<Rightarrow> bool \<Rightarrow> bool \<Rightarrow> bool \<Rightarrow> ModelOption list \<Rightarrow> jsstring \<Rightarrow>
     InputControlState" where
  "getInputControlState disabled groups hasStopHandler generating isModelLoading models text =
     \<lparr>canSubmit = (\<not> disabled \<and> models \<noteq> [] \<and> trim text \<noteq> []),
      isSelectorDisabled = (disabled \<or> isModelLoading \<or> groups = []),
      shouldShowStop = (generating \<and> hasStopHandler)\<rparr>"

record InputToolNotice =
  notice_description :: "jsstring option"
  notice_title :: jsstring

definition getAttachmentActionNotice :: "jsstring \<Rightarrow> InputToolNotice" where
  "getAttachmentActionNotice action =
     \<lparr>notice_description = Some action, notice_title = js ''Feature in development''\<rparr>"

definition getSearchActionNotice :: InputToolNotice where
  "getSearchActionNotice =
     \<lparr>notice_description = None, notice_title = js ''Search feature in development''\<rparr>"

section \<open>Properties\<close>

lemma control_exists:
  "\<exists>c. List.find (\<lambda>c. control_key c = k) PLAYGROUND_PARAMETER_CONTROLS = Some c
     \<and> control_key c = k \<and> c \<in> set PLAYGROUND_PARAMETER_CONTROLS"
  by (cases k) (simp_all add: PLAYGROUND_PARAMETER_CONTROLS_def)

text \<open>The bounds of a control are multiples of its step, which is 1 or 1/10.\<close>

definition on_grid :: "rat \<Rightarrow> rat \<Rightarrow> bool" where
  "on_grid st x \<longleftrightarrow> (\<exists>n. x = of_int n * st)"

lemma on_gridI: "x = of_int n * st \<Longrightarrow> on_grid st x"
  by (auto simp: on_grid_def)

lemma control_shape:
  assumes "c \<in> set PLAYGROUND_PARAMETER_CONTROLS"
  shows "control_min c \<le> control_max c \<and> (control_step c = 1 \<or> control_step c = 1 / 10)
    \<and> on_grid (control_step c) (control_min c) \<and> on_grid (control_step c) (control_max c)"
proof -
  have "on_grid 1 0" "on_grid 1 200000" "on_grid 1 2147483647"
    by (rule on_gridI[of _ 0] on_gridI[of _ 200000] on_gridI[of _ 2147483647], simp)+
  moreover have "on_grid (1 / 10) (1 / 10)" "on_grid (1 / 10) 1" "on_grid (1 / 10) (-2)" "on_grid (1 / 10) 2"
    by (rule on_gridI[of _ 1] on_gridI[of _ 10] on_gridI[of _ "-20"] on_gridI[of _ 20], simp; fail)+
  ultimately show ?thesis using assms by (auto simp: PLAYGROUND_PARAMETER_CONTROLS_def)
qed

lemma clamp_range: "lo \<le> hi \<Longrightarrow> x \<noteq> NaN \<Longrightarrow> lo \<le> clamp lo hi x \<and> clamp lo hi x \<le> hi"
  by (cases x) auto

lemma precision_tenth: "decimals_within 20 (1 / 10) = 1"
proof -
  have "\<lfloor>1 / 10 :: rat\<rfloor> = 0" by (simp add: floor_eq_iff)
  then show ?thesis by (simp add: numeral_eq_Suc)
qed

lemma trunc_in_range:
  assumes "on_grid 1 lo" "on_grid 1 hi" "lo \<le> x" "x \<le> hi"
  shows "lo \<le> math_trunc x \<and> math_trunc x \<le> hi \<and> on_grid 1 (math_trunc x)"
proof -
  obtain a b where ab: "lo = of_int a" "hi = of_int b" using assms by (auto simp: on_grid_def)
  have "a \<le> \<lfloor>x\<rfloor>" "\<lceil>x\<rceil> \<le> b" using assms ab by (simp_all add: le_floor_iff ceiling_le_iff)
  moreover have "\<lfloor>x\<rfloor> \<le> b" "a \<le> \<lceil>x\<rceil>"
    using assms ab by (simp_all add: floor_le_iff le_ceiling_iff)
  ultimately show ?thesis using ab by (auto simp: math_trunc_def on_grid_def)
qed

lemma fixed_in_range:
  assumes "on_grid (1 / 10) lo" "on_grid (1 / 10) hi" "lo \<le> x" "x \<le> hi"
  shows "lo \<le> to_fixed 1 x \<and> to_fixed 1 x \<le> hi \<and> on_grid (1 / 10) (to_fixed 1 x)"
proof -
  obtain a b where ab: "lo = of_int a / 10" "hi = of_int b / 10"
    using assms by (auto simp: on_grid_def)
  have x: "of_int a \<le> x * 10" "x * 10 \<le> of_int b" using assms ab by simp_all
  define n where "n = (if 0 \<le> x then \<lfloor>x * 10 + 1 / 2\<rfloor> else - \<lfloor>- x * 10 + 1 / 2\<rfloor>)"
  have "a \<le> n \<and> n \<le> b"
  proof (cases "0 \<le> x")
    case True
    with x have "a \<le> \<lfloor>x * 10 + 1 / 2\<rfloor>" "\<lfloor>x * 10 + 1 / 2\<rfloor> \<le> b"
      by (simp_all add: le_floor_iff floor_le_iff)
    with True show ?thesis by (simp add: n_def)
  next
    case False
    with x have "- b \<le> \<lfloor>- x * 10 + 1 / 2\<rfloor>" "\<lfloor>- x * 10 + 1 / 2\<rfloor> \<le> - a"
      by (simp_all add: le_floor_iff floor_le_iff)
    with False show ?thesis by (simp add: n_def)
  qed
  moreover have "to_fixed 1 x = of_int n / 10" by (simp add: to_fixed_def n_def)
  ultimately show ?thesis using ab by (auto simp: on_grid_def)
qed

text \<open>Rounding leaves a value on the grid alone.\<close>

lemma trunc_grid: "on_grid 1 x \<Longrightarrow> math_trunc x = x"
  by (auto simp: on_grid_def math_trunc_def)

lemma fixed_grid:
  assumes "on_grid (1 / 10) x"
  shows "to_fixed 1 x = x"
proof -
  obtain n where n: "x = of_int n / 10" using assms by (auto simp: on_grid_def)
  then have "\<lfloor>x * 10 + 1 / 2\<rfloor> = n" "\<lfloor>- x * 10 + 1 / 2\<rfloor> = - n" by (simp_all add: floor_eq_iff)
  with n show ?thesis unfolding to_fixed_def by simp
qed

lemma round_on_grid:
  assumes "c \<in> set PLAYGROUND_PARAMETER_CONTROLS"
    and f: "f = (\<lambda>x. if 1 \<le> control_step c then math_trunc x else to_fixed (control_precision c) x)"
  shows "on_grid (control_step c) lo \<Longrightarrow> on_grid (control_step c) hi \<Longrightarrow> lo \<le> x \<Longrightarrow> x \<le> hi \<Longrightarrow>
      lo \<le> f x \<and> f x \<le> hi \<and> on_grid (control_step c) (f x)"
    and "on_grid (control_step c) x \<Longrightarrow> f x = x"
proof -
  consider (one) "control_step c = 1" | (tenth) "control_step c = 1 / 10"
    using control_shape[OF assms(1)] by blast
  then have "control_step c = 1 \<and> f = math_trunc \<or> control_step c = 1 / 10 \<and> f = to_fixed 1"
  proof cases
    case tenth
    have "control_precision c = 1" unfolding control_precision_def tenth by (rule precision_tenth)
    with tenth show ?thesis by (simp add: f)
  qed (simp add: f)
  then show "on_grid (control_step c) lo \<Longrightarrow> on_grid (control_step c) hi \<Longrightarrow> lo \<le> x \<Longrightarrow> x \<le> hi \<Longrightarrow>
      lo \<le> f x \<and> f x \<le> hi \<and> on_grid (control_step c) (f x)"
    and "on_grid (control_step c) x \<Longrightarrow> f x = x"
    using trunc_in_range[of lo hi x] fixed_in_range[of lo hi x] trunc_grid[of x] fixed_grid[of x]
    by (elim disjE conjE; simp only:)+
qed

text \<open>Parameter values stay on their scale.  For an input that reads as a number (infinite
  ones included), the normalised value lies between the minimum and the maximum of its control,
  is a multiple of the control's step, and normalising it again does not change it.\<close>

theorem parameter_value_in_range:
  assumes "value \<noteq> Inl []" "(case value of Inr n \<Rightarrow> n | Inl s \<Rightarrow> parseFloat s) \<noteq> NaN"
  shows "\<exists>c r. c \<in> set PLAYGROUND_PARAMETER_CONTROLS \<and> control_key c = k
    \<and> normalizeParameterNumberValue parseFloat k value = Some r
    \<and> control_min c \<le> r \<and> r \<le> control_max c \<and> on_grid (control_step c) r
    \<and> normalizeParameterNumberValue parseFloat k (Inr (Fin r)) = Some r"
proof -
  obtain c where c: "List.find (\<lambda>c. control_key c = k) PLAYGROUND_PARAMETER_CONTROLS = Some c"
      "control_key c = k" "c \<in> set PLAYGROUND_PARAMETER_CONTROLS"
    using control_exists by blast
  note sh = control_shape[OF c(3)]
  define f where "f x = (if 1 \<le> control_step c then math_trunc x else to_fixed (control_precision c) x)" for x
  define p where "p = (case value of Inr n \<Rightarrow> n | Inl s \<Rightarrow> parseFloat s)"
  define r where "r = f (clamp (control_min c) (control_max c) p)"
  have f: "f = (\<lambda>x. if 1 \<le> control_step c then math_trunc x else to_fixed (control_precision c) x)"
    by (simp add: f_def fun_eq_iff)
  note grid = round_on_grid(1)[OF c(3) f] and id = round_on_grid(2)[OF c(3) f]
  have r: "control_min c \<le> r \<and> r \<le> control_max c \<and> on_grid (control_step c) r"
    unfolding r_def using assms(2) sh clamp_range by (intro grid) (auto simp: p_def)
  have n: "normalizeParameterNumberValue parseFloat k value = Some r"
    using assms c(1) by (cases "value") (simp_all add: normalizeParameterNumberValue_def r_def f_def p_def)
  have "normalizeParameterNumberValue parseFloat k (Inr (Fin r)) = Some (f r)"
    using c(1) r by (simp add: normalizeParameterNumberValue_def f_def max_absorb2 min_absorb2)
  with n r c id show ?thesis by auto
qed

theorem parameter_value_in_range_witness:
  "\<exists>r. normalizeParameterNumberValue (\<lambda>_. NaN) KTemperature (Inr (Fin 3)) = Some r \<and> r \<le> 1"
  using parameter_value_in_range[of "Inr (Fin 3)" "\<lambda>_. NaN" KTemperature]
  by (auto simp: PLAYGROUND_PARAMETER_CONTROLS_def)

text \<open>An empty field leaves the scale.  Clearing the field of the temperature or of \<open>top_p\<close>, or
  typing something that is not a number, gives 0, which is below the minimum 0.1 of both
  controls.\<close>

theorem empty_parameter_below_minimum:
  assumes "k = KTemperature \<or> k = KTopP"
  shows "\<exists>c r. c \<in> set PLAYGROUND_PARAMETER_CONTROLS \<and> control_key c = k
    \<and> normalizeParameterNumberValue parseFloat k (Inl []) = Some r \<and> r < control_min c"
proof -
  obtain c where c: "control_key c = k" "c \<in> set PLAYGROUND_PARAMETER_CONTROLS"
    using control_exists by blast
  with assms have "control_min c = 1 / 10" by (auto simp: PLAYGROUND_PARAMETER_CONTROLS_def)
  moreover have "normalizeParameterNumberValue parseFloat k (Inl []) = Some 0"
    using assms by (auto simp: normalizeParameterNumberValue_def)
  ultimately show ?thesis using c by (intro exI[of _ c] exI[of _ 0]) simp
qed

theorem empty_parameter_below_minimum_witness:
  "\<exists>c r. c \<in> set PLAYGROUND_PARAMETER_CONTROLS \<and> control_key c = KTopP
    \<and> normalizeParameterNumberValue (\<lambda>_. NaN) KTopP (Inl []) = Some r \<and> r < control_min c"
  by (rule empty_parameter_below_minimum) simp

lemma find_Some_set: "List.find P xs = Some x \<Longrightarrow> x \<in> set xs \<and> P x"
  by (auto simp: find_Some_iff)

lemma group_effect_available:
  assumes "groups \<noteq> []" "\<forall>g\<in>set groups. group_value g \<noteq> []"
  shows "cfg_group (groups_effect groups c) \<in> group_value ` set groups"
proof (cases "cfg_group c \<in> group_value ` set groups")
  case True
  then show ?thesis by (auto simp: groups_effect_def truthy_def getGroupFallback_def list_ex_iff)
next
  case False
  then have none: "\<not> list_ex (\<lambda>g. group_value g = cfg_group c) groups" by (force simp: list_ex_iff)
  have "\<exists>g\<in>set groups. getGroupFallback groups (cfg_group c) = Some (group_value g)"
  proof (cases "List.find (\<lambda>g. group_value g = js ''default'') groups")
    case None
    with assms none show ?thesis
      by (intro bexI[of _ "hd groups"]) (simp_all add: getGroupFallback_def del: js_Cons)
  next
    case (Some g)
    with assms none find_Some_set[OF Some] show ?thesis
      by (intro bexI[of _ g]) (simp_all add: getGroupFallback_def del: js_Cons)
  qed
  with assms(2) show ?thesis by (auto simp: groups_effect_def truthy_def)
qed

text \<open>After the options have loaded, the configuration names an available model and group.
  With at least one model (all with non-empty names) and at least one group, the effects leave a
  model of the list and a group of the list selected, and keep a selection that was available.\<close>

theorem options_select_available:
  assumes "models \<noteq> []" "\<forall>m\<in>set models. model_value m \<noteq> []"
    and "groups \<noteq> []" "\<forall>g\<in>set groups. group_value g \<noteq> []"
  shows "cfg_model (groups_effect groups (models_effect models config)) \<in> model_value ` set models
    \<and> cfg_group (groups_effect groups (models_effect models config)) \<in> group_value ` set groups
    \<and> (cfg_model config \<in> model_value ` set models \<longrightarrow>
        cfg_model (models_effect models config) = cfg_model config)"
proof -
  let ?c = "models_effect models config"
  have "cfg_model ?c \<in> model_value ` set models"
  proof (cases "cfg_model config \<in> model_value ` set models")
    case True
    then show ?thesis
      by (auto simp: models_effect_def truthy_def getModelFallback_def shouldClearModelForGroup_def
          list_ex_iff)
  next
    case False
    then have "getModelFallback models (cfg_model config) = Some (model_value (hd models))"
      using assms(1) by (force simp: getModelFallback_def list_ex_iff)
    with assms(1,2) show ?thesis by (simp add: models_effect_def truthy_def)
  qed
  moreover have "cfg_group ?c = cfg_group config"
    by (simp add: models_effect_def split: option.splits)
  moreover
  have "cfg_model (groups_effect groups ?c) = cfg_model ?c"
    by (auto simp: groups_effect_def split: option.splits)
  moreover have "cfg_group (groups_effect groups ?c) \<in> group_value ` set groups"
    using assms(3,4) group_effect_available by blast
  moreover have "cfg_model config \<in> model_value ` set models \<longrightarrow> cfg_model ?c = cfg_model config"
    by (auto simp: models_effect_def truthy_def getModelFallback_def shouldClearModelForGroup_def
        list_ex_iff)
  ultimately show ?thesis by simp
qed

theorem options_select_available_witness:
  "cfg_model (groups_effect [\<lparr>group_label = js ''G'', group_value = js ''g'', group_ratio = 1, group_desc = None\<rparr>]
     (models_effect [\<lparr>model_label = js ''M'', model_value = js ''m''\<rparr>] DEFAULT_CONFIG)) = js ''m''"
  using options_select_available[of "[\<lparr>model_label = js ''M'', model_value = js ''m''\<rparr>]"
      "[\<lparr>group_label = js ''G'', group_value = js ''g'', group_ratio = 1, group_desc = None\<rparr>]" DEFAULT_CONFIG]
  by simp

end
