(* ===== verification/Auth_Store.thy ===== *)
theory Auth_Store
  imports Complex_Main Js_Json
begin

text \<open>
  The authentication store \<open>stores/auth-store.ts\<close> and the validation of server values in
  \<open>lib/auth-session.ts\<close>.  A value of type \<open>unknown\<close> is a JSON value with rational numbers; an
  accepted user keeps its JSON object, since the client only passes it on.  The optional fields
  \<open>return_origin\<close> and \<open>return_path\<close> of a bundle are left out: neither file reads them.
\<close>

section \<open>State (\<open>auth-store.ts\<close>)\<close>

type_synonym AuthUser = "rat json"

record LoginSession =
  sid :: jsstring
  current :: bool
  login_method :: jsstring
  ip :: jsstring
  user_agent :: jsstring
  created_at :: rat
  last_active_at :: rat
  expires_at :: rat

record AuthBundle =
  access_token :: jsstring
  token_type :: jsstring
  access_expires_at :: rat
  bundle_user :: AuthUser
  bundle_session :: LoginSession

datatype AuthBootstrapState = BootIdle | BootChecking | BootComplete

record AuthState =
  user :: "AuthUser option"
  accessToken :: "jsstring option"
  accessExpiresAt :: "rat option"
  auth_session :: "LoginSession option"
  pending2FAFlowToken :: "jsstring option"
  bootstrapState :: AuthBootstrapState

definition useAuthStore :: AuthState where
  "useAuthStore = \<lparr>user = None, accessToken = None, accessExpiresAt = None, auth_session = None,
     pending2FAFlowToken = None, bootstrapState = BootIdle\<rparr>"

definition setBundle :: "AuthBundle \<Rightarrow> AuthState \<Rightarrow> AuthState" where
  "setBundle bundle st = st\<lparr>user := Some (bundle_user bundle), accessToken := Some (access_token bundle),
     accessExpiresAt := Some (access_expires_at bundle), auth_session := Some (bundle_session bundle),
     pending2FAFlowToken := None, bootstrapState := BootComplete\<rparr>"

definition setUser :: "AuthUser option \<Rightarrow> AuthState \<Rightarrow> AuthState" where
  "setUser u st = st\<lparr>user := u\<rparr>"

definition setPending2FAFlowToken :: "jsstring option \<Rightarrow> AuthState \<Rightarrow> AuthState" where
  "setPending2FAFlowToken tok st = st\<lparr>pending2FAFlowToken := tok\<rparr>"

definition setBootstrapState :: "AuthBootstrapState \<Rightarrow> AuthState \<Rightarrow> AuthState" where
  "setBootstrapState b st = st\<lparr>bootstrapState := b\<rparr>"

definition reset :: "AuthBootstrapState option \<Rightarrow> AuthState \<Rightarrow> AuthState" where
  "reset b st = st\<lparr>user := None, accessToken := None, accessExpiresAt := None, auth_session := None,
     pending2FAFlowToken := None, bootstrapState := nullish b BootComplete\<rparr>"

section \<open>Validation (\<open>auth-session.ts\<close>)\<close>

fun isRecord :: "'n json \<Rightarrow> bool" where
  "isRecord (JObj _) = True"
| "isRecord (JArr _) = True"
| "isRecord _ = False"

text \<open>\<open>value.k\<close> on a record; an array has none of the properties read here.\<close>

fun field :: "'n json \<Rightarrow> jsstring \<Rightarrow> 'n json option" where
  "field (JObj ps) k = map_of ps k"
| "field _ k = None"

abbreviation str_field :: "'n json \<Rightarrow> jsstring \<Rightarrow> jsstring option" where
  "str_field v k \<equiv> Option.bind (field v k) as_string"

abbreviation num_field :: "'n json \<Rightarrow> jsstring \<Rightarrow> 'n option" where
  "num_field v k \<equiv> Option.bind (field v k) as_number"

abbreviation bool_field :: "'n json \<Rightarrow> jsstring \<Rightarrow> bool option" where
  "bool_field v k \<equiv> Option.bind (field v k) as_boolean"

definition isAuthUser :: "rat json \<Rightarrow> bool" where
  "isAuthUser v \<longleftrightarrow> isRecord v
     \<and> (case num_field v (js ''id'') of None \<Rightarrow> False | Some n \<Rightarrow> of_int \<lfloor>n\<rfloor> = n \<and> 0 < n)
     \<and> str_field v (js ''username'') \<noteq> None \<and> num_field v (js ''role'') \<noteq> None"

text \<open>\<open>isLoginSession\<close> together with the value it admits.\<close>

definition isLoginSession :: "rat json \<Rightarrow> LoginSession option" where
  "isLoginSession v =
     (if \<not> isRecord v then None else
      Option.bind (str_field v (js ''sid'')) (\<lambda>s. if s = [] then None else
      Option.bind (bool_field v (js ''current'')) (\<lambda>c.
      Option.bind (str_field v (js ''login_method'')) (\<lambda>lm.
      Option.bind (str_field v (js ''ip'')) (\<lambda>i.
      Option.bind (str_field v (js ''user_agent'')) (\<lambda>ua.
      Option.bind (num_field v (js ''created_at'')) (\<lambda>ca.
      Option.bind (num_field v (js ''last_active_at'')) (\<lambda>la.
      Option.bind (num_field v (js ''expires_at'')) (\<lambda>ea.
        Some \<lparr>sid = s, current = c, login_method = lm, ip = i, user_agent = ua, created_at = ca,
              last_active_at = la, expires_at = ea\<rparr>)))))))))"

definition hasValidTokenFields :: "rat json \<Rightarrow> (jsstring \<times> jsstring \<times> rat) option" where
  "hasValidTokenFields v =
     Option.bind (str_field v (js ''access_token'')) (\<lambda>a.
     Option.bind (str_field v (js ''token_type'')) (\<lambda>t.
     Option.bind (num_field v (js ''access_expires_at'')) (\<lambda>e.
       if a \<noteq> [] \<and> t \<noteq> [] \<and> 0 < e then Some (a, t, e) else None)))"

definition isAuthBundle :: "rat json \<Rightarrow> AuthBundle option" where
  "isAuthBundle v =
     (if \<not> isRecord v then None else
      Option.bind (hasValidTokenFields v) (\<lambda>(a, t, e).
      Option.bind (field v (js ''user'')) (\<lambda>u. if \<not> isAuthUser u then None else
      Option.bind (Option.bind (field v (js ''session'')) isLoginSession) (\<lambda>s.
        Some \<lparr>access_token = a, token_type = t, access_expires_at = e, bundle_user = u,
              bundle_session = s\<rparr>))))"

record AuthTokenRotation =
  rot_access_token :: jsstring
  rot_token_type :: jsstring
  rot_access_expires_at :: rat
  rot_session :: LoginSession

definition isAuthTokenRotation :: "rat json \<Rightarrow> AuthTokenRotation option" where
  "isAuthTokenRotation v =
     (if \<not> isRecord v then None else
      Option.bind (hasValidTokenFields v) (\<lambda>(a, t, e). if t \<noteq> js ''Bearer'' then None else
      Option.bind (Option.bind (field v (js ''session'')) isLoginSession) (\<lambda>s.
        if current s
        then Some \<lparr>rot_access_token = a, rot_token_type = t, rot_access_expires_at = e, rot_session = s\<rparr>
        else None)))"

section \<open>Consistency of the store\<close>

text \<open>The token, its expiry and the session come and go together, and none of them is empty.\<close>

definition auth_ok :: "AuthState \<Rightarrow> bool" where
  "auth_ok st \<longleftrightarrow>
     (accessToken st = None \<longleftrightarrow> auth_session st = None)
   \<and> (accessToken st = None \<longleftrightarrow> accessExpiresAt st = None)
   \<and> (\<forall>t. accessToken st = Some t \<longrightarrow> t \<noteq> [])
   \<and> (\<forall>s. auth_session st = Some s \<longrightarrow> sid s \<noteq> [])
   \<and> (\<forall>e. accessExpiresAt st = Some e \<longrightarrow> 0 < e)"

definition bundle_ok :: "AuthBundle \<Rightarrow> bool" where
  "bundle_ok b \<longleftrightarrow> access_token b \<noteq> [] \<and> sid (bundle_session b) \<noteq> [] \<and> 0 < access_expires_at b"

lemma login_session_sid: "isLoginSession v = Some s \<Longrightarrow> sid s \<noteq> []"
  by (auto simp: isLoginSession_def bind_eq_Some_conv split: if_splits)

lemma token_fields_valid: "hasValidTokenFields v = Some (a, t, e) \<Longrightarrow> a \<noteq> [] \<and> t \<noteq> [] \<and> 0 < e"
  by (auto simp: hasValidTokenFields_def bind_eq_Some_conv split: if_splits)

lemma parsed_bundle_ok: "isAuthBundle v = Some b \<Longrightarrow> bundle_ok b"
  by (auto simp: isAuthBundle_def bundle_ok_def bind_eq_Some_conv
      dest!: token_fields_valid login_session_sid split: if_splits)

lemma parsed_rotation_ok:
  "isAuthTokenRotation v = Some r \<Longrightarrow> rot_access_token r \<noteq> [] \<and> sid (rot_session r) \<noteq> []
     \<and> 0 < rot_access_expires_at r \<and> rot_token_type r = js ''Bearer''"
  by (auto simp del: js_Cons simp: isAuthTokenRotation_def bind_eq_Some_conv
      dest!: token_fields_valid login_session_sid split: if_splits)

lemma auth_ok_ops:
  "bundle_ok b \<Longrightarrow> auth_ok (setBundle b st)" "auth_ok (reset bs st)"
  "auth_ok (setUser u st) = auth_ok st" "auth_ok (setPending2FAFlowToken tok st) = auth_ok st"
  "auth_ok (setBootstrapState bs' st) = auth_ok st" "auth_ok useAuthStore"
  by (simp_all add: auth_ok_def bundle_ok_def setBundle_def reset_def setUser_def
      setPending2FAFlowToken_def setBootstrapState_def useAuthStore_def)

end
