(* ===== verification/Auth_Session.thy ===== *)
theory Auth_Session
  imports Auth_Store Generation_Guard
begin

text \<open>
  The session logic \<open>lib/auth-session.ts\<close> and the tab synchronisation \<open>lib/auth-session-sync.ts\<close>.
  The module-level variables and the store form one record.  \<open>async\<close> functions are cut at their
  \<open>await\<close>s; what other code does to the record in between is not restricted.  Events sent to
  other tabs and the session identifiers sent with refresh requests are recorded.
\<close>

section \<open>Synchronisation events (\<open>auth-session-sync.ts\<close>)\<close>

datatype SyncKind = SyncAuthenticated | SyncSignedOut

record AuthSessionSyncEvent =
  ev_kind :: SyncKind
  ev_sid :: jsstring
  ev_source :: jsstring
  ev_nonce :: jsstring
  ev_timestamp :: rat

fun sync_kind :: "'n json \<Rightarrow> SyncKind option" where
  "sync_kind (JStr s) =
     (if s = js ''authenticated'' then Some SyncAuthenticated
      else if s = js ''signed_out'' then Some SyncSignedOut else None)"
| "sync_kind _ = None"

definition isAuthSessionSyncEvent :: "rat json \<Rightarrow> AuthSessionSyncEvent option" where
  "isAuthSessionSyncEvent v =
     (if \<not> isRecord v then None else
      Option.bind (Option.bind (field v (js ''kind'')) sync_kind) (\<lambda>k.
      Option.bind (str_field v (js ''sid'')) (\<lambda>s. if s = [] then None else
      Option.bind (str_field v (js ''source'')) (\<lambda>so.
      Option.bind (str_field v (js ''nonce'')) (\<lambda>n.
      Option.bind (num_field v (js ''timestamp'')) (\<lambda>ts.
        Some \<lparr>ev_kind = k, ev_sid = s, ev_source = so, ev_nonce = n, ev_timestamp = ts\<rparr>))))))"

definition sync_event_json :: "AuthSessionSyncEvent \<Rightarrow> rat json" where
  "sync_event_json e = JObj
     [(js ''kind'', JStr (case ev_kind e of SyncAuthenticated \<Rightarrow> js ''authenticated''
                          | SyncSignedOut \<Rightarrow> js ''signed_out'')),
      (js ''sid'', JStr (ev_sid e)), (js ''source'', JStr (ev_source e)),
      (js ''nonce'', JStr (ev_nonce e)), (js ''timestamp'', JNum (ev_timestamp e))]"

text \<open>The value \<open>publishAuthSessionEvent\<close> sends: none for an empty session.\<close>

definition publishAuthSessionEvent ::
  "jsstring \<Rightarrow> jsstring \<Rightarrow> rat \<Rightarrow> SyncKind \<Rightarrow> jsstring \<Rightarrow> rat json option" where
  "publishAuthSessionEvent source nonce now kind s =
     (if s = [] then None
      else Some (sync_event_json
        \<lparr>ev_kind = kind, ev_sid = s, ev_source = source, ev_nonce = nonce, ev_timestamp = now\<rparr>))"

text \<open>\<open>deliver\<close> of \<open>subscribeAuthSessionEvents\<close>: the event the listener gets.\<close>

definition deliver :: "jsstring \<Rightarrow> rat \<Rightarrow> rat json \<Rightarrow> AuthSessionSyncEvent option" where
  "deliver own now v =
     Option.bind (isAuthSessionSyncEvent v) (\<lambda>e.
       if ev_source e \<noteq> own \<and> \<bar>now - ev_timestamp e\<bar> < 60000 then Some e else None)"

section \<open>Module state and session operations\<close>

record AuthWorld =
  store :: AuthState
  authEpoch :: nat
  explicitSignOutInProgress :: bool
  sessionExpirationHandled :: bool
  published :: "(SyncKind \<times> jsstring) list"
  refresh_requests :: "jsstring option list"

definition initial_world :: AuthWorld where
  "initial_world = \<lparr>store = useAuthStore, authEpoch = 0, explicitSignOutInProgress = False,
     sessionExpirationHandled = False, published = [], refresh_requests = []\<rparr>"

definition current_sid :: "AuthWorld \<Rightarrow> jsstring option" where
  "current_sid w = map_option sid (auth_session (store w))"

definition publish :: "SyncKind \<Rightarrow> jsstring \<Rightarrow> AuthWorld \<Rightarrow> AuthWorld" where
  "publish kind s w = (if s = [] then w else w\<lparr>published := published w @ [(kind, s)]\<rparr>)"

definition applyAuthBundle :: "AuthBundle \<Rightarrow> bool \<Rightarrow> AuthWorld \<Rightarrow> AuthWorld" where
  "applyAuthBundle bundle synchronizeTabs w =
     (let previousSID = current_sid w;
          w1 = w\<lparr>explicitSignOutInProgress := False, sessionExpirationHandled := False,
                 authEpoch := authEpoch w + 1, store := setBundle bundle (store w)\<rparr>
      in if synchronizeTabs \<and> previousSID \<noteq> Some (sid (bundle_session bundle))
         then publish SyncAuthenticated (sid (bundle_session bundle)) w1 else w1)"

definition beginExplicitSignOut :: "AuthWorld \<Rightarrow> AuthWorld" where
  "beginExplicitSignOut w = w\<lparr>explicitSignOutInProgress := True\<rparr>"

definition cancelExplicitSignOut :: "AuthWorld \<Rightarrow> AuthWorld" where
  "cancelExplicitSignOut w = w\<lparr>explicitSignOutInProgress := False\<rparr>"

definition claimSessionExpirationHandling :: "AuthWorld \<Rightarrow> bool \<times> AuthWorld" where
  "claimSessionExpirationHandling w =
     (if explicitSignOutInProgress w \<or> sessionExpirationHandled w then (False, w)
      else (True, w\<lparr>sessionExpirationHandled := True\<rparr>))"

datatype AuthRotationError = InvalidRotation | NoActiveSession | SessionMismatch

definition applyAuthRotation :: "rat json \<Rightarrow> AuthWorld \<Rightarrow> AuthRotationError + AuthWorld" where
  "applyAuthRotation v w =
     (case isAuthTokenRotation v of
        None \<Rightarrow> Inl InvalidRotation
      | Some r \<Rightarrow>
          (case (user (store w), auth_session (store w)) of
             (Some u, Some s) \<Rightarrow>
               if sid (rot_session r) \<noteq> sid s then Inl SessionMismatch
               else Inr (applyAuthBundle
                 \<lparr>access_token = rot_access_token r, token_type = rot_token_type r,
                  access_expires_at = rot_access_expires_at r, bundle_user = u,
                  bundle_session = rot_session r\<rparr> False w)
           | _ \<Rightarrow> Inl NoActiveSession))"

definition clearAuthentication :: "bool \<Rightarrow> AuthBootstrapState option \<Rightarrow> AuthWorld \<Rightarrow> AuthWorld" where
  "clearAuthentication synchronizeTabs bs w =
     (let s = current_sid w;
          w1 = w\<lparr>authEpoch := authEpoch w + 1, store := reset (Some (nullish bs BootComplete)) (store w)\<rparr>
      in case s of
           None \<Rightarrow> w1
         | Some k \<Rightarrow> if synchronizeTabs \<and> k \<noteq> [] then publish SyncSignedOut k w1 else w1)"

section \<open>The refresh runner\<close>

record AuthRefreshHTTPResponse =
  http_status :: int
  http_data :: "rat json option"
  http_error :: bool

text \<open>The payload of a transient error: the superseding marker, the error thrown, or the data.\<close>

datatype TransientCause = Superseded | RequestError | ResponseData "rat json option"

datatype RefreshOutcome =
    Authenticated AuthBundle
  | Anonymous
  | TransientError TransientCause
  | OutOfSync "jsstring option"

text \<open>Where a run is suspended: at \<open>await runtime.request\<close>, at \<open>await runtime.wait\<close>, or done.\<close>

datatype RefreshRun =
    Requesting nat bool
  | WaitingRace nat bool
  | Finished RefreshOutcome

definition refreshRaceDelays :: "nat list" where
  "refreshRaceDelays = [80, 200, 500]"

text \<open>\<open>run(raceAttempt, allowMismatchRetry)\<close> up to its first \<open>await\<close>.\<close>

definition run_begin :: "nat \<Rightarrow> nat \<Rightarrow> bool \<Rightarrow> AuthWorld \<Rightarrow> RefreshRun \<times> AuthWorld" where
  "run_begin refreshEpoch raceAttempt allowMismatchRetry w =
     (if authEpoch w \<noteq> refreshEpoch then (Finished (TransientError Superseded), w)
      else (Requesting raceAttempt allowMismatchRetry,
            w\<lparr>refresh_requests := refresh_requests w @ [current_sid w]\<rparr>))"

definition response_record :: "AuthRefreshHTTPResponse \<Rightarrow> rat json option" where
  "response_record r = (case http_data r of None \<Rightarrow> None | Some v \<Rightarrow> if isRecord v then Some v else None)"

definition response_code :: "AuthRefreshHTTPResponse \<Rightarrow> jsstring option" where
  "response_code r = Option.bind (response_record r) (\<lambda>v. str_field v (js ''code''))"

definition response_bundle :: "AuthRefreshHTTPResponse \<Rightarrow> AuthBundle option" where
  "response_bundle r = Option.bind (response_record r) (\<lambda>v.
     if field v (js ''success'') = Some (JBool True)
     then Option.bind (field v (js ''data'')) isAuthBundle else None)"

text \<open>\<open>clear\<close> of the runtime built by \<open>runRefresh\<close>.\<close>

definition runtime_clear :: "bool \<Rightarrow> AuthBootstrapState option \<Rightarrow> AuthWorld \<Rightarrow> AuthWorld" where
  "runtime_clear synchronizeTabs bs w =
     (if \<not> synchronizeTabs \<and> bs = Some BootIdle
      then w\<lparr>store := reset (Some BootIdle) (store w)\<rparr>
      else clearAuthentication synchronizeTabs bs w)"

text \<open>The rest of \<open>run\<close> after \<open>await runtime.request\<close>.\<close>

definition run_response ::
  "nat \<Rightarrow> nat \<Rightarrow> bool \<Rightarrow> AuthRefreshHTTPResponse \<Rightarrow> AuthWorld \<Rightarrow> RefreshRun \<times> AuthWorld" where
  "run_response refreshEpoch raceAttempt allowMismatchRetry response w =
     (if authEpoch w \<noteq> refreshEpoch then (Finished (TransientError Superseded), w)
      else case response_bundle response of
        Some bundle \<Rightarrow> (Finished (Authenticated bundle), applyAuthBundle bundle False w)
      | None \<Rightarrow>
        let code = response_code response; st = http_status response in
        if st = 409 \<and> code = Some (js ''AUTH_REFRESH_RACE'') then
          if raceAttempt < length refreshRaceDelays
          then (WaitingRace raceAttempt allowMismatchRetry, w)
          else (Finished (OutOfSync code), runtime_clear False None w)
        else if st = 409 \<and> code = Some (js ''AUTH_SESSION_MISMATCH'') then
          if allowMismatchRetry then run_begin refreshEpoch 0 False (runtime_clear False (Some BootIdle) w)
          else (Finished (OutOfSync code), runtime_clear False None w)
        else if st = 401 then (Finished Anonymous, runtime_clear True None w)
        else if st = 0 \<or> 500 \<le> st \<or> st = 429 then
          (Finished (TransientError
             (if http_error response then RequestError else ResponseData (http_data response))),
           w\<lparr>store := setBootstrapState BootIdle (store w)\<rparr>)
        else (Finished (OutOfSync (Some (nullish code (js ''AUTH_INVALID_REFRESH_RESPONSE'')))),
              runtime_clear False None w))"

text \<open>The continuation of \<open>await runtime.wait\<close>.\<close>

definition run_waited :: "nat \<Rightarrow> nat \<Rightarrow> bool \<Rightarrow> AuthWorld \<Rightarrow> RefreshRun \<times> AuthWorld" where
  "run_waited refreshEpoch raceAttempt allowMismatchRetry w =
     run_begin refreshEpoch (raceAttempt + 1) allowMismatchRetry w"

text \<open>A resumption of the run: first other code changes the world, then the run continues; a
  response is used when the run is requesting.\<close>

fun run_resume ::
  "nat \<Rightarrow> (AuthWorld \<Rightarrow> AuthWorld) \<times> AuthRefreshHTTPResponse \<Rightarrow> RefreshRun \<times> AuthWorld \<Rightarrow>
     RefreshRun \<times> AuthWorld" where
  "run_resume epoch (env, resp) (Requesting r a, w) = run_response epoch r a resp (env w)"
| "run_resume epoch (env, resp) (WaitingRace r a, w) = run_waited epoch r a (env w)"
| "run_resume epoch (env, resp) (Finished out, w) = (Finished out, env w)"

definition createRefreshRunner ::
  "nat \<Rightarrow> ((AuthWorld \<Rightarrow> AuthWorld) \<times> AuthRefreshHTTPResponse) list \<Rightarrow> AuthWorld \<Rightarrow> RefreshRun \<times> AuthWorld" where
  "createRefreshRunner epoch moves w = fold (run_resume epoch) moves (run_begin epoch 0 True w)"

text \<open>\<open>requestRefresh\<close>: the response of the HTTP client, or the error it throws (\<open>None\<close> when that is
  not an error of the client, otherwise its response, if any).\<close>

datatype client_result =
    ClientResponse int "rat json option"
  | ClientError "(int \<times> rat json option) option option"

fun requestRefresh :: "client_result \<Rightarrow> AuthRefreshHTTPResponse" where
  "requestRefresh (ClientResponse st d) = \<lparr>http_status = st, http_data = d, http_error = False\<rparr>"
| "requestRefresh (ClientError None) = \<lparr>http_status = 0, http_data = None, http_error = True\<rparr>"
| "requestRefresh (ClientError (Some None)) = \<lparr>http_status = 0, http_data = None, http_error = True\<rparr>"
| "requestRefresh (ClientError (Some (Some (st, d)))) =
     \<lparr>http_status = st, http_data = d, http_error = True\<rparr>"

section \<open>Bootstrapping and headers\<close>

text \<open>\<open>auth.x\<close> used as a condition: absent, empty or zero is false.\<close>

definition live_token :: "AuthState \<Rightarrow> jsstring option" where
  "live_token st = (case accessToken st of Some t \<Rightarrow> if t = [] then None else Some t | None \<Rightarrow> None)"

definition live_expiry :: "AuthState \<Rightarrow> rat option" where
  "live_expiry st = (case accessExpiresAt st of Some e \<Rightarrow> if e = 0 then None else Some e | None \<Rightarrow> None)"

definition currentValidAuthBundle :: "rat \<Rightarrow> AuthState \<Rightarrow> AuthBundle option" where
  "currentValidAuthBundle nowMs st =
     (case (user st, live_token st, live_expiry st, auth_session st) of
        (Some u, Some t, Some e, Some s) \<Rightarrow>
          if e \<le> of_int \<lfloor>nowMs / 1000\<rfloor> then None
          else Some \<lparr>access_token = t, token_type = js ''Bearer'', access_expires_at = e,
                     bundle_user = u, bundle_session = s\<rparr>
      | _ \<Rightarrow> None)"

text \<open>\<open>bootstrapAuthentication\<close>: an outcome at once, or \<open>None\<close> when it goes on to refresh.\<close>

definition bootstrapAuthentication :: "rat \<Rightarrow> AuthWorld \<Rightarrow> RefreshOutcome option \<times> AuthWorld" where
  "bootstrapAuthentication nowMs w =
     (case currentValidAuthBundle nowMs (store w) of
        Some bundle \<Rightarrow>
          (Some (Authenticated bundle), w\<lparr>store := setBootstrapState BootComplete (store w)\<rparr>)
      | None \<Rightarrow>
          if bootstrapState (store w) = BootComplete
             \<and> \<not> (user (store w) \<noteq> None \<and> auth_session (store w) \<noteq> None)
          then (Some Anonymous, w)
          else (None, w\<lparr>store := setBootstrapState BootChecking (store w)\<rparr>))"

definition getCommonHeaders :: "AuthState \<Rightarrow> (jsstring, jsstring) jsmap" where
  "getCommonHeaders st =
     (let headers = [(js ''Content-Type'', js ''application/json'')] in
      case live_token st of
        None \<Rightarrow> headers
      | Some t \<Rightarrow> map_put headers (js ''Authorization'') (js ''Bearer '' @ t))"

definition shouldRefreshAccessToken :: "jsstring option \<Rightarrow> rat option \<Rightarrow> rat \<Rightarrow> bool" where
  "shouldRefreshAccessToken tok expiry nowSeconds \<longleftrightarrow>
     (case (tok, expiry) of
        (Some t, Some e) \<Rightarrow> t \<noteq> [] \<and> e \<noteq> 0 \<and> e \<le> nowSeconds + 60
      | _ \<Rightarrow> False)"

datatype header_error = RequestFailed TransientCause | SessionExpired

text \<open>\<open>getFreshAuthHeaders\<close> before its \<open>await\<close> (\<open>None\<close>: it refreshes) and after it.\<close>

definition fresh_headers_now :: "rat \<Rightarrow> AuthState \<Rightarrow> (jsstring, jsstring) jsmap option" where
  "fresh_headers_now nowMs st =
     (if live_token st \<noteq> None \<and> live_expiry st \<noteq> None
         \<and> \<not> shouldRefreshAccessToken (accessToken st) (accessExpiresAt st) (of_int \<lfloor>nowMs / 1000\<rfloor>)
      then Some (getCommonHeaders st) else None)"

definition fresh_headers_after ::
  "RefreshOutcome \<Rightarrow> rat \<Rightarrow> AuthState \<Rightarrow> header_error + (jsstring, jsstring) jsmap" where
  "fresh_headers_after outcome nowMs st =
     (case outcome of
        Authenticated _ \<Rightarrow> Inr (getCommonHeaders st)
      | _ \<Rightarrow>
          if live_token st \<noteq> None
             \<and> (case live_expiry st of None \<Rightarrow> False | Some e \<Rightarrow> of_int \<lfloor>nowMs / 1000\<rfloor> < e)
          then Inr (getCommonHeaders st)
          else (case outcome of TransientError c \<Rightarrow> Inl (RequestFailed c) | _ \<Rightarrow> Inl SessionExpired))"

end
