(* ===== verification/Auth_Session_Laws.thy ===== *)
theory Auth_Session_Laws
  imports Auth_Session
begin

text \<open>
  What the session logic guarantees: every refresh ends after a bounded number of requests, a
  superseded refresh touches nothing, the outcome of a refresh agrees with the store it leaves,
  the store stays consistent, a rotation keeps the signed-in user, and the expiration of a
  session is handled once.
\<close>

section \<open>A refresh ends\<close>

fun fuel_left :: "RefreshRun \<Rightarrow> nat" where
  "fuel_left (Requesting r a) = 2 * (3 - r) + 1 + (if a then 7 else 0)"
| "fuel_left (WaitingRace r a) = 2 * (3 - r) + (if a then 7 else 0)"
| "fuel_left (Finished out) = 0"

fun requests_left :: "RefreshRun \<Rightarrow> nat" where
  "requests_left (Requesting r a) = (3 - r) + (if a then 4 else 0)"
| "requests_left (WaitingRace r a) = (3 - r) + (if a then 4 else 0)"
| "requests_left (Finished out) = 0"

fun run_ok :: "RefreshRun \<Rightarrow> bool" where
  "run_ok (Requesting r a) = (r \<le> 3)"
| "run_ok (WaitingRace r a) = (r < 3)"
| "run_ok (Finished out) = True"

lemma begin_cases:
  "run_begin epoch r a w = (Finished (TransientError Superseded), w)
   \<or> run_begin epoch r a w = (Requesting r a, w\<lparr>refresh_requests := refresh_requests w @ [current_sid w]\<rparr>)"
  by (simp add: run_begin_def)

text \<open>One response either ends the run, suspends it for a race, or starts it again once.\<close>

lemma response_cases:
  "(\<exists>out w'. run_response epoch r a resp w = (Finished out, w'))
   \<or> r < 3 \<and> run_response epoch r a resp w = (WaitingRace r a, w)
   \<or> a \<and> run_response epoch r a resp w
          = run_begin epoch 0 False (w\<lparr>store := reset (Some BootIdle) (store w)\<rparr>)"
  by (auto simp: run_response_def refreshRaceDelays_def runtime_clear_def Let_def split: option.splits)

lemma resume_fuel:
  assumes "run_ok st" "fuel_left st \<le> Suc n"
  shows "run_ok (fst (run_resume epoch (env, resp) (st, w)))
    \<and> fuel_left (fst (run_resume epoch (env, resp) (st, w))) \<le> n"
proof (cases st)
  case (Requesting r a)
  with assms response_cases[of epoch r a resp "env w"]
    begin_cases[of epoch 0 False "(env w)\<lparr>store := reset (Some BootIdle) (store (env w))\<rparr>"]
  show ?thesis by auto
next
  case (WaitingRace r a)
  with assms begin_cases[of epoch "Suc r" a "env w"] show ?thesis by (auto simp: run_waited_def)
qed (use assms in auto)

interpretation refresh_run: bounded_machine "run_resume epoch" "\<lambda>s. run_ok (fst s)" "\<lambda>s. fuel_left (fst s)" for epoch
proof
  fix m :: "(AuthWorld \<Rightarrow> AuthWorld) \<times> AuthRefreshHTTPResponse" and s :: "RefreshRun \<times> AuthWorld"
  assume "run_ok (fst s)"
  then show "run_ok (fst (run_resume epoch m s))" "fuel_left (fst (run_resume epoch m s)) \<le> fuel_left (fst s) - 1"
    using resume_fuel [of "fst s" "fuel_left (fst s) - 1" epoch "fst m" "snd m" "snd s"] by simp_all
qed

lemma fuel_zero: "fuel_left st = 0 \<Longrightarrow> run_ok st \<Longrightarrow> \<exists>out. st = Finished out"
  by (cases st) auto

text \<open>Every refresh ends.  Whatever the server answers and whatever other code does to the
  session while the refresh is suspended, a refresh is finished after at most 14 resumptions (8
  responses and 6 waits).\<close>

theorem refresh_terminates:
  assumes "14 \<le> length moves"
  shows "\<exists>out w'. createRefreshRunner epoch moves w = (Finished out, w')"
proof -
  obtain st w0 where b: "run_begin epoch 0 True w = (st, w0)" by (cases "run_begin epoch 0 True w") auto
  then have ok: "run_ok st" "fuel_left st \<le> 14" using begin_cases[of epoch 0 True w] by auto
  with assms refresh_run.exhausted [of "(st, w0)" moves epoch]
  have "\<exists>out. fst (fold (run_resume epoch) moves (st, w0)) = Finished out" by (intro fuel_zero) auto
  with b show ?thesis unfolding createRefreshRunner_def by (metis prod.collapse)
qed

definition race_response :: AuthRefreshHTTPResponse where
  "race_response = \<lparr>http_status = 409, http_data = Some (JObj [(js ''code'', JStr (js ''AUTH_REFRESH_RACE''))]),
     http_error = True\<rparr>"

theorem refresh_terminates_witness:
  "\<exists>out w'. createRefreshRunner 0 (replicate 14 (id, race_response)) initial_world = (Finished out, w')"
  by (rule refresh_terminates) simp

definition quiet :: "(AuthWorld \<Rightarrow> AuthWorld) \<Rightarrow> bool" where
  "quiet env \<longleftrightarrow> (\<forall>w. refresh_requests (env w) = refresh_requests w)"

lemma clear_requests [simp]:
  "refresh_requests (runtime_clear b bs w) = refresh_requests w"
  "refresh_requests (applyAuthBundle bundle b w) = refresh_requests w"
  by (simp_all add: runtime_clear_def clearAuthentication_def applyAuthBundle_def publish_def Let_def
      split: option.splits)

lemma begin_requests:
  "run_begin epoch r a w = (st, w') \<Longrightarrow>
     st = Finished (TransientError Superseded) \<and> w' = w
     \<or> st = Requesting r a \<and> length (refresh_requests w') = Suc (length (refresh_requests w))"
  by (auto simp: run_begin_def split: if_splits)

lemma response_requests:
  assumes "run_response epoch r a resp w = (st, w')" "r \<le> 3"
  shows "run_ok st \<and> length (refresh_requests w') + requests_left st
    \<le> length (refresh_requests w) + requests_left (Requesting r a)"
proof -
  have fin: "st = Finished out \<Longrightarrow> refresh_requests w' = refresh_requests w" for out
    using assms(1) by (auto simp: run_response_def run_begin_def Let_def
        split: if_splits option.splits)
  from response_cases[of epoch r a resp w] assms fin show ?thesis
    by (auto dest!: begin_requests[OF sym])
qed

lemma resume_requests:
  assumes "run_resume epoch (env, resp) (st, w) = (st', w')" "run_ok st" "quiet env"
  shows "run_ok st' \<and> length (refresh_requests w') + requests_left st'
    \<le> length (refresh_requests w) + requests_left st"
proof (cases st)
  case (Requesting r a)
  with assms response_requests[of epoch r a resp "env w" st' w'] show ?thesis
    by (auto simp: quiet_def)
next
  case (WaitingRace r a)
  with assms begin_requests[of epoch "Suc r" a "env w" st' w'] show ?thesis
    by (auto simp: run_waited_def quiet_def)
next
  case (Finished out)
  with assms show ?thesis by (auto simp: quiet_def)
qed

interpretation refresh_budget: budgeted_machine "run_resume epoch" "\<lambda>s. run_ok (fst s)" "\<lambda>m. quiet (fst m)"
  "\<lambda>s. length (refresh_requests (snd s))" "\<lambda>s. requests_left (fst s)" for epoch
proof
  fix m :: "(AuthWorld \<Rightarrow> AuthWorld) \<times> AuthRefreshHTTPResponse" and s :: "RefreshRun \<times> AuthWorld"
  assume "quiet (fst m)" "run_ok (fst s)"
  then show "run_ok (fst (run_resume epoch m s))"
    and "length (refresh_requests (snd (run_resume epoch m s))) + requests_left (fst (run_resume epoch m s))
      \<le> length (refresh_requests (snd s)) + requests_left (fst s)"
    using resume_requests [of epoch "fst m" "snd m" "fst s" "snd s" "fst (run_resume epoch m s)" "snd (run_resume epoch m s)"]
    by simp_all
qed

text \<open>A refresh sends at most eight requests.  Races are retried after three delays, and one
  session mismatch starts over once with the races counted anew.\<close>

theorem refresh_request_bound:
  assumes "\<forall>(env, resp)\<in>set moves. quiet env"
  shows "length (refresh_requests (snd (createRefreshRunner epoch moves w)))
    \<le> length (refresh_requests w) + 8"
proof -
  obtain st w0 where b: "run_begin epoch 0 True w = (st, w0)" by (cases "run_begin epoch 0 True w") auto
  have "run_ok st \<and> length (refresh_requests w0) + requests_left st \<le> length (refresh_requests w) + 8"
    using begin_requests[OF b] by auto
  moreover have "list_all (\<lambda>m. quiet (fst m)) moves" using assms by (auto simp: list_all_iff)
  ultimately show ?thesis
    using refresh_budget.within_budget [of "(st, w0)" moves epoch] b by (simp add: createRefreshRunner_def)
qed

theorem refresh_request_bound_witness:
  "length (refresh_requests (snd (createRefreshRunner 0 (replicate 20 (id, race_response)) initial_world))) \<le> 8"
  using refresh_request_bound[of "replicate 20 (id, race_response)" 0 initial_world]
  by (simp add: quiet_def initial_world_def)

section \<open>Superseded refreshes\<close>

datatype AuthEvent =
    RefreshResponse nat nat bool AuthRefreshHTTPResponse
  | SignIn "rat json" bool
  | SignOut bool "AuthBootstrapState option"
  | Rotate "rat json"
  | SetUser "AuthUser option"
  | SetPending "jsstring option"
  | SetBootstrap AuthBootstrapState
  | BeginSignOut
  | CancelSignOut
  | ClaimExpiration

text \<open>Every way the program changes the session; a bundle is applied only after validation.\<close>

fun auth_step :: "AuthEvent \<Rightarrow> AuthWorld \<Rightarrow> AuthWorld" where
  "auth_step (RefreshResponse epoch r a resp) w = snd (run_response epoch r a resp w)"
| "auth_step (SignIn v sync) w =
     (case isAuthBundle v of None \<Rightarrow> w | Some b \<Rightarrow> applyAuthBundle b sync w)"
| "auth_step (SignOut sync bs) w = clearAuthentication sync bs w"
| "auth_step (Rotate v) w = (case applyAuthRotation v w of Inl _ \<Rightarrow> w | Inr w' \<Rightarrow> w')"
| "auth_step (SetUser u) w = w\<lparr>store := setUser u (store w)\<rparr>"
| "auth_step (SetPending tok) w = w\<lparr>store := setPending2FAFlowToken tok (store w)\<rparr>"
| "auth_step (SetBootstrap b) w = w\<lparr>store := setBootstrapState b (store w)\<rparr>"
| "auth_step BeginSignOut w = beginExplicitSignOut w"
| "auth_step CancelSignOut w = cancelExplicitSignOut w"
| "auth_step ClaimExpiration w = snd (claimSessionExpirationHandling w)"

fun auth_event_epoch :: "AuthEvent \<Rightarrow> nat option" where
  "auth_event_epoch (RefreshResponse epoch _ _ _) = Some epoch"
| "auth_event_epoch _ = None"

lemma epoch_simps [simp]:
  "authEpoch (publish k s w) = authEpoch w"
  "authEpoch (applyAuthBundle b sync w) = Suc (authEpoch w)"
  "authEpoch (clearAuthentication sync bs w) = Suc (authEpoch w)"
  by (simp_all add: publish_def applyAuthBundle_def clearAuthentication_def Let_def split: option.splits)

lemma epoch_response: "authEpoch w \<le> authEpoch (snd (run_response epoch r a resp w))"
  by (auto simp: run_response_def run_begin_def runtime_clear_def Let_def split: option.splits)

lemma rotation_result:
  "applyAuthRotation v w = Inr w' \<Longrightarrow> \<exists>b. w' = applyAuthBundle b False w \<and> bundle_ok b
     \<and> user (store w) = Some (bundle_user b) \<and> current_sid w = Some (sid (bundle_session b))
     \<and> token_type b = js ''Bearer''"
  by (auto simp del: js_Cons simp: applyAuthRotation_def bundle_ok_def current_sid_def
      dest!: parsed_rotation_ok split: option.splits if_splits)

interpretation auth_guard: generation_guard authEpoch auth_step auth_event_epoch
proof
  fix e g w
  show "auth_event_epoch e = Some g \<Longrightarrow> g \<noteq> authEpoch w \<Longrightarrow> auth_step e w = w"
    by (cases e) (auto simp: run_response_def)
next
  fix w e
  show "authEpoch w \<le> authEpoch (auth_step e w)"
    by (cases e) (auto simp: epoch_response beginExplicitSignOut_def cancelExplicitSignOut_def
        claimSessionExpirationHandling_def dest!: rotation_result split: option.splits sum.splits)
qed

text \<open>C20: A superseded refresh changes nothing.  Once the user has signed in or out, or another
  refresh has settled, after a refresh started, all later responses to that refresh can be
  dropped from any history of the session without changing it.\<close>

theorem superseded_refresh_erasable:
  assumes "epoch < authEpoch w"
  shows "fold auth_step es w = fold auth_step (filter (\<lambda>e. auth_event_epoch e \<noteq> Some epoch) es) w"
  by (rule auth_guard.superseded_erasable[OF assms])

theorem superseded_refresh_erasable_witness:
  "fold auth_step [RefreshResponse 0 0 True race_response] (clearAuthentication True None initial_world)
   = clearAuthentication True None initial_world"
  using superseded_refresh_erasable[of 0 "clearAuthentication True None initial_world"
      "[RefreshResponse 0 0 True race_response]"] by simp

section \<open>Outcomes and the store\<close>

lemma clear_store:
  "store (clearAuthentication sync bs w) = reset (Some (nullish bs BootComplete)) (store w)"
  by (simp add: clearAuthentication_def publish_def Let_def split: option.splits)

lemma bundle_store: "store (applyAuthBundle b sync w) = setBundle b (store w)"
  by (simp add: applyAuthBundle_def publish_def Let_def)

lemma setBundle_fields:
  "user (setBundle b st) = Some (bundle_user b)" "auth_session (setBundle b st) = Some (bundle_session b)"
  "accessToken (setBundle b st) = Some (access_token b)"
  by (simp_all add: setBundle_def)

lemma unsynchronised:
  "published (applyAuthBundle b False w) = published w"
  "published (clearAuthentication False bs w) = published w"
  by (simp_all add: applyAuthBundle_def clearAuthentication_def Let_def split: option.splits)

text \<open>What each outcome says about the session before (\<open>w\<close>) and after (\<open>w'\<close>).\<close>

fun outcome_agrees :: "RefreshOutcome \<Rightarrow> AuthWorld \<Rightarrow> AuthWorld \<Rightarrow> bool" where
  "outcome_agrees (Authenticated b) w w' \<longleftrightarrow>
     store w' = setBundle b (store w) \<and> bundle_ok b \<and> published w' = published w
     \<and> \<not> sessionExpirationHandled w'"
| "outcome_agrees Anonymous w w' \<longleftrightarrow>
     store w' = reset None (store w)
     \<and> published w' = published w @ (case current_sid w of
          None \<Rightarrow> [] | Some s \<Rightarrow> if s = [] then [] else [(SyncSignedOut, s)])"
| "outcome_agrees (TransientError Superseded) w w' \<longleftrightarrow> w' = w"
| "outcome_agrees (TransientError _) w w' \<longleftrightarrow> w' = w\<lparr>store := setBootstrapState BootIdle (store w)\<rparr>"
| "outcome_agrees (OutOfSync _) w w' \<longleftrightarrow> store w' = reset None (store w) \<and> published w' = published w"

lemma response_bundle_ok: "response_bundle resp = Some b \<Longrightarrow> bundle_ok b"
  by (auto simp: response_bundle_def bind_eq_Some_conv dest: parsed_bundle_ok split: if_splits)

text \<open>C4: The outcome of a refresh agrees with the session it leaves.  When a response ends a
  refresh as authenticated, the store holds exactly that bundle; as anonymous or out of sync, the
  store is empty and only the anonymous case tells the other tabs; as a transient error, the
  signed-in data is untouched; and a superseded refresh has changed nothing at all.\<close>

theorem refresh_outcome_agrees:
  assumes "run_response epoch r a resp w = (Finished out, w')"
  shows "outcome_agrees out w w'"
proof (cases "authEpoch w = epoch")
  case False
  with assms show ?thesis by (auto simp: run_response_def)
next
  case True
  have r: "reset (Some BootComplete) = reset None" by (rule ext) (simp add: reset_def)
  have anon: "published (clearAuthentication True None w) = published w @ (case current_sid w of
          None \<Rightarrow> [] | Some s \<Rightarrow> if s = [] then [] else [(SyncSignedOut, s)])"
    by (simp add: clearAuthentication_def publish_def Let_def split: option.splits)
  have exp: "\<not> sessionExpirationHandled (applyAuthBundle b False w)" for b
    by (simp add: applyAuthBundle_def Let_def)
  show ?thesis
    using assms True response_bundle_ok[of resp]
    by (auto simp: run_response_def run_begin_def runtime_clear_def Let_def clear_store bundle_store
        unsynchronised r anon exp split: option.splits if_splits)
qed

theorem refresh_outcome_agrees_witness:
  "outcome_agrees Anonymous initial_world (runtime_clear True None initial_world)"
  by (rule refresh_outcome_agrees[of 0 0 True "\<lparr>http_status = 401, http_data = None, http_error = True\<rparr>"])
     (simp add: run_response_def response_bundle_def response_record_def initial_world_def)

lemma auth_step_ok: "auth_ok (store w) \<Longrightarrow> auth_ok (store (auth_step e w))"
proof (cases e)
  case (RefreshResponse epoch r a resp)
  then show "auth_ok (store w) \<Longrightarrow> ?thesis"
    using response_bundle_ok[of resp]
    by (auto simp: run_response_def run_begin_def runtime_clear_def Let_def clear_store bundle_store
        auth_ok_ops split: option.splits if_splits)
next
  case (Rotate v)
  then show "auth_ok (store w) \<Longrightarrow> ?thesis"
    by (auto simp: bundle_store auth_ok_ops dest!: rotation_result split: sum.splits)
qed (auto simp: clear_store bundle_store auth_ok_ops parsed_bundle_ok beginExplicitSignOut_def
      cancelExplicitSignOut_def claimSessionExpirationHandling_def split: option.splits)

interpretation auth_store: kept_invariant auth_step "\<lambda>w. auth_ok (store w)" "\<lambda>_. True"
  by unfold_locales (rule auth_step_ok)

text \<open>C21: The session store stays consistent.  After any sequence of sign-ins, sign-outs,
  rotations, refresh responses and profile updates, the access token, its expiry and the login
  session are all present or all absent, and when present none is empty.\<close>

theorem auth_store_consistent:
  assumes "w = fold auth_step es initial_world"
  shows "(accessToken (store w) \<noteq> None \<longleftrightarrow> auth_session (store w) \<noteq> None)
    \<and> (accessToken (store w) \<noteq> None \<longleftrightarrow> accessExpiresAt (store w) \<noteq> None)
    \<and> accessToken (store w) \<noteq> Some [] \<and> current_sid w \<noteq> Some []"
proof -
  have "auth_ok (store w)" unfolding assms
    by (rule auth_store.run_kept) (simp_all add: initial_world_def auth_ok_ops list_all_iff)
  then show ?thesis by (auto simp: auth_ok_def current_sid_def)
qed

theorem auth_store_consistent_witness:
  "accessToken (store (fold auth_step [SignOut True None] initial_world)) \<noteq> Some []"
  using auth_store_consistent[OF refl, of "[SignOut True None]"] by simp

section \<open>Rotation and expiration\<close>

text \<open>A token rotation keeps the signed-in user.  A rotation is applied only to an active
  session with the same identifier; it replaces the token and keeps the user and the session
  identifier, without telling other tabs.  Otherwise it is refused: as invalid, for want of an
  active session, or for another session.\<close>

theorem rotation_keeps_session:
  "case applyAuthRotation v w of
     Inr w' \<Rightarrow> user (store w') = user (store w) \<and> user (store w) \<noteq> None
       \<and> current_sid w' = current_sid w \<and> published w' = published w \<and> auth_ok (store w')
   | Inl InvalidRotation \<Rightarrow> isAuthTokenRotation v = None
   | Inl NoActiveSession \<Rightarrow> user (store w) = None \<or> auth_session (store w) = None
   | Inl SessionMismatch \<Rightarrow> current_sid w \<noteq> map_option (sid \<circ> rot_session) (isAuthTokenRotation v)"
proof (cases "applyAuthRotation v w")
  case (Inr w')
  then obtain b where "w' = applyAuthBundle b False w" "bundle_ok b"
      "user (store w) = Some (bundle_user b)" "current_sid w = Some (sid (bundle_session b))"
    using rotation_result by blast
  with Inr show ?thesis
    by (auto simp: bundle_store unsynchronised auth_ok_ops setBundle_fields current_sid_def)
next
  case (Inl err)
  then show ?thesis
    by (auto simp: applyAuthRotation_def current_sid_def split: option.splits if_splits)
qed

text \<open>Claims granted in a history.\<close>

fun claims_granted :: "AuthEvent list \<Rightarrow> AuthWorld \<Rightarrow> nat" where
  "claims_granted [] w = 0"
| "claims_granted (e # es) w =
     (if e = ClaimExpiration \<and> fst (claimSessionExpirationHandling w) then 1 else 0)
     + claims_granted es (auth_step e w)"

definition signs_in :: "AuthWorld \<Rightarrow> AuthEvent \<Rightarrow> bool" where
  "signs_in w e \<longleftrightarrow> sessionExpirationHandled w \<and> \<not> sessionExpirationHandled (auth_step e w)"

text \<open>A history in which no bundle is accepted.\<close>

fun no_sign_in :: "AuthEvent list \<Rightarrow> AuthWorld \<Rightarrow> bool" where
  "no_sign_in [] w = True"
| "no_sign_in (e # es) w = (\<not> signs_in w e \<and> no_sign_in es (auth_step e w))"

lemma no_more_claims:
  "sessionExpirationHandled w \<Longrightarrow> no_sign_in es w \<Longrightarrow> claims_granted es w = 0"
  by (induction es w rule: claims_granted.induct)
     (auto simp: signs_in_def claimSessionExpirationHandling_def)

text \<open>The expiration of a session is handled once.  As long as no new bundle is accepted, at
  most one caller is told to handle the expiration, and none while the user is signing out.\<close>

theorem expiration_claimed_once:
  assumes "no_sign_in es w"
  shows "claims_granted es w \<le> 1
    \<and> (explicitSignOutInProgress w \<longrightarrow> \<not> fst (claimSessionExpirationHandling w))"
proof -
  have "no_sign_in es w \<Longrightarrow> claims_granted es w \<le> 1"
  proof (induction es w rule: claims_granted.induct)
    case (2 e es w)
    show ?case
    proof (cases "e = ClaimExpiration \<and> fst (claimSessionExpirationHandling w)")
      case True
      then have "sessionExpirationHandled (auth_step e w)"
        by (auto simp: claimSessionExpirationHandling_def split: if_splits)
      with True 2 no_more_claims show ?thesis by simp
    qed (use 2 in auto)
  qed simp
  with assms show ?thesis by (simp add: claimSessionExpirationHandling_def)
qed

theorem expiration_claimed_once_witness:
  "claims_granted [ClaimExpiration, SignOut True None, ClaimExpiration] initial_world \<le> 1"
  using expiration_claimed_once[of "[ClaimExpiration, SignOut True None, ClaimExpiration]" initial_world]
  by (simp add: signs_in_def initial_world_def claimSessionExpirationHandling_def clearAuthentication_def
      current_sid_def useAuthStore_def reset_def)

end
