(* ===== verification/Auth_Refresh.thy ===== *)
theory Auth_Refresh
  imports Auth_Session_Laws
begin

text \<open>
  \<open>refreshAuthentication\<close> of src/web/src/lib/auth-session.ts and the browser lock it takes: a tab keeps
  the promise of the refresh that is under way and hands it to every caller; the refresh itself runs
  inside the exclusive lock \<open>new-api:auth-refresh\<close>, which all tabs of the browser share.  The lock manager
  is the platform's: it grants the lock when nobody holds it, may reject a request, and takes the lock back
  when the promise of the callback settles or the page goes away.

  Shown: at most one tab runs a refresh at any time; a call is settled once the lock is granted and
  the run has been resumed 14 times, all callers in between share its promise, and no promise settles twice;
  a rejected lock request is not turned into an outcome.
\<close>

section \<open>A tab\<close>

text \<open>How a promise is settled: with an outcome, or rejected.\<close>

datatype Settlement = Resolved RefreshOutcome | Rejected

text \<open>Where the refresh behind the promise stands: waiting for the lock, in \<open>runRefresh\<close>, or settled with
  the callback of \<open>finally\<close> still to run.\<close>

datatype RefreshPhase = AwaitingLock | Running RefreshRun | Settling Settlement

record RefreshFlight =
  flight_id :: nat
  flight_epoch :: nat
  flight_phase :: RefreshPhase

text \<open>The module state of a tab; promises are numbered, and \<open>outcomes\<close> lists the settled ones.\<close>

record AuthTab =
  world :: AuthWorld
  refreshPromise :: "RefreshFlight option"
  promise_count :: nat
  outcomes :: "(nat \<times> Settlement) list"

definition fresh_tab :: "AuthWorld \<Rightarrow> AuthTab" where
  "fresh_tab w = \<lparr>world = w, refreshPromise = None, promise_count = 0, outcomes = []\<rparr>"

fun run_phase :: "RefreshRun \<Rightarrow> RefreshPhase" where
  "run_phase (Finished out) = Settling (Resolved out)"
| "run_phase run = Running run"

definition runRefresh :: "nat \<Rightarrow> AuthWorld \<Rightarrow> RefreshPhase \<times> AuthWorld" where
  "runRefresh refreshEpoch w = map_prod run_phase id (run_begin refreshEpoch 0 True w)"

text \<open>What \<open>navigator.locks\<close> does with the request: there is no lock manager, the request is made (a
  promise is returned), or the call throws.\<close>

datatype LockRequest = LocksAbsent | LockRequested | LockThrows

definition performRefreshWithBrowserLock ::
  "LockRequest \<Rightarrow> nat \<Rightarrow> AuthWorld \<Rightarrow> RefreshPhase \<times> AuthWorld" where
  "performRefreshWithBrowserLock locks refreshEpoch w =
     (case locks of
        LocksAbsent \<Rightarrow> runRefresh refreshEpoch w
      | LockRequested \<Rightarrow> (AwaitingLock, w)
      | LockThrows \<Rightarrow> (Settling (Resolved (TransientError RequestError)),
                      w\<lparr>store := setBootstrapState BootIdle (store w)\<rparr>))"

definition refreshAuthentication :: "LockRequest \<Rightarrow> AuthTab \<Rightarrow> nat \<times> AuthTab" where
  "refreshAuthentication locks tab =
     (case refreshPromise tab of
        Some f \<Rightarrow> (flight_id f, tab)
      | None \<Rightarrow>
          let refreshEpoch = authEpoch (world tab);
              (phase, w) = performRefreshWithBrowserLock locks refreshEpoch (world tab);
              p = promise_count tab
          in (p, tab\<lparr>world := w, promise_count := Suc p,
                refreshPromise := Some \<lparr>flight_id = p, flight_epoch = refreshEpoch, flight_phase = phase\<rparr>\<rparr>))"

text \<open>The refresh goes on: the phase of the promise and the world of the tab change together.\<close>

definition advance :: "(RefreshPhase \<times> AuthWorld) \<Rightarrow> RefreshFlight \<Rightarrow> AuthTab \<Rightarrow> AuthTab" where
  "advance pw f tab = tab\<lparr>world := snd pw, refreshPromise := Some (f\<lparr>flight_phase := fst pw\<rparr>)\<rparr>"

text \<open>What happens to the refresh of a tab: the lock is granted and its callback called, the request
  for the lock is rejected, the run is resumed by a response or a timer, the callback of \<open>finally\<close> runs.  In
  between other code of the tab changes the session.\<close>

datatype TabEvent =
    Refresh LockRequest
  | LockGranted
  | LockRejected
  | Resumed AuthRefreshHTTPResponse
  | Finally
  | OtherCode AuthEvent

fun flight_step :: "TabEvent \<Rightarrow> RefreshFlight \<Rightarrow> AuthTab \<Rightarrow> AuthTab" where
  "flight_step LockGranted f tab =
     (if flight_phase f = AwaitingLock then advance (runRefresh (flight_epoch f) (world tab)) f tab else tab)"
| "flight_step LockRejected f tab =
     (if flight_phase f = AwaitingLock then advance (Settling Rejected, world tab) f tab else tab)"
| "flight_step (Resumed resp) f tab =
     (case flight_phase f of
        Running run \<Rightarrow>
          advance (map_prod run_phase id (run_resume (flight_epoch f) (id, resp) (run, world tab))) f tab
      | _ \<Rightarrow> tab)"
| "flight_step Finally f tab =
     (case flight_phase f of
        Settling s \<Rightarrow> tab\<lparr>refreshPromise := None, outcomes := outcomes tab @ [(flight_id f, s)]\<rparr>
      | _ \<Rightarrow> tab)"
| "flight_step _ f tab = tab"

fun tab_step :: "TabEvent \<Rightarrow> AuthTab \<Rightarrow> AuthTab" where
  "tab_step (Refresh locks) tab = snd (refreshAuthentication locks tab)"
| "tab_step (OtherCode e) tab = tab\<lparr>world := auth_step e (world tab)\<rparr>"
| "tab_step e tab = (case refreshPromise tab of None \<Rightarrow> tab | Some f \<Rightarrow> flight_step e f tab)"


text \<open>The promises that the calls of a history return.\<close>

fun returned :: "TabEvent list \<Rightarrow> AuthTab \<Rightarrow> nat list" where
  "returned [] tab = []"
| "returned (e # es) tab =
     (case e of Refresh locks \<Rightarrow> [fst (refreshAuthentication locks tab)] | _ \<Rightarrow> []) @ returned es (tab_step e tab)"

section \<open>A refresh settles\<close>

text \<open>A flight in its tab: \<open>n\<close> resumptions are enough to settle it with an outcome.\<close>

definition flying :: "nat \<Rightarrow> (nat \<times> Settlement) list \<Rightarrow> nat \<Rightarrow> AuthTab \<Rightarrow> bool" where
  "flying p done_before n tab \<longleftrightarrow> outcomes tab = done_before \<and>
     (\<exists>f. refreshPromise tab = Some f \<and> flight_id f = p \<and>
        (case flight_phase f of
           Running run \<Rightarrow> run_phase run = Running run \<and> run_ok run \<and> fuel_left run \<le> n
         | Settling s \<Rightarrow> s \<noteq> Rejected
         | AwaitingLock \<Rightarrow> False))"

definition waiting :: "nat \<Rightarrow> (nat \<times> Settlement) list \<Rightarrow> AuthTab \<Rightarrow> bool" where
  "waiting p done_before tab \<longleftrightarrow> outcomes tab = done_before \<and>
     (\<exists>f. refreshPromise tab = Some f \<and> flight_id f = p \<and> flight_phase f = AwaitingLock)"

lemma run_phase_fuel:
  assumes "run_ok run" "fuel_left run \<le> n"
  shows "case run_phase run of
     Running run' \<Rightarrow> run_phase run' = Running run' \<and> run_ok run' \<and> fuel_left run' \<le> n
   | Settling s \<Rightarrow> s \<noteq> Rejected
   | AwaitingLock \<Rightarrow> False"
  using assms by (cases run) auto

lemma begin_fuel: "run_ok (fst (run_begin epoch 0 True w)) \<and> fuel_left (fst (run_begin epoch 0 True w)) \<le> 14"
  using begin_cases [of epoch 0 True w] by auto

lemma granted_flying:
  assumes "waiting p d tab"
  shows "flying p d 14 (tab_step LockGranted tab)"
proof -
  obtain f where "refreshPromise tab = Some f" "flight_id f = p" "flight_phase f = AwaitingLock" "outcomes tab = d"
    using assms by (auto simp: waiting_def)
  with begin_fuel [of "flight_epoch f" "world tab"] show ?thesis
    by (simp add: flying_def advance_def runRefresh_def run_phase_fuel)
qed

lemma call_shared:
  "refreshPromise tab = Some f \<Longrightarrow> refreshAuthentication locks tab = (flight_id f, tab)"
  by (simp add: refreshAuthentication_def)

definition resumption :: "TabEvent \<Rightarrow> bool" where
  "resumption e \<longleftrightarrow> (\<exists>resp. e = Resumed resp)"

lemma flying_step:
  assumes "flying p d n tab" "e \<noteq> Finally"
  shows "flying p d (if resumption e then n - 1 else n) (tab_step e tab)"
proof -
  obtain f where f: "refreshPromise tab = Some f" "flight_id f = p" "outcomes tab = d"
      and ph: "case flight_phase f of Running run \<Rightarrow> run_phase run = Running run \<and> run_ok run \<and> fuel_left run \<le> n
         | Settling s \<Rightarrow> s \<noteq> Rejected | AwaitingLock \<Rightarrow> False"
    using assms(1) by (auto simp: flying_def)
  show ?thesis
  proof (cases e)
    case (Resumed resp)
    show ?thesis
    proof (cases "flight_phase f")
      case (Running run)
      let ?r = "fst (run_resume (flight_epoch f) (id, resp) (run, world tab))"
      from Running ph have "run_ok ?r \<and> fuel_left ?r \<le> n - 1"
        by (intro resume_fuel) auto
      with Running Resumed f show ?thesis
        by (simp add: flying_def advance_def resumption_def run_phase_fuel)
    qed (use f ph Resumed in \<open>auto simp: flying_def resumption_def\<close>)
  qed (use f ph assms(2) in
      \<open>auto simp: flying_def resumption_def call_shared split: RefreshPhase.splits\<close>)
qed

lemma flying_fold:
  assumes "flying p d n tab" "Finally \<notin> set es"
  shows "flying p d (n - length (filter resumption es)) (fold tab_step es tab) \<and> set (returned es tab) \<subseteq> {p}"
  using assms
proof (induction es arbitrary: tab n)
  case (Cons e es)
  from Cons.prems have step: "flying p d (if resumption e then n - 1 else n) (tab_step e tab)"
    by (intro flying_step) auto
  have "set (returned [e] tab) \<subseteq> {p}"
    using Cons.prems(1) by (auto simp: flying_def call_shared split: TabEvent.splits)
  with Cons.IH [OF step] Cons.prems(2) show ?case by (auto split: if_splits)
qed simp

lemma waiting_step:
  assumes "waiting p d tab" "e \<notin> {LockGranted, LockRejected, Finally}"
  shows "waiting p d (tab_step e tab)"
  using assms by (cases e) (auto simp: waiting_def call_shared)

lemma waiting_fold:
  assumes "waiting p d tab" "set es \<inter> {LockGranted, LockRejected, Finally} = {}"
  shows "waiting p d (fold tab_step es tab) \<and> set (returned es tab) \<subseteq> {p}"
  using assms
proof (induction es arbitrary: tab)
  case (Cons e es)
  then have step: "waiting p d (tab_step e tab)" by (intro waiting_step) auto
  have "set (returned [e] tab) \<subseteq> {p}"
    using Cons.prems(1) by (auto simp: waiting_def call_shared split: TabEvent.splits)
  with Cons.IH [OF step] Cons.prems(2) show ?case by (auto split: if_splits)
qed simp

lemma landed:
  assumes "flying p d 0 tab"
  shows "\<exists>out. outcomes (tab_step Finally tab) = d @ [(p, Resolved out)] \<and> refreshPromise (tab_step Finally tab) = None"
proof -
  obtain f where f: "refreshPromise tab = Some f" "flight_id f = p" "outcomes tab = d"
      and ph: "case flight_phase f of Running run \<Rightarrow> run_phase run = Running run \<and> run_ok run \<and> fuel_left run \<le> 0
         | Settling s \<Rightarrow> s \<noteq> Rejected | AwaitingLock \<Rightarrow> False"
    using assms by (auto simp: flying_def)
  show ?thesis
  proof (cases "flight_phase f")
    case (Running run)
    with ph fuel_zero [of run] show ?thesis by auto
  next
    case (Settling s)
    with f ph show ?thesis by (cases s) auto
  qed (use ph f in auto)
qed


lemma call_waiting:
  assumes "refreshPromise tab = None" "refreshAuthentication LockRequested tab = (p, tab')"
  shows "waiting p (outcomes tab) tab'"
  using assms by (auto simp: refreshAuthentication_def performRefreshWithBrowserLock_def waiting_def Let_def)

lemma returned_append: "returned (es @ fs) tab = returned es tab @ returned fs (fold tab_step es tab)"
  by (induction es arbitrary: tab) simp_all

text \<open>C19: A refresh settles and is shared.  When a tab without a refresh under way calls
  \<open>refreshAuthentication\<close>, then once the lock is granted and the run has been resumed at least 14 times,
  whatever the server answers and whatever other code does meanwhile, the promise resolves with an outcome,
  the tab is ready for the next refresh, and every call made in between was given this same promise.\<close>

theorem refresh_settles:
  assumes "refreshPromise tab = None" "refreshAuthentication LockRequested tab = (p, tab1)"
    and "set es \<inter> {LockGranted, LockRejected, Finally} = {}"
    and "Finally \<notin> set fs" "14 \<le> length (filter resumption fs)"
  shows "set (returned (es @ LockGranted # fs) tab1) \<subseteq> {p}
    \<and> (\<exists>out. outcomes (fold tab_step (es @ LockGranted # fs @ [Finally]) tab1) = outcomes tab @ [(p, Resolved out)])
    \<and> refreshPromise (fold tab_step (es @ LockGranted # fs @ [Finally]) tab1) = None"
proof -
  let ?t = "fold tab_step es tab1" and ?d = "outcomes tab"
  from waiting_fold [OF call_waiting [OF assms(1,2)] assms(3)]
  have w: "waiting p ?d ?t" "set (returned es tab1) \<subseteq> {p}" by simp_all
  from flying_fold [OF granted_flying [OF w(1)] assms(4)] assms(5)
  have f: "flying p ?d 0 (fold tab_step fs (tab_step LockGranted ?t))"
    "set (returned fs (tab_step LockGranted ?t)) \<subseteq> {p}" by simp_all
  have "set (returned (es @ LockGranted # fs) tab1) \<subseteq> {p}"
    using w(2) f(2) by (simp add: returned_append)
  with landed [OF f(1)] show ?thesis by auto
qed

theorem refresh_settles_witness:
  "refreshPromise (fold tab_step
     ([OtherCode (SetBootstrap BootChecking)] @ LockGranted # replicate 14 (Resumed race_response) @ [Finally])
     (snd (refreshAuthentication LockRequested (fresh_tab initial_world)))) = None"
  using refresh_settles [of "fresh_tab initial_world" 0 "snd (refreshAuthentication LockRequested (fresh_tab initial_world))"
      "[OtherCode (SetBootstrap BootChecking)]" "replicate 14 (Resumed race_response)"]
  by (simp add: fresh_tab_def refreshAuthentication_def performRefreshWithBrowserLock_def Let_def resumption_def)

section \<open>Promises are settled once\<close>

definition in_flight :: "AuthTab \<Rightarrow> nat set" where
  "in_flight tab = flight_id ` set_option (refreshPromise tab)"

text \<open>Every promise handed out is settled or in flight, never both, and no promise is settled twice.\<close>

definition promises_ok :: "AuthTab \<Rightarrow> bool" where
  "promises_ok tab \<longleftrightarrow> distinct (map fst (outcomes tab))
     \<and> fst ` set (outcomes tab) \<union> in_flight tab = {..<promise_count tab}
     \<and> fst ` set (outcomes tab) \<inter> in_flight tab = {}"

lemma in_flight_simps:
  "refreshPromise tab = Some f \<Longrightarrow> in_flight tab = {flight_id f}"
  "refreshPromise tab = None \<Longrightarrow> in_flight tab = {}"
  by (simp_all add: in_flight_def)

lemma advance_kept [simp]:
  "outcomes (advance pw f tab) = outcomes tab"
  "promise_count (advance pw f tab) = promise_count tab"
  "in_flight (advance pw f tab) = {flight_id f}"
  by (simp_all add: advance_def in_flight_def)

lemma call_promises:
  assumes "promises_ok tab"
  shows "promises_ok (snd (refreshAuthentication locks tab))"
  using assms
  by (auto simp: promises_ok_def refreshAuthentication_def in_flight_def Let_def lessThan_Suc
      split: option.splits prod.splits)

lemma flight_promises:
  assumes "promises_ok tab" "refreshPromise tab = Some f"
  shows "promises_ok (flight_step e f tab)"
  using assms
  by (cases "(e, f, tab)" rule: flight_step.cases)
    (auto simp: promises_ok_def in_flight_simps split: RefreshPhase.splits)

lemma promises_world [simp]: "promises_ok (tab\<lparr>world := w\<rparr>) = promises_ok tab"
  by (simp add: promises_ok_def in_flight_def)

lemma tab_promises: "promises_ok tab \<Longrightarrow> promises_ok (tab_step e tab)"
  by (cases e) (auto simp: call_promises flight_promises simp del: flight_step.simps split: option.splits)


interpretation tab_promises: kept_invariant tab_step promises_ok "\<lambda>_. True"
  by unfold_locales (rule tab_promises)

lemma count_mono: "promise_count tab \<le> promise_count (tab_step e tab)"
proof -
  have "promise_count (flight_step e f tab) = promise_count tab" for f
    by (cases "(e, f, tab)" rule: flight_step.cases) (auto split: RefreshPhase.splits)
  then show ?thesis
    by (cases e) (auto simp: refreshAuthentication_def Let_def simp del: flight_step.simps
        split: option.splits prod.splits)
qed

lemma returned_below:
  "promises_ok tab \<Longrightarrow> p \<in> set (returned es tab) \<Longrightarrow> p < promise_count (fold tab_step es tab)"
proof (induction es arbitrary: tab)
  case (Cons e es)
  have mono: "promise_count t \<le> promise_count (fold tab_step es t)" for t
    by (induction es arbitrary: t) (auto intro: le_trans count_mono)
  have now: "e = Refresh l \<Longrightarrow> fst (refreshAuthentication l tab) < promise_count (tab_step e tab)" for l
    using Cons.prems(1) by (auto simp: refreshAuthentication_def promises_ok_def in_flight_def Let_def
        split: option.splits prod.splits)
  from Cons show ?case
    using tab_promises [of tab e] mono [of "tab_step e tab"] now
    by (auto split: TabEvent.splits dest: less_le_trans)
qed simp

text \<open>No caller is forgotten: after any history of a tab every promise that \<open>refreshAuthentication\<close> returned
  is settled or is the one in flight, and no promise is settled twice.\<close>

theorem promise_settled_once:
  assumes "tab = fold tab_step es (fresh_tab w)" "p \<in> set (returned es (fresh_tab w))"
  shows "distinct (map fst (outcomes tab)) \<and> (p \<in> fst ` set (outcomes tab) \<longleftrightarrow> p \<notin> in_flight tab)"
proof -
  have ok: "promises_ok (fresh_tab w)" by (simp add: promises_ok_def fresh_tab_def in_flight_def)
  from tab_promises.run_kept [OF this, of es] have "promises_ok tab" by (simp add: assms(1) list_all_iff)
  moreover have "p < promise_count tab" using returned_below [OF ok assms(2)] by (simp add: assms(1))
  ultimately show ?thesis by (auto simp: promises_ok_def)
qed

section \<open>A rejected request for the lock\<close>

text \<open>C37: A rejected lock request is not caught.  The handler around the request resets the bootstrap
  state and gives a transient outcome, but the promise of the lock manager is returned without being awaited:
  when it is rejected, the caller of \<open>bootstrapAuthentication\<close> gets the rejection and the state stays
  \<open>checking\<close>.  Only a call that throws at once is handled as written.\<close>

theorem rejected_lock_leaves_checking:
  assumes "bootstrapAuthentication nowMs w = (None, w1)"
  shows "fold tab_step [Refresh LockRequested, LockRejected, Finally] (fresh_tab w1) =
      (fresh_tab w1)\<lparr>promise_count := 1, outcomes := [(0, Rejected)]\<rparr>
    \<and> bootstrapState (store w1) = BootChecking
    \<and> fold tab_step [Refresh LockThrows, Finally] (fresh_tab w1) =
      (fresh_tab (w1\<lparr>store := setBootstrapState BootIdle (store w1)\<rparr>))
        \<lparr>promise_count := 1, outcomes := [(0, Resolved (TransientError RequestError))]\<rparr>"
  using assms
  by (auto simp: bootstrapAuthentication_def fresh_tab_def refreshAuthentication_def
      performRefreshWithBrowserLock_def advance_def setBootstrapState_def Let_def split: option.splits if_splits)

theorem rejected_lock_leaves_checking_witness:
  "outcomes (fold tab_step [Refresh LockRequested, LockRejected, Finally]
     (fresh_tab (snd (bootstrapAuthentication 0 initial_world)))) = [(0, Rejected)]"
  using rejected_lock_leaves_checking [of 0 initial_world "snd (bootstrapAuthentication 0 initial_world)"]
  by (simp add: bootstrapAuthentication_def currentValidAuthBundle_def initial_world_def useAuthStore_def)

section \<open>All tabs of the browser\<close>

text \<open>The tabs that share the lock, and the one that holds it.\<close>

record Browser =
  tabs :: "AuthTab list"
  lock_holder :: "nat option"

definition refreshing :: "AuthTab \<Rightarrow> bool" where
  "refreshing tab \<longleftrightarrow> (case refreshPromise tab of
     None \<Rightarrow> False
   | Some f \<Rightarrow> (case flight_phase f of Running _ \<Rightarrow> True | _ \<Rightarrow> False))"

definition awaiting :: "AuthTab \<Rightarrow> bool" where
  "awaiting tab \<longleftrightarrow> (case refreshPromise tab of None \<Rightarrow> False | Some f \<Rightarrow> flight_phase f = AwaitingLock)"

text \<open>An event that neither takes nor gives back the lock; every tab has the lock manager.\<close>

fun lockless :: "TabEvent \<Rightarrow> bool" where
  "lockless (Refresh locks) = (locks \<noteq> LocksAbsent)"
| "lockless (OtherCode e) = (auth_event_epoch e = None)"
| "lockless LockRejected = True"
| "lockless Finally = True"
| "lockless _ = False"

text \<open>The run of tab \<open>i\<close> is resumed; the lock is free again when its promise is settled.\<close>

definition browser_resume :: "nat \<Rightarrow> AuthRefreshHTTPResponse \<Rightarrow> Browser \<Rightarrow> Browser" where
  "browser_resume i resp b =
     (if refreshing (tabs b ! i) then
        let tab = tab_step (Resumed resp) (tabs b ! i) in
        \<lparr>tabs = (tabs b)[i := tab], lock_holder = (if refreshing tab then lock_holder b else None)\<rparr>
      else b)"

text \<open>One step in tab \<open>i\<close>.  The lock manager grants the lock only when it is free, and frees it when the
  callback is done (its promise is settled) or the page is left, which loses its module state.\<close>

inductive browser_step :: "Browser \<Rightarrow> Browser \<Rightarrow> bool" where
  other: "i < length (tabs b) \<Longrightarrow> lockless e \<Longrightarrow>
    browser_step b (b\<lparr>tabs := (tabs b)[i := tab_step e (tabs b ! i)]\<rparr>)"
| granted: "i < length (tabs b) \<Longrightarrow> lock_holder b = None \<Longrightarrow> awaiting (tabs b ! i) \<Longrightarrow>
    tab = tab_step LockGranted (tabs b ! i) \<Longrightarrow>
    browser_step b \<lparr>tabs = (tabs b)[i := tab], lock_holder = (if refreshing tab then Some i else None)\<rparr>"
| resumed: "i < length (tabs b) \<Longrightarrow> browser_step b (browser_resume i resp b)"
| reloaded: "i < length (tabs b) \<Longrightarrow>
    browser_step b \<lparr>tabs = (tabs b)[i := fresh_tab initial_world],
      lock_holder = (if lock_holder b = Some i then None else lock_holder b)\<rparr>"

definition reachable_browser :: "Browser \<Rightarrow> bool" where
  "reachable_browser b \<longleftrightarrow>
     (\<exists>n. browser_step\<^sup>*\<^sup>* \<lparr>tabs = replicate n (fresh_tab initial_world), lock_holder = None\<rparr> b)"

text \<open>The resumptions a tab still needs, and that a run it is in is sound.\<close>

definition tab_fuel :: "AuthTab \<Rightarrow> nat" where
  "tab_fuel tab = (case refreshPromise tab of
     None \<Rightarrow> 0
   | Some f \<Rightarrow> (case flight_phase f of Running run \<Rightarrow> fuel_left run | _ \<Rightarrow> 0))"

definition tab_sound :: "AuthTab \<Rightarrow> bool" where
  "tab_sound tab \<longleftrightarrow> (case refreshPromise tab of
     None \<Rightarrow> True
   | Some f \<Rightarrow> (case flight_phase f of
       Running run \<Rightarrow> run_phase run = Running run \<and> run_ok run \<and> fuel_left run \<le> 14 | _ \<Rightarrow> True))"

definition lock_ok :: "Browser \<Rightarrow> bool" where
  "lock_ok b \<longleftrightarrow> (\<forall>i < length (tabs b).
     (refreshing (tabs b ! i) \<longleftrightarrow> lock_holder b = Some i) \<and> tab_sound (tabs b ! i))"

lemma lockless_refreshing: "lockless e \<Longrightarrow> refreshing (tab_step e tab) = refreshing tab"
  by (cases e rule: lockless.cases)
    (auto simp: refreshing_def refreshAuthentication_def performRefreshWithBrowserLock_def advance_def Let_def
      split: option.splits LockRequest.splits RefreshPhase.splits prod.splits)

lemma lockless_sound: "lockless e \<Longrightarrow> tab_sound tab \<Longrightarrow> tab_sound (tab_step e tab)"
  by (cases e rule: lockless.cases)
    (auto simp: tab_sound_def refreshAuthentication_def performRefreshWithBrowserLock_def advance_def Let_def
      split: option.splits LockRequest.splits RefreshPhase.splits prod.splits)

lemma fresh_idle [simp]: "\<not> refreshing (fresh_tab w)" "tab_sound (fresh_tab w)"
  by (simp_all add: refreshing_def fresh_tab_def tab_sound_def)

lemma flying_sound: "flying p d n tab \<Longrightarrow> n \<le> 14 \<Longrightarrow> tab_sound tab \<and> tab_fuel tab \<le> n"
proof -
  assume "flying p d n tab" "n \<le> 14"
  then obtain f where "refreshPromise tab = Some f" and "case flight_phase f of
      Running run \<Rightarrow> run_phase run = Running run \<and> run_ok run \<and> fuel_left run \<le> n
    | Settling s \<Rightarrow> s \<noteq> Rejected | AwaitingLock \<Rightarrow> False" by (auto simp: flying_def)
  with \<open>n \<le> 14\<close> show ?thesis by (cases "flight_phase f") (simp_all add: tab_sound_def tab_fuel_def)
qed

lemma granted_sound: "awaiting tab \<Longrightarrow> tab_sound (tab_step LockGranted tab)"
  using flying_sound granted_flying
  by (fastforce simp: awaiting_def waiting_def split: option.splits)

lemma refreshing_flying:
  assumes "refreshing tab" "tab_sound tab"
  shows "\<exists>p. flying p (outcomes tab) (tab_fuel tab) tab"
  using assms by (auto simp: refreshing_def tab_sound_def flying_def tab_fuel_def
      split: option.splits RefreshPhase.splits)

lemma resumed_sound:
  assumes "refreshing tab" "tab_sound tab"
  shows "tab_sound (tab_step (Resumed resp) tab) \<and> tab_fuel (tab_step (Resumed resp) tab) \<le> tab_fuel tab - 1"
proof -
  obtain p where "flying p (outcomes tab) (tab_fuel tab) tab" using refreshing_flying [OF assms] ..
  from flying_step [OF this, of "Resumed resp"]
  have "flying p (outcomes tab) (tab_fuel tab - 1) (tab_step (Resumed resp) tab)" by (simp add: resumption_def)
  moreover have "tab_fuel tab \<le> 14" using assms
    by (auto simp: refreshing_def tab_sound_def tab_fuel_def split: option.splits RefreshPhase.splits)
  ultimately show ?thesis by (intro flying_sound) auto
qed

lemma resume_lock:
  assumes "lock_ok b" "i < length (tabs b)"
  shows "lock_ok (browser_resume i resp b)"
  using assms resumed_sound [of "tabs b ! i" resp]
  by (auto simp: lock_ok_def browser_resume_def Let_def nth_list_update)

lemma browser_step_lock: "browser_step b b' \<Longrightarrow> lock_ok b \<Longrightarrow> lock_ok b'"
proof (induction rule: browser_step.induct)
  case (resumed i b resp)
  then show ?case by (simp add: resume_lock)
qed (auto simp: lock_ok_def lockless_refreshing lockless_sound granted_sound nth_list_update
    simp del: tab_step.simps)

lemma reachable_lock_ok:
  assumes "reachable_browser b"
  shows "lock_ok b"
proof -
  have "browser_step\<^sup>*\<^sup>* b0 b \<Longrightarrow> lock_ok b0 \<Longrightarrow> lock_ok b" for b0
    by (induction rule: rtranclp_induct) (simp_all add: browser_step_lock)
  moreover have "lock_ok \<lparr>tabs = replicate n (fresh_tab initial_world), lock_holder = None\<rparr>" for n
    by (simp add: lock_ok_def)
  ultimately show ?thesis using assms unfolding reachable_browser_def by blast
qed

text \<open>The resumptions of one tab as a machine that burns fuel.\<close>

interpretation holder: bounded_machine "browser_resume i" "\<lambda>b. lock_ok b \<and> i < length (tabs b)"
  "\<lambda>b. tab_fuel (tabs b ! i)" for i
proof
  fix resp b
  assume ok: "lock_ok b \<and> i < length (tabs b)"
  then show "lock_ok (browser_resume i resp b) \<and> i < length (tabs (browser_resume i resp b))"
    by (auto simp: resume_lock) (simp add: browser_resume_def Let_def)
  have "\<not> refreshing tab \<Longrightarrow> tab_fuel tab = 0" for tab
    by (auto simp: refreshing_def tab_fuel_def split: option.splits RefreshPhase.splits)
  with ok resumed_sound [of "tabs b ! i" resp]
  show "tab_fuel (tabs (browser_resume i resp b) ! i) \<le> tab_fuel (tabs b ! i) - 1"
    by (simp add: browser_resume_def Let_def lock_ok_def)
qed

lemma no_fuel_idle: "tab_sound tab \<Longrightarrow> tab_fuel tab = 0 \<Longrightarrow> \<not> refreshing tab"
  by (auto simp: refreshing_def tab_sound_def tab_fuel_def dest: fuel_zero
      split: option.splits RefreshPhase.splits)

lemma resume_holder:
  "lock_holder b = Some i \<Longrightarrow> lock_holder (fold (browser_resume i) resps b) \<in> {None, Some i}"
proof (induction resps arbitrary: b)
  case (Cons resp resps)
  have none: "lock_holder b = None \<Longrightarrow> lock_holder (fold (browser_resume i) rs b) = None" for b rs
    by (induction rs arbitrary: b) (simp_all add: browser_resume_def Let_def)
  have "lock_holder (browser_resume i resp b) \<in> {None, Some i}"
    using Cons.prems by (auto simp: browser_resume_def Let_def)
  with Cons.IH none show ?case by auto
qed simp

text \<open>C18: Tabs do not refresh against each other.  However the calls, lock decisions, responses,
  session changes and reloads of the tabs interleave, at most one tab of a browser with a lock manager is inside
  \<open>runRefresh\<close>, so no refresh request is sent while that of another tab is unanswered.  That tab holds the lock
  and gives it back after at most 14 resumptions, whatever the server answers.\<close>

theorem refresh_exclusive:
  assumes "reachable_browser b" "i < length (tabs b)" "refreshing (tabs b ! i)"
  shows "(\<forall>j < length (tabs b). refreshing (tabs b ! j) \<longrightarrow> j = i)
    \<and> lock_holder b = Some i
    \<and> (\<forall>resps. 14 \<le> length resps \<longrightarrow> lock_holder (fold (browser_resume i) resps b) = None)"
proof -
  note ok = reachable_lock_ok [OF assms(1)]
  have h: "lock_holder b = Some i" "tab_fuel (tabs b ! i) \<le> 14"
    using ok assms(2,3)
    by (auto simp: lock_ok_def tab_fuel_def tab_sound_def split: option.splits RefreshPhase.splits)
  have "lock_holder (fold (browser_resume i) resps b) = None" if "14 \<le> length resps" for resps
  proof -
    let ?b = "fold (browser_resume i) resps b"
    have "lock_ok ?b" "i < length (tabs ?b)" "tab_fuel (tabs ?b ! i) = 0"
      using holder.exhausted [of b i resps] ok assms(2) h(2) that by auto
    then show ?thesis using resume_holder [OF h(1), of resps] no_fuel_idle [of "tabs ?b ! i"]
      by (auto simp: lock_ok_def)
  qed
  with h(1) ok show ?thesis by (auto simp: lock_ok_def)
qed

definition waiting_tab :: AuthTab where
  "waiting_tab = tab_step (Refresh LockRequested) (fresh_tab initial_world)"

definition busy_browser :: Browser where
  "busy_browser = \<lparr>tabs = [tab_step LockGranted waiting_tab, waiting_tab], lock_holder = Some 0\<rparr>"

lemma waiting_tab_simps:
  "awaiting waiting_tab" "refreshing (tab_step LockGranted waiting_tab)"
  by (simp_all add: waiting_tab_def fresh_tab_def refreshAuthentication_def performRefreshWithBrowserLock_def
      awaiting_def refreshing_def advance_def runRefresh_def run_begin_def Let_def)

lemma busy_reachable: "reachable_browser busy_browser"
proof -
  let ?f = "fresh_tab initial_world"
  let ?b0 = "\<lparr>tabs = replicate 2 ?f, lock_holder = None\<rparr>" and ?b1 = "\<lparr>tabs = [waiting_tab, ?f], lock_holder = None\<rparr>"
    and ?b2 = "\<lparr>tabs = [waiting_tab, waiting_tab], lock_holder = None\<rparr>"
  have "browser_step ?b0 ?b1" using other [of 0 ?b0 "Refresh LockRequested"]
    by (simp add: waiting_tab_def numeral_2_eq_2)
  moreover have "browser_step ?b1 ?b2" using other [of 1 ?b1 "Refresh LockRequested"]
    by (simp add: waiting_tab_def)
  moreover have "browser_step ?b2 busy_browser"
    using granted [of 0 ?b2, OF _ _ _ refl] by (simp add: busy_browser_def waiting_tab_simps del: tab_step.simps)
  ultimately have "browser_step\<^sup>*\<^sup>* ?b0 busy_browser"
    by (meson converse_rtranclp_into_rtranclp r_into_rtranclp)
  then show ?thesis unfolding reachable_browser_def by blast
qed

theorem refresh_exclusive_witness:
  "\<not> refreshing (tabs busy_browser ! 1)
   \<and> lock_holder (fold (browser_resume 0) (replicate 14 race_response) busy_browser) = None"
proof -
  have "0 < length (tabs busy_browser)" "1 < length (tabs busy_browser)" "refreshing (tabs busy_browser ! 0)"
    by (simp_all add: busy_browser_def waiting_tab_simps del: tab_step.simps)
  with refresh_exclusive [OF busy_reachable, of 0] show ?thesis
    by (metis length_replicate order_refl zero_neq_one)
qed

end
