(* ===== verification/Http_Client.thy ===== *)
theory Http_Client
  imports Auth_Session_Laws
begin

text \<open>
  The HTTP client \<open>lib/http-client.ts\<close>: its interceptors and the sharing of identical \<open>GET\<close>s,
  with \<open>lib/server-error-message.ts\<close>.  One call of the client is a small machine that is suspended
  while it waits for a token refresh or for the server; other code may change the session in
  between.  Toasts and redirects are recorded.  A \<open>message\<close> in a payload is a string where it is present,
  and an error code is not the name of a member every JavaScript object inherits.
\<close>

section \<open>Server messages (\<open>server-error-message.ts\<close>)\<close>

definition serverErrorMessageKeys :: "(jsstring, jsstring) jsmap" where
  "serverErrorMessageKeys =
     [(js ''AUTH_SESSION_LIMIT'',
       js ''Too many active login sessions. On a device where you are already signed in, open Login sessions and use ''
       @ [8220] @ js ''Sign out other sessions'' @ [8221]
       @ js '' to revoke them. If you cannot access a signed-in device, reset your password to sign out all sessions.''),
      (js ''AUTH_SESSION_ISSUANCE_LIMIT'',
       js ''Too many login sessions were created recently. Please wait for the rolling window to pass, then try again.''),
      (js ''TELEGRAM_BIND_DISABLED'', js ''Telegram binding is disabled.''),
      (js ''TELEGRAM_BIND_INVALID_REQUEST'', js ''The Telegram authorization request is invalid or expired.''),
      (js ''TELEGRAM_BIND_FLOW_INVALID'', js ''This Telegram binding request has expired or has already been used.''),
      (js ''TELEGRAM_BIND_SESSION_INVALID'', js ''The login session that started this Telegram binding is no longer valid.''),
      (js ''TELEGRAM_BIND_ALREADY_BOUND'', js ''This Telegram account is already bound.''),
      (js ''TELEGRAM_BIND_USER_DELETED'', js ''This user account no longer exists.''),
      (js ''TELEGRAM_BIND_USER_DISABLED'', js ''This user account is disabled.''),
      (js ''TELEGRAM_BIND_INTERNAL_ERROR'', js ''Telegram binding failed. Please try again.'')]"

definition serverErrorPayload :: "rat json \<Rightarrow> rat json option" where
  "serverErrorPayload v =
     (if \<not> isRecord v then None
      else case field v (js ''response'') of
        None \<Rightarrow> Some v
      | Some response \<Rightarrow>
          (case (if isRecord response then field response (js ''data'') else None) of
             None \<Rightarrow> Some v
           | Some d \<Rightarrow> if isRecord d then Some d else Some v))"

definition getServerErrorMessageKey :: "rat json \<Rightarrow> jsstring option" where
  "getServerErrorMessageKey v =
     Option.bind (serverErrorPayload v) (\<lambda>p.
     Option.bind (str_field p (js ''code'')) (map_get serverErrorMessageKeys))"

section \<open>Client state\<close>

record ApiRequestConfig =
  skipBusinessError :: bool
  skipErrorHandler :: bool
  skipAuthRefresh :: bool
  authRetry :: bool
  acceptAuthRotation :: bool
  authorization :: "jsstring option"

record ClientWorld =
  auth :: AuthWorld
  toasts :: "jsstring list"
  location :: jsstring
  redirects :: nat

definition toast_error :: "jsstring \<Rightarrow> ClientWorld \<Rightarrow> ClientWorld" where
  "toast_error msg c = c\<lparr>toasts := toasts c @ [msg]\<rparr>"

definition redirectToSignIn :: "ClientWorld \<Rightarrow> ClientWorld" where
  "redirectToSignIn c =
     (if location c \<noteq> js ''/sign-in''
      then c\<lparr>location := js ''/sign-in'', redirects := redirects c + 1\<rparr> else c)"

definition handleSessionExpiration ::
  "(jsstring \<Rightarrow> jsstring) \<Rightarrow> bool \<Rightarrow> ClientWorld \<Rightarrow> ClientWorld" where
  "handleSessionExpiration t skip c =
     (case claimSessionExpirationHandling (auth c) of
        (False, w) \<Rightarrow> c\<lparr>auth := w\<rparr>
      | (True, w) \<Rightarrow>
          let c1 = c\<lparr>auth := w\<rparr>; c2 = (if skip then c1 else toast_error (t (js ''Session expired!'')) c1)
          in redirectToSignIn c2)"

section \<open>Interceptors\<close>

text \<open>The response interceptor for a success: the call resolves, or the rotation throws.\<close>

definition on_response ::
  "(jsstring \<Rightarrow> jsstring) \<Rightarrow> ApiRequestConfig \<Rightarrow> rat json \<Rightarrow> ClientWorld \<Rightarrow> bool \<times> ClientWorld" where
  "on_response t config data c =
     (let rotation =
        (if acceptAuthRotation config \<and> field data (js ''success'') = Some (JBool True)
         then applyAuthRotation (nullish (field data (js ''data'')) JNull) (auth c)
         else Inr (auth c))
      in case rotation of
           Inl _ \<Rightarrow> (False, c)
         | Inr w \<Rightarrow>
             let c1 = c\<lparr>auth := w\<rparr> in
             (True,
              if \<not> skipBusinessError config \<and> field data (js ''success'') = Some (JBool False)
              then toast_error (case getServerErrorMessageKey data of
                     Some k \<Rightarrow> t k
                   | None \<Rightarrow> opt_str_or (str_field data (js ''message'')) (t (js ''Request failed''))) c1
              else c1))"

datatype CallState =
    PreRequest ApiRequestConfig
  | PreRefresh ApiRequestConfig
  | InFlight ApiRequestConfig
  | RetryRefresh ApiRequestConfig
  | CallResolved
  | CallRejected

text \<open>The second half of the request interceptor: the header with the token of the moment.\<close>

definition attach_token :: "ApiRequestConfig \<Rightarrow> ClientWorld \<Rightarrow> ApiRequestConfig" where
  "attach_token config c =
     (case live_token (store (auth c)) of
        None \<Rightarrow> config
      | Some tok \<Rightarrow> config\<lparr>authorization := Some (js ''Bearer '' @ tok)\<rparr>)"

definition on_request :: "rat \<Rightarrow> ApiRequestConfig \<Rightarrow> ClientWorld \<Rightarrow> CallState" where
  "on_request nowSeconds config c =
     (if \<not> skipAuthRefresh config \<and> \<not> authRetry config
         \<and> shouldRefreshAccessToken (accessToken (store (auth c))) (accessExpiresAt (store (auth c))) nowSeconds
      then PreRefresh config else InFlight (attach_token config c))"

fun ends_session :: "RefreshOutcome \<Rightarrow> bool" where
  "ends_session Anonymous = True"
| "ends_session (OutOfSync _) = True"
| "ends_session _ = False"

definition on_request_refreshed ::
  "(jsstring \<Rightarrow> jsstring) \<Rightarrow> RefreshOutcome \<Rightarrow> ApiRequestConfig \<Rightarrow> ClientWorld \<Rightarrow> CallState \<times> ClientWorld" where
  "on_request_refreshed t outcome config c =
     (let c' = (if ends_session outcome then handleSessionExpiration t (skipErrorHandler config) c else c)
      in (InFlight (attach_token config c'), c'))"

text \<open>The response interceptor for a failure; \<open>error\<close> is the error as a value.\<close>

definition on_response_error ::
  "(jsstring \<Rightarrow> jsstring) \<Rightarrow> ApiRequestConfig option \<Rightarrow> int option \<Rightarrow> rat json \<Rightarrow> ClientWorld \<Rightarrow>
     CallState \<times> ClientWorld" where
  "on_response_error t config st error c =
     (let skip = (case config of None \<Rightarrow> False | Some cf \<Rightarrow> skipErrorHandler cf) in
      if st = Some 401 then
        (case config of
           None \<Rightarrow> (CallRejected, handleSessionExpiration t skip c)
         | Some cf \<Rightarrow>
             if \<not> skipAuthRefresh cf \<and> \<not> authRetry cf
             then (RetryRefresh (cf\<lparr>authRetry := True\<rparr>), c)
             else if authRetry cf
             then (CallRejected, handleSessionExpiration t skip
                     (c\<lparr>auth := clearAuthentication False None (auth c)\<rparr>))
             else (CallRejected, handleSessionExpiration t skip c))
      else if \<not> skip
      then (CallRejected, toast_error (case getServerErrorMessageKey error of
               Some k \<Rightarrow> t k
             | None \<Rightarrow> opt_str_or
                 (Option.bind (field error (js ''response'')) (\<lambda>r.
                    Option.bind (field r (js ''data'')) (\<lambda>d. str_field d (js ''message''))))
                 (opt_str_or (str_field error (js ''message'')) (t (js ''Request failed'')))) c)
      else (CallRejected, c))"

definition on_retry_refreshed ::
  "(jsstring \<Rightarrow> jsstring) \<Rightarrow> RefreshOutcome \<Rightarrow> ApiRequestConfig \<Rightarrow> ClientWorld \<Rightarrow> CallState \<times> ClientWorld" where
  "on_retry_refreshed t outcome config c =
     (case outcome of
        Authenticated _ \<Rightarrow> (PreRequest (attach_token config c), c)
      | _ \<Rightarrow> (CallRejected,
              if ends_session outcome then handleSessionExpiration t (skipErrorHandler config) c else c))"

section \<open>One call\<close>

datatype server_answer = Answer "rat json" | Failure "int option" "rat json"

text \<open>A move of the environment: a change of the client world by other code, the time, the answer
  of the server and the outcome of a refresh, of which the call uses the one it waits for.\<close>

record call_move =
  env :: "ClientWorld \<Rightarrow> ClientWorld"
  now_seconds :: rat
  answer :: server_answer
  refreshed :: RefreshOutcome

fun call_step ::
  "(jsstring \<Rightarrow> jsstring) \<Rightarrow> call_move \<Rightarrow> CallState \<times> ClientWorld \<Rightarrow> CallState \<times> ClientWorld" where
  "call_step t m (PreRequest config, c) = (let c' = env m c in (on_request (now_seconds m) config c', c'))"
| "call_step t m (PreRefresh config, c) = on_request_refreshed t (refreshed m) config (env m c)"
| "call_step t m (InFlight config, c) =
     (case answer m of
        Answer data \<Rightarrow> (case on_response t config data (env m c) of
            (ok, c') \<Rightarrow> (if ok then CallResolved else CallRejected, c'))
      | Failure st error \<Rightarrow> on_response_error t (Some config) st error (env m c))"
| "call_step t m (RetryRefresh config, c) = on_retry_refreshed t (refreshed m) config (env m c)"
| "call_step t m (CallResolved, c) = (CallResolved, env m c)"
| "call_step t m (CallRejected, c) = (CallRejected, env m c)"

fun call_trace ::
  "(jsstring \<Rightarrow> jsstring) \<Rightarrow> call_move list \<Rightarrow> CallState \<times> ClientWorld \<Rightarrow> CallState list" where
  "call_trace t [] s = [fst s]"
| "call_trace t (m # ms) s = fst s # call_trace t ms (call_step t m s)"

fun in_flight :: "CallState \<Rightarrow> bool" where
  "in_flight (InFlight _) = True"
| "in_flight _ = False"

fun refreshing :: "CallState \<Rightarrow> bool" where
  "refreshing (PreRefresh _) = True"
| "refreshing (RetryRefresh _) = True"
| "refreshing _ = False"

section \<open>Sharing identical reads\<close>

text \<open>\<open>inFlightGet\<close>: the requests in flight by key; a request is the number of its start.\<close>

record GetCache =
  inFlightGet :: "(jsstring, nat) jsmap"
  started :: nat

definition get_key :: "jsstring option \<Rightarrow> jsstring \<Rightarrow> jsstring option \<Rightarrow> jsstring" where
  "get_key session_sid url params =
     opt_str_or session_sid (js ''anonymous'') @ js '':'' @ url @ js ''?'' @ nullish params (js ''{}'')"

definition api_get :: "bool \<Rightarrow> jsstring \<Rightarrow> GetCache \<Rightarrow> nat \<times> GetCache" where
  "api_get disableDuplicate k g =
     (if disableDuplicate then (started g, g\<lparr>started := started g + 1\<rparr>)
      else case map_get (inFlightGet g) k of
        Some r \<Rightarrow> (r, g)
      | None \<Rightarrow> (started g, g\<lparr>started := started g + 1, inFlightGet := map_put (inFlightGet g) k (started g)\<rparr>))"

definition get_settled :: "jsstring \<Rightarrow> GetCache \<Rightarrow> GetCache" where
  "get_settled k g = g\<lparr>inFlightGet := AList.delete k (inFlightGet g)\<rparr>"

section \<open>A call ends\<close>

text \<open>Resumptions, sends and refreshes a call may still take.\<close>

fun call_fuel :: "CallState \<Rightarrow> nat" where
  "call_fuel (PreRequest config) = (if authRetry config then 2 else 6)"
| "call_fuel (PreRefresh config) = (if authRetry config then 2 else 5)"
| "call_fuel (InFlight config) = (if authRetry config then 1 else 4)"
| "call_fuel (RetryRefresh config) = 3"
| "call_fuel _ = 0"

fun sends_left :: "CallState \<Rightarrow> nat" where
  "sends_left (PreRequest config) = (if authRetry config then 1 else 2)"
| "sends_left (PreRefresh config) = (if authRetry config then 1 else 2)"
| "sends_left (InFlight config) = (if authRetry config then 1 else 2)"
| "sends_left (RetryRefresh config) = 1"
| "sends_left _ = 0"

fun call_ok :: "CallState \<Rightarrow> bool" where
  "call_ok (RetryRefresh config) = authRetry config"
| "call_ok _ = True"

lemma attach_fields [simp]: "authRetry (attach_token config c) = authRetry config"
  by (simp add: attach_token_def split: option.splits)

lemma call_step_measure:
  assumes "call_ok s"
  shows "call_ok (fst (call_step t m (s, c)))
    \<and> call_fuel (fst (call_step t m (s, c))) \<le> call_fuel s - 1
    \<and> sends_left (fst (call_step t m (s, c))) + (if in_flight s then 1 else 0) \<le> sends_left s"
  using assms
  by (cases s) (auto simp: on_request_def on_request_refreshed_def on_response_error_def on_retry_refreshed_def
      Let_def split: server_answer.splits prod.splits RefreshOutcome.splits)

lemma call_trace_sends:
  "call_ok s \<Longrightarrow> length (filter in_flight (call_trace t ms (s, c))) \<le> sends_left s"
proof (induction ms arbitrary: s c)
  case Nil
  then show ?case by (cases s) auto
next
  case (Cons m ms)
  obtain s' c' where st: "call_step t m (s, c) = (s', c')" by (cases "call_step t m (s, c)") auto
  from call_step_measure[OF Cons.prems, of t m c] st
  have "call_ok s'" "sends_left s' + (if in_flight s then 1 else 0) \<le> sends_left s" by auto
  with Cons.IH[of s' c'] st show ?case by (auto split: if_splits)
qed

interpretation http_call: bounded_machine "call_step t" "\<lambda>s. call_ok (fst s)" "\<lambda>s. call_fuel (fst s)" for t
  by unfold_locales (use call_step_measure [where s = "fst x" and c = "snd x" for x] in simp_all)

text \<open>C36: A call is retried at most once.  Whatever the server and the refreshes answer and
  whatever other code does meanwhile, one call of the client is sent at most twice and is settled
  after at most six resumptions: a second 401 ends it.\<close>

theorem call_retried_at_most_once:
  "length (filter in_flight (call_trace t ms (PreRequest config, c))) \<le> 2
   \<and> fst (fold (call_step t) (m1 # m2 # m3 # m4 # m5 # m6 # ms) (PreRequest config, c)) \<in> {CallResolved, CallRejected}"
proof -
  have "sends_left (PreRequest config) \<le> 2" by simp
  then have "length (filter in_flight (call_trace t ms (PreRequest config, c))) \<le> 2"
    using call_trace_sends[of "PreRequest config" t ms c] by (meson call_ok.simps(2) order_trans)
  moreover have "call_fuel (fst (fold (call_step t) (m1 # m2 # m3 # m4 # m5 # m6 # ms) (PreRequest config, c))) = 0"
    using http_call.exhausted [of "(PreRequest config, c)" "m1 # m2 # m3 # m4 # m5 # m6 # ms" t] by simp
  then have "fst (fold (call_step t) (m1 # m2 # m3 # m4 # m5 # m6 # ms) (PreRequest config, c)) \<in> {CallResolved, CallRejected}"
    by (cases "fst (fold (call_step t) (m1 # m2 # m3 # m4 # m5 # m6 # ms) (PreRequest config, c))")
       (simp_all split: if_splits)
  ultimately show ?thesis by blast
qed

section \<open>Shared reads\<close>

text \<open>Identical reads share one request.  While a read is in flight, a second read with the
  same key returns the same request and starts none; a read with another key leaves it in place;
  and once it has settled, the next read starts a new request.\<close>

theorem identical_reads_shared:
  assumes "api_get False k g = (r, g')"
  shows "api_get False k g' = (r, g')
    \<and> map_get (inFlightGet (snd (api_get b k2 g'))) k = Some r
    \<and> (k2 \<noteq> k \<longrightarrow> map_get (inFlightGet (get_settled k2 g')) k = Some r)
    \<and> fst (api_get False k (get_settled k g')) = started g'"
proof -
  have "map_get (inFlightGet g') k = Some r"
    using assms by (auto simp: api_get_def map_get_put split: option.splits)
  then show ?thesis
    by (auto simp: api_get_def get_settled_def map_get_put delete_conv split: option.splits)
qed

theorem identical_reads_shared_witness:
  "api_get False (js ''k'') (snd (api_get False (js ''k'') \<lparr>inFlightGet = [], started = 0\<rparr>))
   = (0, snd (api_get False (js ''k'') \<lparr>inFlightGet = [], started = 0\<rparr>))"
  using identical_reads_shared[of "js ''k''" "\<lparr>inFlightGet = [], started = 0\<rparr>" 0
      "snd (api_get False (js ''k'') \<lparr>inFlightGet = [], started = 0\<rparr>)" False "[]"]
  by (simp add: api_get_def)

end
