(* ===== verification/Auth_Redirect.thy ===== *)
theory Auth_Redirect
  imports Auth_Store
begin

text \<open>
  Redirects and OAuth windows: \<open>features/auth/lib/auth-redirect.ts\<close>, \<open>oauth-callback-mode.ts\<close> and
  \<open>oauth-bind-window.ts\<close>.  The URL parser of the platform is an argument that returns \<open>None\<close> where
  the constructor throws; so is \<open>JSON.parse\<close>.
\<close>

section \<open>Redirect targets (\<open>auth-redirect.ts\<close>)\<close>

record URL =
  protocol :: jsstring
  url_origin :: jsstring
  pathname :: jsstring
  search :: jsstring
  hash :: jsstring

definition allowedRedirectProtocols :: "jsstring list" where
  "allowedRedirectProtocols = [js ''http:'', js ''https:'']"

definition getSavedLanguage :: "(jsstring \<Rightarrow> rat json option) \<Rightarrow> AuthUser \<Rightarrow> jsstring option" where
  "getSavedLanguage parse u =
     (case str_field u (js ''language'') of
        Some l \<Rightarrow> Some l
      | None \<Rightarrow>
          (case field u (js ''setting'') of
             None \<Rightarrow> None
           | Some v \<Rightarrow>
               if isRecord v then str_field v (js ''language'')
               else (case v of
                       JStr text \<Rightarrow> Option.bind (parse text) (\<lambda>w. str_field w (js ''language''))
                     | _ \<Rightarrow> None)))"

text \<open>\<open>url base target\<close> is \<open>new URL(target, base)\<close>.\<close>

definition sanitizeAuthRedirect ::
  "(jsstring option \<Rightarrow> jsstring \<Rightarrow> URL option) \<Rightarrow> jsstring option \<Rightarrow> jsstring \<Rightarrow> jsstring option" where
  "sanitizeAuthRedirect url input origin =
     Option.bind input (\<lambda>v.
       let target = trim v in
       if target = [] \<or> str_includes target [92] \<or> startsWith target (js ''//'') then None
       else Option.bind (url None origin) (\<lambda>trusted.
         if protocol trusted \<notin> set allowedRedirectProtocols then None
         else Option.bind
           (if startsWith target (js ''/'') then url (Some (url_origin trusted)) target else url None target)
           (\<lambda>u. if protocol u \<notin> set allowedRedirectProtocols \<or> url_origin u \<noteq> url_origin trusted then None
                else Some (pathname u @ search u @ hash u))))"

section \<open>Bind or login (\<open>oauth-callback-mode.ts\<close>)\<close>

definition OAUTH_BIND_FLOW_KEY_PREFIX :: jsstring where
  "OAUTH_BIND_FLOW_KEY_PREFIX = js ''oauth_bind_flow:''"

datatype OAuthCallbackMode = LoginMode | BindMode

text \<open>
  A session storage: \<open>None\<close> when the window has none or access to it throws.  \<open>writable\<close> says
  whether \<open>setItem\<close> succeeds, \<open>readable\<close> whether \<open>getItem\<close> does.
\<close>

record OAuthModeStorage =
  items :: "(jsstring, jsstring) jsmap"
  writable :: bool
  readable :: bool

definition getOAuthSessionStorage :: "OAuthModeStorage option option \<Rightarrow> OAuthModeStorage option" where
  "getOAuthSessionStorage owner = Option.bind owner id"

definition markOAuthBindPopup ::
  "OAuthModeStorage option \<Rightarrow> jsstring \<Rightarrow> jsstring \<Rightarrow> bool \<times> OAuthModeStorage option" where
  "markOAuthBindPopup storage provider state =
     (case storage of
        None \<Rightarrow> (False, None)
      | Some st \<Rightarrow>
          if provider = [] \<or> state = [] then (False, Some st)
          else if \<not> writable st then (False, Some st)
          else let k = OAUTH_BIND_FLOW_KEY_PREFIX @ provider;
                   st' = st\<lparr>items := map_put (items st) k state\<rparr>
               in (readable st' \<and> map_get (items st') k = Some state, Some st'))"

text \<open>\<open>opener\<close> is \<open>None\<close> without an opener, otherwise whether it is closed.\<close>

definition resolveOAuthCallbackMode ::
  "jsstring \<Rightarrow> jsstring \<Rightarrow> bool option \<Rightarrow> OAuthModeStorage option \<Rightarrow> OAuthCallbackMode" where
  "resolveOAuthCallbackMode provider state opener storage =
     (case (opener, storage) of
        (Some False, Some st) \<Rightarrow>
          if state = [] then LoginMode
          else if \<not> readable st then LoginMode
          else if map_get (items st) (OAUTH_BIND_FLOW_KEY_PREFIX @ provider) = Some state then BindMode
          else LoginMode
      | _ \<Rightarrow> LoginMode)"

section \<open>Bind windows (\<open>oauth-bind-window.ts\<close>)\<close>

record TelegramBindCallbackSearch =
  telegram_bind :: "jsstring option"
  flow_token :: "jsstring option"
  error_code :: "jsstring option"

datatype TelegramBindCallback =
    BindResult jsstring bool "jsstring option"
  | BindInvalid
  | NoBind

definition parseTelegramBindCallback :: "TelegramBindCallbackSearch \<Rightarrow> TelegramBindCallback" where
  "parseTelegramBindCallback s =
     (if telegram_bind s \<noteq> Some (js ''success'') \<and> telegram_bind s \<noteq> Some (js ''error'') then NoBind
      else case flow_token s of
        None \<Rightarrow> BindInvalid
      | Some tok \<Rightarrow>
          if tok = [] then BindInvalid
          else if telegram_bind s = Some (js ''success'') then BindResult tok True None
          else BindResult tok False (error_code s))"

definition TELEGRAM_BIND_RESULT_MESSAGE :: jsstring where
  "TELEGRAM_BIND_RESULT_MESSAGE = js ''telegram:binding:result''"

text \<open>A message to the opener: the origin it may be delivered to, and its fields.\<close>

record BindMessage =
  target_origin :: jsstring
  msg_type :: jsstring
  msg_flow_token :: jsstring
  msg_success :: bool
  msg_code :: "jsstring option"

text \<open>The message posted; nothing is posted, and the result is \<open>false\<close>, when there is none.\<close>

definition postTelegramBindResult ::
  "TelegramBindCallback \<Rightarrow> bool option \<Rightarrow> jsstring \<Rightarrow> BindMessage option" where
  "postTelegramBindResult callback opener targetOrigin =
     (case (callback, opener) of
        (BindResult tok ok code, Some False) \<Rightarrow>
          Some \<lparr>target_origin = targetOrigin, msg_type = TELEGRAM_BIND_RESULT_MESSAGE, msg_flow_token = tok,
                msg_success = ok, msg_code = code\<rparr>
      | _ \<Rightarrow> None)"

text \<open>The two timers: \<open>active\<close>, whether the platform timer is still scheduled, and how often the
  callback ran.\<close>

record BindTimer =
  active :: bool
  scheduled :: bool
  fired :: nat

definition start_timer :: BindTimer where
  "start_timer = \<lparr>active = True, scheduled = True, fired = 0\<rparr>"

datatype TimerEvent = Tick bool | CancelTimer

text \<open>\<open>startOAuthBindResponseDeadline\<close>: a timeout fires once; the argument of \<open>Tick\<close> is unused.\<close>

fun startOAuthBindResponseDeadline :: "TimerEvent \<Rightarrow> BindTimer \<Rightarrow> BindTimer" where
  "startOAuthBindResponseDeadline (Tick _) s =
     (if \<not> active s then s else s\<lparr>active := False, scheduled := False, fired := fired s + 1\<rparr>)"
| "startOAuthBindResponseDeadline CancelTimer s =
     (if \<not> active s then s else s\<lparr>active := False, scheduled := False\<rparr>)"

text \<open>\<open>watchOAuthPopupClosed\<close>: the argument of \<open>Tick\<close> is \<open>popup.closed\<close>.\<close>

fun watchOAuthPopupClosed :: "TimerEvent \<Rightarrow> BindTimer \<Rightarrow> BindTimer" where
  "watchOAuthPopupClosed (Tick is_closed) s =
     (if \<not> active s \<or> \<not> is_closed then s
      else s\<lparr>active := False, scheduled := False, fired := fired s + 1\<rparr>)"
| "watchOAuthPopupClosed CancelTimer s =
     (if \<not> active s then s else s\<lparr>active := False, scheduled := False\<rparr>)"

section \<open>Properties\<close>


definition site :: "jsstring \<Rightarrow> URL" where
  "site path = \<lparr>protocol = js ''https:'', url_origin = js ''https://a.example'', pathname = path,
     search = [], hash = []\<rparr>"


text \<open>C39: A path that begins with two slashes gets through.  A target that is a URL of the site
  itself whose path begins with two slashes does not itself begin with them, so it is accepted,
  and the result is a protocol-relative reference to another host.\<close>

theorem redirect_double_slash_accepted:
  assumes "trim v \<noteq> []" "\<not> str_includes (trim v) [92]" "\<not> startsWith (trim v) (js ''/'')"
    and "url None origin = Some trusted" "protocol trusted = js ''https:''"
    and "url None (trim v) = Some u" "protocol u = js ''https:''" "url_origin u = url_origin trusted"
    and "pathname u = js ''//'' @ host_path"
  shows "sanitizeAuthRedirect url (Some v) origin = Some (js ''//'' @ host_path @ search u @ hash u)"
proof -
  have "\<not> startsWith (trim v) (js ''//'')"
    using assms(3) by (cases "trim v") (auto simp: startsWith_def)
  with assms show ?thesis
    by (simp add: sanitizeAuthRedirect_def Let_def allowedRedirectProtocols_def)
qed

theorem redirect_double_slash_accepted_witness:
  "sanitizeAuthRedirect
     (\<lambda>b v. Some (site (if v = js ''https://a.example//evil.example'' then js ''//evil.example'' else js ''/'')))
     (Some (js ''https://a.example//evil.example'')) (js ''https://a.example'') = Some (js ''//evil.example'')"
proof -
  let ?v = "js ''https://a.example//evil.example''"
  have t: "trim ?v = ?v" by (simp add: trim_def is_space_def)
  show ?thesis
    using redirect_double_slash_accepted[of ?v "\<lambda>b v. Some (site (if v = ?v then js ''//evil.example'' else js ''/''))"
        "js ''https://a.example''" "site (js ''/'')" "site (js ''//evil.example'')" "js ''evil.example''"]
    by (simp add: t[simplified] str_includes_iff sublist_code startsWith_def site_def)
qed

text \<open>A callback is a bind exactly when our own popup made it.  With an open opener, a popup
  marked for a provider and a state is resolved as a bind for that provider and state and as a
  login for every other state; without an opener, with a closed one or without a storage it is a
  login.\<close>

theorem bind_mode_needs_mark:
  assumes "markOAuthBindPopup (Some st) provider state = (True, Some st')"
  shows "resolveOAuthCallbackMode provider state (Some False) (Some st') = BindMode
    \<and> (other \<noteq> state \<longrightarrow> resolveOAuthCallbackMode provider other (Some False) (Some st') = LoginMode)
    \<and> resolveOAuthCallbackMode provider state None (Some st') = LoginMode
    \<and> resolveOAuthCallbackMode provider state (Some True) (Some st') = LoginMode
    \<and> resolveOAuthCallbackMode provider state (Some False) None = LoginMode"
  using assms
  by (auto simp: markOAuthBindPopup_def resolveOAuthCallbackMode_def Let_def map_get_put split: if_splits)

theorem bind_mode_needs_mark_witness:
  "resolveOAuthCallbackMode (js ''github'') (js ''s'') (Some False)
     (Some \<lparr>items = [(js ''oauth_bind_flow:github'', js ''s'')], writable = True, readable = True\<rparr>) = BindMode"
  using bind_mode_needs_mark[of "\<lparr>items = [], writable = True, readable = True\<rparr>" "js ''github''" "js ''s''"
      "\<lparr>items = [(js ''oauth_bind_flow:github'', js ''s'')], writable = True, readable = True\<rparr>" "[]"]
  by (simp add: markOAuthBindPopup_def OAUTH_BIND_FLOW_KEY_PREFIX_def)

end
