(* ===== verification/Flow_Graph.thy ===== *)
theory Flow_Graph
  imports Complex_Main Js_Prelude
begin

text \<open>
  The usage-flow graph \<open>features/dashboard/lib/flow.ts\<close> (types in \<open>features/dashboard/types.ts\<close>,
  \<open>flow-selection.ts\<close>).  Metrics are rationals and identifiers integers; an absent number is
  \<open>None\<close>.  Arguments of the model: \<open>lc\<close> is \<open>localeCompare\<close>, \<open>sch\<close> the colour table of the chart
  library (its entries before the last one, and the last one) and \<open>fmt\<close> the number format.  \<open>sort\<close> is stable, so sorting with a comparison function is
  insertion sort with the comparison \<open>cmp a b \<le> 0\<close>.
\<close>

section \<open>Types\<close>

datatype FlowNodeKind = UserKind | NodeKind | TokenKind | GroupKind | ModelKind | ChannelKind
datatype FlowRole = RoleUser | RoleAdmin | RoleRoot
datatype FlowMetric = QuotaMetric | TokensMetric | RequestsMetric
datatype FlowOverflowMode = Aggregate | Hide

record FlowQuotaDataItem =
  user_id :: "int option"
  username :: "jsstring option"
  node_name :: "jsstring option"
  use_group :: "jsstring option"
  token_id :: "int option"
  token_name :: "jsstring option"
  channel_id :: "int option"
  channel_name :: "jsstring option"
  model_name :: "jsstring option"
  token_used :: "rat option"
  row_count :: "rat option"
  row_quota :: "rat option"

record FlowMetrics =
  m_quota :: rat
  m_tokens :: rat
  m_requests :: rat

record FlowPathNode =
  path_id :: jsstring
  path_label :: jsstring
  path_kind :: FlowNodeKind

record PreparedFlowPath =
  prep_path :: "FlowPathNode list"
  prep_metrics :: FlowMetrics

record FlowNodeFilter =
  filter_kind :: FlowNodeKind
  filter_id :: jsstring

record FlowLinkSelection =
  sel_source :: jsstring
  sel_target :: jsstring

record DashboardFlowNode =
  node_id :: jsstring
  node_label :: jsstring
  node_kind :: FlowNodeKind
  node_value :: rat
  node_requests :: rat
  node_quota :: rat
  node_tokens :: rat
  node_color :: jsstring
  node_colorKey :: jsstring
  node_highlighted :: "bool option"
  node_dimmed :: "bool option"

record DashboardFlowLink =
  link_source :: jsstring
  link_target :: jsstring
  link_value :: rat
  link_requests :: rat
  link_quota :: rat
  link_tokens :: rat
  sourceLabel :: jsstring
  targetLabel :: jsstring
  link_color :: jsstring
  linkColor :: jsstring
  linkAlpha :: rat
  hoverColor :: jsstring
  link_colorKey :: jsstring
  share :: rat
  link_highlighted :: "bool option"
  link_dimmed :: "bool option"

record DashboardFlowGraph =
  graph_nodes :: "DashboardFlowNode list"
  graph_links :: "DashboardFlowLink list"

record FlowGraphOptions =
  topNodeLimit :: "rat option"
  overflowMode :: "FlowOverflowMode option"
  otherNodeLabel :: "FlowNodeKind \<Rightarrow> jsstring option"
  activeNode :: "FlowNodeFilter option"
  activeLink :: "FlowLinkSelection option"
  maskSensitive :: bool

section \<open>Sorting\<close>

fun insert_by :: "('a \<Rightarrow> 'a \<Rightarrow> bool) \<Rightarrow> 'a \<Rightarrow> 'a list \<Rightarrow> 'a list" where
  "insert_by le x [] = [x]"
| "insert_by le x (y # ys) = (if le x y then x # y # ys else y # insert_by le x ys)"

definition sort_by :: "('a \<Rightarrow> 'a \<Rightarrow> bool) \<Rightarrow> 'a list \<Rightarrow> 'a list" where
  "sort_by le xs = foldr (insert_by le) xs []"

text \<open>\<open>x - y || next\<close> as a comparison.\<close>

definition then_cmp :: "rat \<Rightarrow> int \<Rightarrow> int" where
  "then_cmp d next = (if d < 0 then -1 else if 0 < d then 1 else next)"

definition or_cmp :: "int \<Rightarrow> int \<Rightarrow> int" where
  "or_cmp a b = (if a = 0 then b else a)"

section \<open>Constants\<close>

fun kind_name :: "FlowNodeKind \<Rightarrow> jsstring" where
  "kind_name UserKind = js ''user''"
| "kind_name NodeKind = js ''node''"
| "kind_name TokenKind = js ''token''"
| "kind_name GroupKind = js ''group''"
| "kind_name ModelKind = js ''model''"
| "kind_name ChannelKind = js ''channel''"

definition FLOW_NODE_KINDS :: "FlowNodeKind list" where
  "FLOW_NODE_KINDS = [UserKind, NodeKind, TokenKind, GroupKind, ModelKind, ChannelKind]"

definition OTHER_FLOW_NODE_IDS :: "FlowNodeKind \<Rightarrow> jsstring" where
  "OTHER_FLOW_NODE_IDS k = kind_name k @ js '':__other__''"

fun DEFAULT_OTHER_FLOW_NODE_LABELS :: "FlowNodeKind \<Rightarrow> jsstring" where
  "DEFAULT_OTHER_FLOW_NODE_LABELS UserKind = js ''Other users''"
| "DEFAULT_OTHER_FLOW_NODE_LABELS NodeKind = js ''Other nodes''"
| "DEFAULT_OTHER_FLOW_NODE_LABELS TokenKind = js ''Other tokens''"
| "DEFAULT_OTHER_FLOW_NODE_LABELS GroupKind = js ''Other groups''"
| "DEFAULT_OTHER_FLOW_NODE_LABELS ModelKind = js ''Other models''"
| "DEFAULT_OTHER_FLOW_NODE_LABELS ChannelKind = js ''Other channels''"

definition SENSITIVE_FLOW_KINDS :: "FlowNodeKind list" where
  "SENSITIVE_FLOW_KINDS = [UserKind, NodeKind, TokenKind, GroupKind, ChannelKind]"

definition OTHER_FLOW_NODE_ID_SET :: "jsstring list" where
  "OTHER_FLOW_NODE_ID_SET = map OTHER_FLOW_NODE_IDS FLOW_NODE_KINDS"

definition DEFAULT_FLOW_CHART_COLOR :: jsstring where
  "DEFAULT_FLOW_CHART_COLOR = js ''#1664FF''"

section \<open>Rows, metrics and path nodes\<close>

definition numberValue :: "'a::zero option \<Rightarrow> 'a" where
  "numberValue v = nullish v 0"

definition rowMetrics :: "FlowQuotaDataItem \<Rightarrow> FlowMetrics" where
  "rowMetrics row = \<lparr>m_quota = numberValue (row_quota row), m_tokens = numberValue (token_used row),
     m_requests = numberValue (row_count row)\<rparr>"

fun metricValue :: "FlowMetrics \<Rightarrow> FlowMetric \<Rightarrow> rat" where
  "metricValue m RequestsMetric = m_requests m"
| "metricValue m TokensMetric = m_tokens m"
| "metricValue m QuotaMetric = m_quota m"

definition userNode :: "FlowQuotaDataItem \<Rightarrow> FlowPathNode" where
  "userNode row =
     (let userID = numberValue (user_id row) in
      \<lparr>path_id = (if 0 < userID then js ''user:'' @ dec_int userID
                  else js ''user:'' @ opt_str_or (username row) (js ''unknown'')),
       path_label = opt_str_or (username row)
         (if 0 < userID then js ''user-'' @ dec_int userID else js ''Unknown User''),
       path_kind = UserKind\<rparr>)"

definition nodeNameNode :: "FlowQuotaDataItem \<Rightarrow> FlowPathNode" where
  "nodeNameNode row =
     (let nodeName = opt_str_or (node_name row) (js ''default-node'') in
      \<lparr>path_id = js ''node:'' @ nodeName, path_label = nodeName, path_kind = NodeKind\<rparr>)"

definition deletedTokenLabel :: "int \<Rightarrow> (int \<Rightarrow> jsstring option) \<Rightarrow> jsstring" where
  "deletedTokenLabel tokenID ctx =
     (if tokenID \<le> 0 then js ''Unknown Token'' else nullish (ctx tokenID) (js ''token-'' @ dec_int tokenID))"

definition tokenNode :: "(int \<Rightarrow> jsstring option) \<Rightarrow> FlowQuotaDataItem \<Rightarrow> FlowPathNode" where
  "tokenNode ctx row =
     (let tokenID = numberValue (token_id row) in
      \<lparr>path_id = (if 0 < tokenID then js ''token:'' @ dec_int tokenID
                  else js ''token:'' @ opt_str_or (token_name row) (js ''unknown'')),
       path_label = opt_str_or (token_name row) (deletedTokenLabel tokenID ctx),
       path_kind = TokenKind\<rparr>)"

definition groupNode :: "FlowQuotaDataItem \<Rightarrow> FlowPathNode" where
  "groupNode row =
     (let useGroup = opt_str_or (use_group row) (js ''unknown'') in
      \<lparr>path_id = js ''group:'' @ useGroup, path_label = useGroup, path_kind = GroupKind\<rparr>)"

definition modelNode :: "FlowQuotaDataItem \<Rightarrow> FlowPathNode" where
  "modelNode row =
     (let model = opt_str_or (model_name row) (js ''unknown'') in
      \<lparr>path_id = js ''model:'' @ model, path_label = opt_str_or (model_name row) (js ''Unknown Model''),
       path_kind = ModelKind\<rparr>)"

definition channelNode :: "FlowQuotaDataItem \<Rightarrow> FlowPathNode" where
  "channelNode row =
     (let channelID = numberValue (channel_id row) in
      \<lparr>path_id = (if 0 < channelID then js ''channel:'' @ dec_int channelID
                  else js ''channel:'' @ opt_str_or (channel_name row) (js ''unknown'')),
       path_label = opt_str_or (channel_name row)
         (if 0 < channelID then js ''channel-'' @ dec_int channelID else js ''Unknown''),
       path_kind = ChannelKind\<rparr>)"

fun NODE_BUILDERS :: "(int \<Rightarrow> jsstring option) \<Rightarrow> FlowNodeKind \<Rightarrow> FlowQuotaDataItem \<Rightarrow> FlowPathNode" where
  "NODE_BUILDERS ctx UserKind row = userNode row"
| "NODE_BUILDERS ctx NodeKind row = nodeNameNode row"
| "NODE_BUILDERS ctx TokenKind row = tokenNode ctx row"
| "NODE_BUILDERS ctx GroupKind row = groupNode row"
| "NODE_BUILDERS ctx ModelKind row = modelNode row"
| "NODE_BUILDERS ctx ChannelKind row = channelNode row"

fun getFlowStages :: "FlowRole \<Rightarrow> FlowNodeKind list" where
  "getFlowStages RoleRoot = [UserKind, NodeKind, TokenKind, GroupKind, ModelKind, ChannelKind]"
| "getFlowStages RoleAdmin = [UserKind, GroupKind, ModelKind, ChannelKind]"
| "getFlowStages RoleUser = [TokenKind, GroupKind, ModelKind]"

definition MIN_FLOW_STAGES :: nat where "MIN_FLOW_STAGES = 2"

definition resolveVisibleStages :: "FlowRole \<Rightarrow> FlowNodeKind list option \<Rightarrow> FlowNodeKind list" where
  "resolveVisibleStages role visibleStages =
     (let stages = getFlowStages role in
      case visibleStages of
        None \<Rightarrow> stages
      | Some visible \<Rightarrow>
          let filtered = filter (\<lambda>stage. stage \<in> set visible) stages in
          if MIN_FLOW_STAGES \<le> length filtered then filtered else stages)"

definition flowPathForStages ::
  "(int \<Rightarrow> jsstring option) \<Rightarrow> FlowQuotaDataItem \<Rightarrow> FlowNodeKind list \<Rightarrow> FlowPathNode list" where
  "flowPathForStages ctx row stages = map (\<lambda>stage. NODE_BUILDERS ctx stage row) stages"

section \<open>Colours\<close>

text \<open>
  \<open>vchartDefaultDataScheme\<close> is a table of the chart library: \<open>maxDomainLength\<close> and the scheme of each
  entry, \<open>None\<close> for a colour that is not a string.
\<close>

type_synonym chart_entry = "nat option \<times> jsstring option list"
type_synonym chart_scheme = "chart_entry list \<times> chart_entry"

definition getDashboardChartColors :: "chart_scheme \<Rightarrow> nat \<Rightarrow> jsstring list" where
  "getDashboardChartColors sch domainLength =
     (let fits = (\<lambda>item. nullish (fst item) 0 = 0 \<or> domainLength \<le> nullish (fst item) 0);
          scheme = nullish (find fits (fst sch @ [snd sch])) (snd sch)
      in map the (filter (\<lambda>color. color \<noteq> None) (snd scheme)))"

definition use_palette :: "jsstring list option \<Rightarrow> jsstring list option" where
  "use_palette palette = (if palette = Some [] then None else palette)"

definition colorAt :: "chart_scheme \<Rightarrow> nat \<Rightarrow> jsstring list option \<Rightarrow> jsstring" where
  "colorAt sch index palette =
     (let colors = nullish (use_palette palette) (getDashboardChartColors sch (index + 1)) in
      if colors = [] then DEFAULT_FLOW_CHART_COLOR else colors ! (index mod length colors))"

definition colorPalette :: "chart_scheme \<Rightarrow> nat \<Rightarrow> jsstring list option \<Rightarrow> jsstring list" where
  "colorPalette sch colorCount palette =
     (case use_palette palette of
        Some p \<Rightarrow> p
      | None \<Rightarrow> let colors = getDashboardChartColors sch colorCount in
                if colors \<noteq> [] then colors else [DEFAULT_FLOW_CHART_COLOR])"

definition stableColorMap ::
  "chart_scheme \<Rightarrow> jsstring list \<Rightarrow> jsstring list option \<Rightarrow> (jsstring, jsstring) jsmap" where
  "stableColorMap sch keys palette =
     (let uniqueKeys = uniq keys; colors = colorPalette sch (length uniqueKeys) palette in
      map (\<lambda>(i, k). (k, colorAt sch i (Some colors))) (enumerate 0 uniqueKeys))"

fun hex_digit :: "code_unit \<Rightarrow> nat option" where
  "hex_digit c =
     (if 48 \<le> c \<and> c \<le> 57 then Some (c - 48)
      else if 97 \<le> c \<and> c \<le> 102 then Some (c - 87)
      else if 65 \<le> c \<and> c \<le> 70 then Some (c - 55) else None)"

text \<open>\<open>alpha.toFixed(2)\<close> for a non-negative number.\<close>

definition fixed2 :: "rat \<Rightarrow> jsstring" where
  "fixed2 x = (let n = nat \<lfloor>x * 100 + 1 / 2\<rfloor> in
     dec (n div 100) @ js ''.'' @ dec (n div 10 mod 10) @ dec (n mod 10))"

definition alphaColor :: "jsstring \<Rightarrow> rat \<Rightarrow> jsstring \<times> rat" where
  "alphaColor color alpha =
     (let normalized = trim color;
          hex = (if startsWith normalized (js ''#'') then drop 1 normalized else normalized);
          digits = map hex_digit hex
      in if \<not> (length hex = 6 \<and> None \<notin> set digits) then (normalized, alpha)
         else let v = foldl (\<lambda>n d. 16 * n + the d) 0 digits in
           (js ''rgba('' @ dec (v div 65536 mod 256) @ js '', '' @ dec (v div 256 mod 256) @ js '', ''
              @ dec (v mod 256) @ js '', '' @ fixed2 alpha @ js '')'', 1))"

section \<open>Filters on rows\<close>

definition filterRows :: "FlowQuotaDataItem list \<Rightarrow> jsstring list option \<Rightarrow> FlowQuotaDataItem list" where
  "filterRows rows selectedUsers =
     (let selected = nullish selectedUsers [] in
      if selected = [] then rows else filter (\<lambda>row. path_id (userNode row) \<in> set selected) rows)"

definition nodeFilterKey :: "FlowNodeFilter \<Rightarrow> jsstring" where
  "nodeFilterKey f = kind_name (filter_kind f) @ [0] @ filter_id f"

definition normalizeSelectedNodeFilters ::
  "FlowNodeFilter list option \<Rightarrow> FlowNodeKind list \<Rightarrow> (FlowNodeKind, jsstring list) jsmap" where
  "normalizeSelectedNodeFilters selectedNodes stages =
     foldl (\<lambda>filters f.
        if filter_kind f \<notin> set stages then filters
        else map_put filters (filter_kind f)
               (set_add (nullish (map_get filters (filter_kind f)) []) (filter_id f)))
       [] (nullish selectedNodes [])"

definition path_nodes_by_kind :: "FlowPathNode list \<Rightarrow> (FlowNodeKind, jsstring list) jsmap" where
  "path_nodes_by_kind path =
     foldl (\<lambda>m node. map_put m (path_kind node)
               (set_add (nullish (map_get m (path_kind node)) []) (path_id node))) [] path"

definition pathMatchesNodeFilters ::
  "FlowPathNode list \<Rightarrow> (FlowNodeKind, jsstring list) jsmap \<Rightarrow> bool" where
  "pathMatchesNodeFilters path filters =
     (filters = [] \<or>
      list_all (\<lambda>(kind, selectedIds).
        case map_get (path_nodes_by_kind path) kind of
          None \<Rightarrow> False
        | Some pathIds \<Rightarrow> list_ex (\<lambda>i. i \<in> set pathIds) selectedIds) filters)"

definition filterRowsByNodes ::
  "FlowQuotaDataItem list \<Rightarrow> FlowNodeFilter list option \<Rightarrow> FlowNodeKind list \<Rightarrow>
   (int \<Rightarrow> jsstring option) \<Rightarrow> FlowQuotaDataItem list" where
  "filterRowsByNodes rows selectedNodes stages ctx =
     (let filters = normalizeSelectedNodeFilters selectedNodes stages in
      if filters = [] then rows
      else filter (\<lambda>row. pathMatchesNodeFilters (flowPathForStages ctx row stages) filters) rows)"

definition selectedNodeFiltersExceptKind ::
  "FlowNodeFilter list option \<Rightarrow> FlowNodeKind \<Rightarrow> FlowNodeFilter list option" where
  "selectedNodeFiltersExceptKind selectedNodes kind =
     (let filtered = filter (\<lambda>f. filter_kind f \<noteq> kind) (nullish selectedNodes []) in
      if filtered \<noteq> [] then Some filtered else None)"

section \<open>Nodes and links\<close>

definition new_node :: "FlowPathNode \<Rightarrow> jsstring \<Rightarrow> jsstring \<Rightarrow> DashboardFlowNode" where
  "new_node pathNode color colorKey =
     \<lparr>node_id = path_id pathNode, node_label = path_label pathNode, node_kind = path_kind pathNode,
      node_value = 0, node_requests = 0, node_quota = 0, node_tokens = 0,
      node_color = color, node_colorKey = colorKey, node_highlighted = None, node_dimmed = None\<rparr>"

definition addNode ::
  "FlowMetric \<Rightarrow> FlowMetrics \<Rightarrow> jsstring \<Rightarrow> jsstring \<Rightarrow> FlowPathNode \<Rightarrow>
   (jsstring, DashboardFlowNode) jsmap \<Rightarrow> (jsstring, DashboardFlowNode) jsmap" where
  "addNode metric metrics color colorKey pathNode m =
     (let previous = nullish (map_get m (path_id pathNode)) (new_node pathNode color colorKey) in
      map_put m (path_id pathNode)
        (previous\<lparr>node_value := node_value previous + metricValue metrics metric,
                  node_requests := node_requests previous + m_requests metrics,
                  node_quota := node_quota previous + m_quota metrics,
                  node_tokens := node_tokens previous + m_tokens metrics\<rparr>))"

definition pathLinkKey :: "FlowPathNode \<Rightarrow> FlowPathNode \<Rightarrow> jsstring" where
  "pathLinkKey source target = path_id source @ [0] @ path_id target"

definition linkStableKey :: "DashboardFlowLink \<Rightarrow> jsstring" where
  "linkStableKey link = link_source link @ [0] @ link_target link"

definition new_link :: "FlowPathNode \<Rightarrow> FlowPathNode \<Rightarrow> jsstring \<Rightarrow> jsstring \<Rightarrow> DashboardFlowLink" where
  "new_link source target color colorKey =
     \<lparr>link_source = path_id source, link_target = path_id target,
      link_value = 0, link_requests = 0, link_quota = 0, link_tokens = 0,
      sourceLabel = path_label source, targetLabel = path_label target,
      link_color = color, linkColor = color, linkAlpha = 1, hoverColor = color,
      link_colorKey = colorKey, share = 0, link_highlighted = None, link_dimmed = None\<rparr>"

definition addLink ::
  "FlowMetric \<Rightarrow> FlowMetrics \<Rightarrow> jsstring \<Rightarrow> jsstring \<Rightarrow> FlowPathNode \<times> FlowPathNode \<Rightarrow>
   (jsstring, DashboardFlowLink) jsmap \<Rightarrow> (jsstring, DashboardFlowLink) jsmap" where
  "addLink metric metrics color colorKey st m =
     (let key = pathLinkKey (fst st) (snd st);
          previous = nullish (map_get m key) (new_link (fst st) (snd st) color colorKey) in
      map_put m key
        (previous\<lparr>link_value := link_value previous + metricValue metrics metric,
                  link_requests := link_requests previous + m_requests metrics,
                  link_quota := link_quota previous + m_quota metrics,
                  link_tokens := link_tokens previous + m_tokens metrics\<rparr>))"

definition by_value_then_key :: "(jsstring \<Rightarrow> jsstring \<Rightarrow> int) \<Rightarrow> DashboardFlowLink \<Rightarrow> DashboardFlowLink \<Rightarrow> bool" where
  "by_value_then_key lc a b \<longleftrightarrow>
     then_cmp (link_value b - link_value a) (lc (linkStableKey a) (linkStableKey b)) \<le> 0"

text \<open>
  \<open>assignLinkDisplayColors\<close> writes into the links of each source in turn; a link is found in its sorted
  group by its key, which no other link has.
\<close>

definition link_alpha :: "(jsstring \<Rightarrow> jsstring \<Rightarrow> int) \<Rightarrow> DashboardFlowLink list \<Rightarrow> DashboardFlowLink \<Rightarrow> rat" where
  "link_alpha lc links link =
     (let sortedLinks = sort_by (by_value_then_key lc)
            (filter (\<lambda>l. link_source l = link_source link) links);
          denominator = max (length sortedLinks - 1) 1;
          index = length (takeWhile (\<lambda>l. linkStableKey l \<noteq> linkStableKey link) sortedLinks)
      in if length sortedLinks = 1 then 34 / 100
         else 24 / 100 + (of_nat index / of_nat denominator) * (2 / 10))"

definition assignLinkDisplayColors ::
  "(jsstring \<Rightarrow> jsstring \<Rightarrow> int) \<Rightarrow> DashboardFlowLink list \<Rightarrow> DashboardFlowLink list" where
  "assignLinkDisplayColors lc links =
     map (\<lambda>link. let displayColor = alphaColor (link_color link) (link_alpha lc links link) in
            link\<lparr>linkColor := fst displayColor, linkAlpha := snd displayColor,
                 hoverColor := link_color link\<rparr>) links"

definition byValueThenLabel :: "(jsstring \<Rightarrow> jsstring \<Rightarrow> int) \<Rightarrow> DashboardFlowNode \<Rightarrow> DashboardFlowNode \<Rightarrow> bool" where
  "byValueThenLabel lc a b \<longleftrightarrow>
     then_cmp (node_value b - node_value a) (lc (node_label a) (node_label b)) \<le> 0"

definition buildSummary :: "FlowQuotaDataItem list \<Rightarrow> FlowMetrics" where
  "buildSummary rows =
     foldl (\<lambda>summary row. let metrics = rowMetrics row in
        \<lparr>m_quota = m_quota summary + m_quota metrics, m_tokens = m_tokens summary + m_tokens metrics,
         m_requests = m_requests summary + m_requests metrics\<rparr>)
       \<lparr>m_quota = 0, m_tokens = 0, m_requests = 0\<rparr> rows"

section \<open>The largest nodes of a stage\<close>

record FlowNodeRank =
  rank_node :: FlowPathNode
  rank_value :: rat

definition normalizeTopNodeLimit :: "rat option \<Rightarrow> nat option" where
  "normalizeTopNodeLimit limit =
     (case limit of
        None \<Rightarrow> None
      | Some l \<Rightarrow> let parsed = \<lfloor>l\<rfloor> in if 0 < parsed then Some (nat parsed) else None)"

definition otherFlowNode :: "(FlowNodeKind \<Rightarrow> jsstring option) \<Rightarrow> FlowNodeKind \<Rightarrow> FlowPathNode" where
  "otherFlowNode labeler kind =
     \<lparr>path_id = OTHER_FLOW_NODE_IDS kind,
      path_label = nullish (labeler kind) (DEFAULT_OTHER_FLOW_NODE_LABELS kind), path_kind = kind\<rparr>"

type_synonym stage_totals = "(FlowNodeKind, (jsstring, FlowNodeRank) jsmap) jsmap"

definition add_rank :: "rat \<Rightarrow> stage_totals \<Rightarrow> FlowPathNode \<Rightarrow> stage_totals" where
  "add_rank v totals node =
     (case map_get totals (path_kind node) of
        None \<Rightarrow> totals
      | Some stageTotals \<Rightarrow>
          let current = nullish (map_get stageTotals (path_id node)) \<lparr>rank_node = node, rank_value = 0\<rparr> in
          map_put totals (path_kind node)
            (map_put stageTotals (path_id node) (current\<lparr>rank_value := rank_value current + v\<rparr>)))"

definition by_rank :: "(jsstring \<Rightarrow> jsstring \<Rightarrow> int) \<Rightarrow> FlowNodeRank \<Rightarrow> FlowNodeRank \<Rightarrow> bool" where
  "by_rank lc a b \<longleftrightarrow>
     then_cmp (rank_value b - rank_value a)
       (or_cmp (lc (path_label (rank_node a)) (path_label (rank_node b)))
               (lc (path_id (rank_node a)) (path_id (rank_node b)))) \<le> 0"

definition buildTopNodeSets ::
  "(jsstring \<Rightarrow> jsstring \<Rightarrow> int) \<Rightarrow> FlowQuotaDataItem list \<Rightarrow> FlowMetric \<Rightarrow> FlowNodeKind list \<Rightarrow> nat option \<Rightarrow>
   (int \<Rightarrow> jsstring option) \<Rightarrow> (FlowNodeKind, jsstring list) jsmap option" where
  "buildTopNodeSets lc rows metric stages limit ctx =
     (case limit of
        None \<Rightarrow> None
      | Some l \<Rightarrow>
          if l = 0 then None
          else
            let totals0 = foldl (\<lambda>m stage. map_put m stage []) [] stages;
                totals = foldl (\<lambda>totals row.
                    foldl (add_rank (metricValue (rowMetrics row) metric)) totals
                      (flowPathForStages ctx row stages)) totals0 rows
            in Some (map (\<lambda>(kind, stageTotals).
                 (kind, map (\<lambda>rank. path_id (rank_node rank))
                          (take l (sort_by (by_rank lc) (map snd stageTotals))))) totals))"

definition isTopFlowNode :: "FlowPathNode \<Rightarrow> (FlowNodeKind, jsstring list) jsmap \<Rightarrow> bool" where
  "isTopFlowNode node topNodeSets =
     (case map_get topNodeSets (path_kind node) of
        None \<Rightarrow> True
      | Some topNodes \<Rightarrow> path_id node \<in> set topNodes)"

definition applyTopNodeLimit ::
  "(FlowNodeKind \<Rightarrow> jsstring option) \<Rightarrow> FlowOverflowMode \<Rightarrow> (FlowNodeKind, jsstring list) jsmap option \<Rightarrow>
   FlowPathNode list \<Rightarrow> FlowPathNode list option" where
  "applyTopNodeLimit labeler mode topNodeSets path =
     (case topNodeSets of
        None \<Rightarrow> Some path
      | Some sets \<Rightarrow>
          if list_all (\<lambda>node. isTopFlowNode node sets) path then Some path
          else if mode = Hide then None
          else Some (map (\<lambda>node. if isTopFlowNode node sets then node
                                  else otherFlowNode labeler (path_kind node)) path))"

section \<open>Highlighting and masking\<close>

definition path_links :: "FlowPathNode list \<Rightarrow> (FlowPathNode \<times> FlowPathNode) list" where
  "path_links path = zip path (tl path)"

definition pathContainsFlowNode :: "FlowPathNode list \<Rightarrow> FlowNodeFilter \<Rightarrow> bool" where
  "pathContainsFlowNode path f =
     list_ex (\<lambda>node. path_kind node = filter_kind f \<and> path_id node = filter_id f) path"

definition pathContainsFlowLink :: "FlowPathNode list \<Rightarrow> FlowLinkSelection \<Rightarrow> bool" where
  "pathContainsFlowLink path link =
     list_ex (\<lambda>(a, b). path_id a = sel_source link \<and> path_id b = sel_target link) (path_links path)"

definition buildFlowHighlightSets ::
  "PreparedFlowPath list \<Rightarrow> FlowNodeFilter option \<Rightarrow> FlowLinkSelection option \<Rightarrow> FlowNodeKind list \<Rightarrow>
   (jsstring list \<times> jsstring list) option" where
  "buildFlowHighlightSets preparedPaths active link stages =
     (let nodeActive = (case active of None \<Rightarrow> False | Some n \<Rightarrow> filter_kind n \<in> set stages) in
      if \<not> nodeActive \<and> link = None then None
      else
        let matchesPath = (\<lambda>path. case link of
                Some l \<Rightarrow> pathContainsFlowLink path l
              | None \<Rightarrow> (case active of Some n \<Rightarrow> pathContainsFlowNode path n | None \<Rightarrow> False));
            paths = filter matchesPath (map prep_path preparedPaths);
            highlightedNodes = uniq (map path_id (concat paths));
            highlightedLinks = uniq (map (\<lambda>(a, b). pathLinkKey a b) (concat (map path_links paths)))
        in if highlightedNodes = [] then None else Some (highlightedNodes, highlightedLinks))"

definition FLOW_MASK_TEXT :: jsstring where
  "FLOW_MASK_TEXT = [8226, 8226, 8226, 8226]"

definition maskFlowLabel :: "jsstring \<Rightarrow> jsstring" where
  "maskFlowLabel label = (if label = [] then label else FLOW_MASK_TEXT)"

definition node_masked :: "DashboardFlowNode \<Rightarrow> bool" where
  "node_masked node \<longleftrightarrow>
     node_kind node \<in> set SENSITIVE_FLOW_KINDS \<and> node_id node \<notin> set OTHER_FLOW_NODE_ID_SET"

definition mask_node :: "DashboardFlowNode \<Rightarrow> DashboardFlowNode" where
  "mask_node node = (if node_masked node then node\<lparr>node_label := maskFlowLabel (node_label node)\<rparr> else node)"

definition maskedById :: "(jsstring, DashboardFlowNode) jsmap \<Rightarrow> (jsstring, jsstring) jsmap" where
  "maskedById nodes =
     foldl (\<lambda>m node. if node_masked node then map_put m (node_id node) (maskFlowLabel (node_label node)) else m)
       [] (map snd nodes)"

definition mask_link :: "(jsstring, jsstring) jsmap \<Rightarrow> DashboardFlowLink \<Rightarrow> DashboardFlowLink" where
  "mask_link masked link =
     link\<lparr>sourceLabel := nullish (map_get masked (link_source link)) (sourceLabel link),
          targetLabel := nullish (map_get masked (link_target link)) (targetLabel link)\<rparr>"

definition maskFlowGraphLabels ::
  "(jsstring, DashboardFlowNode) jsmap \<Rightarrow> (jsstring, DashboardFlowLink) jsmap \<Rightarrow>
   (jsstring, DashboardFlowNode) jsmap \<times> (jsstring, DashboardFlowLink) jsmap" where
  "maskFlowGraphLabels nodes links =
     (let masked = maskedById nodes;
          nodes' = map (\<lambda>(k, node). (k, mask_node node)) nodes
      in if masked = [] then (nodes', links)
         else (nodes', map (\<lambda>(k, link). (k, mask_link masked link)) links))"

definition applyFlowHighlights ::
  "(jsstring list \<times> jsstring list) option \<Rightarrow> (jsstring, DashboardFlowNode) jsmap \<times> (jsstring, DashboardFlowLink) jsmap \<Rightarrow>
   (jsstring, DashboardFlowNode) jsmap \<times> (jsstring, DashboardFlowLink) jsmap" where
  "applyFlowHighlights highlightSets g =
     (case highlightSets of
        None \<Rightarrow> g
      | Some (hn, hl) \<Rightarrow>
          (map (\<lambda>(k, node). (k, node\<lparr>node_highlighted := Some (node_id node \<in> set hn),
                                      node_dimmed := Some (node_id node \<notin> set hn)\<rparr>)) (fst g),
           map (\<lambda>(k, link). (k, link\<lparr>link_highlighted := Some (linkStableKey link \<in> set hl),
                                      link_dimmed := Some (linkStableKey link \<notin> set hl)\<rparr>)) (snd g)))"

section \<open>The graph\<close>

definition preparePaths ::
  "(jsstring \<Rightarrow> jsstring \<Rightarrow> int) \<Rightarrow> FlowQuotaDataItem list \<Rightarrow> FlowMetric \<Rightarrow> FlowNodeKind list \<Rightarrow>
   (int \<Rightarrow> jsstring option) \<Rightarrow> FlowGraphOptions \<Rightarrow> PreparedFlowPath list" where
  "preparePaths lc rows metric stages ctx opts =
     (let topNodeSets = buildTopNodeSets lc rows metric stages (normalizeTopNodeLimit (topNodeLimit opts)) ctx;
          mode = nullish (overflowMode opts) Aggregate
      in concat (map (\<lambda>row.
           case applyTopNodeLimit (otherNodeLabel opts) mode topNodeSets (flowPathForStages ctx row stages) of
             None \<Rightarrow> []
           | Some path \<Rightarrow> [\<lparr>prep_path = path, prep_metrics = rowMetrics row\<rparr>]) rows))"

definition root_ids :: "PreparedFlowPath list \<Rightarrow> jsstring list" where
  "root_ids prepared =
     filter (\<lambda>i. i \<noteq> []) (concat (map (\<lambda>p. case prep_path p of [] \<Rightarrow> [] | n # _ \<Rightarrow> [path_id n]) prepared))"

definition add_path ::
  "(jsstring \<Rightarrow> jsstring) \<Rightarrow> FlowMetric \<Rightarrow>
   (jsstring, DashboardFlowNode) jsmap \<times> (jsstring, DashboardFlowLink) jsmap \<Rightarrow> PreparedFlowPath \<Rightarrow>
   (jsstring, DashboardFlowNode) jsmap \<times> (jsstring, DashboardFlowLink) jsmap" where
  "add_path colorOf metric g prepared =
     (case prep_path prepared of
        [] \<Rightarrow> g
      | first # _ \<Rightarrow>
          let color = colorOf (path_id first); metrics = prep_metrics prepared in
          (fold (addNode metric metrics color (path_id first)) (prep_path prepared) (fst g),
           fold (addLink metric metrics color (path_id first)) (path_links (prep_path prepared)) (snd g)))"

definition by_source_target :: "(jsstring \<Rightarrow> jsstring \<Rightarrow> int) \<Rightarrow> DashboardFlowLink \<Rightarrow> DashboardFlowLink \<Rightarrow> bool" where
  "by_source_target lc a b \<longleftrightarrow>
     or_cmp (lc (link_source a) (link_source b)) (lc (link_target a) (link_target b)) \<le> 0"

definition set_shares :: "jsstring list \<Rightarrow> DashboardFlowLink list \<Rightarrow> DashboardFlowLink list" where
  "set_shares firstStepSources links =
     (let t = sum_list (map link_value (filter (\<lambda>l. link_source l \<in> set firstStepSources) links))
      in map (\<lambda>l. l\<lparr>share := if 0 < t then link_value l / t else 0\<rparr>) links)"

definition buildFlowGraph ::
  "chart_scheme \<Rightarrow> (jsstring \<Rightarrow> jsstring \<Rightarrow> int) \<Rightarrow> FlowQuotaDataItem list \<Rightarrow> FlowMetric \<Rightarrow> FlowRole \<Rightarrow>
   jsstring list option \<Rightarrow> FlowNodeKind list option \<Rightarrow> (int \<Rightarrow> jsstring option) \<Rightarrow> FlowGraphOptions \<Rightarrow>
   DashboardFlowGraph" where
  "buildFlowGraph sch lc rows metric role palette visibleStages ctx opts =
     (let stages = resolveVisibleStages role visibleStages;
          prepared = preparePaths lc rows metric stages ctx opts;
          colors = stableColorMap sch (sort_by (\<lambda>a b. lc a b \<le> 0) (root_ids prepared)) palette;
          colorOf = (\<lambda>i. nullish (map_get colors i) (colorAt sch 0 palette));
          built = foldl (add_path colorOf metric) ([], []) prepared;
          masked = (if maskSensitive opts then maskFlowGraphLabels (fst built) (snd built) else built);
          g = applyFlowHighlights
                (buildFlowHighlightSets prepared (activeNode opts) (activeLink opts) stages) masked;
          flowLinks = sort_by (by_source_target lc) (map snd (snd g))
      in \<lparr>graph_nodes = sort_by (byValueThenLabel lc) (map snd (fst g)),
          graph_links = assignLinkDisplayColors lc (set_shares (root_ids prepared) flowLinks)\<rparr>)"

section \<open>Filter options and the whole data set\<close>

record FlowFilterOption =
  opt_kind :: FlowNodeKind
  opt_value :: jsstring
  opt_label :: jsstring
  valueLabel :: jsstring
  valueRaw :: rat
  opt_color :: jsstring

definition add_user ::
  "(jsstring \<Rightarrow> jsstring) \<Rightarrow> FlowMetric \<Rightarrow> (jsstring, jsstring \<times> rat \<times> jsstring) jsmap \<Rightarrow> FlowQuotaDataItem \<Rightarrow>
   (jsstring, jsstring \<times> rat \<times> jsstring) jsmap" where
  "add_user colorOf metric users row =
     (let user = userNode row in
      if nullish (user_id row) 0 = 0 \<and> nullish (username row) [] = [] then users
      else case nullish (map_get users (path_id user)) (path_label user, 0, colorOf (path_id user)) of
        (label, v, color) \<Rightarrow>
          map_put users (path_id user) (label, v + metricValue (rowMetrics row) metric, color))"

definition by_option :: "(jsstring \<Rightarrow> jsstring \<Rightarrow> int) \<Rightarrow> FlowFilterOption \<Rightarrow> FlowFilterOption \<Rightarrow> bool" where
  "by_option lc a b \<longleftrightarrow> then_cmp (valueRaw b - valueRaw a) (lc (opt_label a) (opt_label b)) \<le> 0"

definition buildUserFilterOptions ::
  "(rat \<Rightarrow> jsstring) \<Rightarrow> chart_scheme \<Rightarrow> (jsstring \<Rightarrow> jsstring \<Rightarrow> int) \<Rightarrow> FlowQuotaDataItem list \<Rightarrow> FlowMetric \<Rightarrow>
   jsstring list option \<Rightarrow> FlowFilterOption list" where
  "buildUserFilterOptions fmt sch lc rows metric palette =
     (let colors = stableColorMap sch
            (sort_by (\<lambda>a b. lc a b \<le> 0) (map (\<lambda>row. path_id (userNode row)) rows)) palette;
          colorOf = (\<lambda>i. nullish (map_get colors i) (colorAt sch 0 palette));
          users = foldl (add_user colorOf metric) [] rows
      in sort_by (by_option lc)
           (map (\<lambda>(v, label, raw, color).
              \<lparr>opt_kind = UserKind, opt_value = v, opt_label = label, valueLabel = fmt raw,
               valueRaw = raw, opt_color = color\<rparr>) users))"

definition color_ids :: "FlowPathNode list list \<Rightarrow> jsstring list" where
  "color_ids paths = uniq (map path_id (concat paths))"

definition add_candidate ::
  "FlowMetric \<Rightarrow> (FlowQuotaDataItem \<Rightarrow> FlowPathNode) \<Rightarrow> (jsstring, FlowNodeRank) jsmap \<Rightarrow> FlowQuotaDataItem \<Rightarrow>
   (jsstring, FlowNodeRank) jsmap" where
  "add_candidate metric builder totals row =
     (let node = builder row;
          key = nodeFilterKey \<lparr>filter_kind = path_kind node, filter_id = path_id node\<rparr>;
          current = nullish (map_get totals key) \<lparr>rank_node = node, rank_value = 0\<rparr>
      in map_put totals key (current\<lparr>rank_value := rank_value current + metricValue (rowMetrics row) metric\<rparr>))"

definition stage_order :: "FlowNodeKind list \<Rightarrow> FlowNodeKind \<Rightarrow> nat" where
  "stage_order stages kind =
     (if kind \<in> set stages then length (takeWhile (\<lambda>k. k \<noteq> kind) stages) else 0)"

definition by_stage_option ::
  "(jsstring \<Rightarrow> jsstring \<Rightarrow> int) \<Rightarrow> FlowNodeKind list \<Rightarrow> FlowFilterOption \<Rightarrow> FlowFilterOption \<Rightarrow> bool" where
  "by_stage_option lc stages a b \<longleftrightarrow>
     or_cmp (int (stage_order stages (opt_kind a)) - int (stage_order stages (opt_kind b)))
       (then_cmp (valueRaw b - valueRaw a)
         (or_cmp (lc (opt_label a) (opt_label b)) (lc (opt_value a) (opt_value b)))) \<le> 0"

definition buildNodeFilterOptions ::
  "(rat \<Rightarrow> jsstring) \<Rightarrow> chart_scheme \<Rightarrow> (jsstring \<Rightarrow> jsstring \<Rightarrow> int) \<Rightarrow> FlowQuotaDataItem list \<Rightarrow> FlowMetric \<Rightarrow>
   FlowRole \<Rightarrow> FlowNodeKind list option \<Rightarrow> jsstring list option \<Rightarrow> (int \<Rightarrow> jsstring option) \<Rightarrow>
   FlowNodeFilter list option \<Rightarrow> FlowFilterOption list" where
  "buildNodeFilterOptions fmt sch lc rows metric role visibleStages palette ctx selectedNodes =
     (let stages = resolveVisibleStages role visibleStages;
          colors = stableColorMap sch
            (sort_by (\<lambda>a b. lc a b \<le> 0) (color_ids (map (\<lambda>row. flowPathForStages ctx row stages) rows))) palette;
          options_of = (\<lambda>stage.
            let candidateRows =
                  filterRowsByNodes rows (selectedNodeFiltersExceptKind selectedNodes stage) stages ctx;
                totals = foldl (add_candidate metric (NODE_BUILDERS ctx stage)) [] candidateRows
            in map (\<lambda>(k, rank).
                 \<lparr>opt_kind = path_kind (rank_node rank), opt_value = path_id (rank_node rank),
                  opt_label = path_label (rank_node rank), valueLabel = fmt (rank_value rank),
                  valueRaw = rank_value rank,
                  opt_color = nullish (map_get colors (path_id (rank_node rank))) (colorAt sch 0 palette)\<rparr>)
                 totals)
      in sort_by (by_stage_option lc stages) (concat (map options_of stages)))"

definition buildFlowFilterOptions ::
  "(rat \<Rightarrow> jsstring) \<Rightarrow> chart_scheme \<Rightarrow> (jsstring \<Rightarrow> jsstring \<Rightarrow> int) \<Rightarrow> FlowQuotaDataItem list \<Rightarrow> FlowMetric \<Rightarrow>
   jsstring list option \<Rightarrow> FlowRole \<Rightarrow> FlowNodeKind list option \<Rightarrow> FlowNodeFilter list option \<Rightarrow>
   FlowFilterOption list \<times> FlowFilterOption list" where
  "buildFlowFilterOptions fmt sch lc rows metric palette role visibleStages selectedNodes =
     (buildUserFilterOptions fmt sch lc rows metric palette,
      buildNodeFilterOptions fmt sch lc rows metric role visibleStages palette (\<lambda>_. None) selectedNodes)"

record FlowBuildOptions =
  fo_role :: "FlowRole option"
  fo_selectedUsers :: "jsstring list option"
  fo_selectedNodes :: "FlowNodeFilter list option"
  fo_colorPalette :: "jsstring list option"
  fo_visibleStages :: "FlowNodeKind list option"
  fo_deletedTokenLabel :: "int \<Rightarrow> jsstring option"
  fo_graph :: FlowGraphOptions

record ProcessedFlowData =
  flow_summary :: FlowMetrics
  flow_graph :: DashboardFlowGraph
  users_options :: "FlowFilterOption list"
  nodes_options :: "FlowFilterOption list"

definition flow_rows :: "FlowQuotaDataItem list \<Rightarrow> FlowBuildOptions \<Rightarrow> FlowQuotaDataItem list" where
  "flow_rows rows opts =
     filterRowsByNodes (filterRows rows (fo_selectedUsers opts)) (fo_selectedNodes opts)
       (resolveVisibleStages (nullish (fo_role opts) RoleUser) (fo_visibleStages opts))
       (fo_deletedTokenLabel opts)"

definition buildDashboardFlowData ::
  "(rat \<Rightarrow> jsstring) \<Rightarrow> chart_scheme \<Rightarrow> (jsstring \<Rightarrow> jsstring \<Rightarrow> int) \<Rightarrow> FlowQuotaDataItem list \<Rightarrow> FlowMetric \<Rightarrow>
   FlowBuildOptions \<Rightarrow> ProcessedFlowData" where
  "buildDashboardFlowData fmt sch lc rows metric opts =
     (let role = nullish (fo_role opts) RoleUser;
          palette = fo_colorPalette opts;
          ctx = fo_deletedTokenLabel opts;
          userFilteredRows = filterRows rows (fo_selectedUsers opts);
          filteredRows = flow_rows rows opts
      in \<lparr>flow_summary = buildSummary filteredRows,
          flow_graph = buildFlowGraph sch lc filteredRows metric role palette (fo_visibleStages opts) ctx (fo_graph opts),
          users_options = buildUserFilterOptions fmt sch lc rows metric palette,
          nodes_options = buildNodeFilterOptions fmt sch lc userFilteredRows metric role
            (fo_visibleStages opts) palette ctx (fo_selectedNodes opts)\<rparr>)"

section \<open>Selection helpers\<close>

datatype FlowDisplayState = FlowLoading | FlowError | FlowEmpty | FlowChart

definition requireSuccessfulFlowRows ::
  "bool \<Rightarrow> FlowQuotaDataItem list option \<Rightarrow> jsstring option \<Rightarrow> jsstring \<Rightarrow> jsstring + FlowQuotaDataItem list" where
  "requireSuccessfulFlowRows success data message fallbackMessage =
     (if \<not> success then Inl (opt_str_or message fallbackMessage) else Inr (nullish data []))"

definition flowDisplayState :: "bool \<Rightarrow> bool \<Rightarrow> nat \<Rightarrow> bool \<Rightarrow> FlowDisplayState" where
  "flowDisplayState isLoading isError linkCount themeReady =
     (if isLoading then FlowLoading
      else if isError then FlowError
      else if linkCount = 0 then FlowEmpty
      else if \<not> themeReady then FlowLoading
      else FlowChart)"

definition compactFlowSelectionLabel :: "int \<Rightarrow> jsstring" where
  "compactFlowSelectionLabel count = (if 0 < count then dec_int count else js ''*'')"

definition visibleFlowUsers :: "FlowFilterOption list \<Rightarrow> jsstring list \<Rightarrow> FlowFilterOption list" where
  "visibleFlowUsers users selectedUsers =
     (if selectedUsers = [] then users else filter (\<lambda>user. opt_value user \<in> set selectedUsers) users)"

end
