(* ===== verification/Flow_Graph_Laws.thy ===== *)
theory Flow_Graph_Laws
  imports Flow_Graph "HOL-Library.Multiset"
begin

text \<open>
  Laws of the usage-flow graph: every column of the graph carries the summary of the rows, what flows
  into a node flows out of it, the shares of the first step add up to one, a limit bounds the columns,
  and masking changes labels only.
\<close>

section \<open>Sorting and maps\<close>

lemma mset_insert_by [simp]: "mset (insert_by le x xs) = add_mset x (mset xs)"
  by (induction xs) auto

lemma mset_sort_by [simp]: "mset (sort_by le xs) = mset xs"
  unfolding sort_by_def by (induction xs) auto

lemma set_sort_by [simp]: "set (sort_by le xs) = set xs"
  by (rule mset_eq_setD) simp

lemma length_sort_by [simp]: "length (sort_by le xs) = length xs"
  by (rule mset_eq_length) simp

lemma insert_by_map:
  assumes "\<And>a b. le (f a) (f b) = le' a b"
  shows "insert_by le (f x) (map f xs) = map f (insert_by le' x xs)"
  using assms by (induction xs) auto

lemma sort_by_map:
  assumes "\<And>a b. le (f a) (f b) = le' a b"
  shows "sort_by le (map f xs) = map f (sort_by le' xs)"
  unfolding sort_by_def using insert_by_map [of le f le', OF assms] by (induction xs) auto

text \<open>The sum of a measure over the entries of a map.\<close>

definition wsum :: "('k \<Rightarrow> 'v \<Rightarrow> rat) \<Rightarrow> ('k, 'v) jsmap \<Rightarrow> rat" where
  "wsum f m = sum_list (map (\<lambda>(k, v). f k v) m)"

lemma wsum_Nil [simp]: "wsum f [] = 0"
  by (simp add: wsum_def)

lemma wsum_put:
  "wsum f (map_put m k v) = wsum f m + f k v - (case map_get m k of None \<Rightarrow> 0 | Some v0 \<Rightarrow> f k v0)"
  by (induction m) (auto simp: wsum_def split: option.splits)

section \<open>Identifiers of nodes\<close>

definition well_named :: "FlowPathNode \<Rightarrow> bool" where
  "well_named n \<longleftrightarrow> (\<exists>r. path_id n = kind_name (path_kind n) @ 58 # r)"

lemma kind_name_inj: "kind_name k @ 58 # r = kind_name k' @ 58 # r' \<Longrightarrow> k = k'"
  by (cases k; cases k') simp_all

lemma well_named_kind: "well_named a \<Longrightarrow> well_named b \<Longrightarrow> path_id a = path_id b \<Longrightarrow> path_kind a = path_kind b"
  unfolding well_named_def by (metis kind_name_inj)

lemma builder_kind [simp]: "path_kind (NODE_BUILDERS ctx k row) = k"
  by (cases k) (simp_all add: userNode_def nodeNameNode_def tokenNode_def groupNode_def modelNode_def
      channelNode_def Let_def)

lemma builder_well_named: "well_named (NODE_BUILDERS ctx k row)"
  by (cases k) (simp_all add: well_named_def userNode_def nodeNameNode_def tokenNode_def groupNode_def
      modelNode_def channelNode_def Let_def)

lemma other_well_named: "well_named (otherFlowNode lb k)"
  by (cases k) (simp_all add: well_named_def otherFlowNode_def OTHER_FLOW_NODE_IDS_def)

lemma other_kind [simp]: "path_kind (otherFlowNode lb k) = k"
  by (simp add: otherFlowNode_def)

definition nul_free :: "FlowQuotaDataItem \<Rightarrow> bool" where
  "nul_free row \<longleftrightarrow>
     0 \<notin> set (nullish (username row) []) \<and> 0 \<notin> set (nullish (node_name row) []) \<and>
     0 \<notin> set (nullish (token_name row) []) \<and> 0 \<notin> set (nullish (use_group row) []) \<and>
     0 \<notin> set (nullish (model_name row) []) \<and> 0 \<notin> set (nullish (channel_name row) [])"

lemma dec_nul_free [simp]: "0 \<notin> set (dec n)"
  by (induction n rule: dec.induct) (subst dec.simps, auto)

lemma dec_int_nul_free [simp]: "0 \<notin> set (dec_int i)"
  by (simp add: dec_int_def)

lemma opt_str_or_nul_free: "0 \<notin> set (nullish s []) \<Longrightarrow> 0 \<notin> set t \<Longrightarrow> 0 \<notin> set (opt_str_or s t)"
  by (cases s) (auto simp: str_or_def)

lemma builder_nul_free: "nul_free row \<Longrightarrow> 0 \<notin> set (path_id (NODE_BUILDERS ctx k row))"
  by (cases k) (simp_all add: nul_free_def userNode_def nodeNameNode_def tokenNode_def groupNode_def
      modelNode_def channelNode_def Let_def opt_str_or_nul_free)

lemma other_nul_free: "0 \<notin> set (path_id (otherFlowNode lb k))"
  by (cases k) (simp_all add: otherFlowNode_def OTHER_FLOW_NODE_IDS_def)

lemma link_key_inj:
  assumes "0 \<notin> set (path_id a)" "0 \<notin> set (path_id a')" "pathLinkKey a b = pathLinkKey a' b'"
  shows "path_id a = path_id a' \<and> path_id b = path_id b'"
proof -
  have "takeWhile (\<lambda>c. c \<noteq> 0) (pathLinkKey x y) = path_id x" if "0 \<notin> set (path_id x)" for x y
    using that unfolding pathLinkKey_def
    by (subst takeWhile_append2) (auto intro: gr0I)
  with assms have "path_id a = path_id a'" by metis
  with assms(3) show ?thesis by (simp add: pathLinkKey_def)
qed

section \<open>Prepared paths\<close>

definition path_ok :: "FlowNodeKind list \<Rightarrow> FlowPathNode list \<Rightarrow> bool" where
  "path_ok stages path \<longleftrightarrow> map path_kind path = stages \<and> (\<forall>n\<in>set path. well_named n)"

definition path_nul_free :: "FlowPathNode list \<Rightarrow> bool" where
  "path_nul_free path \<longleftrightarrow> (\<forall>n\<in>set path. 0 \<notin> set (path_id n))"

lemma path_ok_kind: "path_ok stages path \<Longrightarrow> n \<in> set path \<Longrightarrow> path_kind n \<in> set stages"
  unfolding path_ok_def by (metis image_eqI list.set_map)

lemma flowPath_ok: "path_ok stages (flowPathForStages ctx row stages)"
  by (auto simp: path_ok_def flowPathForStages_def builder_well_named comp_def)

lemma limited_path_ok:
  assumes "path_ok stages path" "applyTopNodeLimit lb mode ts path = Some path'"
  shows "path_ok stages path'"
  using assms
  by (auto simp: path_ok_def applyTopNodeLimit_def other_well_named comp_def
      split: option.splits if_splits)

lemma limited_nul_free:
  assumes "path_nul_free path" "applyTopNodeLimit lb mode ts path = Some path'"
  shows "path_nul_free path'"
  using assms
  by (auto simp: path_nul_free_def applyTopNodeLimit_def other_nul_free split: option.splits if_splits)

lemma prepared_from:
  assumes "p \<in> set (preparePaths lc rows metric stages ctx opts)"
  obtains row where "row \<in> set rows" "prep_metrics p = rowMetrics row"
    "applyTopNodeLimit (otherNodeLabel opts) (nullish (overflowMode opts) Aggregate)
       (buildTopNodeSets lc rows metric stages (normalizeTopNodeLimit (topNodeLimit opts)) ctx)
       (flowPathForStages ctx row stages) = Some (prep_path p)"
  using assms by (auto simp: preparePaths_def Let_def split: option.splits)

lemma prepared_ok: "p \<in> set (preparePaths lc rows metric stages ctx opts) \<Longrightarrow> path_ok stages (prep_path p)"
  by (erule prepared_from) (rule limited_path_ok [OF flowPath_ok])

lemma flowPath_nul_free: "nul_free row \<Longrightarrow> path_nul_free (flowPathForStages ctx row stages)"
  by (auto simp: path_nul_free_def flowPathForStages_def builder_nul_free)

lemma prepared_nul_free:
  assumes "\<forall>row\<in>set rows. nul_free row" "p \<in> set (preparePaths lc rows metric stages ctx opts)"
  shows "path_nul_free (prep_path p)"
  using assms(2) by (rule prepared_from) (metis assms(1) flowPath_nul_free limited_nul_free)

lemma stages_distinct: "distinct (resolveVisibleStages role vs)"
  by (cases role) (auto simp: resolveVisibleStages_def Let_def split: option.splits)

lemma stages_two: "2 \<le> length (resolveVisibleStages role vs)"
  by (cases role) (auto simp: resolveVisibleStages_def Let_def MIN_FLOW_STAGES_def split: option.splits)

section \<open>What the nodes and links of the graph carry\<close>

abbreviation pmetric :: "FlowMetric \<Rightarrow> PreparedFlowPath \<Rightarrow> rat" where
  "pmetric metric p \<equiv> metricValue (prep_metrics p) metric"

definition nodes_ok :: "(jsstring, DashboardFlowNode) jsmap \<Rightarrow> bool" where
  "nodes_ok m \<longleftrightarrow> distinct (map fst m) \<and>
     (\<forall>(i, n)\<in>set m. node_id n = i \<and> (\<exists>r. i = kind_name (node_kind n) @ 58 # r))"

definition links_ok :: "(jsstring, DashboardFlowLink) jsmap \<Rightarrow> bool" where
  "links_ok m \<longleftrightarrow> distinct (map fst m) \<and>
     (\<forall>(i, l)\<in>set m. linkStableKey l = i \<and> 0 \<notin> set (link_source l))"

lemma map_get_in: "map_get m k = Some v \<Longrightarrow> (k, v) \<in> set m"
  by (rule map_of_SomeD)

lemma set_put: "(i, x) \<in> set (map_put m k v) \<Longrightarrow> distinct (map fst m) \<Longrightarrow> (i, x) = (k, v) \<or> (i, x) \<in> set m"
  by (induction m) (auto split: if_splits)

lemma addNode_ok:
  assumes "nodes_ok m" "well_named p"
  shows "nodes_ok (addNode metric ms c ck p m)"
  using assms
  by (auto simp: nodes_ok_def addNode_def Let_def new_node_def well_named_def nullish_def distinct_update
      dest!: set_put map_get_in split: option.splits)

lemma addLink_ok:
  assumes "links_ok m" "0 \<notin> set (path_id (fst ab))"
  shows "links_ok (addLink metric ms c ck ab m)"
  using assms
  by (auto simp: links_ok_def addLink_def Let_def new_link_def nullish_def distinct_update
      linkStableKey_def pathLinkKey_def dest!: set_put map_get_in split: option.splits)

text \<open>Adding a node adds its metric to every measure that only looks at the identifier and the kind.\<close>

definition node_sum :: "(jsstring \<Rightarrow> FlowNodeKind \<Rightarrow> bool) \<Rightarrow> (jsstring, DashboardFlowNode) jsmap \<Rightarrow> rat" where
  "node_sum P = wsum (\<lambda>i n. if P i (node_kind n) then node_value n else 0)"

definition link_sum :: "(jsstring \<Rightarrow> jsstring \<Rightarrow> bool) \<Rightarrow> (jsstring, DashboardFlowLink) jsmap \<Rightarrow> rat" where
  "link_sum P = wsum (\<lambda>_ l. if P (link_source l) (link_target l) then link_value l else 0)"

lemma node_kind_known:
  assumes "nodes_ok m" "well_named p" "map_get m (path_id p) = Some n"
  shows "node_kind n = path_kind p"
proof -
  from assms have "\<exists>r. path_id p = kind_name (node_kind n) @ 58 # r"
    by (auto simp: nodes_ok_def dest!: map_get_in)
  with assms(2) show ?thesis unfolding well_named_def by (metis kind_name_inj)
qed

lemma addNode_sum:
  assumes "nodes_ok m" "well_named p"
  shows "node_sum P (addNode metric ms c ck p m) =
           node_sum P m + (if P (path_id p) (path_kind p) then metricValue ms metric else 0)"
  using node_kind_known [OF assms]
  by (auto simp: node_sum_def addNode_def Let_def wsum_put new_node_def nullish_def split: option.splits)

lemma link_ends_known:
  assumes "links_ok m" "0 \<notin> set (path_id a)" "map_get m (pathLinkKey a b) = Some l"
  shows "link_source l = path_id a \<and> link_target l = path_id b"
proof -
  let ?n = "\<lambda>i. \<lparr>path_id = i, path_label = [], path_kind = UserKind\<rparr>"
  from assms have *: "linkStableKey l = pathLinkKey a b" "0 \<notin> set (link_source l)"
    by (auto simp: links_ok_def dest!: map_get_in)
  then have "pathLinkKey a b = pathLinkKey (?n (link_source l)) (?n (link_target l))"
    by (simp add: linkStableKey_def pathLinkKey_def)
  from link_key_inj [OF assms(2) _ this] * show ?thesis by simp
qed

lemma addLink_sum:
  assumes "links_ok m" "0 \<notin> set (path_id (fst ab))"
  shows "link_sum P (addLink metric ms c ck ab m) =
           link_sum P m + (if P (path_id (fst ab)) (path_id (snd ab)) then metricValue ms metric else 0)"
  using link_ends_known [OF assms]
  by (auto simp: link_sum_def addLink_def Let_def wsum_put new_link_def nullish_def split: option.splits)

section \<open>Building the graph\<close>

lemma fold_addNode:
  assumes "nodes_ok m" "\<forall>p\<in>set ps. well_named p"
  shows "nodes_ok (fold (addNode metric ms c ck) ps m) \<and>
    node_sum P (fold (addNode metric ms c ck) ps m) =
      node_sum P m + (\<Sum>p\<leftarrow>ps. if P (path_id p) (path_kind p) then metricValue ms metric else 0)"
  using assms by (induction ps arbitrary: m) (auto simp: addNode_ok addNode_sum)

lemma fold_addLink:
  assumes "links_ok m" "\<forall>ab\<in>set ls. 0 \<notin> set (path_id (fst ab))"
  shows "links_ok (fold (addLink metric ms c ck) ls m) \<and>
    link_sum P (fold (addLink metric ms c ck) ls m) =
      link_sum P m + (\<Sum>ab\<leftarrow>ls. if P (path_id (fst ab)) (path_id (snd ab)) then metricValue ms metric else 0)"
  using assms by (induction ls arbitrary: m) (auto simp: addLink_ok addLink_sum)

definition path_node_sum :: "(jsstring \<Rightarrow> FlowNodeKind \<Rightarrow> bool) \<Rightarrow> FlowMetric \<Rightarrow> PreparedFlowPath \<Rightarrow> rat" where
  "path_node_sum P metric p =
     (\<Sum>n\<leftarrow>prep_path p. if P (path_id n) (path_kind n) then pmetric metric p else 0)"

definition path_link_sum :: "(jsstring \<Rightarrow> jsstring \<Rightarrow> bool) \<Rightarrow> FlowMetric \<Rightarrow> PreparedFlowPath \<Rightarrow> rat" where
  "path_link_sum P metric p =
     (\<Sum>ab\<leftarrow>path_links (prep_path p). if P (path_id (fst ab)) (path_id (snd ab)) then pmetric metric p else 0)"

lemma add_path_nodes:
  assumes "nodes_ok (fst g)" "\<forall>n\<in>set (prep_path p). well_named n"
  shows "nodes_ok (fst (add_path co metric g p)) \<and>
    node_sum P (fst (add_path co metric g p)) = node_sum P (fst g) + path_node_sum P metric p"
proof (cases "prep_path p")
  case Nil
  with assms show ?thesis by (simp add: add_path_def path_node_sum_def)
next
  case (Cons n ns)
  show ?thesis
    using fold_addNode [OF assms, of metric "prep_metrics p" "co (path_id n)" "path_id n" P] Cons
    by (simp add: add_path_def Let_def path_node_sum_def)
qed

lemma path_links_source: "ab \<in> set (path_links path) \<Longrightarrow> fst ab \<in> set path"
  by (cases ab) (auto simp: path_links_def dest: set_zip_leftD)

lemma add_path_links:
  assumes "links_ok (snd g)" "path_nul_free (prep_path p)"
  shows "links_ok (snd (add_path co metric g p)) \<and>
    link_sum P (snd (add_path co metric g p)) = link_sum P (snd g) + path_link_sum P metric p"
proof (cases "prep_path p")
  case Nil
  with assms show ?thesis by (simp add: add_path_def path_link_sum_def path_links_def)
next
  case (Cons n ns)
  have "\<forall>ab\<in>set (path_links (prep_path p)). 0 \<notin> set (path_id (fst ab))"
    using assms(2) by (auto simp: path_nul_free_def dest: path_links_source)
  from fold_addLink [OF assms(1) this, of metric "prep_metrics p" "co (path_id n)" "path_id n" P] Cons
  show ?thesis by (simp add: add_path_def Let_def path_link_sum_def)
qed

abbreviation built :: "(jsstring \<Rightarrow> jsstring) \<Rightarrow> FlowMetric \<Rightarrow> PreparedFlowPath list \<Rightarrow>
    (jsstring, DashboardFlowNode) jsmap \<times> (jsstring, DashboardFlowLink) jsmap" where
  "built co metric ps \<equiv> foldl (add_path co metric) ([], []) ps"

lemma built_nodes:
  assumes "\<forall>p\<in>set ps. path_ok stages (prep_path p)"
  shows "nodes_ok (fst (built co metric ps)) \<and>
    node_sum P (fst (built co metric ps)) = (\<Sum>p\<leftarrow>ps. path_node_sum P metric p)"
  using assms
proof (induction ps rule: rev_induct)
  case Nil
  show ?case by (simp add: nodes_ok_def node_sum_def)
next
  case (snoc p ps)
  then show ?case
    using add_path_nodes [of "built co metric ps" p co metric P] by (auto simp: path_ok_def)
qed

lemma built_links:
  assumes "\<forall>p\<in>set ps. path_nul_free (prep_path p)"
  shows "links_ok (snd (built co metric ps)) \<and>
    link_sum P (snd (built co metric ps)) = (\<Sum>p\<leftarrow>ps. path_link_sum P metric p)"
  using assms
proof (induction ps rule: rev_induct)
  case Nil
  show ?case by (simp add: links_ok_def link_sum_def)
next
  case (snoc p ps)
  then show ?case
    using add_path_links [of "built co metric ps" p co metric P] by auto
qed

section \<open>From the maps to the graph\<close>

definition node_core :: "DashboardFlowNode \<Rightarrow> jsstring \<times> FlowNodeKind \<times> rat" where
  "node_core n = (node_id n, node_kind n, node_value n)"

definition link_core :: "DashboardFlowLink \<Rightarrow> jsstring \<times> jsstring \<times> rat" where
  "link_core l = (link_source l, link_target l, link_value l)"

lemma mask_core [simp]:
  "map (\<lambda>kn. node_core (snd kn)) (fst (maskFlowGraphLabels ns ls)) = map (\<lambda>kn. node_core (snd kn)) ns"
  "map (\<lambda>kl. link_core (snd kl)) (snd (maskFlowGraphLabels ns ls)) = map (\<lambda>kl. link_core (snd kl)) ls"
  by (simp_all add: maskFlowGraphLabels_def Let_def comp_def case_prod_beta mask_node_def mask_link_def
      node_core_def link_core_def)

lemma highlight_core [simp]:
  "map (\<lambda>kn. node_core (snd kn)) (fst (applyFlowHighlights h g)) = map (\<lambda>kn. node_core (snd kn)) (fst g)"
  "map (\<lambda>kl. link_core (snd kl)) (snd (applyFlowHighlights h g)) = map (\<lambda>kl. link_core (snd kl)) (snd g)"
  by (simp_all add: applyFlowHighlights_def comp_def case_prod_beta node_core_def link_core_def
      split: option.splits)

lemma colour_core [simp]: "map link_core (assignLinkDisplayColors lc ls) = map link_core ls"
  by (simp add: assignLinkDisplayColors_def Let_def comp_def link_core_def)

lemma share_core [simp]: "map link_core (set_shares fs ls) = map link_core ls"
  by (simp add: set_shares_def Let_def comp_def link_core_def)

lemma mset_map_sort_by [simp]: "mset (map f (sort_by le xs)) = mset (map f xs)"
  by (metis mset_map mset_sort_by)

lemma maybe_mask_core [simp]:
  "map (\<lambda>kn. node_core (snd kn)) (fst (if b then maskFlowGraphLabels (fst g) (snd g) else g)) =
   map (\<lambda>kn. node_core (snd kn)) (fst g)"
  "map (\<lambda>kl. link_core (snd kl)) (snd (if b then maskFlowGraphLabels (fst g) (snd g) else g)) =
   map (\<lambda>kl. link_core (snd kl)) (snd g)"
  by (cases b; simp)+

lemma mset_core_entries:
  "mset (map f (sort_by le (map snd xs))) = mset (map (\<lambda>kv. f (snd kv)) xs)"
  by (simp add: comp_def image_mset.compositionality)

lemma graph_cores:
  obtains co where
    "mset (map node_core (graph_nodes (buildFlowGraph sch lc rows metric role palette vs ctx opts))) =
     mset (map (\<lambda>kn. node_core (snd kn))
       (fst (built co metric (preparePaths lc rows metric (resolveVisibleStages role vs) ctx opts))))"
    "mset (map link_core (graph_links (buildFlowGraph sch lc rows metric role palette vs ctx opts))) =
     mset (map (\<lambda>kl. link_core (snd kl))
       (snd (built co metric (preparePaths lc rows metric (resolveVisibleStages role vs) ctx opts))))"
proof -
  let ?ps = "preparePaths lc rows metric (resolveVisibleStages role vs) ctx opts"
  let ?co = "\<lambda>i. nullish (map_get (stableColorMap sch (sort_by (\<lambda>a b. lc a b \<le> 0) (root_ids ?ps)) palette) i)
    (colorAt sch 0 palette)"
  show ?thesis
    by (rule that [of ?co])
      (simp_all only: buildFlowGraph_def Let_def DashboardFlowGraph.select_convs colour_core share_core
        mset_core_entries highlight_core maybe_mask_core)
qed

lemma sum_list_mset_cong: "mset xs = mset ys \<Longrightarrow> sum_list (map f xs) = (sum_list (map f ys) :: rat)"
  by (metis mset_map sum_mset_sum_list)

lemma mset_map_cong: "mset xs = mset ys \<Longrightarrow> mset (map f xs) = mset (map f ys)"
  by simp

abbreviation the_graph where
  "the_graph sch lc rows metric role palette vs ctx opts \<equiv>
     buildFlowGraph sch lc rows metric role palette vs ctx opts"

abbreviation the_paths where
  "the_paths lc rows metric role vs ctx opts \<equiv>
     preparePaths lc rows metric (resolveVisibleStages role vs) ctx opts"

lemma graph_node_sum:
  "(\<Sum>n\<leftarrow>graph_nodes (the_graph sch lc rows metric role palette vs ctx opts).
      if P (node_id n) (node_kind n) then node_value n else 0) =
   (\<Sum>p\<leftarrow>the_paths lc rows metric role vs ctx opts. path_node_sum P metric p)"
    (is "(\<Sum>n\<leftarrow>?nodes. _) = (\<Sum>p\<leftarrow>?ps. _)")
proof -
  let ?F = "\<lambda>(i, k, v). if P i k then v else (0::rat)"
  obtain co where *: "mset (map node_core ?nodes) = mset (map (\<lambda>kn. node_core (snd kn)) (fst (built co metric ?ps)))"
    by (rule graph_cores)
  have ok: "nodes_ok (fst (built co metric ?ps))"
    and sum: "node_sum P (fst (built co metric ?ps)) = (\<Sum>p\<leftarrow>?ps. path_node_sum P metric p)"
    using built_nodes [of ?ps "resolveVisibleStages role vs" co metric P] prepared_ok by auto
  have "(\<Sum>n\<leftarrow>?nodes. if P (node_id n) (node_kind n) then node_value n else 0) =
      sum_list (map ?F (map node_core ?nodes))"
    by (simp add: comp_def node_core_def)
  also have "\<dots> = sum_list (map ?F (map (\<lambda>kn. node_core (snd kn)) (fst (built co metric ?ps))))"
    by (rule sum_list_mset_cong [OF *])
  also have "\<dots> = node_sum P (fst (built co metric ?ps))"
    unfolding node_sum_def wsum_def map_map comp_def
    by (rule arg_cong [where f = sum_list], rule map_cong [OF refl])
      (use ok in \<open>auto simp: nodes_ok_def node_core_def\<close>)
  finally show ?thesis using sum by simp
qed

lemma graph_link_sum:
  assumes "\<forall>row\<in>set rows. nul_free row"
  shows "(\<Sum>l\<leftarrow>graph_links (the_graph sch lc rows metric role palette vs ctx opts).
      if P (link_source l) (link_target l) then link_value l else 0) =
   (\<Sum>p\<leftarrow>the_paths lc rows metric role vs ctx opts. path_link_sum P metric p)"
    (is "(\<Sum>n\<leftarrow>?links. _) = (\<Sum>p\<leftarrow>?ps. _)")
proof -
  let ?F = "\<lambda>(i, k, v). if P i k then v else (0::rat)"
  obtain co where *: "mset (map link_core ?links) = mset (map (\<lambda>kn. link_core (snd kn)) (snd (built co metric ?ps)))"
    by (rule graph_cores)
  have sum: "link_sum P (snd (built co metric ?ps)) = (\<Sum>p\<leftarrow>?ps. path_link_sum P metric p)"
    using built_links [of ?ps co metric P] prepared_nul_free [OF assms] by auto
  have "(\<Sum>l\<leftarrow>?links. if P (link_source l) (link_target l) then link_value l else 0) =
      sum_list (map ?F (map link_core ?links))"
    by (simp add: comp_def link_core_def)
  also have "\<dots> = sum_list (map ?F (map (\<lambda>kn. link_core (snd kn)) (snd (built co metric ?ps))))"
    by (rule sum_list_mset_cong [OF *])
  also have "\<dots> = link_sum P (snd (built co metric ?ps))"
    unfolding link_sum_def wsum_def map_map comp_def
    by (rule arg_cong [where f = sum_list], rule map_cong [OF refl]) (auto simp: link_core_def)
  finally show ?thesis using sum by simp
qed

lemma graph_nodes_ok:
  fixes sch lc rows metric role palette vs ctx opts
  defines "g \<equiv> the_graph sch lc rows metric role palette vs ctx opts"
  shows "distinct (map node_id (graph_nodes g))"
    and "n \<in> set (graph_nodes g) \<Longrightarrow> \<exists>r. node_id n = kind_name (node_kind n) @ 58 # r"
proof -
  let ?ps = "the_paths lc rows metric role vs ctx opts"
  obtain co where *: "mset (map node_core (graph_nodes g)) =
      mset (map (\<lambda>kn. node_core (snd kn)) (fst (built co metric ?ps)))"
    unfolding g_def by (rule graph_cores)
  have ok: "nodes_ok (fst (built co metric ?ps))"
    using built_nodes [of ?ps "resolveVisibleStages role vs" co metric] prepared_ok by auto
  then have ids: "map (\<lambda>kn. node_id (snd kn)) (fst (built co metric ?ps)) = map fst (fst (built co metric ?ps))"
    by (auto simp: nodes_ok_def)
  have "mset (map fst (map node_core (graph_nodes g))) =
      mset (map fst (map (\<lambda>kn. node_core (snd kn)) (fst (built co metric ?ps))))"
    by (rule mset_map_cong [OF *])
  then have "mset (map node_id (graph_nodes g)) = mset (map fst (fst (built co metric ?ps)))"
    using ids by (simp only: map_map comp_def node_core_def fst_conv)
  then show "distinct (map node_id (graph_nodes g))"
    using ok mset_eq_imp_distinct_iff unfolding nodes_ok_def by blast
  have set_eq: "node_core ` set (graph_nodes g) = (\<lambda>kn. node_core (snd kn)) ` set (fst (built co metric ?ps))"
    using mset_eq_setD [OF *] by (simp only: list.set_map)
  assume "n \<in> set (graph_nodes g)"
  then have "node_core n \<in> (\<lambda>kn. node_core (snd kn)) ` set (fst (built co metric ?ps))"
    using set_eq by blast
  then show "\<exists>r. node_id n = kind_name (node_kind n) @ 58 # r"
    using ok by (auto simp: node_core_def nodes_ok_def)
qed

section \<open>Columns carry the summary\<close>

lemma column_of_path:
  assumes "distinct (map path_kind path)" "k \<in> path_kind ` set path"
  shows "(\<Sum>n\<leftarrow>path. if path_kind n = k then c else 0) = (c :: rat)"
  using assms
proof (induction path)
  case (Cons n path)
  have "k \<notin> path_kind ` set path \<Longrightarrow> (\<Sum>n\<leftarrow>path. if path_kind n = k then c else 0) = 0"
    by (induction path) auto
  with Cons show ?case by (cases "path_kind n = k") auto
qed simp

lemma path_ok_column:
  assumes "path_ok stages (prep_path p)" "distinct stages" "k \<in> set stages"
  shows "path_node_sum (\<lambda>_ k'. k' = k) metric p = pmetric metric p"
  unfolding path_node_sum_def
  by (rule column_of_path) (use assms in \<open>auto simp: path_ok_def\<close>)

lemma limit_total:
  assumes "mode \<noteq> Hide \<or> ts = None"
  obtains path' where "applyTopNodeLimit lb mode ts path = Some path'"
proof (cases ts)
  case None
  then show ?thesis by (auto intro: that simp: applyTopNodeLimit_def)
next
  case (Some sets)
  with assms have "mode \<noteq> Hide" by simp
  with Some show ?thesis
    by (cases "list_all (\<lambda>n. isTopFlowNode n sets) path") (rule that, simp add: applyTopNodeLimit_def)+
qed

lemma prepared_metrics:
  assumes "overflowMode opts \<noteq> Some Hide \<or> normalizeTopNodeLimit (topNodeLimit opts) = None"
  shows "map prep_metrics (preparePaths lc rows metric stages ctx opts) = map rowMetrics rows"
proof -
  define ts where "ts = buildTopNodeSets lc rows metric stages (normalizeTopNodeLimit (topNodeLimit opts)) ctx"
  define mode where "mode = nullish (overflowMode opts) Aggregate"
  have ok: "mode \<noteq> Hide \<or> ts = None"
    using assms by (cases "overflowMode opts") (auto simp: ts_def mode_def buildTopNodeSets_def)
  have "map prep_metrics (concat (map (\<lambda>row.
      case applyTopNodeLimit (otherNodeLabel opts) mode ts (flowPathForStages ctx row stages) of
        None \<Rightarrow> [] | Some path \<Rightarrow> [\<lparr>prep_path = path, prep_metrics = rowMetrics row\<rparr>]) rs)) = map rowMetrics rs" for rs
  proof (induction rs)
    case (Cons row rs)
    obtain path' where "applyTopNodeLimit (otherNodeLabel opts) mode ts (flowPathForStages ctx row stages) = Some path'"
      using ok by (rule limit_total)
    with Cons show ?case by simp
  qed simp
  then show ?thesis by (simp add: preparePaths_def Let_def ts_def mode_def)
qed

lemma summary_fold:
  "metricValue (foldl (\<lambda>summary row. let metrics = rowMetrics row in
        \<lparr>m_quota = m_quota summary + m_quota metrics, m_tokens = m_tokens summary + m_tokens metrics,
         m_requests = m_requests summary + m_requests metrics\<rparr>) s rows) metric =
   metricValue s metric + (\<Sum>row\<leftarrow>rows. metricValue (rowMetrics row) metric)"
  by (induction rows arbitrary: s) (cases metric; simp add: Let_def)+

lemma summary_sum: "metricValue (buildSummary rows) metric = (\<Sum>row\<leftarrow>rows. metricValue (rowMetrics row) metric)"
  unfolding buildSummary_def summary_fold by (cases metric) simp_all

lemma column_sum:
  assumes "k \<in> set (resolveVisibleStages role vs)"
  shows "(\<Sum>n\<leftarrow>filter (\<lambda>n. node_kind n = k) (graph_nodes (the_graph sch lc rows metric role palette vs ctx opts)).
      node_value n) = (\<Sum>p\<leftarrow>the_paths lc rows metric role vs ctx opts. pmetric metric p)"
proof -
  have "path_node_sum (\<lambda>_ k'. k' = k) metric p = pmetric metric p"
    if "p \<in> set (the_paths lc rows metric role vs ctx opts)" for p
    using path_ok_column [OF prepared_ok [OF that] stages_distinct assms] .
  then show ?thesis
    using graph_node_sum [of "\<lambda>_ k'. k' = k" sch lc rows metric role palette vs ctx opts]
    by (simp add: sum_list_map_filter' cong: map_cong)
qed

section \<open>Samples\<close>

definition sample_row :: "jsstring \<Rightarrow> jsstring \<Rightarrow> rat \<Rightarrow> FlowQuotaDataItem" where
  "sample_row tok model q =
     \<lparr>user_id = None, username = None, node_name = None, use_group = Some (js ''default''), token_id = None,
      token_name = Some tok, channel_id = None, channel_name = None, model_name = Some model,
      token_used = Some 7, row_count = Some 1, row_quota = Some q\<rparr>"

definition sample_rows :: "FlowQuotaDataItem list" where
  "sample_rows = [sample_row (js ''a'') (js ''m'') 3, sample_row (js ''b'') (js ''m'') 2]"

definition sample_options :: FlowGraphOptions where
  "sample_options = \<lparr>topNodeLimit = Some 1, overflowMode = None, otherNodeLabel = (\<lambda>_. None),
     activeNode = None, activeLink = None, maskSensitive = False\<rparr>"

definition sample_build :: FlowBuildOptions where
  "sample_build = \<lparr>fo_role = None, fo_selectedUsers = None, fo_selectedNodes = None, fo_colorPalette = None,
     fo_visibleStages = None, fo_deletedTokenLabel = (\<lambda>_. None), fo_graph = sample_options\<rparr>"

definition sample_scheme :: chart_scheme where
  "sample_scheme = ([], None, [])"

section \<open>Properties\<close>



section \<open>Flow through a node\<close>

lemma sum_distinct_key:
  assumes "distinct (map f xs)" "x \<in> set xs"
  shows "(\<Sum>y\<leftarrow>xs. if f y = f x then v y else 0) = (v x :: rat)"
  using assms
proof (induction xs)
  case (Cons y xs)
  have "f x \<notin> f ` set xs \<Longrightarrow> (\<Sum>z\<leftarrow>xs. if f z = f x then v z else 0) = 0"
    by (induction xs) auto
  with Cons show ?case by (cases "x = y") auto
qed simp

lemma links_sources: "(\<Sum>ab\<leftarrow>path_links path. G (fst ab)) = (\<Sum>a\<leftarrow>butlast path. G a :: rat)"
  unfolding path_links_def
proof (induction path)
  case (Cons a path)
  then show ?case by (cases path) auto
qed simp

lemma links_targets: "(\<Sum>ab\<leftarrow>path_links path. G (snd ab)) = (\<Sum>a\<leftarrow>tl path. G a :: rat)"
proof -
  have "map snd (path_links path) = tl path"
    by (cases path) (simp_all add: path_links_def map_snd_zip_take)
  moreover have "map (\<lambda>ab. G (snd ab)) (path_links path) = map G (map snd (path_links path))" by simp
  ultimately show ?thesis by simp
qed

lemma id_kind:
  assumes "well_named n" "path_id n = kind_name k @ 58 # r"
  shows "path_kind n = k"
  using assms by (metis kind_name_inj well_named_def)

lemma out_of_path:
  assumes "path_ok stages (prep_path p)" "stages \<noteq> []" "j = kind_name k @ 58 # r" "k \<noteq> last stages"
  shows "path_link_sum (\<lambda>s t. s = j) metric p = path_node_sum (\<lambda>i k. i = j) metric p"
proof -
  let ?G = "\<lambda>n. if path_id n = j then pmetric metric p else 0"
  have ne: "prep_path p \<noteq> []" using assms(1,2) by (auto simp: path_ok_def)
  then have "path_kind (last (prep_path p)) = last stages" "well_named (last (prep_path p))"
    using assms(1) by (auto simp: path_ok_def last_map)
  then have "?G (last (prep_path p)) = 0" using id_kind assms(3,4) by auto
  moreover have "(\<Sum>a\<leftarrow>prep_path p. ?G a) = (\<Sum>a\<leftarrow>butlast (prep_path p). ?G a) + ?G (last (prep_path p))"
    using ne by (subst append_butlast_last_id [symmetric]) (simp_all del: append_butlast_last_id)
  ultimately show ?thesis
    using links_sources [of ?G] by (simp add: path_link_sum_def path_node_sum_def)
qed

lemma into_path:
  assumes "path_ok stages (prep_path p)" "stages \<noteq> []" "j = kind_name k @ 58 # r" "k \<noteq> hd stages"
  shows "path_link_sum (\<lambda>s t. t = j) metric p = path_node_sum (\<lambda>i k. i = j) metric p"
proof -
  let ?G = "\<lambda>n. if path_id n = j then pmetric metric p else 0"
  obtain n ns where c: "prep_path p = n # ns" using assms(1,2) by (cases "prep_path p") (auto simp: path_ok_def)
  then have "path_kind n = hd stages" "well_named n"
    using assms(1) by (auto simp: path_ok_def)
  then have "?G n = 0" using id_kind assms(3,4) by auto
  then show ?thesis
    using links_targets [of ?G] c by (simp add: path_link_sum_def path_node_sum_def)
qed

text \<open>C5: What flows into a node flows out of it.  In the graph of any rows without NUL characters, the
  links leaving a node carry exactly its value unless the node is in the last column, and the links
  entering it carry exactly its value unless it is in the first; this holds in both overflow modes, with
  masking and with any selection.\<close>

theorem flow_conserved:
  assumes g: "g = buildFlowGraph sch lc rows metric role palette vs ctx opts"
    and rows: "\<forall>row\<in>set rows. nul_free row" and n: "n \<in> set (graph_nodes g)"
  shows "(node_kind n \<noteq> last (resolveVisibleStages role vs) \<longrightarrow>
      (\<Sum>l\<leftarrow>filter (\<lambda>l. link_source l = node_id n) (graph_links g). link_value l) = node_value n) \<and>
    (node_kind n \<noteq> hd (resolveVisibleStages role vs) \<longrightarrow>
      (\<Sum>l\<leftarrow>filter (\<lambda>l. link_target l = node_id n) (graph_links g). link_value l) = node_value n)"
proof -
  let ?ps = "the_paths lc rows metric role vs ctx opts"
  let ?stages = "resolveVisibleStages role vs"
  have ne: "?stages \<noteq> []" using stages_two [of role vs] by auto
  obtain r where r: "node_id n = kind_name (node_kind n) @ 58 # r"
    using graph_nodes_ok(2) n unfolding g by blast
  have "distinct (map node_id (graph_nodes g))" unfolding g by (rule graph_nodes_ok)
  then have v: "node_value n = (\<Sum>p\<leftarrow>?ps. path_node_sum (\<lambda>i k. i = node_id n) metric p)"
    using sum_distinct_key [OF _ n, of node_id node_value]
      graph_node_sum [of "\<lambda>i k. i = node_id n" sch lc rows metric role palette vs ctx opts]
    unfolding g by simp
  note link_sums = graph_link_sum [OF rows, of _ sch lc metric role palette vs ctx opts, folded g]
  have "(\<Sum>l\<leftarrow>filter (\<lambda>l. link_source l = node_id n) (graph_links g). link_value l) = node_value n"
    if "node_kind n \<noteq> last ?stages"
    using out_of_path [OF prepared_ok ne r that] link_sums [of "\<lambda>s t. s = node_id n"] v
    by (simp add: sum_list_map_filter' cong: map_cong)
  moreover have "(\<Sum>l\<leftarrow>filter (\<lambda>l. link_target l = node_id n) (graph_links g). link_value l) = node_value n"
    if "node_kind n \<noteq> hd ?stages"
    using into_path [OF prepared_ok ne r that] link_sums [of "\<lambda>s t. t = node_id n"] v
    by (simp add: sum_list_map_filter' cong: map_cong)
  ultimately show ?thesis by blast
qed

section \<open>Which nodes the graph has\<close>

definition node_tags :: "(jsstring, DashboardFlowNode) jsmap \<Rightarrow> (jsstring \<times> FlowNodeKind) set" where
  "node_tags m = (\<lambda>kn. (fst kn, node_kind (snd kn))) ` set m"

definition path_tags :: "FlowPathNode list \<Rightarrow> (jsstring \<times> FlowNodeKind) set" where
  "path_tags path = (\<lambda>n. (path_id n, path_kind n)) ` set path"

lemma node_tags_simps [simp]:
  "node_tags [] = {}" "node_tags ((k, n) # m) = insert (k, node_kind n) (node_tags m)"
  by (simp_all add: node_tags_def)

lemma node_tags_put:
  assumes "\<And>n0. map_get m k = Some n0 \<Longrightarrow> node_kind n0 = node_kind n"
  shows "node_tags (map_put m k n) = insert (k, node_kind n) (node_tags m)"
  using assms
proof (induction m)
  case (Cons kn m)
  obtain k' n' where [simp]: "kn = (k', n')" by (cases kn)
  show ?case
  proof (cases "k' = k")
    case True
    then show ?thesis using Cons.prems [of n'] by simp
  next
    case False
    then have "node_tags (map_put m k n) = insert (k, node_kind n) (node_tags m)"
      by (intro Cons.IH Cons.prems) simp
    with False show ?thesis by (simp add: insert_commute)
  qed
qed simp

lemma addNode_tags:
  assumes "nodes_ok m" "well_named p"
  shows "node_tags (addNode metric ms c ck p m) = insert (path_id p, path_kind p) (node_tags m)"
proof -
  define n where "n = nullish (map_get m (path_id p)) (new_node p c ck)"
  have kind: "node_kind n = path_kind p"
    using node_kind_known [OF assms] by (cases "map_get m (path_id p)") (auto simp: n_def new_node_def)
  show ?thesis
    unfolding addNode_def Let_def n_def [symmetric]
    by (subst node_tags_put) (auto simp: kind node_kind_known [OF assms])
qed

lemma fold_addNode_tags:
  assumes "nodes_ok m" "\<forall>p\<in>set ps. well_named p"
  shows "node_tags (fold (addNode metric ms c ck) ps m) = node_tags m \<union> path_tags ps"
  using assms by (induction ps arbitrary: m) (auto simp: addNode_ok addNode_tags path_tags_def)

lemma built_tags:
  assumes "\<forall>p\<in>set ps. path_ok stages (prep_path p)"
  shows "node_tags (fst (built co metric ps)) = (\<Union>p\<in>set ps. path_tags (prep_path p))"
  using assms
proof (induction ps rule: rev_induct)
  case Nil
  show ?case by (simp add: node_tags_def)
next
  case (snoc p ps)
  have ok: "nodes_ok (fst (built co metric ps))" using built_nodes [of ps stages co metric] snoc.prems by simp
  have wn: "\<forall>n\<in>set (prep_path p). well_named n" using snoc.prems by (simp add: path_ok_def)
  have "node_tags (fst (add_path co metric (built co metric ps) p)) =
      node_tags (fst (built co metric ps)) \<union> path_tags (prep_path p)"
    using fold_addNode_tags [OF ok wn]
    by (cases "prep_path p") (simp_all add: add_path_def Let_def path_tags_def)
  with snoc show ?case by (simp add: Un_commute)
qed

lemma graph_tags:
  "(\<lambda>n. (node_id n, node_kind n)) ` set (graph_nodes (the_graph sch lc rows metric role palette vs ctx opts)) =
   (\<Union>p\<in>set (the_paths lc rows metric role vs ctx opts). path_tags (prep_path p))"
    (is "_ ` set ?nodes = (\<Union>p\<in>set ?ps. _)")
proof -
  obtain co where *: "mset (map node_core ?nodes) = mset (map (\<lambda>kn. node_core (snd kn)) (fst (built co metric ?ps)))"
    by (rule graph_cores)
  have paths: "\<forall>p\<in>set ?ps. path_ok (resolveVisibleStages role vs) (prep_path p)"
    using prepared_ok by blast
  note ok = conjunct1 [OF built_nodes [OF paths, of co metric]]
    and tags = built_tags [OF paths, of co metric]
  have "(\<lambda>n. (node_id n, node_kind n)) ` set ?nodes = (\<lambda>(i, k, v). (i, k)) ` set (map node_core ?nodes)"
    by (simp add: image_image node_core_def)
  also have "\<dots> = (\<lambda>(i, k, v). (i, k)) ` set (map (\<lambda>kn. node_core (snd kn)) (fst (built co metric ?ps)))"
    using mset_eq_setD [OF *] by simp
  also have "\<dots> = node_tags (fst (built co metric ?ps))"
    unfolding node_tags_def list.set_map image_image
    by (rule image_cong [OF refl]) (use ok in \<open>auto simp: nodes_ok_def node_core_def\<close>)
  finally show ?thesis using tags by simp
qed

lemma graph_node_path:
  assumes "n \<in> set (graph_nodes (the_graph sch lc rows metric role palette vs ctx opts))"
  obtains p where "p \<in> set (the_paths lc rows metric role vs ctx opts)" "(node_id n, node_kind n) \<in> path_tags (prep_path p)"
proof -
  from assms have "(node_id n, node_kind n) \<in> (\<Union>p\<in>set (the_paths lc rows metric role vs ctx opts). path_tags (prep_path p))"
    unfolding graph_tags [of sch lc rows metric role palette vs ctx opts, symmetric] by blast
  with that show ?thesis by blast
qed

abbreviation sample_graph :: "FlowGraphOptions \<Rightarrow> DashboardFlowGraph" where
  "sample_graph opts \<equiv>
     buildFlowGraph sample_scheme (\<lambda>_ _. 0) sample_rows QuotaMetric RoleUser None None (\<lambda>_. None) opts"

abbreviation sample_unlimited :: FlowGraphOptions where
  "sample_unlimited \<equiv> sample_options\<lparr>topNodeLimit := None\<rparr>"

lemma sample_nul_free: "\<forall>row\<in>set sample_rows. nul_free row"
  by (simp add: sample_rows_def sample_row_def nul_free_def)

lemma sample_paths:
  "the_paths (\<lambda>_ _. 0) sample_rows QuotaMetric RoleUser None (\<lambda>_. None) (sample_unlimited\<lparr>maskSensitive := b\<rparr>) =
   map (\<lambda>row. \<lparr>prep_path = map (\<lambda>k. NODE_BUILDERS (\<lambda>_. None) k row) [TokenKind, GroupKind, ModelKind],
      prep_metrics = rowMetrics row\<rparr>) sample_rows"
  by (simp add: preparePaths_def sample_options_def normalizeTopNodeLimit_def buildTopNodeSets_def
      applyTopNodeLimit_def sample_rows_def flowPathForStages_def resolveVisibleStages_def)

lemma sample_group_node:
  obtains n where "n \<in> set (graph_nodes (sample_graph (sample_unlimited\<lparr>maskSensitive := b\<rparr>)))"
    "node_kind n = GroupKind" "node_id n = js ''group:default''"
proof -
  have "(js ''group:default'', GroupKind) \<in> (\<Union>p\<in>set (the_paths (\<lambda>_ _. 0) sample_rows QuotaMetric RoleUser None
      (\<lambda>_. None) (sample_unlimited\<lparr>maskSensitive := b\<rparr>)). path_tags (prep_path p))"
    unfolding sample_paths by (simp add: sample_rows_def sample_row_def path_tags_def groupNode_def Let_def)
  then show ?thesis unfolding graph_tags [of sample_scheme _ _ _ _ None, symmetric] using that by auto
qed

lemma sample_group_link:
  obtains l where "l \<in> set (graph_links (sample_graph (sample_unlimited\<lparr>maskSensitive := b\<rparr>)))"
    "link_source l = js ''group:default''"
proof -
  let ?links = "graph_links (sample_graph (sample_unlimited\<lparr>maskSensitive := b\<rparr>))"
  have "(\<Sum>l\<leftarrow>?links. if link_source l = js ''group:default'' then link_value l else 0) = 5"
    unfolding graph_link_sum [OF sample_nul_free, of "\<lambda>s t. s = js ''group:default''"] sample_paths
    by (simp add: path_link_sum_def path_links_def sample_rows_def sample_row_def tokenNode_def groupNode_def
        modelNode_def Let_def rowMetrics_def numberValue_def)
  moreover have "(\<Sum>l\<leftarrow>?links. if link_source l = js ''group:default'' then link_value l else 0) = 0"
    if "\<forall>l\<in>set ?links. link_source l \<noteq> js ''group:default''"
    using that by (simp cong: map_cong)
  ultimately show ?thesis using that by force
qed

theorem flow_conserved_witness:
  "\<exists>n\<in>set (graph_nodes (sample_graph sample_unlimited)). node_kind n = GroupKind \<and>
     (\<Sum>l\<leftarrow>filter (\<lambda>l. link_source l = node_id n) (graph_links (sample_graph sample_unlimited)). link_value l) = node_value n \<and>
     (\<Sum>l\<leftarrow>filter (\<lambda>l. link_target l = node_id n) (graph_links (sample_graph sample_unlimited)). link_value l) = node_value n"
proof -
  obtain n where n: "n \<in> set (graph_nodes (sample_graph sample_unlimited))" "node_kind n = GroupKind"
    using sample_group_node [of False] by (auto simp: sample_options_def)
  from flow_conserved [OF refl sample_nul_free n(1)] n show ?thesis
    by (intro bexI [of _ n]) (simp_all add: resolveVisibleStages_def)
qed

section \<open>Shares of the first step\<close>

lemma set_root_ids: "set (root_ids ps) = {path_id (hd (prep_path p)) |p. p \<in> set ps \<and> prep_path p \<noteq> []} - {[]}"
proof -
  have "set (case xs of [] \<Rightarrow> [] | n # _ \<Rightarrow> [path_id n]) = {path_id (hd xs) |u::unit. xs \<noteq> []}" for xs :: "FlowPathNode list"
    by (cases xs) auto
  then show ?thesis by (auto simp: root_ids_def)
qed

lemma in_root_ids:
  assumes "\<forall>p\<in>set ps. path_ok stages (prep_path p)" "distinct stages" "stages \<noteq> []"
  shows "i \<in> set (root_ids ps) \<longleftrightarrow> (\<exists>p\<in>set ps. (i, hd stages) \<in> path_tags (prep_path p))"
proof -
  have root: "prep_path p \<noteq> [] \<and> path_id (hd (prep_path p)) \<noteq> [] \<and>
      (path_id (hd (prep_path p)) = j \<longleftrightarrow> (j, hd stages) \<in> path_tags (prep_path p))"
    if p: "p \<in> set ps" for p j
  proof -
    obtain n ns where c: "prep_path p = n # ns" using assms(1,3) p by (cases "prep_path p") (auto simp: path_ok_def)
    with assms(1) p have k: "path_kind n = hd stages" "hd stages \<notin> path_kind ` set ns" "well_named n"
      using assms(2) by (auto simp: path_ok_def)
    have "path_id n \<noteq> []" using k(3) by (auto simp: well_named_def)
    with k show ?thesis by (auto simp: c path_tags_def)
  qed
  show ?thesis
  proof
    assume "i \<in> set (root_ids ps)"
    then obtain p where "p \<in> set ps" "i = path_id (hd (prep_path p))" unfolding set_root_ids by blast
    with root [of p i] show "\<exists>p\<in>set ps. (i, hd stages) \<in> path_tags (prep_path p)" by blast
  next
    assume "\<exists>p\<in>set ps. (i, hd stages) \<in> path_tags (prep_path p)"
    then obtain p where "p \<in> set ps" "(i, hd stages) \<in> path_tags (prep_path p)" by blast
    with root [of p i] show "i \<in> set (root_ids ps)" unfolding set_root_ids by blast
  qed
qed

lemma root_kind:
  assumes ps: "\<forall>p\<in>set ps. path_ok stages (prep_path p)" and st: "distinct stages" "stages \<noteq> []"
    and n: "p \<in> set ps" "n \<in> set (prep_path p)"
  shows "path_id n \<in> set (root_ids ps) \<longleftrightarrow> path_kind n = hd stages"
proof
  assume "path_id n \<in> set (root_ids ps)"
  then obtain q m where q: "q \<in> set ps" "m \<in> set (prep_path q)" "path_id m = path_id n" "path_kind m = hd stages"
    unfolding in_root_ids [OF ps st] by (auto simp: path_tags_def)
  moreover have "well_named m" "well_named n" using ps n q by (auto simp: path_ok_def)
  ultimately show "path_kind n = hd stages" using well_named_kind by metis
next
  assume "path_kind n = hd stages"
  then show "path_id n \<in> set (root_ids ps)"
    unfolding in_root_ids [OF ps st] using n by (auto simp: path_tags_def intro!: bexI [of _ p])
qed

lemma first_links_of_path:
  assumes ps: "\<forall>p\<in>set ps. path_ok stages (prep_path p)" and st: "distinct stages" "2 \<le> length stages"
    and p: "p \<in> set ps"
  shows "path_link_sum (\<lambda>s t. s \<in> set (root_ids ps)) metric p = pmetric metric p"
proof -
  let ?path = "prep_path p"
  have ne: "stages \<noteq> []" using st(2) by auto
  have kinds: "map path_kind ?path = stages" using ps p by (simp add: path_ok_def)
  then obtain a b path where c: "?path = a # b # path" using st(2) by (cases ?path; cases "tl ?path") auto
  have "path_link_sum (\<lambda>s t. s \<in> set (root_ids ps)) metric p =
      (\<Sum>n\<leftarrow>butlast ?path. if path_id n \<in> set (root_ids ps) then pmetric metric p else 0)"
    unfolding path_link_sum_def by (rule links_sources)
  also have "\<dots> = (\<Sum>n\<leftarrow>butlast ?path. if path_kind n = hd stages then pmetric metric p else 0)"
    by (rule arg_cong [where f = sum_list], rule map_cong [OF refl])
      (simp add: root_kind [OF ps st(1) ne p] in_set_butlastD)
  also have "\<dots> = pmetric metric p"
  proof (rule column_of_path)
    show "distinct (map path_kind (butlast ?path))" using st(1) kinds by (simp add: map_butlast distinct_butlast)
    show "hd stages \<in> path_kind ` set (butlast ?path)" using kinds c by auto
  qed
  finally show ?thesis .
qed

lemma share_values:
  "map (\<lambda>l. (link_core l, share l)) (assignLinkDisplayColors lc (set_shares fs ls)) =
   map (\<lambda>l. (link_core l, if 0 < (\<Sum>l\<leftarrow>filter (\<lambda>l. link_source l \<in> set fs) ls. link_value l)
      then link_value l / (\<Sum>l\<leftarrow>filter (\<lambda>l. link_source l \<in> set fs) ls. link_value l) else 0)) ls"
  by (simp add: assignLinkDisplayColors_def set_shares_def Let_def comp_def link_core_def)

lemma share_of_link:
  assumes "l \<in> set (assignLinkDisplayColors lc (set_shares fs ls))"
    and "t = (\<Sum>l\<leftarrow>filter (\<lambda>l. link_source l \<in> set fs) (assignLinkDisplayColors lc (set_shares fs ls)). link_value l)"
  shows "share l = (if 0 < t then link_value l / t else 0)"
proof -
  let ?t = "\<lambda>ls. \<Sum>l\<leftarrow>filter (\<lambda>l. link_source l \<in> set fs) ls. link_value l"
  have t: "?t ls = sum_list (map (\<lambda>(s, _, v). if s \<in> set fs then v else 0) (map link_core ls))" for ls
    by (simp add: sum_list_map_filter' comp_def link_core_def)
  have "t = ?t ls" unfolding assms(2) t by simp
  moreover have "(link_core l, share l) \<in> set (map (\<lambda>l. (link_core l, share l)) (assignLinkDisplayColors lc (set_shares fs ls)))"
    using assms(1) by auto
  ultimately show ?thesis unfolding share_values by (auto simp: link_core_def)
qed

text \<open>The shares of the first step add up to one.  When the first column of the graph has a positive
  total, the shares of the links that leave it sum to exactly 1, so the percentages shown on them are a
  partition of the total.\<close>

theorem first_step_shares:
  assumes g: "g = buildFlowGraph sch lc rows metric role palette vs ctx opts"
    and rows: "\<forall>row\<in>set rows. nul_free row"
    and pos: "0 < (\<Sum>n\<leftarrow>filter (\<lambda>n. node_kind n = hd (resolveVisibleStages role vs)) (graph_nodes g). node_value n)"
  shows "(\<Sum>l\<leftarrow>filter (\<lambda>l. \<exists>n\<in>set (graph_nodes g).
      node_kind n = hd (resolveVisibleStages role vs) \<and> node_id n = link_source l) (graph_links g). share l) = 1"
proof -
  let ?stages = "resolveVisibleStages role vs"
  let ?ps = "the_paths lc rows metric role vs ctx opts"
  let ?first = "filter (\<lambda>l. link_source l \<in> set (root_ids ?ps)) (graph_links g)"
  define t where "t = (\<Sum>l\<leftarrow>?first. link_value l)"
  have ps: "\<forall>p\<in>set ?ps. path_ok ?stages (prep_path p)" using prepared_ok by blast
  have ne: "?stages \<noteq> []" using stages_two [of role vs] by auto
  have roots: "(\<exists>n\<in>set (graph_nodes g). node_kind n = hd ?stages \<and> node_id n = i) \<longleftrightarrow> i \<in> set (root_ids ?ps)" for i
    using arg_cong [OF graph_tags [of sch lc rows metric role palette vs ctx opts], of "\<lambda>S. (i, hd ?stages) \<in> S"]
    unfolding in_root_ids [OF ps stages_distinct ne] g [symmetric] by (auto simp: image_iff)
  have "t = (\<Sum>p\<leftarrow>?ps. path_link_sum (\<lambda>s t. s \<in> set (root_ids ?ps)) metric p)"
    unfolding t_def g sum_list_map_filter' by (rule graph_link_sum [OF rows])
  also have "\<dots> = (\<Sum>p\<leftarrow>?ps. pmetric metric p)"
    using first_links_of_path [OF ps stages_distinct stages_two] by (simp cong: map_cong)
  also have "\<dots> = (\<Sum>n\<leftarrow>filter (\<lambda>n. node_kind n = hd ?stages) (graph_nodes g). node_value n)"
    unfolding g by (rule column_sum [symmetric]) (simp add: ne)
  finally have t: "0 < t" using pos by simp
  obtain ls where ls: "graph_links g = assignLinkDisplayColors lc (set_shares (root_ids ?ps) ls)"
    unfolding g buildFlowGraph_def Let_def by simp
  have "share l = link_value l / t" if "l \<in> set ?first" for l
    using share_of_link [of l lc "root_ids ?ps" ls t] that t by (simp add: ls t_def)
  then have "(\<Sum>l\<leftarrow>?first. share l) = (\<Sum>l\<leftarrow>?first. link_value l / t)"
    by (intro arg_cong [where f = sum_list] map_cong refl)
  also have "\<dots> = t / t" unfolding t_def divide_inverse by (simp add: sum_list_mult_const)
  finally show ?thesis using t by (simp add: roots)
qed

lemma sample_first_column:
  "(\<Sum>n\<leftarrow>filter (\<lambda>n. node_kind n = hd (resolveVisibleStages RoleUser None)) (graph_nodes (sample_graph sample_options)).
     node_value n) = 5"
proof -
  have "map prep_metrics (the_paths (\<lambda>_ _. 0) sample_rows QuotaMetric RoleUser None (\<lambda>_. None) sample_options) =
      map rowMetrics sample_rows"
    by (rule prepared_metrics) (simp add: sample_options_def)
  from arg_cong [OF this, of "\<lambda>ms. \<Sum>m\<leftarrow>ms. m_quota m"] show ?thesis
    by (subst column_sum) (simp_all add: resolveVisibleStages_def comp_def sample_rows_def sample_row_def rowMetrics_def
        numberValue_def)
qed

theorem first_step_shares_witness:
  "(\<Sum>l\<leftarrow>filter (\<lambda>l. \<exists>n\<in>set (graph_nodes (sample_graph sample_options)).
      node_kind n = hd (resolveVisibleStages RoleUser None) \<and> node_id n = link_source l)
      (graph_links (sample_graph sample_options)). share l) = 1"
  by (rule first_step_shares [OF refl sample_nul_free]) (simp add: sample_first_column)

section \<open>The limit on nodes\<close>

lemma add_rank_dom: "map_get (add_rank v ts n) k = None \<longleftrightarrow> map_get ts k = None"
  by (auto simp: add_rank_def Let_def map_get_put split: option.splits)

lemma fold_add_rank_dom: "map_get (foldl (add_rank v) ts ns) k = None \<longleftrightarrow> map_get ts k = None"
  by (induction ns arbitrary: ts) (simp_all add: add_rank_dom)

lemma totals_dom:
  "map_get (foldl (\<lambda>ts row. foldl (add_rank (v row)) ts (path row)) ts rows) k = None \<longleftrightarrow> map_get ts k = None"
  by (induction rows arbitrary: ts) (simp_all add: fold_add_rank_dom)

lemma totals_init: "map_get (foldl (\<lambda>m stage. map_put m stage []) m stages) k = None \<longleftrightarrow> k \<notin> set stages \<and> map_get m k = None"
  by (induction stages arbitrary: m) (auto simp: map_get_put)

lemma top_sets_bound:
  assumes "buildTopNodeSets lc rows metric stages (Some m) ctx = Some sets" "k \<in> set stages"
  obtains ids where "map_get sets k = Some ids" "length ids \<le> m"
proof -
  define totals where "totals = foldl (\<lambda>totals row. foldl (add_rank (metricValue (rowMetrics row) metric)) totals
      (flowPathForStages ctx row stages)) (foldl (\<lambda>m stage. map_put m stage []) [] stages) rows"
  have "map_get totals k \<noteq> None" using assms(2) by (simp add: totals_def totals_dom totals_init)
  then obtain st where st: "map_get totals k = Some st" by blast
  have "sets = map (\<lambda>(kind, stageTotals). (kind, map (\<lambda>rank. path_id (rank_node rank))
      (take m (sort_by (by_rank lc) (map snd stageTotals))))) totals"
    using assms(1) by (auto simp: buildTopNodeSets_def Let_def totals_def split: if_splits)
  then have "map_get sets k = Some (map (\<lambda>rank. path_id (rank_node rank)) (take m (sort_by (by_rank lc) (map snd st))))"
    by (simp add: map_of_map st)
  then show ?thesis by (rule that) simp
qed

lemma limited_tags:
  assumes "applyTopNodeLimit lb mode (Some sets) path = Some path'" "(i, k) \<in> path_tags path'" "map_get sets k = Some ids"
  shows "i \<in> set ids \<or> mode \<noteq> Hide \<and> i = OTHER_FLOW_NODE_IDS k"
  using assms
  by (auto simp: applyTopNodeLimit_def path_tags_def isTopFlowNode_def list_all_iff otherFlowNode_def
      split: if_splits option.splits)

text \<open>A limit on the number of nodes bounds every column.  With a limit of \<open>m\<close>, no column has more than
  \<open>m\<close> nodes in hide mode, and no more than \<open>m\<close> nodes and the other-node in aggregate mode.\<close>

theorem limit_bounds_columns:
  assumes m: "normalizeTopNodeLimit (topNodeLimit opts) = Some m"
  shows "length (filter (\<lambda>n. node_kind n = k)
           (graph_nodes (buildFlowGraph sch lc rows metric role palette vs ctx opts)))
         \<le> m + (if overflowMode opts = Some Hide then 0 else 1)"
proof (cases "k \<in> set (resolveVisibleStages role vs)")
  case False
  have "node_kind n \<noteq> k" if "n \<in> set (graph_nodes (the_graph sch lc rows metric role palette vs ctx opts))" for n
  proof -
    from that obtain p where p: "p \<in> set (the_paths lc rows metric role vs ctx opts)"
      "(node_id n, node_kind n) \<in> path_tags (prep_path p)" by (rule graph_node_path)
    from path_ok_kind [OF prepared_ok [OF p(1)]] p(2) False show ?thesis by (auto simp: path_tags_def)
  qed
  then show ?thesis by (simp add: filter_False)
next
  case True
  let ?nodes = "graph_nodes (the_graph sch lc rows metric role palette vs ctx opts)"
  let ?stages = "resolveVisibleStages role vs"
  have m0: "m \<noteq> 0" using m by (auto simp: normalizeTopNodeLimit_def Let_def split: option.splits if_splits)
  then obtain sets where sets: "buildTopNodeSets lc rows metric ?stages (Some m) ctx = Some sets"
    by (simp add: buildTopNodeSets_def Let_def)
  obtain ids where ids: "map_get sets k = Some ids" "length ids \<le> m" by (rule top_sets_bound [OF sets True])
  let ?S = "set ids \<union> (if overflowMode opts = Some Hide then {} else {OTHER_FLOW_NODE_IDS k})"
  have sub: "set (map node_id (filter (\<lambda>n. node_kind n = k) ?nodes)) \<subseteq> ?S"
  proof
    fix i assume "i \<in> set (map node_id (filter (\<lambda>n. node_kind n = k) ?nodes))"
    then obtain n where n: "n \<in> set ?nodes" "node_kind n = k" "i = node_id n" by auto
    from n(1) obtain p where p: "p \<in> set (the_paths lc rows metric role vs ctx opts)"
      "(node_id n, node_kind n) \<in> path_tags (prep_path p)" by (rule graph_node_path)
    from p(1) obtain row where "applyTopNodeLimit (otherNodeLabel opts) (nullish (overflowMode opts) Aggregate) (Some sets)
        (flowPathForStages ctx row ?stages) = Some (prep_path p)"
      by (rule prepared_from) (simp add: m sets)
    from limited_tags [OF this p(2) [unfolded n(2)] ids(1)] show "i \<in> ?S"
      using n(3) by (cases "overflowMode opts") auto
  qed
  have "distinct (map node_id (filter (\<lambda>n. node_kind n = k) ?nodes))"
    by (rule distinct_map_filter) (rule graph_nodes_ok)
  then have "length (filter (\<lambda>n. node_kind n = k) ?nodes) = card (set (map node_id (filter (\<lambda>n. node_kind n = k) ?nodes)))"
    by (metis distinct_card length_map)
  also have "\<dots> \<le> card ?S" by (rule card_mono [OF _ sub]) simp
  also have "\<dots> \<le> length ids + (if overflowMode opts = Some Hide then 0 else 1)"
    using card_length [of ids] by (auto simp: card_insert_if)
  finally show ?thesis using ids(2) by simp
qed

theorem limit_bounds_columns_witness:
  "length (filter (\<lambda>n. node_kind n = TokenKind) (graph_nodes (sample_graph sample_options))) \<le> 2"
proof -
  have "normalizeTopNodeLimit (topNodeLimit sample_options) = Some 1"
    by (simp add: sample_options_def normalizeTopNodeLimit_def)
  from limit_bounds_columns [OF this, of TokenKind sample_scheme "\<lambda>_ _. 0" sample_rows QuotaMetric RoleUser None None "\<lambda>_. None"]
  show ?thesis by (simp add: sample_options_def)
qed

section \<open>Masking\<close>

definition unlabel_node :: "DashboardFlowNode \<Rightarrow> DashboardFlowNode" where
  "unlabel_node n = n\<lparr>node_label := []\<rparr>"

definition unlabel_link :: "DashboardFlowLink \<Rightarrow> DashboardFlowLink" where
  "unlabel_link l = l\<lparr>sourceLabel := [], targetLabel := []\<rparr>"

lemma unlabel_link_simps [simp]:
  "link_source (unlabel_link l) = link_source l" "link_target (unlabel_link l) = link_target l"
  "link_value (unlabel_link l) = link_value l" "link_color (unlabel_link l) = link_color l"
  "linkStableKey (unlabel_link l) = linkStableKey l"
  by (simp_all add: unlabel_link_def linkStableKey_def)

lemma unlabel_sort: "sort_by (by_source_target lc) (map unlabel_link ls) = map unlabel_link (sort_by (by_source_target lc) ls)"
  by (rule sort_by_map) (simp add: by_source_target_def)

lemma unlabel_shares: "set_shares fs (map unlabel_link ls) = map unlabel_link (set_shares fs ls)"
  by (simp add: set_shares_def Let_def filter_map comp_def unlabel_link_def)

lemma unlabel_alpha: "link_alpha lc (map unlabel_link ls) (unlabel_link l) = link_alpha lc ls l"
proof -
  have "sort_by (by_value_then_key lc) (map unlabel_link xs) = map unlabel_link (sort_by (by_value_then_key lc) xs)" for xs
    by (rule sort_by_map) (simp add: by_value_then_key_def)
  then show ?thesis by (simp add: link_alpha_def Let_def filter_map takeWhile_map comp_def)
qed

lemma unlabel_colours: "assignLinkDisplayColors lc (map unlabel_link ls) = map unlabel_link (assignLinkDisplayColors lc ls)"
  by (simp add: assignLinkDisplayColors_def Let_def unlabel_alpha) (simp add: unlabel_link_def)

lemma unlabel_mask:
  "map (\<lambda>kn. unlabel_node (snd kn)) (fst (maskFlowGraphLabels ns ls)) = map (\<lambda>kn. unlabel_node (snd kn)) ns"
  "map (\<lambda>kl. unlabel_link (snd kl)) (snd (maskFlowGraphLabels ns ls)) = map (\<lambda>kl. unlabel_link (snd kl)) ls"
  by (simp_all add: maskFlowGraphLabels_def Let_def comp_def case_prod_beta mask_node_def mask_link_def
      unlabel_node_def unlabel_link_def)

definition highlight_node :: "(jsstring list \<times> jsstring list) option \<Rightarrow> DashboardFlowNode \<Rightarrow> DashboardFlowNode" where
  "highlight_node h n = (case h of None \<Rightarrow> n | Some (hn, _) \<Rightarrow>
     n\<lparr>node_highlighted := Some (node_id n \<in> set hn), node_dimmed := Some (node_id n \<notin> set hn)\<rparr>)"

definition highlight_link :: "(jsstring list \<times> jsstring list) option \<Rightarrow> DashboardFlowLink \<Rightarrow> DashboardFlowLink" where
  "highlight_link h l = (case h of None \<Rightarrow> l | Some (_, hl) \<Rightarrow>
     l\<lparr>link_highlighted := Some (linkStableKey l \<in> set hl), link_dimmed := Some (linkStableKey l \<notin> set hl)\<rparr>)"

lemma highlights_pointwise:
  "map snd (fst (applyFlowHighlights h g)) = map (\<lambda>kn. highlight_node h (snd kn)) (fst g)"
  "map snd (snd (applyFlowHighlights h g)) = map (\<lambda>kl. highlight_link h (snd kl)) (snd g)"
  by (auto simp: applyFlowHighlights_def highlight_node_def highlight_link_def split: option.splits)

lemma unlabel_highlight:
  "unlabel_node (highlight_node h n) = highlight_node h (unlabel_node n)"
  "unlabel_link (highlight_link h l) = highlight_link h (unlabel_link l)"
  by (auto simp: highlight_node_def highlight_link_def unlabel_node_def unlabel_link_def linkStableKey_def
      split: option.splits)

text \<open>The graph without labels does not depend on how the labels of the maps were set.\<close>

lemma unlabelled_graph:
  assumes "map (\<lambda>kn. unlabel_node (snd kn)) (fst g1) = map (\<lambda>kn. unlabel_node (snd kn)) (fst g2)"
    and "map (\<lambda>kl. unlabel_link (snd kl)) (snd g1) = map (\<lambda>kl. unlabel_link (snd kl)) (snd g2)"
  shows "map unlabel_node (map snd (fst (applyFlowHighlights h g1))) = map unlabel_node (map snd (fst (applyFlowHighlights h g2)))"
    and "map unlabel_link (map snd (snd (applyFlowHighlights h g1))) = map unlabel_link (map snd (snd (applyFlowHighlights h g2)))"
proof -
  have n: "map unlabel_node (map snd (fst (applyFlowHighlights h g))) =
      map (highlight_node h) (map (\<lambda>kn. unlabel_node (snd kn)) (fst g))" for g
    by (simp add: highlights_pointwise unlabel_highlight comp_def)
  have l: "map unlabel_link (map snd (snd (applyFlowHighlights h g))) =
      map (highlight_link h) (map (\<lambda>kl. unlabel_link (snd kl)) (snd g))" for g
    by (simp add: highlights_pointwise unlabel_highlight comp_def)
  show "map unlabel_node (map snd (fst (applyFlowHighlights h g1))) = map unlabel_node (map snd (fst (applyFlowHighlights h g2)))"
    unfolding n assms(1) ..
  show "map unlabel_link (map snd (snd (applyFlowHighlights h g1))) = map unlabel_link (map snd (snd (applyFlowHighlights h g2)))"
    unfolding l assms(2) ..
qed

abbreviation finish_links :: "(jsstring \<Rightarrow> jsstring \<Rightarrow> int) \<Rightarrow> jsstring list \<Rightarrow> DashboardFlowLink list \<Rightarrow> DashboardFlowLink list" where
  "finish_links lc fs ls \<equiv> assignLinkDisplayColors lc (set_shares fs (sort_by (by_source_target lc) ls))"

lemma finish_unlabelled:
  assumes "map unlabel_link ls1 = map unlabel_link ls2"
  shows "map unlabel_link (finish_links lc fs ls1) = map unlabel_link (finish_links lc fs ls2)"
  unfolding unlabel_colours [symmetric] unlabel_shares [symmetric] unlabel_sort [symmetric] assms ..

text \<open>Masking changes labels only.  The graph built with sensitive labels masked has the same nodes and
  the same links, with the same identities, values, shares, colours and highlighting, as the graph built
  without masking; the links even come in the same order.\<close>

theorem masking_keeps_graph:
  "mset (map unlabel_node (graph_nodes (buildFlowGraph sch lc rows metric role palette vs ctx (opts\<lparr>maskSensitive := True\<rparr>)))) =
   mset (map unlabel_node (graph_nodes (buildFlowGraph sch lc rows metric role palette vs ctx (opts\<lparr>maskSensitive := False\<rparr>)))) \<and>
   map unlabel_link (graph_links (buildFlowGraph sch lc rows metric role palette vs ctx (opts\<lparr>maskSensitive := True\<rparr>))) =
   map unlabel_link (graph_links (buildFlowGraph sch lc rows metric role palette vs ctx (opts\<lparr>maskSensitive := False\<rparr>)))"
proof -
  have paths: "preparePaths lc rows metric stages ctx (opts\<lparr>maskSensitive := b\<rparr>) = preparePaths lc rows metric stages ctx opts"
    for stages b by (simp add: preparePaths_def)
  have sel: "maskSensitive (opts\<lparr>maskSensitive := b\<rparr>) = b" "activeNode (opts\<lparr>maskSensitive := b\<rparr>) = activeNode opts"
    "activeLink (opts\<lparr>maskSensitive := b\<rparr>) = activeLink opts" for b by simp_all
  show ?thesis
    unfolding buildFlowGraph_def Let_def paths sel
    by (simp only: DashboardFlowGraph.simps if_True if_False mset_map_sort_by)
      (intro conjI arg_cong [where f = mset] finish_unlabelled unlabelled_graph unlabel_mask)
qed

lemma maskFlowLabel_range: "maskFlowLabel s \<in> {[], FLOW_MASK_TEXT}"
  by (simp add: maskFlowLabel_def)

lemma maskedById_fold:
  assumes "ran (map_of m) \<subseteq> {[], FLOW_MASK_TEXT}"
  shows "(\<exists>v\<in>{[], FLOW_MASK_TEXT}. map_get (foldl (\<lambda>m node. if node_masked node
      then map_put m (node_id node) (maskFlowLabel (node_label node)) else m) m ns) i = Some v) \<longleftrightarrow>
    (\<exists>v. map_get m i = Some v) \<or> (\<exists>n\<in>set ns. node_masked n \<and> node_id n = i)"
  using assms
proof (induction ns arbitrary: m)
  case Nil
  then show ?case by (auto simp: ran_def)
next
  case (Cons n ns)
  let ?m = "if node_masked n then map_put m (node_id n) (maskFlowLabel (node_label n)) else m"
  have "ran (map_of ?m) \<subseteq> {[], FLOW_MASK_TEXT}"
    using Cons.prems maskFlowLabel_range [of "node_label n"] by (auto simp: ran_def map_get_put split: if_splits)
  from Cons.IH [OF this] show ?case by (auto simp: map_get_put)
qed

lemma maskedById_known:
  assumes "(k, n) \<in> set nodes" "node_masked n"
  shows "\<exists>v\<in>{[], FLOW_MASK_TEXT}. map_get (maskedById nodes) (node_id n) = Some v"
proof -
  have "n \<in> set (map snd nodes)" using assms(1) by force
  with assms(2) show ?thesis
    using maskedById_fold [of "[]" "map snd nodes" "node_id n"] unfolding maskedById_def by (simp add: ran_def) blast
qed

definition link_labels :: "DashboardFlowLink \<Rightarrow> jsstring \<times> jsstring \<times> jsstring \<times> jsstring" where
  "link_labels l = (link_source l, link_target l, sourceLabel l, targetLabel l)"

lemma finish_labels: "link_labels ` set (finish_links lc fs ls) = link_labels ` set ls"
proof -
  have "map link_labels (assignLinkDisplayColors lc (set_shares fs xs)) = map link_labels xs" for xs
    by (simp add: assignLinkDisplayColors_def set_shares_def Let_def comp_def link_labels_def)
  then show ?thesis by (metis list.set_map set_sort_by)
qed

lemma highlight_labels [simp]:
  "link_labels (highlight_link h l) = link_labels l"
  "node_label (highlight_node h n) = node_label n" "node_id (highlight_node h n) = node_id n"
  "node_kind (highlight_node h n) = node_kind n"
  by (auto simp: highlight_link_def highlight_node_def link_labels_def split: option.splits)

lemma mask_node_simps [simp]: "node_id (mask_node n) = node_id n" "node_kind (mask_node n) = node_kind n"
  by (simp_all add: mask_node_def)

lemma masked_label: "node_masked n \<Longrightarrow> node_label (mask_node n) \<in> {[], FLOW_MASK_TEXT}"
  using maskFlowLabel_range [of "node_label n"] by (simp add: mask_node_def)

lemma masked_links:
  assumes "(k, n) \<in> set nodes" "node_masked n" "(k', l) \<in> set (snd (maskFlowGraphLabels nodes links))"
  shows "(link_source l = node_id n \<longrightarrow> sourceLabel l \<in> {[], FLOW_MASK_TEXT}) \<and>
         (link_target l = node_id n \<longrightarrow> targetLabel l \<in> {[], FLOW_MASK_TEXT})"
proof -
  obtain v where v: "v \<in> {[], FLOW_MASK_TEXT}" "map_get (maskedById nodes) (node_id n) = Some v"
    using maskedById_known [OF assms(1,2)] by blast
  then have "maskedById nodes \<noteq> []" by auto
  with assms(3) obtain l0 where "l = mask_link (maskedById nodes) l0"
    by (auto simp: maskFlowGraphLabels_def Let_def)
  with v show ?thesis by (auto simp: mask_link_def)
qed

text \<open>C29: Masking hides every sensitive label.  In a graph built with masking on, a node of a kind that can
  identify people, keys, infrastructure or groups shows only the mask text (or nothing, when its label was
  empty), and so does every end of a link at that node; the other-nodes, whose label names no one, keep
  theirs.\<close>

theorem masking_hides_labels:
  assumes g: "g = buildFlowGraph sch lc rows metric role palette vs ctx opts" and "maskSensitive opts"
    and n: "n \<in> set (graph_nodes g)" "node_kind n \<noteq> ModelKind" "\<forall>k. node_id n \<noteq> OTHER_FLOW_NODE_IDS k"
    and l: "l \<in> set (graph_links g)"
  shows "node_label n \<in> {[], FLOW_MASK_TEXT} \<and>
         (link_source l = node_id n \<longrightarrow> sourceLabel l \<in> {[], FLOW_MASK_TEXT}) \<and>
         (link_target l = node_id n \<longrightarrow> targetLabel l \<in> {[], FLOW_MASK_TEXT})"
proof -
  obtain ns ls h fs where nodes: "graph_nodes g = sort_by (byValueThenLabel lc)
        (map snd (fst (applyFlowHighlights h (maskFlowGraphLabels ns ls))))"
    and links: "graph_links g = finish_links lc fs (map snd (snd (applyFlowHighlights h (maskFlowGraphLabels ns ls))))"
    using assms(2) unfolding g buildFlowGraph_def Let_def by simp
  have masked: "node_masked n"
    using n by (cases "node_kind n") (auto simp: node_masked_def SENSITIVE_FLOW_KINDS_def OTHER_FLOW_NODE_ID_SET_def)
  from n(1) obtain k n0 where n0: "(k, n0) \<in> set ns" "n = highlight_node h (mask_node n0)"
    unfolding nodes highlights_pointwise by (auto simp: maskFlowGraphLabels_def Let_def split: if_splits)
  then have m0: "node_masked n0" using masked by (simp add: node_masked_def)
  have "link_labels l \<in> link_labels ` set (map (\<lambda>kl. highlight_link h (snd kl)) (snd (maskFlowGraphLabels ns ls)))"
    using l unfolding links highlights_pointwise by (metis finish_labels image_eqI)
  then obtain k' l0 where l0: "(k', l0) \<in> set (snd (maskFlowGraphLabels ns ls))" "link_labels l = link_labels l0"
    by auto
  from masked_links [OF n0(1) m0 l0(1)] l0(2) n0(2) masked_label [OF m0] show ?thesis
    by (auto simp: link_labels_def)
qed

theorem masking_hides_labels_witness:
  "\<exists>n\<in>set (graph_nodes (sample_graph (sample_unlimited\<lparr>maskSensitive := True\<rparr>))).
   \<exists>l\<in>set (graph_links (sample_graph (sample_unlimited\<lparr>maskSensitive := True\<rparr>))).
     node_label n \<in> {[], FLOW_MASK_TEXT} \<and> link_source l = node_id n \<and> sourceLabel l \<in> {[], FLOW_MASK_TEXT}"
proof -
  obtain n where n: "n \<in> set (graph_nodes (sample_graph (sample_unlimited\<lparr>maskSensitive := True\<rparr>)))"
    "node_kind n = GroupKind" "node_id n = js ''group:default''" by (rule sample_group_node)
  obtain l where l: "l \<in> set (graph_links (sample_graph (sample_unlimited\<lparr>maskSensitive := True\<rparr>)))"
    "link_source l = js ''group:default''" by (rule sample_group_link)
  have "maskSensitive (sample_unlimited\<lparr>maskSensitive := True\<rparr>)" by simp
  moreover have "node_id n \<noteq> OTHER_FLOW_NODE_IDS k" for k
    unfolding n(3) by (cases k) (simp_all add: OTHER_FLOW_NODE_IDS_def)
  moreover have "node_kind n \<noteq> ModelKind" using n(2) by simp
  ultimately have "node_label n \<in> {[], FLOW_MASK_TEXT} \<and> (link_source l = node_id n \<longrightarrow> sourceLabel l \<in> {[], FLOW_MASK_TEXT})"
    using masking_hides_labels [OF refl _ n(1) _ _ l(1)] by blast
  moreover have "link_source l = node_id n" using n(3) l(2) by simp
  ultimately show ?thesis using n(1) l(1) by blast
qed

end
