(* ===== verification/Billing_Rules.thy ===== *)
theory Billing_Rules
  imports Js_Json
begin

text \<open>
  Request rules of a billing expression, \<open>features/pricing/lib/billing-expr.ts\<close>: the editor's
  conditions, the expression built from them, and the parser that reads it back.  A regular expression
  of the source is a function that consumes the string piece by piece; every class it repeats ends at a
  character outside the class, so there is one way to match.  \<open>parse\<close> is \<open>JSON.parse\<close> and \<open>to_str\<close> is
  \<open>String\<close> on a JSON value that is not a string; \<open>JSON.stringify\<close> of a string is \<open>json_quote\<close>.
\<close>

section \<open>Literals\<close>

text \<open>\<open>JSON.stringify\<close> of a string: short escapes, \<open>\uXXXX\<close> for other control characters and for lone
  surrogates.\<close>

definition hex_char :: "nat \<Rightarrow> code_unit" where
  "hex_char d = (if d < 10 then 48 + d else 87 + d)"

definition unicode_escape :: "code_unit \<Rightarrow> jsstring" where
  "unicode_escape c = [92, 117, hex_char (c div 4096 mod 16), hex_char (c div 256 mod 16),
     hex_char (c div 16 mod 16), hex_char (c mod 16)]"

definition quote_unit :: "code_unit \<Rightarrow> jsstring" where
  "quote_unit c =
     (if c = 34 then [92, 34] else if c = 92 then [92, 92]
      else if c = 8 then [92, 98] else if c = 12 then [92, 102] else if c = 10 then [92, 110]
      else if c = 13 then [92, 114] else if c = 9 then [92, 116]
      else if c < 32 \<or> 55296 \<le> c \<and> c \<le> 57343 then unicode_escape c
      else [c])"

fun quote_body :: "jsstring \<Rightarrow> jsstring" where
  "quote_body [] = []"
| "quote_body [c] = quote_unit c"
| "quote_body (c # d # s) =
     (if 55296 \<le> c \<and> c \<le> 56319 \<and> 56320 \<le> d \<and> d \<le> 57343 then c # d # quote_body s
      else quote_unit c @ quote_body (d # s))"

definition json_quote :: "jsstring \<Rightarrow> jsstring" where
  "json_quote s = 34 # quote_body s @ [34]"

text \<open>\<open>NUMERIC_LITERAL_REGEX\<close>, and the class \<open>[\d.eE+-]\<close>.\<close>

definition digits_then :: "jsstring \<Rightarrow> jsstring \<times> jsstring" where
  "digits_then s = (takeWhile is_digit s, dropWhile is_digit s)"

definition exponent_ok :: "jsstring \<Rightarrow> bool" where
  "exponent_ok s =
     (case s of
        [] \<Rightarrow> True
      | c # r \<Rightarrow> (c = 101 \<or> c = 69)
          \<and> (let r' = (case r of d # q \<Rightarrow> if d = 43 \<or> d = 45 then q else r | [] \<Rightarrow> [])
             in r' \<noteq> [] \<and> list_all is_digit r'))"

definition NUMERIC_LITERAL_REGEX :: "jsstring \<Rightarrow> bool" where
  "NUMERIC_LITERAL_REGEX s =
     (let u = (case s of c # r \<Rightarrow> if c = 45 then r else s | [] \<Rightarrow> []);
          (whole, r) = digits_then u
      in if whole \<noteq> []
         then exponent_ok (case r of c # q \<Rightarrow> if c = 46 then dropWhile is_digit q else r | [] \<Rightarrow> [])
         else (case r of c # q \<Rightarrow> c = 46 \<and> takeWhile is_digit q \<noteq> [] \<and> exponent_ok (dropWhile is_digit q)
               | [] \<Rightarrow> False))"

definition num_char :: "code_unit \<Rightarrow> bool" where
  "num_char c \<longleftrightarrow> is_digit c \<or> c \<in> {46, 101, 69, 43, 45}"

section \<open>Conditions\<close>

definition MATCH_EQ :: jsstring where "MATCH_EQ = js ''eq''"
definition MATCH_CONTAINS :: jsstring where "MATCH_CONTAINS = js ''contains''"
definition MATCH_GT :: jsstring where "MATCH_GT = js ''gt''"
definition MATCH_GTE :: jsstring where "MATCH_GTE = js ''gte''"
definition MATCH_LT :: jsstring where "MATCH_LT = js ''lt''"
definition MATCH_LTE :: jsstring where "MATCH_LTE = js ''lte''"
definition MATCH_EXISTS :: jsstring where "MATCH_EXISTS = js ''exists''"
definition MATCH_RANGE :: jsstring where "MATCH_RANGE = js ''range''"

lemmas match_defs = MATCH_EQ_def MATCH_CONTAINS_def MATCH_GT_def MATCH_GTE_def MATCH_LT_def MATCH_LTE_def
  MATCH_EXISTS_def MATCH_RANGE_def

datatype TimeFunc = Hour | Minute | Weekday | Month | Day

fun time_name :: "TimeFunc \<Rightarrow> jsstring" where
  "time_name Hour = js ''hour''"
| "time_name Minute = js ''minute''"
| "time_name Weekday = js ''weekday''"
| "time_name Month = js ''month''"
| "time_name Day = js ''day''"

definition TIME_FUNCS :: "TimeFunc list" where
  "TIME_FUNCS = [Hour, Minute, Weekday, Month, Day]"

datatype RequestSource = SourceParam | SourceHeader | SourceTime

fun source_name :: "RequestSource \<Rightarrow> jsstring" where
  "source_name SourceParam = js ''param''"
| "source_name SourceHeader = js ''header''"
| "source_name SourceTime = js ''time''"

record ParamHeaderCondition =
  ph_header :: bool
  ph_path :: jsstring
  ph_mode :: jsstring
  ph_value :: jsstring

record TimeCondition =
  timeFunc :: TimeFunc
  timezone :: jsstring
  time_mode :: jsstring
  time_value :: jsstring
  rangeStart :: jsstring
  rangeEnd :: jsstring

datatype RequestCondition = PH ParamHeaderCondition | TC TimeCondition

record RequestRuleGroup =
  conditions :: "RequestCondition list"
  multiplier :: jsstring

text \<open>\<open>Partial<RequestCondition>\<close>: every property of either kind may be absent.\<close>

record PartialCondition =
  pc_source :: "jsstring option"
  pc_path :: "jsstring option"
  pc_mode :: "jsstring option"
  pc_value :: "jsstring option"
  pc_timeFunc :: "jsstring option"
  pc_timezone :: "jsstring option"
  pc_rangeStart :: "jsstring option"
  pc_rangeEnd :: "jsstring option"

definition getRequestRuleMatchOptions :: "RequestSource \<Rightarrow> (jsstring \<times> jsstring) list" where
  "getRequestRuleMatchOptions source =
     (if source = SourceTime then
        [(MATCH_EQ, js ''Equals''), (MATCH_GTE, js ''Greater than or equal''), (MATCH_LT, js ''Less than''),
         (MATCH_RANGE, js ''Overnight range'')]
      else
        let base = [(MATCH_EQ, js ''Equals''), (MATCH_CONTAINS, js ''Contains''), (MATCH_EXISTS, js ''Exists'')] in
        if source = SourceHeader then base
        else base @ [(MATCH_GT, js ''Greater than''), (MATCH_GTE, js ''Greater than or equal''),
                     (MATCH_LT, js ''Less than''), (MATCH_LTE, js ''Less than or equal'')])"

definition createEmptyCondition :: ParamHeaderCondition where
  "createEmptyCondition = \<lparr>ph_header = False, ph_path = [], ph_mode = MATCH_EQ, ph_value = []\<rparr>"

definition createEmptyTimeCondition :: TimeCondition where
  "createEmptyTimeCondition = \<lparr>timeFunc = Hour, timezone = js ''Asia/Shanghai'', time_mode = MATCH_GTE,
     time_value = [], rangeStart = [], rangeEnd = []\<rparr>"

definition createEmptyRuleGroup :: RequestRuleGroup where
  "createEmptyRuleGroup = \<lparr>conditions = [PH createEmptyCondition], multiplier = []\<rparr>"

definition createEmptyTimeRuleGroup :: RequestRuleGroup where
  "createEmptyTimeRuleGroup = \<lparr>conditions = [TC createEmptyTimeCondition], multiplier = []\<rparr>"

definition isTimeFunc :: "jsstring option \<Rightarrow> TimeFunc option" where
  "isTimeFunc v = find (\<lambda>f. v = Some (time_name f)) TIME_FUNCS"

definition allowed_mode :: "RequestSource \<Rightarrow> jsstring option \<Rightarrow> jsstring \<Rightarrow> jsstring" where
  "allowed_mode source mode fallback =
     (case mode of
        Some m \<Rightarrow> if list_ex (\<lambda>item. fst item = m) (getRequestRuleMatchOptions source) then m else fallback
      | None \<Rightarrow> fallback)"

definition normalizeCondition :: "PartialCondition option \<Rightarrow> RequestCondition" where
  "normalizeCondition cond =
     (let get = (\<lambda>f. Option.bind cond f) in
      if get pc_source = Some (js ''time'') then
        TC \<lparr>timeFunc = nullish (isTimeFunc (get pc_timeFunc)) Hour,
            timezone = opt_str_or (get pc_timezone) (js ''Asia/Shanghai''),
            time_mode = allowed_mode SourceTime (get pc_mode) MATCH_GTE,
            time_value = nullish (get pc_value) [],
            rangeStart = nullish (get pc_rangeStart) [],
            rangeEnd = nullish (get pc_rangeEnd) []\<rparr>
      else
        let header = (get pc_source = Some (js ''header'')) in
        PH \<lparr>ph_header = header,
            ph_path = nullish (get pc_path) [],
            ph_mode = allowed_mode (if header then SourceHeader else SourceParam) (get pc_mode) MATCH_EQ,
            ph_value = nullish (get pc_value) []\<rparr>)"

fun as_partial :: "RequestCondition \<Rightarrow> PartialCondition" where
  "as_partial (PH c) =
     \<lparr>pc_source = Some (if ph_header c then js ''header'' else js ''param''), pc_path = Some (ph_path c),
      pc_mode = Some (ph_mode c), pc_value = Some (ph_value c), pc_timeFunc = None, pc_timezone = None,
      pc_rangeStart = None, pc_rangeEnd = None\<rparr>"
| "as_partial (TC c) =
     \<lparr>pc_source = Some (js ''time''), pc_path = None, pc_mode = Some (time_mode c), pc_value = Some (time_value c),
      pc_timeFunc = Some (time_name (timeFunc c)), pc_timezone = Some (timezone c),
      pc_rangeStart = Some (rangeStart c), pc_rangeEnd = Some (rangeEnd c)\<rparr>"

section \<open>Building expressions\<close>

definition buildExprLiteral :: "jsstring \<Rightarrow> jsstring \<Rightarrow> jsstring" where
  "buildExprLiteral mode v =
     (let text = trim v in
      if mode = MATCH_CONTAINS then json_quote text
      else if text = js ''true'' \<or> text = js ''false'' then text
      else if NUMERIC_LITERAL_REGEX text then text
      else json_quote text)"

definition time_op :: "jsstring \<Rightarrow> jsstring" where
  "time_op mode =
     (if mode = MATCH_GTE then js ''>='' else if mode = MATCH_LT then js ''<'' else js ''=='')"

definition buildTimeConditionExpr :: "TimeCondition \<Rightarrow> jsstring" where
  "buildTimeConditionExpr cond =
     (case normalizeCondition (Some (as_partial (TC cond))) of
        PH _ \<Rightarrow> []
      | TC n \<Rightarrow>
          let fn = time_name (timeFunc n) @ js ''('' @ json_quote (timezone n) @ js '')'' in
          if time_mode n = MATCH_RANGE then
            let s = trim (rangeStart n); e = trim (rangeEnd n) in
            if \<not> NUMERIC_LITERAL_REGEX s \<or> \<not> NUMERIC_LITERAL_REGEX e then []
            else fn @ js '' >= '' @ s @ js '' || '' @ fn @ js '' < '' @ e
          else
            let v = trim (time_value n) in
            if \<not> NUMERIC_LITERAL_REGEX v then []
            else fn @ js '' '' @ time_op (time_mode n) @ js '' '' @ v)"

definition number_op :: "jsstring \<Rightarrow> jsstring" where
  "number_op mode =
     (if mode = MATCH_GT then js ''>'' else if mode = MATCH_GTE then js ''>=''
      else if mode = MATCH_LT then js ''<'' else js ''<='')"

definition buildRequestConditionExpr :: "RequestCondition \<Rightarrow> jsstring" where
  "buildRequestConditionExpr cond =
     (case cond of
        TC t \<Rightarrow> buildTimeConditionExpr t
      | PH _ \<Rightarrow>
          (case normalizeCondition (Some (as_partial cond)) of
             TC _ \<Rightarrow> []
           | PH n \<Rightarrow>
               let path = trim (ph_path n) in
               if path = [] then []
               else
                 let sourceExpr = (if ph_header n then js ''header('' else js ''param('') @ json_quote path @ js '')'' in
                 if ph_mode n = MATCH_EXISTS then
                   sourceExpr @ (if ph_header n then js '' != '' @ [34, 34] else js '' != nil'')
                 else if ph_mode n = MATCH_CONTAINS then
                   (if ph_header n
                    then js ''has('' @ sourceExpr @ js '', '' @ buildExprLiteral (ph_mode n) (ph_value n) @ js '')''
                    else sourceExpr @ js '' != nil && has('' @ sourceExpr @ js '', ''
                           @ buildExprLiteral (ph_mode n) (ph_value n) @ js '')'')
                 else if ph_mode n \<in> {MATCH_GT, MATCH_GTE, MATCH_LT, MATCH_LTE} then
                   let numText = trim (ph_value n) in
                   if \<not> NUMERIC_LITERAL_REGEX numText then []
                   else sourceExpr @ js '' != nil && '' @ sourceExpr @ js '' '' @ number_op (ph_mode n) @ js '' '' @ numText
                 else sourceExpr @ js '' == '' @ buildExprLiteral (ph_mode n) (ph_value n)))"

definition buildRuleGroupFactor :: "RequestRuleGroup \<Rightarrow> jsstring" where
  "buildRuleGroupFactor g =
     (let m = trim (multiplier g) in
      if \<not> NUMERIC_LITERAL_REGEX m then []
      else
        let condExprs = filter (\<lambda>e. e \<noteq> []) (map buildRequestConditionExpr (conditions g)) in
        if condExprs = [] then []
        else
          let combined = (case condExprs of
                [e] \<Rightarrow> e
              | _ \<Rightarrow> join (js '' && '')
                  (map (\<lambda>e. if str_includes e (js '' || '') then js ''('' @ e @ js '')'' else e) condExprs))
          in js ''('' @ combined @ js '' ? '' @ m @ js '' : 1)'')"

definition buildRequestRuleExpr :: "RequestRuleGroup list \<Rightarrow> jsstring" where
  "buildRequestRuleExpr groups = join (js '' * '') (filter (\<lambda>f. f \<noteq> []) (map buildRuleGroupFactor groups))"

section \<open>Parsing expressions\<close>

text \<open>The outcome of a parser: it throws, returns \<open>null\<close>, or returns a value.\<close>

datatype 'a attempt = Thrown | Rejected | Accepted 'a

fun or_else :: "'a attempt \<Rightarrow> 'a attempt \<Rightarrow> 'a attempt" where
  "or_else Rejected b = b"
| "or_else a b = a"

definition matched :: "'a option \<Rightarrow> 'a attempt" where
  "matched m = (case m of None \<Rightarrow> Rejected | Some x \<Rightarrow> Accepted x)"

text \<open>The scan shared by \<open>splitTopLevelMultiply\<close> and \<open>splitTopLevelAnd\<close>: the depth, the piece read so
  far in reverse, and the rest of the string.\<close>

function split_top :: "jsstring \<Rightarrow> int \<Rightarrow> jsstring \<Rightarrow> jsstring \<Rightarrow> jsstring list" where
  "split_top sep d cur [] = [trim (rev cur)]"
| "split_top sep d cur (c # s) =
     (let d' = (if c = 40 then d + 1 else if c = 41 then d - 1 else d) in
      if d' = 0 \<and> sep \<noteq> [] \<and> prefix sep (c # s)
      then trim (rev cur) # split_top sep d' [] (drop (length sep) (c # s))
      else split_top sep d' (c # cur) s)"
  by pat_completeness auto
termination split_top
  by (relation "measure (\<lambda>(sep, d, cur, s). length s)") auto

definition splitTopLevelMultiply :: "jsstring \<Rightarrow> jsstring list" where
  "splitTopLevelMultiply expr = filter (\<lambda>p. p \<noteq> []) (split_top (js '' * '') 0 [] expr)"

definition splitTopLevelAnd :: "jsstring \<Rightarrow> jsstring list" where
  "splitTopLevelAnd expr = filter (\<lambda>p. p \<noteq> []) (split_top (js '' && '') 0 [] expr)"

definition strip_prefix :: "jsstring \<Rightarrow> jsstring \<Rightarrow> jsstring option" where
  "strip_prefix p s = (if prefix p s then Some (drop (length p) s) else None)"

text \<open>\<open>name\("([^"]+)"\)\<close>: the argument and the rest.\<close>

definition match_call :: "jsstring \<Rightarrow> jsstring \<Rightarrow> (jsstring \<times> jsstring) option" where
  "match_call name s =
     Option.bind (strip_prefix (name @ [40, 34]) s) (\<lambda>r.
       let a = takeWhile (\<lambda>c. c \<noteq> 34) r in
       if a = [] then None
       else map_option (\<lambda>r'. (a, r')) (strip_prefix [34, 41] (dropWhile (\<lambda>c. c \<noteq> 34) r)))"

definition match_time_call :: "jsstring \<Rightarrow> (TimeFunc \<times> jsstring \<times> jsstring) option" where
  "match_time_call s =
     Option.bind (find (\<lambda>f. match_call (time_name f) s \<noteq> None) TIME_FUNCS) (\<lambda>f.
       map_option (\<lambda>(a, r). (f, a, r)) (match_call (time_name f) s))"

text \<open>\<open>([\d.eE+-]+)$\<close>.\<close>

definition match_number_end :: "jsstring \<Rightarrow> jsstring option" where
  "match_number_end s = (if s \<noteq> [] \<and> list_all num_char s then Some s else None)"

definition match_time_range :: "jsstring \<Rightarrow> RequestCondition option" where
  "match_time_range s =
     Option.bind (match_time_call s) (\<lambda>(f, tz, r).
     Option.bind (strip_prefix (js '' >= '') r) (\<lambda>r1.
     Option.bind (if takeWhile num_char r1 = [] then None
                  else strip_prefix (js '' || '' @ time_name f @ [40, 34] @ tz @ [34, 41] @ js '' < '') (dropWhile num_char r1)) (\<lambda>r2.
     Option.bind (match_number_end r2) (\<lambda>e.
       Some (TC \<lparr>timeFunc = f, timezone = tz, time_mode = MATCH_RANGE, time_value = [],
                 rangeStart = takeWhile num_char r1, rangeEnd = e\<rparr>)))))"

definition match_time_op :: "jsstring \<Rightarrow> (jsstring \<times> jsstring) option" where
  "match_time_op r =
     (case strip_prefix (js '' == '') r of
        Some q \<Rightarrow> Some (MATCH_EQ, q)
      | None \<Rightarrow> (case strip_prefix (js '' >= '') r of
            Some q \<Rightarrow> Some (MATCH_GTE, q)
          | None \<Rightarrow> map_option (\<lambda>q. (MATCH_LT, q)) (strip_prefix (js '' < '') r)))"

definition tryParseTimeCondition :: "jsstring \<Rightarrow> RequestCondition option" where
  "tryParseTimeCondition s =
     (case match_time_range s of
        Some c \<Rightarrow> Some c
      | None \<Rightarrow>
          (case (if length s \<ge> 2 \<and> hd s = 40 \<and> last s = 41 then match_time_range (butlast (tl s)) else None) of
             Some c \<Rightarrow> Some c
           | None \<Rightarrow>
               Option.bind (match_time_call s) (\<lambda>(f, tz, r).
               Option.bind (match_time_op r) (\<lambda>(mode, q).
               Option.bind (match_number_end q) (\<lambda>v.
                 Some (TC \<lparr>timeFunc = f, timezone = tz, time_mode = mode, time_value = v,
                           rangeStart = [], rangeEnd = []\<rparr>))))))"

text \<open>\<open>"(?:[^"\\]|\\.)*"\<close> as the whole string.\<close>

definition line_end :: "code_unit \<Rightarrow> bool" where
  "line_end c \<longleftrightarrow> c \<in> {10, 13, 8232, 8233}"

fun literal_body :: "jsstring \<Rightarrow> bool" where
  "literal_body [] = False"
| "literal_body [c] = (c = 34)"
| "literal_body (c # d # s) =
     (if c = 34 then False
      else if c = 92 then \<not> line_end d \<and> literal_body s
      else literal_body (d # s))"

definition match_string_literal :: "jsstring \<Rightarrow> jsstring option" where
  "match_string_literal s = (case s of c # r \<Rightarrow> if c = 34 \<and> literal_body r then Some s else None | [] \<Rightarrow> None)"

text \<open>\<open>JSON.parse\<close> of a matched string literal; it throws on a literal that is not JSON.\<close>

definition parse_string :: "(jsstring \<Rightarrow> 'n json option) \<Rightarrow> ('n json \<Rightarrow> jsstring) \<Rightarrow> jsstring \<Rightarrow> jsstring attempt" where
  "parse_string parse to_str s =
     (case parse s of None \<Rightarrow> Thrown | Some (JStr v) \<Rightarrow> Accepted v | Some v \<Rightarrow> Accepted (to_str v))"

fun map_attempt :: "('a \<Rightarrow> 'b) \<Rightarrow> 'a attempt \<Rightarrow> 'b attempt" where
  "map_attempt f Thrown = Thrown"
| "map_attempt f Rejected = Rejected"
| "map_attempt f (Accepted x) = Accepted (f x)"

text \<open>\<open>parseExprLiteral\<close> followed by \<open>String\<close>; \<open>null\<close> is both a failed parse and a parsed \<open>null\<close>.\<close>

definition parseExprLiteral :: "(jsstring \<Rightarrow> 'n json option) \<Rightarrow> ('n json \<Rightarrow> jsstring) \<Rightarrow> jsstring \<Rightarrow> jsstring option" where
  "parseExprLiteral parse to_str raw =
     (let text = trim raw in
      if text = js ''true'' \<or> text = js ''false'' then Some text
      else if NUMERIC_LITERAL_REGEX text then Some text
      else case parse text of
        None \<Rightarrow> None
      | Some JNull \<Rightarrow> None
      | Some (JStr v) \<Rightarrow> Some v
      | Some v \<Rightarrow> Some (to_str v))"

definition match_exists :: "bool \<Rightarrow> jsstring \<Rightarrow> RequestCondition option" where
  "match_exists header s =
     Option.bind (match_call (if header then js ''header'' else js ''param'') s) (\<lambda>(path, r).
       if r = (if header then js '' != '' @ [34, 34] else js '' != nil'')
       then Some (PH \<lparr>ph_header = header, ph_path = path, ph_mode = MATCH_EXISTS, ph_value = []\<rparr>) else None)"

text \<open>The literal of \<open>has(header("..."), "...")\<close> and of its \<open>param\<close> form.\<close>

definition match_has :: "jsstring \<Rightarrow> jsstring \<Rightarrow> (jsstring \<times> jsstring) option" where
  "match_has name s =
     Option.bind (strip_prefix (js ''has('') s) (\<lambda>r.
     Option.bind (match_call name r) (\<lambda>(path, r1).
     Option.bind (strip_prefix (js '', '') r1) (\<lambda>r2.
       if r2 \<noteq> [] \<and> last r2 = 41
       then map_option (\<lambda>lit. (path, lit)) (match_string_literal (butlast r2)) else None)))"

definition match_param_nil :: "jsstring \<Rightarrow> (jsstring \<times> jsstring) option" where
  "match_param_nil s =
     Option.bind (match_call (js ''param'') s) (\<lambda>(path, r).
       map_option (\<lambda>r'. (path, r')) (strip_prefix (js '' != nil && '') r))"

definition match_number_op :: "jsstring \<Rightarrow> (jsstring \<times> jsstring) option" where
  "match_number_op r =
     (case strip_prefix (js '' > '') r of
        Some q \<Rightarrow> Some (MATCH_GT, q)
      | None \<Rightarrow> (case strip_prefix (js '' >= '') r of
            Some q \<Rightarrow> Some (MATCH_GTE, q)
          | None \<Rightarrow> (case strip_prefix (js '' < '') r of
                Some q \<Rightarrow> Some (MATCH_LT, q)
              | None \<Rightarrow> map_option (\<lambda>q. (MATCH_LTE, q)) (strip_prefix (js '' <= '') r))))"

definition match_param_number :: "jsstring \<Rightarrow> RequestCondition option" where
  "match_param_number s =
     Option.bind (match_param_nil s) (\<lambda>(path, r).
     Option.bind (match_call (js ''param'') r) (\<lambda>(path2, r1).
     Option.bind (match_number_op r1) (\<lambda>(mode, q).
     Option.bind (match_number_end q) (\<lambda>v.
       if path = path2
       then Some (PH \<lparr>ph_header = False, ph_path = path, ph_mode = mode, ph_value = v\<rparr>) else None))))"

definition match_eq :: "jsstring \<Rightarrow> (bool \<times> jsstring \<times> jsstring) option" where
  "match_eq s =
     (let rest = (\<lambda>header (path, r).
            Option.bind (strip_prefix (js '' == '') r) (\<lambda>q.
              if q \<noteq> [] \<and> \<not> list_ex line_end q then Some (header, path, q) else None))
      in case match_call (js ''param'') s of
           Some pr \<Rightarrow> rest False pr
         | None \<Rightarrow> Option.bind (match_call (js ''header'') s) (rest True))"

definition tryParseRequestCondition ::
  "(jsstring \<Rightarrow> 'n json option) \<Rightarrow> ('n json \<Rightarrow> jsstring) \<Rightarrow> jsstring \<Rightarrow> RequestCondition attempt" where
  "tryParseRequestCondition parse to_str s =
     or_else (matched (tryParseTimeCondition s))
    (or_else (matched (match_exists True s))
    (or_else (matched (match_exists False s))
    (or_else (case match_has (js ''header'') s of
                None \<Rightarrow> Rejected
              | Some (path, lit) \<Rightarrow> map_attempt (\<lambda>v. PH \<lparr>ph_header = True, ph_path = path,
                    ph_mode = MATCH_CONTAINS, ph_value = v\<rparr>) (parse_string parse to_str lit))
    (or_else (case Option.bind (match_param_nil s) (\<lambda>(path, r). map_option (\<lambda>(path2, lit). (path, path2, lit)) (match_has (js ''param'') r)) of
                None \<Rightarrow> Rejected
              | Some (path, path2, lit) \<Rightarrow>
                  if path = path2 then map_attempt (\<lambda>v. PH \<lparr>ph_header = False, ph_path = path,
                    ph_mode = MATCH_CONTAINS, ph_value = v\<rparr>) (parse_string parse to_str lit) else Rejected)
    (or_else (matched (match_param_number s))
      (case match_eq s of
         None \<Rightarrow> Rejected
       | Some (header, path, q) \<Rightarrow>
           (case parseExprLiteral parse to_str q of
              None \<Rightarrow> Rejected
            | Some v \<Rightarrow> Accepted (PH \<lparr>ph_header = header, ph_path = path, ph_mode = MATCH_EQ, ph_value = v\<rparr>))))))))"

text \<open>\<open>^\((.+) \? ([\d.eE+-]+) : 1\)$\<close>: the condition and the multiplier.\<close>

definition match_factor :: "jsstring \<Rightarrow> (jsstring \<times> jsstring) option" where
  "match_factor s =
     (if prefix [40] s \<and> suffix (js '' : 1)'') s then
        let body = take (length s - 1 - length (js '' : 1)'')) (drop 1 s);
            m = rev (takeWhile num_char (rev body));
            before = rev (dropWhile num_char (rev body))
        in if m \<noteq> [] \<and> suffix (js '' ? '') before \<and> length before > 3
           then Some (take (length before - 3) before, m) else None
      else None)"

fun parse_all :: "('a \<Rightarrow> 'b attempt) \<Rightarrow> 'a list \<Rightarrow> 'b list attempt" where
  "parse_all f [] = Accepted []"
| "parse_all f (x # xs) =
     (case f x of
        Thrown \<Rightarrow> Thrown
      | Rejected \<Rightarrow> Rejected
      | Accepted y \<Rightarrow> map_attempt (Cons y) (parse_all f xs))"

definition tryParseRuleGroupFactor ::
  "(jsstring \<Rightarrow> 'n json option) \<Rightarrow> ('n json \<Rightarrow> jsstring) \<Rightarrow> jsstring \<Rightarrow> RequestRuleGroup attempt" where
  "tryParseRuleGroupFactor parse to_str part =
     (case match_factor part of
        None \<Rightarrow> Rejected
      | Some (conditionStr, m) \<Rightarrow>
          (case parse_all (\<lambda>ap. tryParseRequestCondition parse to_str (trim ap)) (splitTopLevelAnd conditionStr) of
             Thrown \<Rightarrow> Thrown
           | Rejected \<Rightarrow> Rejected
           | Accepted cs \<Rightarrow> if cs = [] then Rejected else Accepted \<lparr>conditions = cs, multiplier = m\<rparr>))"

definition tryParseRequestRuleExpr ::
  "(jsstring \<Rightarrow> 'n json option) \<Rightarrow> ('n json \<Rightarrow> jsstring) \<Rightarrow> jsstring \<Rightarrow> RequestRuleGroup list attempt" where
  "tryParseRequestRuleExpr parse to_str expr =
     (let trimmed = trim expr in
      if trimmed = [] then Accepted []
      else parse_all (tryParseRuleGroupFactor parse to_str) (splitTopLevelMultiply trimmed))"

section \<open>Base expression and rules\<close>

text \<open>The loop of \<open>hasFullOuterParens\<close>: it stops where the depth is 0 before the last character.\<close>

fun parens_loop :: "int \<Rightarrow> jsstring \<Rightarrow> bool" where
  "parens_loop d [] = (d = 0)"
| "parens_loop d (c # s) =
     (let d' = (if c = 40 then d + 1 else if c = 41 then d - 1 else d) in
      if d' = 0 \<and> s \<noteq> [] then False else parens_loop d' s)"

definition hasFullOuterParens :: "jsstring \<Rightarrow> bool" where
  "hasFullOuterParens expr \<longleftrightarrow> startsWith expr [40] \<and> endsWith expr [41] \<and> parens_loop 0 expr"

lemma trim_length: "length (trim s) \<le> length s"
proof -
  have "length (dropWhile P xs) \<le> length xs" for P and xs :: jsstring by (rule length_dropWhile_le)
  then show ?thesis unfolding trim_def by (metis length_rev le_trans)
qed

function unwrap_loop :: "jsstring \<Rightarrow> jsstring" where
  "unwrap_loop current = (if hasFullOuterParens current then unwrap_loop (trim (butlast (tl current))) else current)"
  by pat_completeness auto
termination unwrap_loop
proof (relation "measure length")
  fix current :: jsstring
  assume "hasFullOuterParens current"
  then have "current \<noteq> []" by (auto simp: hasFullOuterParens_def startsWith_def)
  then have "length (butlast (tl current)) < length current" by simp
  with trim_length [of "butlast (tl current)"] show "(trim (butlast (tl current)), current) \<in> measure length" by simp
qed simp

definition unwrapOuterParens :: "jsstring \<Rightarrow> jsstring" where
  "unwrapOuterParens expr = unwrap_loop (trim expr)"

declare unwrap_loop.simps [simp del]

fun accepts_rules :: "RequestRuleGroup list attempt \<Rightarrow> bool" where
  "accepts_rules (Accepted gs) = (gs \<noteq> [])"
| "accepts_rules _ = False"

text \<open>\<open>None\<close> is an exception of the rule parser.\<close>

definition splitBillingExprAndRequestRules ::
  "(jsstring \<Rightarrow> 'n json option) \<Rightarrow> ('n json \<Rightarrow> jsstring) \<Rightarrow> jsstring \<Rightarrow> (jsstring \<times> jsstring) option" where
  "splitBillingExprAndRequestRules parse to_str expr =
     (let trimmed = trim expr in
      if trimmed = [] then Some ([], [])
      else
        let parts = splitTopLevelMultiply trimmed in
        if length parts \<le> 1 then Some (trimmed, [])
        else if list_ex (\<lambda>part. tryParseRequestRuleExpr parse to_str part = Thrown) parts then None
        else
          let ruleParts = filter (\<lambda>part. accepts_rules (tryParseRequestRuleExpr parse to_str part)) parts;
              baseParts = filter (\<lambda>part. \<not> accepts_rules (tryParseRequestRuleExpr parse to_str part)) parts
          in if ruleParts = [] \<or> length baseParts \<noteq> 1 then Some (trimmed, [])
             else Some (unwrapOuterParens (hd baseParts), join (js '' * '') ruleParts))"

definition combineBillingExpr :: "jsstring \<Rightarrow> jsstring \<Rightarrow> jsstring" where
  "combineBillingExpr baseExpr requestRuleExpr =
     (let base = trim baseExpr; rules = trim requestRuleExpr in
      if base = [] then []
      else if rules = [] then base
      else js ''('' @ base @ js '') * '' @ rules)"

end
