(* ===== verification/Billing_Rules_Laws.thy ===== *)
theory Billing_Rules_Laws
  imports Billing_Rules
begin

text \<open>
  Laws of the request rules: the parser reads back what the editor builds, the base expression and the
  rules are separated again after they were combined, and the shapes that are not read back.
\<close>

section \<open>Plain strings and numbers\<close>

text \<open>Plain strings have no quote, backslash, parenthesis, ampersand, bar, control character, line end
  or surrogate.\<close>

definition plain :: "jsstring \<Rightarrow> bool" where
  "plain s \<longleftrightarrow> (\<forall>c\<in>set s. 32 \<le> c \<and> c < 55296 \<and> c \<notin> {34, 38, 40, 41, 92, 124} \<and> \<not> line_end c)"

lemma plain_Nil [simp]: "plain []"
  by (simp add: plain_def)

lemma quote_plain_unit: "plain [c] \<Longrightarrow> quote_unit c = [c]"
  by (auto simp: plain_def quote_unit_def)

lemma quote_plain [simp]: "plain s \<Longrightarrow> quote_body s = s"
proof (induction s rule: quote_body.induct)
  case (3 c d s)
  have "plain [c]" "plain (d # s)" "c < 55296" using 3(3) by (auto simp: plain_def)
  with 3 show ?case by (simp add: quote_plain_unit)
qed (simp_all add: quote_plain_unit)

lemma json_quote_plain [simp]: "plain s \<Longrightarrow> json_quote s = 34 # s @ [34]"
  by (simp add: json_quote_def)

lemma plainD:
  assumes "plain s"
  shows "34 \<notin> set s" "38 \<notin> set s" "40 \<notin> set s" "41 \<notin> set s" "124 \<notin> set s" "\<not> list_ex line_end s" "92 \<notin> set s"
  using assms by (auto simp: plain_def list_ex_iff)

lemma takeWhile_digits: "c \<in> set (takeWhile is_digit s) \<Longrightarrow> num_char c"
  by (auto simp: num_char_def dest: set_takeWhileD)

lemma split_digits: "s = takeWhile is_digit s @ dropWhile is_digit s"
  by simp

lemma digits_rest: "\<forall>c\<in>set (dropWhile is_digit s). num_char c \<Longrightarrow> c \<in> set s \<Longrightarrow> num_char c"
  by (metis Un_iff set_append split_digits takeWhile_digits)

lemma exponent_chars: "exponent_ok s \<Longrightarrow> c \<in> set s \<Longrightarrow> num_char c"
  by (auto simp: exponent_ok_def num_char_def list_all_iff Let_def split: list.splits if_splits)

lemma numeric_chars:
  assumes "NUMERIC_LITERAL_REGEX s"
  shows "s \<noteq> [] \<and> list_all num_char s"
proof -
  define u where "u = (case s of c # r \<Rightarrow> if c = 45 then r else s | [] \<Rightarrow> [])"
  have u: "u \<noteq> [] \<Longrightarrow> \<forall>c\<in>set u. num_char c \<Longrightarrow> s \<noteq> [] \<and> list_all num_char s"
    by (auto simp: u_def num_char_def list_all_iff split: list.splits if_splits)
  have minus: "num_char 46" by (simp add: num_char_def)
  show ?thesis
  proof (cases "takeWhile is_digit u = []")
    case False
    then have ne: "u \<noteq> []" by auto
    have "exponent_ok (case dropWhile is_digit u of c # q \<Rightarrow> if c = 46 then dropWhile is_digit q else dropWhile is_digit u | [] \<Rightarrow> [])"
      using assms False by (simp add: NUMERIC_LITERAL_REGEX_def digits_then_def Let_def flip: u_def)
    then have "\<forall>c\<in>set (dropWhile is_digit u). num_char c"
    proof (cases "dropWhile is_digit u")
      case (Cons c q)
      with \<open>exponent_ok _\<close> show ?thesis
        by (auto split: if_splits simp: minus dest: exponent_chars digits_rest [rotated])
    qed (simp only: list.set ball_empty)
    then show ?thesis using digits_rest ne u by blast
  next
    case True
    then obtain q where q: "dropWhile is_digit u = 46 # q" "exponent_ok (dropWhile is_digit q)"
      using assms by (auto simp: NUMERIC_LITERAL_REGEX_def digits_then_def Let_def simp flip: u_def split: list.splits)
    then have "\<forall>c\<in>set (dropWhile is_digit u). num_char c"
      using digits_rest exponent_chars minus by fastforce
    moreover have "u \<noteq> []" using q(1) by auto
    ultimately show ?thesis using digits_rest u by blast
  qed
qed

lemma num_char_cases: "num_char c \<Longrightarrow> c \<in> {43, 45, 46, 48, 49, 50, 51, 52, 53, 54, 55, 56, 57, 69, 101}"
  unfolding num_char_def is_digit_def insert_iff empty_iff by presburger

lemma num_char_not_space: "num_char c \<Longrightarrow> \<not> is_space c"
  by (drule num_char_cases) (auto simp: is_space_def)

lemma numeric_facts:
  assumes "NUMERIC_LITERAL_REGEX s"
  shows "s \<noteq> []" "list_all num_char s" "trim s = s" "plain s" "trimmed s"
proof -
  show a: "s \<noteq> []" "list_all num_char s" using numeric_chars [OF assms] by auto
  show "trim s = s" by (rule trim_no_space) (use a(2) num_char_not_space in \<open>auto simp: list_all_iff\<close>)
  then show "trimmed s" using trimmed_trim by metis
  show "plain s" using a(2) num_char_cases by (fastforce simp: plain_def list_all_iff line_end_def)
qed

lemma numeric_not_quote [simp]: "\<not> NUMERIC_LITERAL_REGEX (34 # s)"
  by (simp add: NUMERIC_LITERAL_REGEX_def digits_then_def is_digit_def Let_def)

section \<open>Depth\<close>

definition bump :: "int \<Rightarrow> code_unit \<Rightarrow> int" where
  "bump d c = (if c = 40 then d + 1 else if c = 41 then d - 1 else d)"

definition depth :: "int \<Rightarrow> jsstring \<Rightarrow> int" where
  "depth d s = foldl bump d s"

fun above :: "int \<Rightarrow> jsstring \<Rightarrow> bool" where
  "above d [] = True"
| "above d (c # s) = (0 < bump d c \<and> above (bump d c) s)"

lemma depth_simps [simp]: "depth d [] = d" "depth d (c # s) = depth (bump d c) s"
  by (simp_all add: depth_def)

lemma depth_append [simp]: "depth d (s @ t) = depth (depth d s) t"
  by (simp add: depth_def)

lemma above_append [simp]: "above d (s @ t) \<longleftrightarrow> above d s \<and> above (depth d s) t"
  by (induction s arbitrary: d) auto

lemma depth_flat [simp]: "40 \<notin> set s \<Longrightarrow> 41 \<notin> set s \<Longrightarrow> depth d s = d"
  by (induction s arbitrary: d) (auto simp: bump_def)

lemma above_flat [simp]: "40 \<notin> set s \<Longrightarrow> 41 \<notin> set s \<Longrightarrow> 0 < d \<Longrightarrow> above d s"
  by (induction s arbitrary: d) (auto simp: bump_def)

lemma above_skip:
  "above d x \<Longrightarrow> split_top sep d cur (x @ r) = split_top sep (depth d x) (rev x @ cur) r"
  by (induction x arbitrary: d cur) (auto simp: Let_def bump_def)

lemma and_skip:
  assumes "38 \<notin> set x" "r = [] \<or> hd r \<noteq> 38"
  shows "split_top (js '' && '') d cur (x @ r) = split_top (js '' && '') (depth d x) (rev x @ cur) r"
  using assms(1)
proof (induction x arbitrary: d cur)
  case (Cons c x)
  have "\<not> prefix (js '' && '') (c # x @ r)"
    using Cons.prems assms(2) by (cases x; cases r) auto
  with Cons show ?case by (auto simp: bump_def Let_def simp del: js_Cons)
qed simp

lemma split_and_join:
  assumes "\<forall>x\<in>set xs. 38 \<notin> set x \<and> depth 0 x = 0 \<and> trim x = x" "xs \<noteq> []"
  shows "split_top (js '' && '') 0 [] (join (js '' && '') xs) = xs"
  using assms
proof (induction xs rule: induct_list012)
  case (2 x)
  then show ?case using and_skip [of x "[]" 0 "[]"] by simp
next
  case (3 x y zs)
  have "split_top (js '' && '') 0 [] (x @ js '' && '' @ join (js '' && '') (y # zs)) =
      split_top (js '' && '') 0 (rev x) (js '' && '' @ join (js '' && '') (y # zs))"
    using and_skip [of x "js '' && '' @ join (js '' && '') (y # zs)" 0 "[]"] 3 by simp
  also have "\<dots> = x # split_top (js '' && '') 0 [] (join (js '' && '') (y # zs))"
    using 3 by simp
  finally show ?case using 3 by simp
qed simp

text \<open>A factor: it opens a parenthesis that only its last character closes.\<close>

definition factor :: "jsstring \<Rightarrow> bool" where
  "factor x \<longleftrightarrow> (\<exists>b. x = 40 # b @ [41] \<and> above 1 b \<and> depth 1 b = 1)"

lemma factor_skip:
  assumes "factor x"
  shows "split_top (js '' * '') 0 [] (x @ r) = split_top (js '' * '') 0 (rev x) r"
proof -
  obtain b where b: "x = 40 # b @ [41]" "above 1 b" "depth 1 b = 1" using assms by (auto simp: factor_def)
  have "split_top (js '' * '') 0 [] ((40 # b) @ 41 # r) = split_top (js '' * '') 1 (rev (40 # b)) (41 # r)"
    using above_skip [of 0 "40 # b"] b by (simp add: bump_def)
  then show ?thesis using b by simp
qed

lemma factor_trim: "factor x \<Longrightarrow> trim x = x \<and> x \<noteq> []"
  by (auto simp: factor_def is_space_def trimmed_def intro!: trim_id)

lemma split_mul_join:
  assumes "\<forall>x\<in>set xs. factor x" "xs \<noteq> []"
  shows "split_top (js '' * '') 0 [] (join (js '' * '') xs) = xs"
  using assms
proof (induction xs rule: induct_list012)
  case (2 x)
  then show ?case using factor_skip [of x "[]"] factor_trim [of x] by simp
next
  case (3 x y zs)
  then show ?case using factor_skip [of x] factor_trim [of x] by simp
qed simp

section \<open>Conditions that are read back\<close>

fun simple :: "RequestCondition \<Rightarrow> bool" where
  "simple (TC c) \<longleftrightarrow> plain (timezone c) \<and> timezone c \<noteq> []
     \<and> (if time_mode c = MATCH_RANGE
         then time_value c = [] \<and> NUMERIC_LITERAL_REGEX (rangeStart c) \<and> NUMERIC_LITERAL_REGEX (rangeEnd c)
         else time_mode c \<in> {MATCH_EQ, MATCH_GTE, MATCH_LT} \<and> NUMERIC_LITERAL_REGEX (time_value c)
           \<and> rangeStart c = [] \<and> rangeEnd c = [])"
| "simple (PH c) \<longleftrightarrow> plain (ph_path c) \<and> ph_path c \<noteq> [] \<and> trim (ph_path c) = ph_path c
     \<and> plain (ph_value c) \<and> trim (ph_value c) = ph_value c
     \<and> (ph_mode c = MATCH_EXISTS \<and> ph_value c = [] \<or> ph_mode c = MATCH_EQ \<or> ph_mode c = MATCH_CONTAINS \<and> ph_header c)"

lemma strip_prefix_simps [simp]:
  "strip_prefix [] s = Some s"
  "strip_prefix (a # p) [] = None"
  "strip_prefix (a # p) (b # s) = (if a = b then strip_prefix p s else None)"
  "strip_prefix (p @ q) (p @ s) = strip_prefix q s"
  by (auto simp: strip_prefix_def prefix_def)

lemma strip_prefix_app: "strip_prefix p (p @ s) = Some s"
  by (simp add: strip_prefix_def)

lemma quote_span [simp]:
  "34 \<notin> set a \<Longrightarrow> takeWhile (\<lambda>c. c \<noteq> 34) (a @ 34 # r) = a"
  "34 \<notin> set a \<Longrightarrow> dropWhile (\<lambda>c. c \<noteq> 34) (a @ 34 # r) = 34 # r"
  by (induction a) auto

lemma match_call_ok [simp]:
  "34 \<notin> set a \<Longrightarrow> a \<noteq> [] \<Longrightarrow> match_call name (name @ 40 # 34 # a @ 34 # 41 # r) = Some (a, r)"
  by (simp add: match_call_def Let_def)

lemma match_call_no: "strip_prefix (name @ [40, 34]) s = None \<Longrightarrow> match_call name s = None"
  by (simp add: match_call_def)

lemma match_call_time [simp]:
  assumes "34 \<notin> set a" "a \<noteq> []"
  shows "match_time_call (time_name f @ 40 # 34 # a @ 34 # 41 # r) = Some (f, a, r)"
proof -
  have other: "match_call (time_name g) (time_name f @ 40 # 34 # a @ 34 # 41 # r) = None" if "g \<noteq> f" for g
    using that by (cases f; cases g) (simp_all add: match_call_no)
  have "(\<lambda>g. match_call (time_name g) (time_name f @ 40 # 34 # a @ 34 # 41 # r) \<noteq> None) = (\<lambda>g. g = f)"
    using match_call_ok [OF assms, of "time_name f" r] other by (intro ext) force
  moreover have "find (\<lambda>g. g = f) TIME_FUNCS = Some f" by (cases f) (simp_all add: TIME_FUNCS_def)
  ultimately have "find (\<lambda>g. match_call (time_name g) (time_name f @ 40 # 34 # a @ 34 # 41 # r) \<noteq> None) TIME_FUNCS = Some f"
    by simp
  then show ?thesis using match_call_ok [OF assms] by (simp add: match_time_call_def)
qed

lemma not_time:
  "match_time_call (js ''header('' @ s) = None" "match_time_call (js ''param('' @ s) = None"
  "match_time_call (js ''has('' @ s) = None" "match_time_call (40 # s) = None"
  by (simp_all add: match_time_call_def TIME_FUNCS_def match_call_no)

lemma not_time_condition:
  "tryParseTimeCondition (js ''header('' @ s) = None" "tryParseTimeCondition (js ''param('' @ s) = None"
  "tryParseTimeCondition (js ''has('' @ s) = None"
  using not_time [of s] by (simp_all add: tryParseTimeCondition_def match_time_range_def)

lemma num_span:
  assumes "list_all num_char n" "\<not> num_char c"
  shows "takeWhile num_char (n @ c # r) = n" "dropWhile num_char (n @ c # r) = c # r"
  using assms by (simp_all add: takeWhile_append dropWhile_append list_all_iff)

lemma match_number_end_ok [simp]: "NUMERIC_LITERAL_REGEX n \<Longrightarrow> match_number_end n = Some n"
  using numeric_facts [of n] by (simp add: match_number_end_def)

abbreviation time_call :: "TimeFunc \<Rightarrow> jsstring \<Rightarrow> jsstring" where
  "time_call f tz \<equiv> time_name f @ 40 # 34 # tz @ [34, 41]"

lemma space_not_num [simp]: "\<not> num_char 32"
  by (simp add: num_char_def is_digit_def)

lemma time_range_ok:
  assumes "plain tz" "tz \<noteq> []" "NUMERIC_LITERAL_REGEX a" "NUMERIC_LITERAL_REGEX b"
  shows "match_time_range (time_call f tz @ js '' >= '' @ a @ js '' || '' @ time_call f tz @ js '' < '' @ b) =
    Some (TC \<lparr>timeFunc = f, timezone = tz, time_mode = MATCH_RANGE, time_value = [], rangeStart = a, rangeEnd = b\<rparr>)"
proof -
  have q: "34 \<notin> set tz" using plainD [OF assms(1)] by simp
  have n: "list_all num_char a" "a \<noteq> []" using numeric_facts [OF assms(3)] by auto
  have strip: "strip_prefix (js '' || '' @ time_name f @ [40, 34] @ tz @ [34, 41] @ js '' < '')
      (js '' || '' @ time_call f tz @ js '' < '' @ b) = Some b"
    using strip_prefix_app [of "js '' || '' @ time_name f @ [40, 34] @ tz @ [34, 41] @ js '' < ''" b] by simp
  show ?thesis
    using match_call_time [OF q assms(2), of f "js '' >= '' @ a @ js '' || '' @ time_call f tz @ js '' < '' @ b"]
      num_span [OF n(1), of 32 "tl (js '' || '' @ time_call f tz @ js '' < '' @ b)"] strip n(2) assms(4)
    by (simp add: match_time_range_def)
qed

lemma time_op_ok:
  assumes "plain tz" "tz \<noteq> []" "NUMERIC_LITERAL_REGEX v" "mode \<in> {MATCH_EQ, MATCH_GTE, MATCH_LT}"
  shows "tryParseTimeCondition (time_call f tz @ 32 # time_op mode @ 32 # v) =
    Some (TC \<lparr>timeFunc = f, timezone = tz, time_mode = mode, time_value = v, rangeStart = [], rangeEnd = []\<rparr>)"
proof -
  have q: "34 \<notin> set tz" using plainD [OF assms(1)] by simp
  have n: "list_all num_char v" "v \<noteq> []" using numeric_facts [OF assms(3)] by auto
  have call: "match_time_call (time_call f tz @ 32 # time_op mode @ 32 # v) = Some (f, tz, 32 # time_op mode @ 32 # v)"
    using match_call_time [OF q assms(2)] by simp
  have "dropWhile num_char v = []" using n(1) by (simp add: list_all_iff)
  then have "match_time_range (time_call f tz @ 32 # time_op mode @ 32 # v) = None"
    unfolding match_time_range_def call using assms(4)
    by (auto simp: time_op_def match_defs simp del: dropWhile_eq_Nil_conv)
  moreover have "hd (time_call f tz @ 32 # time_op mode @ 32 # v) \<noteq> 40" by (cases f) simp_all
  moreover have "match_time_op (32 # time_op mode @ 32 # v) = Some (mode, v)"
    using assms(4) by (auto simp: match_time_op_def time_op_def match_defs)
  ultimately show ?thesis using assms(3) call by (simp add: tryParseTimeCondition_def)
qed

lemma wrapped_range:
  assumes "match_time_range e = Some c"
  shows "tryParseTimeCondition (40 # e @ [41]) = Some c"
  using assms not_time(4) [of "e @ [41]"]
  by (simp add: tryParseTimeCondition_def match_time_range_def [of "40 # e @ [41]"] butlast_append)

text \<open>What the rule parser needs of the text of a condition.\<close>

definition reads_as :: "(jsstring \<Rightarrow> 'n json option) \<Rightarrow> ('n json \<Rightarrow> jsstring) \<Rightarrow> RequestCondition \<Rightarrow> jsstring \<Rightarrow> bool" where
  "reads_as parse to_str c e \<longleftrightarrow> e \<noteq> [] \<and> trim e = e \<and> 38 \<notin> set e \<and> (\<forall>d. depth d e = d \<and> (0 < d \<longrightarrow> above d e))
     \<and> tryParseRequestCondition parse to_str e = Accepted c"

lemma time_name_chars [simp]:
  "34 \<notin> set (time_name f)" "38 \<notin> set (time_name f)" "40 \<notin> set (time_name f)" "41 \<notin> set (time_name f)"
  "124 \<notin> set (time_name f)" "time_name f \<noteq> []" "\<not> is_space (hd (time_name f))"
  by (cases f; simp add: is_space_def)+

lemma trim_ends: "e \<noteq> [] \<Longrightarrow> \<not> is_space (hd e) \<Longrightarrow> \<not> is_space (last e) \<Longrightarrow> trim e = e"
  by (rule trim_id) (simp add: trimmed_def)

lemma numeric_last: "NUMERIC_LITERAL_REGEX v \<Longrightarrow> \<not> is_space (last v)"
  using numeric_facts [of v] num_char_not_space by (auto simp: list_all_iff)

lemma time_parsed: "tryParseTimeCondition e = Some c \<Longrightarrow> tryParseRequestCondition parse to_str e = Accepted c"
  by (simp add: tryParseRequestCondition_def matched_def)

lemma bump_simps [simp]: "bump d 40 = d + 1" "bump d 41 = d - 1" "c \<noteq> 40 \<Longrightarrow> c \<noteq> 41 \<Longrightarrow> bump d c = d"
  by (simp_all add: bump_def)

lemma range_reads:
  assumes "plain tz" "tz \<noteq> []" "NUMERIC_LITERAL_REGEX a" "NUMERIC_LITERAL_REGEX b"
    and c: "c = TC \<lparr>timeFunc = f, timezone = tz, time_mode = MATCH_RANGE, time_value = [], rangeStart = a, rangeEnd = b\<rparr>"
    and e: "e = time_call f tz @ js '' >= '' @ a @ js '' || '' @ time_call f tz @ js '' < '' @ b"
  shows "reads_as parse to_str c e" "reads_as parse to_str c (40 # e @ [41])"
proof -
  note facts = plainD [OF assms(1)] plainD [OF numeric_facts(4) [OF assms(3)]] plainD [OF numeric_facts(4) [OF assms(4)]]
  note ne = numeric_facts(1) [OF assms(3)] numeric_facts(1) [OF assms(4)]
  have r: "match_time_range e = Some c" unfolding e c by (rule time_range_ok [OF assms(1-4)])
  have p: "tryParseTimeCondition e = Some c" by (simp add: tryParseTimeCondition_def r)
  have shape: "e \<noteq> []" "38 \<notin> set e" "\<forall>d. depth d e = d \<and> (0 < d \<longrightarrow> above d e)" "\<not> is_space (hd e)" "\<not> is_space (last e)"
    using facts ne numeric_last [OF assms(4)] unfolding e by simp_all
  then show "reads_as parse to_str c e" by (simp add: reads_as_def trim_ends time_parsed [OF p])
  have "trim (40 # e @ [41]) = 40 # e @ [41]" by (rule trim_ends) (simp_all add: is_space_def)
  with shape show "reads_as parse to_str c (40 # e @ [41])"
    by (simp add: reads_as_def time_parsed [OF wrapped_range [OF r]])
qed

lemma time_op_reads:
  assumes "plain tz" "tz \<noteq> []" "NUMERIC_LITERAL_REGEX v" "mode \<in> {MATCH_EQ, MATCH_GTE, MATCH_LT}"
    and c: "c = TC \<lparr>timeFunc = f, timezone = tz, time_mode = mode, time_value = v, rangeStart = [], rangeEnd = []\<rparr>"
    and e: "e = time_call f tz @ 32 # time_op mode @ 32 # v"
  shows "reads_as parse to_str c e" "124 \<notin> set e"
proof -
  note facts = plainD [OF assms(1)] plainD [OF numeric_facts(4) [OF assms(3)]] numeric_facts(1) [OF assms(3)]
  have op: "set (time_op mode) \<subseteq> {60, 61, 62}" by (auto simp: time_op_def)
  then have op': "38 \<notin> set (time_op mode)" "40 \<notin> set (time_op mode)" "41 \<notin> set (time_op mode)" "124 \<notin> set (time_op mode)"
    by auto
  show "124 \<notin> set e" using facts op' unfolding e by simp
  have "e \<noteq> []" "38 \<notin> set e" "\<forall>d. depth d e = d \<and> (0 < d \<longrightarrow> above d e)" "\<not> is_space (hd e)" "\<not> is_space (last e)"
    using facts op' numeric_last [OF assms(3)] unfolding e by simp_all
  then show "reads_as parse to_str c e"
    using time_parsed [OF time_op_ok [OF assms(1-4), of f]] unfolding c e by (simp add: reads_as_def trim_ends)
qed

lemma normalize_simple: "simple c \<Longrightarrow> normalizeCondition (Some (as_partial c)) = c"
proof (cases c)
  case (TC t)
  moreover have "isTimeFunc (Some (time_name f)) = Some f" for f
    by (cases f) (simp_all add: isTimeFunc_def TIME_FUNCS_def)
  moreover assume "simple c"
  ultimately show ?thesis
    by (cases "timezone t")
      (auto simp: normalizeCondition_def allowed_mode_def getRequestRuleMatchOptions_def match_defs split: if_splits)
next
  case (PH p)
  moreover assume "simple c"
  ultimately show ?thesis
    by (cases p) (auto simp: normalizeCondition_def allowed_mode_def getRequestRuleMatchOptions_def match_defs Let_def)
qed

lemma match_call_other:
  "match_call (js ''header'') (js ''param('' @ s) = None" "match_call (js ''param'') (js ''header('' @ s) = None"
  "match_call (js ''header'') (js ''has('' @ s) = None" "match_call (js ''param'') (js ''has('' @ s) = None"
  by (simp_all add: match_call_no)

lemma match_call_source:
  assumes "34 \<notin> set a" "a \<noteq> []"
  shows "match_call (js ''header'') (js ''header('' @ 34 # a @ 34 # 41 # r) = Some (a, r)"
    and "match_call (js ''param'') (js ''param('' @ 34 # a @ 34 # 41 # r) = Some (a, r)"
  using match_call_ok [OF assms, of "js ''header''" r] match_call_ok [OF assms, of "js ''param''" r] by simp_all

abbreviation source_call :: "bool \<Rightarrow> jsstring \<Rightarrow> jsstring" where
  "source_call h path \<equiv> (if h then js ''header('' else js ''param('') @ 34 # path @ [34, 41]"

lemma exists_parsed:
  assumes "34 \<notin> set path" "path \<noteq> []"
  shows "tryParseRequestCondition parse to_str (source_call h path @ (if h then js '' != '' @ [34, 34] else js '' != nil'')) =
    Accepted (PH \<lparr>ph_header = h, ph_path = path, ph_mode = MATCH_EXISTS, ph_value = []\<rparr>)"
proof (cases h)
  case True
  have "match_call (js ''header'') (js ''header('' @ 34 # path @ 34 # 41 # js '' != '' @ [34, 34]) = Some (path, js '' != '' @ [34, 34])"
    by (rule match_call_source [OF assms])
  then have "match_exists True (js ''header('' @ 34 # path @ 34 # 41 # js '' != '' @ [34, 34]) =
      Some (PH \<lparr>ph_header = True, ph_path = path, ph_mode = MATCH_EXISTS, ph_value = []\<rparr>)"
    by (simp add: match_exists_def)
  with True show ?thesis
    using not_time_condition(1) [of "34 # path @ 34 # 41 # js '' != '' @ [34, 34]"]
    by (simp add: tryParseRequestCondition_def matched_def)
next
  case False
  have "match_call (js ''param'') (js ''param('' @ 34 # path @ 34 # 41 # js '' != nil'') = Some (path, js '' != nil'')"
    by (rule match_call_source [OF assms])
  then have "match_exists False (js ''param('' @ 34 # path @ 34 # 41 # js '' != nil'') =
      Some (PH \<lparr>ph_header = False, ph_path = path, ph_mode = MATCH_EXISTS, ph_value = []\<rparr>)"
    by (simp add: match_exists_def)
  moreover have "match_exists True (js ''param('' @ s) = None" for s
    using match_call_other(1) [of s] by (simp add: match_exists_def)
  ultimately show ?thesis
    using False not_time_condition(2) [of "34 # path @ 34 # 41 # js '' != nil''"]
    by (simp add: tryParseRequestCondition_def matched_def)
qed

lemma not_exists:
  "match_exists True (js ''param('' @ s) = None" "match_exists False (js ''header('' @ s) = None"
  "match_exists b (js ''has('' @ s) = None"
  using match_call_other [of s] by (simp_all add: match_exists_def del: js_Cons)

lemma not_has:
  "match_has name (js ''param('' @ s) = None" "match_has name (js ''header('' @ s) = None"
  by (simp_all add: match_has_def)

lemma not_param_nil:
  "match_param_nil (js ''header('' @ s) = None" "match_param_nil (js ''has('' @ s) = None"
  using match_call_other [of s] by (simp_all add: match_param_nil_def del: js_Cons)

lemma literal_body_plain: "plain v \<Longrightarrow> literal_body (v @ [34])"
proof (induction v)
  case (Cons c v)
  then have "literal_body (v @ [34])" "c \<noteq> 34" "c \<noteq> 92" by (auto simp: plain_def)
  then show ?case by (cases v) simp_all
qed simp

lemma contains_parsed:
  assumes "34 \<notin> set path" "path \<noteq> []" "plain v" "parse (34 # v @ [34]) = Some (JStr v)"
  shows "tryParseRequestCondition parse to_str (js ''has('' @ source_call True path @ js '', '' @ 34 # v @ [34, 41]) =
    Accepted (PH \<lparr>ph_header = True, ph_path = path, ph_mode = MATCH_CONTAINS, ph_value = v\<rparr>)"
proof -
  let ?s = "34 # path @ 34 # 41 # js '', '' @ 34 # v @ [34, 41]"
  have call: "match_call (js ''header'') (js ''header('' @ ?s) = Some (path, js '', '' @ 34 # v @ [34, 41])"
    by (rule match_call_source [OF assms(1,2)])
  have "match_string_literal (34 # v @ [34]) = Some (34 # v @ [34])"
    using literal_body_plain [OF assms(3)] by (simp add: match_string_literal_def)
  then have "match_has (js ''header'') (js ''has('' @ js ''header('' @ ?s) = Some (path, 34 # v @ [34])"
    unfolding match_has_def using call
    by (simp add: butlast_append strip_prefix_app del: js_Cons)
  then show ?thesis
    using not_time_condition(3) [of "js ''header('' @ ?s"] not_exists(3) [of _ "js ''header('' @ ?s"] assms(4)
    by (simp add: tryParseRequestCondition_def matched_def parse_string_def)
qed

lemma eq_parsed:
  assumes "34 \<notin> set path" "path \<noteq> []" "q \<noteq> []" "\<not> list_ex line_end q" "parseExprLiteral parse to_str q = Some v"
  shows "tryParseRequestCondition parse to_str (source_call h path @ js '' == '' @ q) =
    Accepted (PH \<lparr>ph_header = h, ph_path = path, ph_mode = MATCH_EQ, ph_value = v\<rparr>)"
proof (cases h)
  case True
  let ?s = "34 # path @ 34 # 41 # js '' == '' @ q"
  have call: "match_call (js ''header'') (js ''header('' @ ?s) = Some (path, js '' == '' @ q)"
    by (rule match_call_source [OF assms(1,2)])
  have "match_exists True (js ''header('' @ ?s) = None" unfolding match_exists_def using call by simp
  moreover have "match_eq (js ''header('' @ ?s) = Some (True, path, q)"
    unfolding match_eq_def using call match_call_other(2) [of ?s] assms(3,4) by (simp add: Let_def)
  ultimately show ?thesis
    using True not_time_condition(1) [of ?s] not_exists(2) [of ?s] not_has(2) [of "js ''header''" ?s]
      not_param_nil(1) [of ?s] assms(5)
    by (simp add: tryParseRequestCondition_def matched_def match_param_number_def)
next
  case False
  let ?s = "34 # path @ 34 # 41 # js '' == '' @ q"
  have call: "match_call (js ''param'') (js ''param('' @ ?s) = Some (path, js '' == '' @ q)"
    by (rule match_call_source [OF assms(1,2)])
  have "match_exists False (js ''param('' @ ?s) = None" unfolding match_exists_def using call by simp
  moreover have "match_param_nil (js ''param('' @ ?s) = None" unfolding match_param_nil_def using call by simp
  moreover have "match_eq (js ''param('' @ ?s) = Some (False, path, q)"
    unfolding match_eq_def using call assms(3,4) by (simp add: Let_def)
  ultimately show ?thesis
    using False not_time_condition(2) [of ?s] not_exists(1) [of ?s] not_has(1) [of "js ''header''" ?s] assms(5)
    by (simp add: tryParseRequestCondition_def matched_def match_param_number_def)
qed

lemma literal_read:
  assumes "plain v" "trim v = v" "\<forall>s. plain s \<longrightarrow> parse (json_quote s) = Some (JStr s)"
  shows "parseExprLiteral parse to_str (buildExprLiteral MATCH_EQ v) = Some v"
    and "buildExprLiteral MATCH_EQ v \<noteq> []" and "\<not> list_ex line_end (buildExprLiteral MATCH_EQ v)"
    and "38 \<notin> set (buildExprLiteral MATCH_EQ v)" "40 \<notin> set (buildExprLiteral MATCH_EQ v)"
    "41 \<notin> set (buildExprLiteral MATCH_EQ v)" "124 \<notin> set (buildExprLiteral MATCH_EQ v)"
    and "\<not> is_space (last (buildExprLiteral MATCH_EQ v))"
proof -
  define q where "q = buildExprLiteral MATCH_EQ v"
  have mode: "MATCH_EQ \<noteq> MATCH_CONTAINS" by (simp add: match_defs)
  consider "v = js ''true'' \<or> v = js ''false'' \<or> NUMERIC_LITERAL_REGEX v" "q = v"
    | "v \<noteq> js ''true''" "v \<noteq> js ''false''" "\<not> NUMERIC_LITERAL_REGEX v" "q = 34 # v @ [34]"
  proof (cases "v = js ''true'' \<or> v = js ''false'' \<or> NUMERIC_LITERAL_REGEX v")
    case True
    moreover from this have "q = v" using assms(1,2) mode by (auto simp: q_def buildExprLiteral_def Let_def)
    ultimately show thesis by (rule that(1))
  next
    case False
    then have "q = 34 # v @ [34]" using assms(1,2) mode by (simp add: q_def buildExprLiteral_def Let_def)
    with False show thesis by (intro that(2)) auto
  qed
  then have "parseExprLiteral parse to_str q = Some v \<and> q \<noteq> [] \<and> \<not> is_space (last q)"
  proof cases
    case 1
    then show ?thesis
      using assms(2) numeric_facts(1) [of v] numeric_last [of v] by (auto simp: parseExprLiteral_def is_space_def Let_def)
  next
    case 2
    have "trim (34 # v @ [34]) = 34 # v @ [34]" by (rule trim_ends) (simp_all add: is_space_def)
    with 2 show ?thesis using assms(1,3) by (auto simp: parseExprLiteral_def Let_def is_space_def)
  qed
  moreover have "set q \<subseteq> insert 34 (set v)"
    using assms(1,2) mode by (auto simp: q_def buildExprLiteral_def Let_def split: if_splits)
  ultimately show "parseExprLiteral parse to_str (buildExprLiteral MATCH_EQ v) = Some v"
    and "buildExprLiteral MATCH_EQ v \<noteq> []" and "\<not> list_ex line_end (buildExprLiteral MATCH_EQ v)"
    and "38 \<notin> set (buildExprLiteral MATCH_EQ v)" "40 \<notin> set (buildExprLiteral MATCH_EQ v)"
    "41 \<notin> set (buildExprLiteral MATCH_EQ v)" "124 \<notin> set (buildExprLiteral MATCH_EQ v)"
    and "\<not> is_space (last (buildExprLiteral MATCH_EQ v))"
    using plainD [OF assms(1)] unfolding q_def [symmetric] by (auto simp: list_ex_iff line_end_def)
qed

abbreviation JSON_ok :: "(jsstring \<Rightarrow> 'n json option) \<Rightarrow> bool" where
  "JSON_ok parse \<equiv> \<forall>s. plain s \<longrightarrow> parse (json_quote s) = Some (JStr s)"

definition wrap :: "jsstring \<Rightarrow> jsstring" where
  "wrap e = (if str_includes e (js '' || '') then js ''('' @ e @ js '')'' else e)"

lemma wrap_none: "124 \<notin> set e \<Longrightarrow> wrap e = e"
  by (auto simp: wrap_def str_includes_iff dest: set_mono_sublist)

lemma source_call_facts:
  assumes "plain path"
  shows "38 \<notin> set (source_call h path)" "depth d (source_call h path) = d" "0 < d \<Longrightarrow> above d (source_call h path)"
    "124 \<notin> set (source_call h path)" "source_call h path \<noteq> []" "\<not> is_space (hd (source_call h path))"
  using plainD [OF assms] by (simp_all add: is_space_def)

lemma ph_reads:
  assumes "simple (PH c)" "JSON_ok parse"
  shows "reads_as parse to_str (PH c) (buildRequestConditionExpr (PH c)) \<and> 124 \<notin> set (buildRequestConditionExpr (PH c))"
proof -
  let ?h = "ph_header c" and ?p = "ph_path c" and ?v = "ph_value c"
  have p: "plain ?p" "?p \<noteq> []" "trim ?p = ?p" and v: "plain ?v" "trim ?v = ?v" using assms(1) by auto
  note q = plainD(1) [OF p(1)]
  have norm: "normalizeCondition (Some (as_partial (PH c))) = PH c" by (rule normalize_simple [OF assms(1)])
  consider "ph_mode c = MATCH_EXISTS" "?v = []" | "ph_mode c = MATCH_CONTAINS" ?h | "ph_mode c = MATCH_EQ"
    using assms(1) by auto
  then show ?thesis
  proof cases
    case 1
    then have e: "buildRequestConditionExpr (PH c) = source_call ?h ?p @ (if ?h then js '' != '' @ [34, 34] else js '' != nil'')"
      using p by (simp add: buildRequestConditionExpr_def norm Let_def del: as_partial.simps)
    have c: "c = \<lparr>ph_header = ?h, ph_path = ?p, ph_mode = MATCH_EXISTS, ph_value = []\<rparr>" using 1 by simp
    have "trim (buildRequestConditionExpr (PH c)) = buildRequestConditionExpr (PH c)"
      unfolding e by (rule trim_ends) (auto simp: is_space_def)
    with c exists_parsed [OF q p(2), of parse to_str ?h, folded e] show ?thesis
      unfolding reads_as_def using source_call_facts [OF p(1)] plainD [OF p(1)] by (simp add: e)
  next
    case 2
    then have e: "buildRequestConditionExpr (PH c) = js ''has('' @ source_call True ?p @ js '', '' @ 34 # ?v @ [34, 41]"
      using p v by (simp add: buildRequestConditionExpr_def norm Let_def buildExprLiteral_def match_defs del: as_partial.simps)
    have c: "c = \<lparr>ph_header = True, ph_path = ?p, ph_mode = MATCH_CONTAINS, ph_value = ?v\<rparr>" using 2 by simp
    have json: "parse (34 # ?v @ [34]) = Some (JStr ?v)" using assms(2) v(1) by force
    have "trim (buildRequestConditionExpr (PH c)) = buildRequestConditionExpr (PH c)"
      unfolding e by (rule trim_ends) (auto simp: is_space_def)
    with c contains_parsed [where parse = parse and to_str = to_str, OF q p(2) v(1) json, folded e] show ?thesis
      unfolding reads_as_def using plainD [OF v(1)] plainD [OF p(1)] by (simp add: e)
  next
    case 3
    let ?q = "buildExprLiteral MATCH_EQ ?v"
    have e: "buildRequestConditionExpr (PH c) = source_call ?h ?p @ js '' == '' @ ?q"
      using 3 p by (simp add: buildRequestConditionExpr_def norm Let_def match_defs del: as_partial.simps)
    have c: "c = \<lparr>ph_header = ?h, ph_path = ?p, ph_mode = MATCH_EQ, ph_value = ?v\<rparr>" using 3 by simp
    note lit = literal_read [OF v assms(2)]
    have "trim (buildRequestConditionExpr (PH c)) = buildRequestConditionExpr (PH c)"
      unfolding e by (rule trim_ends) (use lit in \<open>auto simp: is_space_def\<close>)
    with c eq_parsed [OF q p(2) lit(2,3,1), of to_str ?h, folded e] show ?thesis
      unfolding reads_as_def using plainD [OF p(1)] lit by (simp add: e)
  qed
qed

lemma condition_reads:
  assumes "simple c" "JSON_ok parse"
  shows "reads_as parse to_str c (buildRequestConditionExpr c)" "reads_as parse to_str c (wrap (buildRequestConditionExpr c))"
proof -
  have "reads_as parse to_str c (buildRequestConditionExpr c) \<and> reads_as parse to_str c (wrap (buildRequestConditionExpr c))"
  proof (cases c)
    case (PH p)
    then show ?thesis using ph_reads [of p parse to_str] assms wrap_none by simp
  next
    case (TC t)
    let ?f = "timeFunc t" and ?tz = "timezone t"
    have tz: "plain ?tz" "?tz \<noteq> []" using assms(1) TC by auto
    have norm: "normalizeCondition (Some (as_partial (TC t))) = TC t" using normalize_simple assms(1) TC by blast
    show ?thesis
    proof (cases "time_mode t = MATCH_RANGE")
      case True
      let ?a = "rangeStart t" and ?b = "rangeEnd t"
      have n: "NUMERIC_LITERAL_REGEX ?a" "NUMERIC_LITERAL_REGEX ?b" "time_value t = []" using assms(1) TC True by auto
      have e: "buildRequestConditionExpr c = time_call ?f ?tz @ js '' >= '' @ ?a @ js '' || '' @ time_call ?f ?tz @ js '' < '' @ ?b"
        using TC True n tz numeric_facts(3)
        by (simp add: buildRequestConditionExpr_def buildTimeConditionExpr_def norm Let_def del: as_partial.simps)
      have "c = TC \<lparr>timeFunc = ?f, timezone = ?tz, time_mode = MATCH_RANGE, time_value = [], rangeStart = ?a, rangeEnd = ?b\<rparr>"
        using TC True n(3) by simp
      from range_reads [where parse = parse and to_str = to_str, OF tz n(1,2) this e] show ?thesis by (simp add: wrap_def)
    next
      case False
      have m: "time_mode t \<in> {MATCH_EQ, MATCH_GTE, MATCH_LT}" "NUMERIC_LITERAL_REGEX (time_value t)" "rangeStart t = []" "rangeEnd t = []"
        using assms(1) TC False by auto
      have e: "buildRequestConditionExpr c = time_call ?f ?tz @ 32 # time_op (time_mode t) @ 32 # time_value t"
        using TC False m(2) tz numeric_facts(3) [OF m(2)]
        by (simp add: buildRequestConditionExpr_def buildTimeConditionExpr_def norm Let_def del: as_partial.simps)
      have "c = TC \<lparr>timeFunc = ?f, timezone = ?tz, time_mode = time_mode t, time_value = time_value t, rangeStart = [], rangeEnd = []\<rparr>"
        using TC m(3,4) by simp
      from time_op_reads(1) [where parse = parse and to_str = to_str, OF tz m(2,1) this e]
        wrap_none [OF time_op_reads(2) [OF tz m(2,1) this e]] show ?thesis by simp
    qed
  qed
  then show "reads_as parse to_str c (buildRequestConditionExpr c)" "reads_as parse to_str c (wrap (buildRequestConditionExpr c))"
    by auto
qed

section \<open>Groups\<close>

definition simple_group :: "RequestRuleGroup \<Rightarrow> bool" where
  "simple_group g \<longleftrightarrow> conditions g \<noteq> [] \<and> list_all simple (conditions g) \<and> NUMERIC_LITERAL_REGEX (multiplier g)"

text \<open>The texts of the conditions of a group, as they are joined.\<close>

definition condition_texts :: "RequestRuleGroup \<Rightarrow> jsstring list" where
  "condition_texts g =
     (case conditions g of
        [c] \<Rightarrow> [buildRequestConditionExpr c]
      | cs \<Rightarrow> map (\<lambda>c. wrap (buildRequestConditionExpr c)) cs)"

lemma texts_read:
  assumes "simple_group g" "JSON_ok parse"
  shows "list_all2 (reads_as parse to_str) (conditions g) (condition_texts g)"
proof -
  have each: "\<forall>c\<in>set (conditions g). reads_as parse to_str c (buildRequestConditionExpr c)
      \<and> reads_as parse to_str c (wrap (buildRequestConditionExpr c))"
    using assms(1) condition_reads [OF _ assms(2)] by (auto simp: simple_group_def list_all_iff)
  then show ?thesis
    by (auto simp: condition_texts_def list_all2_conv_all_nth nth_Cons split: list.splits nat.splits)
qed

lemma factor_text:
  assumes "simple_group g" "JSON_ok (parse :: jsstring \<Rightarrow> 'n json option)"
  shows "buildRuleGroupFactor g = js ''('' @ join (js '' && '') (condition_texts g) @ js '' ? '' @ multiplier g @ js '' : 1)''"
proof -
  have ne: "buildRequestConditionExpr c \<noteq> []" if "c \<in> set (conditions g)" for c
    using condition_reads(1) [OF _ assms(2)] assms(1) that by (auto simp: simple_group_def list_all_iff reads_as_def)
  then have fl: "filter (\<lambda>e. e \<noteq> []) (map buildRequestConditionExpr (conditions g)) = map buildRequestConditionExpr (conditions g)"
    by (intro filter_True) auto
  have m: "NUMERIC_LITERAL_REGEX (multiplier g)" "conditions g \<noteq> []" using assms(1) by (auto simp: simple_group_def)
  obtain c cs where c: "conditions g = c # cs" using m(2) by (cases "conditions g") auto
  show ?thesis
    unfolding buildRuleGroupFactor_def fl Let_def
    using m(1) numeric_facts(3) [OF m(1)] c
    by (cases cs) (simp_all add: condition_texts_def wrap_def comp_def)
qed

lemma depth_join:
  assumes "\<forall>x\<in>set xs. \<forall>d. depth d x = d \<and> (0 < d \<longrightarrow> above d x)"
  shows "depth d (join (js '' && '') xs) = d \<and> (0 < d \<longrightarrow> above d (join (js '' && '') xs))"
  using assms by (induction xs rule: induct_list012) auto

lemma factor_factor:
  assumes "simple_group g" "JSON_ok (parse :: jsstring \<Rightarrow> 'n json option)"
  shows "factor (buildRuleGroupFactor g)"
proof -
  have "\<forall>x\<in>set (condition_texts g). \<forall>d. depth d x = d \<and> (0 < d \<longrightarrow> above d x)"
    using texts_read [OF assms, of undefined] by (fastforce simp: list_all2_conv_all_nth in_set_conv_nth reads_as_def)
  from depth_join [OF this] have j: "depth 1 (join (js '' && '') (condition_texts g)) = 1"
    "above 1 (join (js '' && '') (condition_texts g))" by auto
  have m: "plain (multiplier g)" using assms(1) numeric_facts(4) by (simp add: simple_group_def)
  let ?b = "join (js '' && '') (condition_texts g) @ js '' ? '' @ multiplier g @ js '' : 1''"
  have "buildRuleGroupFactor g = 40 # ?b @ [41]" using factor_text [OF assms] by simp
  moreover have "above 1 ?b \<and> depth 1 ?b = 1" using j plainD [OF m] by simp
  ultimately show ?thesis unfolding factor_def by blast
qed

lemma match_factor_ok:
  assumes "J \<noteq> []" "NUMERIC_LITERAL_REGEX m"
  shows "match_factor (40 # J @ js '' ? '' @ m @ js '' : 1)'') = Some (J, m)"
proof -
  have n: "list_all num_char (rev m)" "m \<noteq> []" using numeric_facts [OF assms(2)] by auto
  have r: "rev (J @ js '' ? '' @ m) = rev m @ 32 # 63 # 32 # rev J" by simp
  note span = num_span [OF n(1) space_not_num, of "63 # 32 # rev J"]
  let ?b = "J @ js '' ? '' @ m"
  have s: "40 # J @ js '' ? '' @ m @ js '' : 1)'' = 40 # ?b @ js '' : 1)''" by simp
  have body: "take (length (40 # ?b @ js '' : 1)'') - 1 - length (js '' : 1)'')) (drop 1 (40 # ?b @ js '' : 1)'')) = ?b"
    by (simp del: js_Cons append_assoc)
  have "suffix (js '' : 1)'') (40 # ?b @ js '' : 1)'')" unfolding suffix_def by (rule exI [of _ "40 # ?b"]) simp
  moreover have "suffix (js '' ? '') (rev (32 # 63 # 32 # rev J))" by (simp add: suffix_def)
  ultimately show ?thesis
    unfolding s match_factor_def body r Let_def span using n assms(1) by simp
qed

lemma parse_texts:
  assumes "list_all2 (reads_as parse to_str) cs es"
  shows "parse_all (\<lambda>e. tryParseRequestCondition parse to_str (trim e)) es = Accepted cs"
  using assms by (induction rule: list_all2_induct) (auto simp: reads_as_def)

lemma group_read:
  assumes "simple_group g" "JSON_ok parse"
  shows "tryParseRuleGroupFactor parse to_str (buildRuleGroupFactor g) = Accepted g"
proof -
  let ?es = "condition_texts g"
  note reads = texts_read [OF assms, of to_str]
  have m: "NUMERIC_LITERAL_REGEX (multiplier g)" "conditions g \<noteq> []" using assms(1) by (auto simp: simple_group_def)
  have es: "\<forall>e\<in>set ?es. e \<noteq> [] \<and> 38 \<notin> set e \<and> depth 0 e = 0 \<and> trim e = e"
    using reads by (fastforce simp: list_all2_conv_all_nth in_set_conv_nth reads_as_def)
  have ne: "?es \<noteq> []" using reads m(2) by auto
  then have J: "join (js '' && '') ?es \<noteq> []" using es join_eq_Nil [of ?es] by auto
  have "splitTopLevelAnd (join (js '' && '') ?es) = ?es"
    unfolding splitTopLevelAnd_def using split_and_join [of ?es] es ne by (simp add: filter_True del: js_Cons)
  then show ?thesis
    using match_factor_ok [OF J m(1)] parse_texts [OF reads] m(2)
    by (simp add: tryParseRuleGroupFactor_def factor_text [OF assms])
qed

lemma join_factors:
  assumes "\<forall>x\<in>set xs. factor x" "xs \<noteq> []"
  shows "hd (join sep xs) = 40 \<and> last (join sep xs) = 41 \<and> join sep xs \<noteq> []"
  using assms by (induction xs rule: induct_list012) (auto simp: factor_def)

lemma trim_factors: "\<forall>x\<in>set xs. factor x \<Longrightarrow> xs \<noteq> [] \<Longrightarrow> trim (join sep xs) = join sep xs"
  using join_factors [of xs sep] by (intro trim_ends) (auto simp: is_space_def)

lemma split_factors:
  assumes "\<forall>x\<in>set xs. factor x" "xs \<noteq> []"
  shows "splitTopLevelMultiply (join (js '' * '') xs) = xs"
  unfolding splitTopLevelMultiply_def split_mul_join [OF assms]
  by (rule filter_True) (use assms(1) factor_trim in blast)

abbreviation factors :: "RequestRuleGroup list \<Rightarrow> jsstring list" where
  "factors gs \<equiv> map buildRuleGroupFactor gs"

lemma factors_ok:
  assumes "\<forall>g\<in>set gs. simple_group g" "JSON_ok (parse :: jsstring \<Rightarrow> 'n json option)"
  shows "\<forall>x\<in>set (factors gs). factor x" "buildRequestRuleExpr gs = join (js '' * '') (factors gs)"
proof -
  show a: "\<forall>x\<in>set (factors gs). factor x" using factor_factor [OF _ assms(2)] assms(1) by auto
  then have "filter (\<lambda>f. f \<noteq> []) (factors gs) = factors gs" using factor_trim by (intro filter_True) blast
  then show "buildRequestRuleExpr gs = join (js '' * '') (factors gs)" by (simp add: buildRequestRuleExpr_def)
qed

lemma parse_factors:
  assumes "\<forall>g\<in>set gs. simple_group g" "JSON_ok parse"
  shows "parse_all (tryParseRuleGroupFactor parse to_str) (factors gs) = Accepted gs"
  using assms(1) group_read [OF _ assms(2)] by (induction gs) simp_all

lemma rules_read:
  assumes "\<forall>g\<in>set gs. simple_group g" "JSON_ok parse"
  shows "tryParseRequestRuleExpr parse to_str (buildRequestRuleExpr gs) = Accepted gs"
proof (cases "gs = []")
  case True
  then show ?thesis by (simp add: buildRequestRuleExpr_def tryParseRequestRuleExpr_def)
next
  case False
  note f = factors_ok [OF assms]
  have ne: "factors gs \<noteq> []" using False by simp
  have "join (js '' * '') (factors gs) \<noteq> []" using join_factors [OF f(1) ne] by blast
  then show ?thesis
    unfolding tryParseRequestRuleExpr_def f(2) trim_factors [OF f(1) ne] Let_def
    using split_factors [OF f(1) ne] parse_factors [OF assms] by simp
qed

section \<open>Base expression and rules\<close>

lemma parens_skip: "above d b \<Longrightarrow> parens_loop d (b @ c # r) = parens_loop (depth d b) (c # r)"
  by (induction b arbitrary: d) (auto simp: Let_def bump_def)

lemma unwrap_base:
  assumes "above 1 b" "depth 1 b = 1" "b \<noteq> []" "trim b = b" "hd b \<noteq> 40"
  shows "unwrapOuterParens (40 # b @ [41]) = b"
proof -
  have "trim (40 # b @ [41]) = 40 # b @ [41]" by (rule trim_ends) (simp_all add: is_space_def)
  moreover have "hasFullOuterParens (40 # b @ [41])"
    using parens_skip [OF assms(1), of 41 "[]"] assms(2) by (simp add: hasFullOuterParens_def startsWith_def endsWith_def suffix_def)
  moreover have "\<not> hasFullOuterParens b"
    using assms(3,5) by (cases b) (simp_all add: hasFullOuterParens_def startsWith_def)
  ultimately show ?thesis
    using assms(4) by (simp add: unwrapOuterParens_def unwrap_loop.simps [of "40 # b @ [41]"] unwrap_loop.simps [of b])
qed

lemma suffix_base: "suffix (js '' : 1)'') (40 # b @ [41]) \<Longrightarrow> suffix (js '' : 1'') b"
proof -
  assume "suffix (js '' : 1)'') (40 # b @ [41])"
  then obtain z where "40 # b @ [41] = z @ js '' : 1'' @ [41]" by (auto simp: suffix_def)
  then have "40 # b = z @ js '' : 1''" by (simp add: append_eq_append_conv2 flip: append_Cons append_assoc)
  then show "suffix (js '' : 1'') b" by (cases z) (auto simp: suffix_def)
qed

lemma base_rejected:
  assumes "factor (40 # b @ [41])" "\<not> suffix (js '' : 1'') b"
  shows "tryParseRequestRuleExpr parse to_str (40 # b @ [41]) = Rejected"
proof -
  have "match_factor (40 # b @ [41]) = None" using assms(2) suffix_base [of b] unfolding match_factor_def by presburger
  then show ?thesis
    using split_factors [of "[40 # b @ [41]]"] factor_trim [OF assms(1)] assms(1)
    by (simp add: tryParseRequestRuleExpr_def tryParseRuleGroupFactor_def)
qed

lemma factor_accepted:
  assumes "simple_group g" "JSON_ok parse"
  shows "tryParseRequestRuleExpr parse to_str (buildRuleGroupFactor g) = Accepted [g]"
proof -
  have "\<forall>g\<in>set [g]. simple_group g" using assms(1) by simp
  from rules_read [OF this assms(2), of to_str] factors_ok(2) [OF this assms(2)] show ?thesis by simp
qed

lemma split_read:
  assumes "above 1 b" "depth 1 b = 1" "b \<noteq> []" "trim b = b" "hd b \<noteq> 40" "\<not> suffix (js '' : 1'') b"
    and "\<forall>g\<in>set gs. simple_group g" "gs \<noteq> []" "JSON_ok parse"
  shows "splitBillingExprAndRequestRules parse to_str (combineBillingExpr b (buildRequestRuleExpr gs)) =
    Some (b, buildRequestRuleExpr gs)"
proof -
  let ?B = "40 # b @ [41]"
  let ?xs = "?B # factors gs" and ?t = "tryParseRequestRuleExpr parse to_str"
  note f = factors_ok [OF assms(7,9)]
  have ne: "factors gs \<noteq> []" using assms(8) by simp
  have B: "factor ?B" using assms(1,2) by (auto simp: factor_def)
  with f(1) have all: "\<forall>x\<in>set ?xs. factor x" by auto
  have c: "combineBillingExpr b (buildRequestRuleExpr gs) = join (js '' * '') ?xs"
    unfolding f(2) using join_factors [OF f(1) ne, of "js '' * ''"] trim_factors [OF f(1) ne, of "js '' * ''"] assms(3,4,8)
    by (cases gs) (simp_all add: combineBillingExpr_def Let_def)
  have acc: "\<forall>x\<in>set (factors gs). \<exists>g. ?t x = Accepted [g]" using factor_accepted [OF _ assms(9)] assms(7) by auto
  have rej: "?t ?B = Rejected" by (rule base_rejected [OF B assms(6)])
  have "filter (\<lambda>x. accepts_rules (?t x)) (factors gs) = factors gs" using acc by (intro filter_True) auto
  moreover have "filter (\<lambda>x. \<not> accepts_rules (?t x)) (factors gs) = []" using acc by (intro filter_False) auto
  moreover have "\<not> list_ex (\<lambda>x. ?t x = Thrown) ?xs" using acc rej by (auto simp: list_ex_iff)
  moreover have "trim (join (js '' * '') ?xs) = join (js '' * '') ?xs" "join (js '' * '') ?xs \<noteq> []"
    using trim_factors [OF all] join_factors [OF all] by blast+
  ultimately show ?thesis
    unfolding splitBillingExprAndRequestRules_def c Let_def
    using split_factors [OF all] rej unwrap_base [OF assms(1-5)] ne by (simp add: f(2) del: js_Cons join.simps)
qed

section \<open>Rules that are not read back\<close>

text \<open>The editor writes a \<open>param\<close> comparison as two conjuncts, and the group parser splits at the conjunction.\<close>

abbreviation param_guard :: "jsstring \<Rightarrow> jsstring" where
  "param_guard path \<equiv> source_call False path @ js '' != nil''"

definition guarded_test :: "ParamHeaderCondition \<Rightarrow> jsstring" where
  "guarded_test c = (if ph_mode c = MATCH_CONTAINS
     then js ''has('' @ source_call False (ph_path c) @ js '', '' @ 34 # ph_value c @ [34, 41]
     else source_call False (ph_path c) @ 32 # number_op (ph_mode c) @ 32 # ph_value c)"

definition guarded :: "ParamHeaderCondition \<Rightarrow> bool" where
  "guarded c \<longleftrightarrow> \<not> ph_header c \<and> plain (ph_path c) \<and> ph_path c \<noteq> [] \<and> trim (ph_path c) = ph_path c
     \<and> plain (ph_value c) \<and> trim (ph_value c) = ph_value c
     \<and> (ph_mode c = MATCH_CONTAINS
       \<or> ph_mode c \<in> {MATCH_GT, MATCH_GTE, MATCH_LT, MATCH_LTE} \<and> NUMERIC_LITERAL_REGEX (ph_value c))"

lemma guarded_text:
  assumes "guarded c"
  shows "buildRequestConditionExpr (PH c) = param_guard (ph_path c) @ js '' && '' @ guarded_test c"
proof -
  have norm: "normalizeCondition (Some (as_partial (PH c))) = PH c"
    using assms by (cases c) (auto simp: guarded_def normalizeCondition_def allowed_mode_def getRequestRuleMatchOptions_def match_defs Let_def)
  show ?thesis
  proof (cases "ph_mode c = MATCH_CONTAINS")
    case True
    then show ?thesis using assms
      by (simp add: buildRequestConditionExpr_def guarded_test_def guarded_def norm Let_def buildExprLiteral_def match_defs del: as_partial.simps)
  next
    case False
    then have "ph_mode c \<noteq> MATCH_EXISTS" "ph_mode c \<in> {MATCH_GT, MATCH_GTE, MATCH_LT, MATCH_LTE}" "NUMERIC_LITERAL_REGEX (ph_value c)"
      using assms by (auto simp: guarded_def match_defs)
    with False show ?thesis using assms
      by (simp add: buildRequestConditionExpr_def guarded_test_def guarded_def norm Let_def del: as_partial.simps insert_iff)
  qed
qed

lemma contains_rejected:
  assumes "34 \<notin> set path" "path \<noteq> []"
  shows "tryParseRequestCondition parse to_str (js ''has('' @ source_call False path @ r) = Rejected"
proof -
  let ?s = "source_call False path @ r"
  have "match_has (js ''header'') (js ''has('' @ ?s) = None"
    using match_call_other(1) [of "34 # path @ 34 # 41 # r"] by (simp add: match_has_def)
  moreover have "match_eq (js ''has('' @ ?s) = None"
    using match_call_other(3,4) [of ?s] unfolding match_eq_def by (simp add: Let_def)
  ultimately show ?thesis
    using not_time_condition(3) [of ?s] not_exists(3) [of _ ?s] not_param_nil(2) [of ?s]
    by (simp add: tryParseRequestCondition_def matched_def match_param_number_def)
qed

lemma number_rejected:
  assumes "34 \<notin> set path" "path \<noteq> []"
  shows "tryParseRequestCondition parse to_str (source_call False path @ 32 # number_op mode @ 32 # v) = Rejected"
proof -
  let ?r = "32 # number_op mode @ 32 # v"
  let ?s = "34 # path @ 34 # 41 # ?r"
  have call: "match_call (js ''param'') (js ''param('' @ ?s) = Some (path, ?r)" by (rule match_call_source [OF assms])
  have "match_exists False (js ''param('' @ ?s) = None" unfolding match_exists_def using call by (simp add: number_op_def)
  moreover have "match_eq (js ''param('' @ ?s) = None" unfolding match_eq_def using call by (simp add: number_op_def Let_def)
  moreover have "match_param_nil (js ''param('' @ ?s) = None" unfolding match_param_nil_def using call by (simp add: number_op_def)
  ultimately show ?thesis
    using not_time_condition(2) [of ?s] not_exists(1) [of ?s] not_has(1) [of _ ?s]
    by (simp add: tryParseRequestCondition_def matched_def match_param_number_def)
qed

lemma guarded_rejected:
  assumes "guarded c"
  shows "tryParseRequestCondition parse to_str (guarded_test c) = Rejected"
  using contains_rejected [of "ph_path c" parse to_str] number_rejected [of "ph_path c" parse to_str] assms plainD(1) [of "ph_path c"]
  unfolding guarded_test_def guarded_def by simp

lemma guarded_facts:
  assumes "guarded c"
  shows "38 \<notin> set (guarded_test c)" "depth d (guarded_test c) = d" "0 < d \<Longrightarrow> above d (guarded_test c)"
    "trim (guarded_test c) = guarded_test c" "guarded_test c \<noteq> []"
proof -
  have p: "plain (ph_path c)" "plain (ph_value c)" using assms by (auto simp: guarded_def)
  have op': "38 \<notin> set (number_op m)" "40 \<notin> set (number_op m)" "41 \<notin> set (number_op m)" for m
    by (simp_all add: number_op_def)
  show "38 \<notin> set (guarded_test c)" "depth d (guarded_test c) = d" "0 < d \<Longrightarrow> above d (guarded_test c)" "guarded_test c \<noteq> []"
    using plainD [OF p(1)] plainD [OF p(2)] op' by (simp_all add: guarded_test_def)
  have "ph_mode c \<noteq> MATCH_CONTAINS \<Longrightarrow> NUMERIC_LITERAL_REGEX (ph_value c)" using assms by (auto simp: guarded_def)
  then have "\<not> is_space (last (guarded_test c))"
    using numeric_last [of "ph_value c"] numeric_facts(1) [of "ph_value c"] by (simp add: guarded_test_def is_space_def)
  then show "trim (guarded_test c) = guarded_test c" by (intro trim_ends) (simp_all add: guarded_test_def is_space_def)
qed

lemma guarded_split:
  assumes "guarded c"
  shows "splitTopLevelAnd (buildRequestConditionExpr (PH c)) = [param_guard (ph_path c), guarded_test c]"
proof -
  let ?g = "param_guard (ph_path c)" and ?t = "guarded_test c"
  have p: "plain (ph_path c)" using assms by (simp add: guarded_def)
  have "trim ?g = ?g" by (rule trim_ends) (simp_all add: is_space_def)
  then have "split_top (js '' && '') 0 [] (join (js '' && '') [?g, ?t]) = [?g, ?t]"
    using guarded_facts [OF assms] plainD [OF p] by (intro split_and_join) auto
  then show ?thesis
    unfolding splitTopLevelAnd_def guarded_text [OF assms] using guarded_facts(5) [OF assms] by (simp del: js_Cons)
qed

lemma guarded_group_rejected:
  assumes "guarded c" "NUMERIC_LITERAL_REGEX m"
  shows "tryParseRequestRuleExpr parse to_str (buildRequestRuleExpr [\<lparr>conditions = [PH c], multiplier = m\<rparr>]) = Rejected"
proof -
  let ?e = "buildRequestConditionExpr (PH c)" and ?g = "\<lparr>conditions = [PH c], multiplier = m\<rparr>"
  let ?b = "?e @ js '' ? '' @ m @ js '' : 1''"
  have p: "34 \<notin> set (ph_path c)" "plain (ph_path c)" "ph_path c \<noteq> []" using assms(1) plainD by (auto simp: guarded_def)
  have e: "?e \<noteq> []" "depth 1 ?e = 1" "above 1 ?e"
    using guarded_facts [OF assms(1)] plainD [OF p(2)] by (simp_all add: guarded_text [OF assms(1)])
  have built: "buildRuleGroupFactor ?g = 40 # ?b @ [41]"
    using e(1) numeric_facts(3) [OF assms(2)] assms(2) by (simp add: buildRuleGroupFactor_def)
  have f: "factor (buildRuleGroupFactor ?g)"
    using e plainD [OF numeric_facts(4) [OF assms(2)]] unfolding factor_def built by (intro exI [of _ ?b]) simp
  have "match_factor (buildRuleGroupFactor ?g) = Some (?e, m)"
    using match_factor_ok [OF e(1) assms(2)] unfolding built by simp
  moreover have "parse_all (\<lambda>ap. tryParseRequestCondition parse to_str (trim ap)) [param_guard (ph_path c), guarded_test c] = Rejected"
    using exists_parsed [OF p(1,3), of parse to_str False] guarded_rejected [OF assms(1), of parse to_str] guarded_facts(4) [OF assms(1)]
      trim_ends [of "param_guard (ph_path c)"] by (simp add: is_space_def)
  ultimately have "tryParseRuleGroupFactor parse to_str (buildRuleGroupFactor ?g) = Rejected"
    unfolding tryParseRuleGroupFactor_def using guarded_split [OF assms(1)] by (simp only: option.case prod.case attempt.case)
  then show ?thesis
    using split_factors [of "[buildRuleGroupFactor ?g]"] f factor_trim [OF f]
    by (simp add: tryParseRequestRuleExpr_def buildRequestRuleExpr_def)
qed

section \<open>Properties\<close>

text \<open>C23: The rule parser reads back what the editor builds.  For any list of rule groups with numeric
  multipliers and at least one condition each, where a condition is a time comparison or overnight range,
  or an equality, existence or header-contains test with plain texts, parsing the built expression gives
  exactly the groups.  The only thing assumed of \<open>JSON.parse\<close> is that it reads a quoted plain string.\<close>

theorem rules_roundtrip:
  assumes "\<forall>g\<in>set gs. simple_group g"
    and "\<forall>s. plain s \<longrightarrow> parse (json_quote s) = Some (JStr s)"
  shows "tryParseRequestRuleExpr parse to_str (buildRequestRuleExpr gs) = Accepted gs"
  by (rule rules_read [OF assms])

definition sample_parse :: "jsstring \<Rightarrow> nat json option" where
  "sample_parse s = (if s \<noteq> [] \<and> hd s = 34 then Some (JStr (butlast (tl s))) else None)"

definition night_rules :: "RequestRuleGroup list" where
  "night_rules =
     [\<lparr>conditions = [TC \<lparr>timeFunc = Hour, timezone = js ''Asia/Tokyo'', time_mode = MATCH_RANGE, time_value = [],
                        rangeStart = js ''21'', rangeEnd = js ''6''\<rparr>,
                      PH \<lparr>ph_header = True, ph_path = js ''x-tier'', ph_mode = MATCH_CONTAINS, ph_value = js ''batch''\<rparr>],
       multiplier = js ''0.5''\<rparr>,
      \<lparr>conditions = [PH \<lparr>ph_header = False, ph_path = js ''service_tier'', ph_mode = MATCH_EQ, ph_value = js ''fast''\<rparr>],
       multiplier = js ''2''\<rparr>]"

lemmas sample_simps = plain_def line_end_def match_defs trim_def is_space_def NUMERIC_LITERAL_REGEX_def
  digits_then_def exponent_ok_def is_digit_def

lemma night_rules_simple: "\<forall>g\<in>set night_rules. simple_group g"
  by (simp add: night_rules_def simple_group_def sample_simps)

lemma sample_parse_ok: "\<forall>s. plain s \<longrightarrow> sample_parse (json_quote s) = Some (JStr s)"
  by (simp add: sample_parse_def)

theorem rules_roundtrip_witness:
  "tryParseRequestRuleExpr sample_parse (\<lambda>_. []) (buildRequestRuleExpr night_rules) = Accepted night_rules"
  by (rule rules_roundtrip [OF night_rules_simple sample_parse_ok])



text \<open>C31: The editor writes rules that it cannot read again: a group whose condition is a numeric comparison
  or a contains test of a request parameter is built with a guard and a conjunction, the group parser
  splits there, and the second half matches no condition, so the whole rule expression is rejected.\<close>

theorem param_rule_not_read:
  assumes "guarded c" "NUMERIC_LITERAL_REGEX m"
  shows "tryParseRequestRuleExpr parse to_str (buildRequestRuleExpr [\<lparr>conditions = [PH c], multiplier = m\<rparr>]) = Rejected"
  by (rule guarded_group_rejected [OF assms])

theorem param_rule_not_read_witness:
  "tryParseRequestRuleExpr sample_parse (\<lambda>_. []) (buildRequestRuleExpr
     [\<lparr>conditions = [PH \<lparr>ph_header = False, ph_path = js ''max_tokens'', ph_mode = MATCH_GT, ph_value = js ''4096''\<rparr>],
       multiplier = js ''1.5''\<rparr>]) = Rejected"
  by (rule param_rule_not_read) (simp_all add: guarded_def sample_simps)

end
