(* ===== verification/Channel_Routes.thy ===== *)
theory Channel_Routes
  imports Js_Prelude
begin

text \<open>
  The route table of an advanced custom channel as the client edits it,
  \<open>features/channels/lib/advanced-custom.ts\<close> (types in \<open>features/channels/types.ts\<close>).  An absent or \<open>null\<close>
  property is \<open>None\<close>.  A converter and an authentication type are strings: the validator checks that they
  are known.  \<open>parse\<close> is \<open>JSON.parse\<close> with the type assertion of the source, \<open>None\<close> where the text is not an
  object of that type; \<open>url s\<close> is the protocol and the host of \<open>new URL(s)\<close>, \<open>None\<close> where the
  constructor throws.  A path is not the name of a member that every JavaScript object inherits.
\<close>

section \<open>Types and constants\<close>

record AdvancedCustomRouteAuth =
  auth_type :: "jsstring option"
  auth_name :: "jsstring option"
  auth_value :: "jsstring option"

record AdvancedCustomRoute =
  incoming_path :: "jsstring option"
  upstream_path :: "jsstring option"
  converter :: "jsstring option"
  models :: "jsstring list option"
  route_auth :: "AdvancedCustomRouteAuth option"

record AdvancedCustomConfig =
  advanced_routes :: "AdvancedCustomRoute list option"

record AdvancedCustomValidationError =
  error_message :: jsstring
  routeIndex :: "nat option"

definition CHANNEL_TYPE_ADVANCED_CUSTOM :: nat where "CHANNEL_TYPE_ADVANCED_CUSTOM = 58"
definition ADVANCED_CUSTOM_MODEL_LIST_PATH :: jsstring where "ADVANCED_CUSTOM_MODEL_LIST_PATH = js ''/v1/models''"
definition ADVANCED_CUSTOM_MODEL_LIST_LABEL :: jsstring where "ADVANCED_CUSTOM_MODEL_LIST_LABEL = js ''OpenAI Models''"
definition ADVANCED_CUSTOM_MODEL_REGEX_PREFIX :: jsstring where "ADVANCED_CUSTOM_MODEL_REGEX_PREFIX = js ''re:''"

abbreviation NONE :: jsstring where "NONE \<equiv> js ''none''"
abbreviation MESSAGES_TO_CHAT :: jsstring where "MESSAGES_TO_CHAT \<equiv> js ''anthropic_messages_to_openai_chat_completions''"
abbreviation CHAT_TO_MESSAGES :: jsstring where "CHAT_TO_MESSAGES \<equiv> js ''openai_chat_completions_to_anthropic_messages''"
abbreviation CHAT_TO_RESPONSES :: jsstring where "CHAT_TO_RESPONSES \<equiv> js ''openai_chat_completions_to_openai_responses''"
abbreviation RESPONSES_TO_CHAT :: jsstring where "RESPONSES_TO_CHAT \<equiv> js ''openai_responses_to_openai_chat_completions''"
abbreviation RESPONSES_TO_GEMINI :: jsstring where "RESPONSES_TO_GEMINI \<equiv> js ''openai_responses_to_gemini_generate_content''"
abbreviation GEMINI_TO_CHAT :: jsstring where "GEMINI_TO_CHAT \<equiv> js ''gemini_generate_content_to_openai_chat_completions''"
abbreviation CHAT_TO_GEMINI :: jsstring where "CHAT_TO_GEMINI \<equiv> js ''openai_chat_completions_to_gemini_generate_content''"

text \<open>Value, label and trigger label of the options.\<close>

definition ADVANCED_CUSTOM_CONVERTER_OPTIONS :: "(jsstring \<times> jsstring \<times> jsstring) list" where
  "ADVANCED_CUSTOM_CONVERTER_OPTIONS =
     [(NONE, js ''Native forwarding'', js ''Native forwarding''),
      (MESSAGES_TO_CHAT, js ''Anthropic Messages to OpenAI Chat'', js ''To OpenAI Chat''),
      (CHAT_TO_MESSAGES, js ''OpenAI Chat to Anthropic Messages'', js ''To Anthropic Messages''),
      (CHAT_TO_RESPONSES, js ''OpenAI Chat to OpenAI Responses'', js ''To OpenAI Responses''),
      (RESPONSES_TO_CHAT, js ''OpenAI Responses to OpenAI Chat'', js ''To OpenAI Chat''),
      (RESPONSES_TO_GEMINI, js ''OpenAI Responses to Gemini Generate Content'', js ''To Gemini Generate Content''),
      (GEMINI_TO_CHAT, js ''Gemini Generate Content to OpenAI Chat'', js ''To OpenAI Chat''),
      (CHAT_TO_GEMINI, js ''OpenAI Chat to Gemini Generate Content'', js ''To Gemini Generate Content'')]"

definition ADVANCED_CUSTOM_AUTH_MODE_OPTIONS :: "(jsstring \<times> jsstring) list" where
  "ADVANCED_CUSTOM_AUTH_MODE_OPTIONS =
     [(js ''default'', js ''Default Bearer''), (NONE, js ''No Auth''), (js ''header'', js ''Header''), (js ''query'', js ''Query'')]"

definition openAIChatPath :: jsstring where "openAIChatPath = js ''/v1/chat/completions''"
definition openAIResponsesPath :: jsstring where "openAIResponsesPath = js ''/v1/responses''"
definition claudeMessagesPath :: jsstring where "claudeMessagesPath = js ''/v1/messages''"
definition geminiGenerateContentPath :: jsstring where
  "geminiGenerateContentPath = js ''/v1beta/models/{model}:generateContent''"

definition ADVANCED_CUSTOM_INCOMING_PATH_OPTIONS :: "(jsstring \<times> jsstring) list" where
  "ADVANCED_CUSTOM_INCOMING_PATH_OPTIONS =
     [(js ''/v1/chat/completions'', js ''OpenAI Chat''),
      (js ''/v1/responses'', js ''OpenAI Responses''),
      (js ''/v1/responses/compact'', js ''OpenAI Responses Compact''),
      (js ''/v1/alpha/search'', js ''OpenAI Alpha Search''),
      (ADVANCED_CUSTOM_MODEL_LIST_PATH, ADVANCED_CUSTOM_MODEL_LIST_LABEL),
      (js ''/v1/embeddings'', js ''OpenAI Embeddings''),
      (js ''/v1/images/generations'', js ''OpenAI Image Generations''),
      (js ''/v1/images/edits'', js ''OpenAI Image Edits''),
      (js ''/v1/completions'', js ''OpenAI Completions''),
      (js ''/v1/audio/speech'', js ''OpenAI Audio Speech''),
      (js ''/v1/audio/transcriptions'', js ''OpenAI Audio Transcriptions''),
      (js ''/v1/audio/translations'', js ''OpenAI Audio Translations''),
      (js ''/v1/rerank'', js ''OpenAI Rerank''),
      (js ''/v1/realtime'', js ''OpenAI Realtime''),
      (js ''/v1/messages'', js ''Claude Messages''),
      (js ''/v1beta/models/{model}:generateContent'', js ''Gemini Generate Content''),
      (js ''/v1beta/models/{model}:embedContent'', js ''Gemini Embed Content''),
      (js ''/v1beta/models/{model}:batchEmbedContents'', js ''Gemini Batch Embed Contents'')]"

definition ADVANCED_CUSTOM_ROUTE_SUMMARY_LABELS :: "(jsstring \<times> jsstring) list" where
  "ADVANCED_CUSTOM_ROUTE_SUMMARY_LABELS =
     [(js ''/v1/chat/completions'', js ''OpenAI Chat''), (ADVANCED_CUSTOM_MODEL_LIST_PATH, ADVANCED_CUSTOM_MODEL_LIST_LABEL)]"

definition bearerHeaderAuth :: AdvancedCustomRouteAuth where
  "bearerHeaderAuth = \<lparr>auth_type = Some (js ''header''), auth_name = Some (js ''Authorization''),
     auth_value = Some (js ''Bearer {api_key}'')\<rparr>"

definition apiKeyHeaderAuth :: AdvancedCustomRouteAuth where
  "apiKeyHeaderAuth = \<lparr>auth_type = Some (js ''header''), auth_name = Some (js ''x-api-key''),
     auth_value = Some (js ''{api_key}'')\<rparr>"

definition geminiQueryAuth :: AdvancedCustomRouteAuth where
  "geminiQueryAuth = \<lparr>auth_type = Some (js ''query''), auth_name = Some (js ''key''), auth_value = Some (js ''{api_key}'')\<rparr>"

text \<open>A route of a template.\<close>

definition template_route :: "jsstring \<Rightarrow> jsstring \<Rightarrow> jsstring \<Rightarrow> AdvancedCustomRouteAuth \<Rightarrow> AdvancedCustomRoute" where
  "template_route incoming upstream conv auth =
     \<lparr>incoming_path = Some incoming, upstream_path = Some upstream, converter = Some conv, models = None, route_auth = Some auth\<rparr>"

definition ADVANCED_CUSTOM_TEMPLATE_OPTIONS :: "(jsstring \<times> jsstring \<times> AdvancedCustomConfig) list" where
  "ADVANCED_CUSTOM_TEMPLATE_OPTIONS =
     [(js ''official_openai_chat'', js ''Official OpenAI Chat'',
        \<lparr>advanced_routes = Some [template_route (js ''/v1/chat/completions'') (js ''/v1/chat/completions'') NONE bearerHeaderAuth]\<rparr>),
      (js ''official_openai_responses'', js ''Official OpenAI Responses'',
        \<lparr>advanced_routes = Some [template_route (js ''/v1/responses'') (js ''/v1/responses'') NONE bearerHeaderAuth]\<rparr>),
      (js ''official_openai_embeddings'', js ''Official OpenAI Embeddings'',
        \<lparr>advanced_routes = Some [template_route (js ''/v1/embeddings'') (js ''/v1/embeddings'') NONE bearerHeaderAuth]\<rparr>),
      (js ''official_openai_images'', js ''Official OpenAI Images'',
        \<lparr>advanced_routes = Some
          [template_route (js ''/v1/images/generations'') (js ''/v1/images/generations'') NONE bearerHeaderAuth,
           template_route (js ''/v1/images/edits'') (js ''/v1/images/edits'') NONE bearerHeaderAuth]\<rparr>),
      (js ''official_claude_messages'', js ''Official Claude Messages'',
        \<lparr>advanced_routes = Some [template_route (js ''/v1/messages'') (js ''/v1/messages'') NONE apiKeyHeaderAuth]\<rparr>),
      (js ''official_gemini_native'', js ''Official Gemini Native'',
        \<lparr>advanced_routes = Some
          [template_route (js ''/v1beta/models/{model}:generateContent'') (js ''/v1beta/models/{model}:generateContent'') NONE geminiQueryAuth,
           template_route (js ''/v1beta/models/{model}:embedContent'') (js ''/v1beta/models/{model}:embedContent'') NONE geminiQueryAuth,
           template_route (js ''/v1beta/models/{model}:batchEmbedContents'') (js ''/v1beta/models/{model}:batchEmbedContents'') NONE geminiQueryAuth]\<rparr>),
      (js ''official_gemini_from_openai_chat'', js ''Official Gemini from OpenAI Chat'',
        \<lparr>advanced_routes = Some
          [template_route (js ''/v1/chat/completions'') (js ''/v1beta/models/{model}:generateContent'') CHAT_TO_GEMINI geminiQueryAuth]\<rparr>)]"

section \<open>Converters and defaults\<close>

text \<open>A copy through JSON: an absent property stays absent.\<close>

definition cloneAdvancedCustomConfig :: "AdvancedCustomConfig \<Rightarrow> AdvancedCustomConfig" where
  "cloneAdvancedCustomConfig config = config"

definition getAdvancedCustomTemplateConfig :: "jsstring \<Rightarrow> AdvancedCustomConfig" where
  "getAdvancedCustomTemplateConfig templateKey =
     (case find (\<lambda>option. fst option = templateKey) ADVANCED_CUSTOM_TEMPLATE_OPTIONS of
        Some template \<Rightarrow> cloneAdvancedCustomConfig (snd (snd template))
      | None \<Rightarrow> cloneAdvancedCustomConfig (snd (snd (hd ADVANCED_CUSTOM_TEMPLATE_OPTIONS))))"

definition createAdvancedCustomRoute :: AdvancedCustomRoute where
  "createAdvancedCustomRoute =
     \<lparr>incoming_path = Some openAIChatPath, upstream_path = Some openAIChatPath, converter = Some NONE, models = None, route_auth = None\<rparr>"

definition createAdvancedCustomConfig :: AdvancedCustomConfig where
  "createAdvancedCustomConfig = \<lparr>advanced_routes = Some [createAdvancedCustomRoute]\<rparr>"

definition isConverterPathAllowed :: "jsstring \<Rightarrow> jsstring \<Rightarrow> bool" where
  "isConverterPathAllowed path conv =
     (if conv = NONE then True
      else if path = js ''/v1/alpha/search'' then False
      else if conv = MESSAGES_TO_CHAT then path = js ''/v1/messages''
      else if conv = CHAT_TO_MESSAGES \<or> conv = CHAT_TO_RESPONSES \<or> conv = CHAT_TO_GEMINI then path = js ''/v1/chat/completions''
      else if conv = RESPONSES_TO_CHAT then path = js ''/v1/responses''
      else if conv = RESPONSES_TO_GEMINI then path = js ''/v1/responses''
      else str_includes path (js '':generateContent'') \<or> str_includes path (js '':streamGenerateContent''))"

definition isAdvancedCustomConverter :: "jsstring \<Rightarrow> bool" where
  "isAdvancedCustomConverter v = list_ex (\<lambda>option. fst option = v) ADVANCED_CUSTOM_CONVERTER_OPTIONS"

definition getAdvancedCustomIncomingPathOptions :: "jsstring \<Rightarrow> (jsstring \<times> jsstring) list" where
  "getAdvancedCustomIncomingPathOptions conv =
     filter (\<lambda>option. isConverterPathAllowed (fst option) conv) ADVANCED_CUSTOM_INCOMING_PATH_OPTIONS"

definition getDefaultAdvancedCustomIncomingPath :: "jsstring \<Rightarrow> jsstring" where
  "getDefaultAdvancedCustomIncomingPath conv =
     (case getAdvancedCustomIncomingPathOptions conv of
        [] \<Rightarrow> js ''/v1/chat/completions''
      | option # _ \<Rightarrow> str_or (fst option) (js ''/v1/chat/completions''))"

definition isAdvancedCustomIncomingPathAllowed :: "jsstring \<Rightarrow> jsstring \<Rightarrow> bool" where
  "isAdvancedCustomIncomingPathAllowed path conv = isConverterPathAllowed path conv"

definition getAdvancedCustomConverterOptions :: "jsstring \<Rightarrow> (jsstring \<times> jsstring \<times> jsstring) list" where
  "getAdvancedCustomConverterOptions path =
     filter (\<lambda>option. fst option = NONE \<or> isConverterPathAllowed (trim path) (fst option)) ADVANCED_CUSTOM_CONVERTER_OPTIONS"

definition getAdvancedCustomIncomingPathLabel :: "jsstring \<Rightarrow> jsstring" where
  "getAdvancedCustomIncomingPathLabel v =
     opt_str_or (map_option snd (find (\<lambda>option. fst option = v) ADVANCED_CUSTOM_INCOMING_PATH_OPTIONS)) v"

definition getAdvancedCustomNativeAuth :: "jsstring \<Rightarrow> AdvancedCustomRouteAuth" where
  "getAdvancedCustomNativeAuth path =
     (if path = claudeMessagesPath then apiKeyHeaderAuth
      else if str_includes path (js '':generateContent'') \<or> str_includes path (js '':streamGenerateContent'')
        \<or> str_includes path (js '':embedContent'') \<or> str_includes path (js '':batchEmbedContents'') then geminiQueryAuth
      else bearerHeaderAuth)"

text \<open>The upstream path and the authentication a converter starts with.\<close>

definition getAdvancedCustomConverterDefaults :: "jsstring \<Rightarrow> jsstring \<Rightarrow> jsstring \<times> AdvancedCustomRouteAuth option" where
  "getAdvancedCustomConverterDefaults conv path =
     (let normalizedIncomingPath = str_or (trim path) (getDefaultAdvancedCustomIncomingPath conv) in
      if conv = NONE then (normalizedIncomingPath, Some (getAdvancedCustomNativeAuth normalizedIncomingPath))
      else if conv = MESSAGES_TO_CHAT \<or> conv = GEMINI_TO_CHAT \<or> conv = RESPONSES_TO_CHAT
      then (openAIChatPath, Some bearerHeaderAuth)
      else if conv = CHAT_TO_RESPONSES then (openAIResponsesPath, Some bearerHeaderAuth)
      else if conv = CHAT_TO_MESSAGES then (claudeMessagesPath, Some apiKeyHeaderAuth)
      else if conv = CHAT_TO_GEMINI \<or> conv = RESPONSES_TO_GEMINI then (geminiGenerateContentPath, Some geminiQueryAuth)
      else (str_or normalizedIncomingPath openAIChatPath, Some (getAdvancedCustomNativeAuth normalizedIncomingPath)))"

definition getAdvancedCustomUpstreamPathPlaceholder :: "jsstring \<Rightarrow> jsstring option \<Rightarrow> jsstring" where
  "getAdvancedCustomUpstreamPathPlaceholder conv path =
     fst (getAdvancedCustomConverterDefaults conv (nullish path (getDefaultAdvancedCustomIncomingPath conv)))"

definition getAdvancedCustomAuthMode :: "AdvancedCustomRoute \<Rightarrow> jsstring" where
  "getAdvancedCustomAuthMode route = opt_str_or (Option.bind (route_auth route) auth_type) (js ''default'')"

definition buildAdvancedCustomAuth :: "jsstring \<Rightarrow> AdvancedCustomRouteAuth option \<Rightarrow> AdvancedCustomRouteAuth option" where
  "buildAdvancedCustomAuth mode previousAuth =
     (let name = (\<lambda>d. opt_str_or (Option.bind previousAuth auth_name) d); val = (\<lambda>d. opt_str_or (Option.bind previousAuth auth_value) d) in
      if mode = js ''default'' then None
      else if mode = NONE then Some \<lparr>auth_type = Some NONE, auth_name = None, auth_value = None\<rparr>
      else if mode = js ''header''
      then Some \<lparr>auth_type = Some (js ''header''), auth_name = Some (name (js ''Authorization'')), auth_value = Some (val (js ''Bearer {api_key}''))\<rparr>
      else Some \<lparr>auth_type = Some (js ''query''), auth_name = Some (name (js ''api_key'')), auth_value = Some (val (js ''{api_key}''))\<rparr>)"

section \<open>Normalisation\<close>

definition getAdvancedCustomRouteUpstreamPath :: "AdvancedCustomRoute \<Rightarrow> jsstring" where
  "getAdvancedCustomRouteUpstreamPath route = trim (nullish (upstream_path route) [])"

definition normalizeAdvancedCustomRouteModels :: "jsstring list option \<Rightarrow> jsstring list" where
  "normalizeAdvancedCustomRouteModels ms = filter (\<lambda>m. m \<noteq> []) (map trim (nullish ms []))"

definition normalizeAdvancedCustomRoute :: "AdvancedCustomRoute \<Rightarrow> AdvancedCustomRoute" where
  "normalizeAdvancedCustomRoute route =
     (let ms = normalizeAdvancedCustomRouteModels (models route) in
      \<lparr>incoming_path = Some (nullish (incoming_path route) []),
       upstream_path = Some (getAdvancedCustomRouteUpstreamPath route),
       converter = Some (opt_str_or (converter route) NONE),
       models = (if ms \<noteq> [] then Some ms else None),
       route_auth = map_option (\<lambda>a. \<lparr>auth_type = auth_type a, auth_name = Some (nullish (auth_name a) []),
                                     auth_value = Some (nullish (auth_value a) [])\<rparr>) (route_auth route)\<rparr>)"

definition normalizeAdvancedCustomConfig :: "AdvancedCustomConfig \<Rightarrow> AdvancedCustomConfig" where
  "normalizeAdvancedCustomConfig config =
     \<lparr>advanced_routes = Some (map normalizeAdvancedCustomRoute (nullish (advanced_routes config) []))\<rparr>"

definition parseAdvancedCustomConfig ::
  "(jsstring \<Rightarrow> AdvancedCustomConfig option) \<Rightarrow> jsstring option \<Rightarrow> AdvancedCustomConfig option" where
  "parseAdvancedCustomConfig parse v =
     (if trim (nullish v []) = [] then None else map_option normalizeAdvancedCustomConfig (parse (nullish v [])))"

definition stringifyAdvancedCustomConfig ::
  "(AdvancedCustomConfig \<Rightarrow> jsstring) \<Rightarrow> AdvancedCustomConfig \<Rightarrow> jsstring" where
  "stringifyAdvancedCustomConfig stringify config = stringify (normalizeAdvancedCustomConfig config)"

definition parseAdvancedCustomRouteModels :: "jsstring \<Rightarrow> jsstring list" where
  "parseAdvancedCustomRouteModels v = uniq (filter (\<lambda>m. m \<noteq> []) (map trim (split_on 44 v)))"

datatype AdvancedCustomModelRuleKind = Exact | Regex

definition getAdvancedCustomModelRuleKind :: "jsstring \<Rightarrow> AdvancedCustomModelRuleKind" where
  "getAdvancedCustomModelRuleKind rule = (if startsWith rule ADVANCED_CUSTOM_MODEL_REGEX_PREFIX then Regex else Exact)"

definition getAdvancedCustomRegexModelPattern :: "jsstring \<Rightarrow> jsstring" where
  "getAdvancedCustomRegexModelPattern rule = drop (length ADVANCED_CUSTOM_MODEL_REGEX_PREFIX) rule"

section \<open>Validation\<close>

definition validateRouteAuth :: "AdvancedCustomRouteAuth option \<Rightarrow> jsstring option" where
  "validateRouteAuth auth =
     (case auth of
        None \<Rightarrow> None
      | Some a \<Rightarrow>
          if auth_type a = Some NONE then None
          else if auth_type a \<noteq> Some (js ''header'') \<and> auth_type a \<noteq> Some (js ''query'') then Some (js ''Auth type is invalid'')
          else if trim (nullish (auth_name a) []) = [] then Some (js ''Auth name is required'')
          else if trim (nullish (auth_value a) []) = [] then Some (js ''Auth value is required'')
          else None)"

definition isFullHttpURLOrAbsolutePath :: "(jsstring \<Rightarrow> (jsstring \<times> jsstring) option) \<Rightarrow> jsstring \<Rightarrow> bool" where
  "isFullHttpURLOrAbsolutePath url v =
     (if startsWith v (js ''/'') then \<not> startsWith v (js ''//'')
      else case url v of
        None \<Rightarrow> False
      | Some (protocol, host) \<Rightarrow> host \<noteq> [] \<and> (protocol = js ''http:'' \<or> protocol = js ''https:''))"

text \<open>What was seen for one incoming path.\<close>

record PathModels =
  catchAllIndex :: "nat option"
  path_models :: "(jsstring, nat) jsmap"

type_synonym models_by_path = "(jsstring, PathModels) jsmap"

fun route_models_loop ::
  "nat \<Rightarrow> jsstring list \<Rightarrow> jsstring list \<Rightarrow> (jsstring, nat) jsmap \<Rightarrow> jsstring option \<times> (jsstring, nat) jsmap" where
  "route_models_loop index [] seenInRoute ms = (None, ms)"
| "route_models_loop index (model # rest) seenInRoute ms =
     (if getAdvancedCustomModelRuleKind model = Regex \<and> getAdvancedCustomRegexModelPattern model = []
      then (Some (js ''Model regex cannot be empty''), ms)
      else if model \<in> set seenInRoute then (Some (js ''Duplicate model in route models''), ms)
      else if map_get ms model \<noteq> None
      then (Some (js ''Route models must be unique for the same incoming path''), ms)
      else route_models_loop index rest (model # seenInRoute) (map_put ms model index))"

definition validateAdvancedCustomRouteModels ::
  "nat \<Rightarrow> jsstring \<Rightarrow> jsstring list \<Rightarrow> models_by_path \<Rightarrow> jsstring option \<times> models_by_path" where
  "validateAdvancedCustomRouteModels index path ms byPath =
     (let state = nullish (map_get byPath path) \<lparr>catchAllIndex = None, path_models = []\<rparr> in
      if ms = [] then
        if catchAllIndex state \<noteq> None
        then (Some (js ''Only one catch-all route is allowed for the same incoming path''), map_put byPath path state)
        else (None, map_put byPath path (state\<lparr>catchAllIndex := Some index\<rparr>))
      else if catchAllIndex state \<noteq> None
      then (Some (js ''Catch-all route must be last for the same incoming path''), map_put byPath path state)
      else
        let (err, seen) = route_models_loop index ms [] (path_models state)
        in (err, map_put byPath path (state\<lparr>path_models := seen\<rparr>)))"

text \<open>The checks of the body of the loop that need only the route.\<close>

definition incoming_path_error :: "jsstring \<Rightarrow> jsstring option" where
  "incoming_path_error path =
     (if path = [] then Some (js ''Incoming path is required'')
      else if \<not> startsWith path (js ''/'') then Some (js ''Incoming path must start with /'')
      else if str_includes path (js ''?'') then Some (js ''Incoming path must not include query'')
      else None)"

definition model_list_error :: "bool \<Rightarrow> jsstring list \<Rightarrow> jsstring \<Rightarrow> jsstring \<Rightarrow> jsstring option" where
  "model_list_error seen ms conv upstream =
     (if seen then Some (js ''Only one OpenAI Models route is allowed'')
      else if ms \<noteq> [] then Some (js ''OpenAI Models route does not support client model rules'')
      else if conv \<noteq> NONE then Some (js ''OpenAI Models route must use native forwarding'')
      else if str_includes upstream (js ''{model}'') then Some (js ''OpenAI Models upstream path must not contain {model}'')
      else None)"

definition target_error ::
  "(jsstring \<Rightarrow> (jsstring \<times> jsstring) option) \<Rightarrow> jsstring \<Rightarrow> jsstring \<Rightarrow> jsstring \<Rightarrow> AdvancedCustomRouteAuth option \<Rightarrow> jsstring option" where
  "target_error url path upstream conv auth =
     (if upstream = [] then Some (js ''Upstream path is required'')
      else if \<not> isFullHttpURLOrAbsolutePath url upstream then Some (js ''Upstream path must be a full URL or a path starting with /'')
      else if \<not> isAdvancedCustomConverter conv then Some (js ''Converter is not registered'')
      else if \<not> isConverterPathAllowed path conv then Some (js ''Converter does not match incoming path'')
      else validateRouteAuth auth)"

fun validate_routes ::
  "(jsstring \<Rightarrow> (jsstring \<times> jsstring) option) \<Rightarrow> nat \<Rightarrow> AdvancedCustomRoute list \<Rightarrow> models_by_path \<Rightarrow> nat option \<Rightarrow>
   AdvancedCustomValidationError option" where
  "validate_routes url index [] byPath modelListRouteIndex = None"
| "validate_routes url index (route # routes) byPath modelListRouteIndex =
     (let path = trim (nullish (incoming_path route) []);
          upstream = getAdvancedCustomRouteUpstreamPath route;
          conv = opt_str_or (converter route) NONE;
          ms = normalizeAdvancedCustomRouteModels (models route);
          fail = (\<lambda>m. Some \<lparr>error_message = m, routeIndex = Some index\<rparr>);
          isList = (path = ADVANCED_CUSTOM_MODEL_LIST_PATH) in
      case incoming_path_error path of
        Some m \<Rightarrow> fail m
      | None \<Rightarrow>
        (case (if isList then model_list_error (modelListRouteIndex \<noteq> None) ms conv upstream else None) of
           Some m \<Rightarrow> fail m
         | None \<Rightarrow>
           (case validateAdvancedCustomRouteModels index path ms byPath of
              (Some m, byPath') \<Rightarrow> fail m
            | (None, byPath') \<Rightarrow>
              (case target_error url path upstream conv (route_auth route) of
                 Some m \<Rightarrow> fail m
               | None \<Rightarrow> validate_routes url (index + 1) routes byPath' (if isList then Some index else modelListRouteIndex)))))"

definition validateAdvancedCustomConfig ::
  "(jsstring \<Rightarrow> (jsstring \<times> jsstring) option) \<Rightarrow> AdvancedCustomConfig option \<Rightarrow> AdvancedCustomValidationError option" where
  "validateAdvancedCustomConfig url config =
     (case config of
        None \<Rightarrow> Some \<lparr>error_message = js ''Advanced custom configuration is required'', routeIndex = None\<rparr>
      | Some c \<Rightarrow>
          let routes = nullish (advanced_routes (normalizeAdvancedCustomConfig c)) [] in
          if routes = []
          then Some \<lparr>error_message = js ''Advanced custom configuration requires at least one route'', routeIndex = None\<rparr>
          else validate_routes url 0 routes [] None)"

definition hasValidAdvancedCustomModelListRoute ::
  "(jsstring \<Rightarrow> (jsstring \<times> jsstring) option) \<Rightarrow> AdvancedCustomConfig option \<Rightarrow> bool" where
  "hasValidAdvancedCustomModelListRoute url config =
     (case config of
        None \<Rightarrow> False
      | Some c \<Rightarrow>
          validateAdvancedCustomConfig url (Some c) = None
          \<and> list_ex (\<lambda>route. map_option trim (incoming_path route) = Some ADVANCED_CUSTOM_MODEL_LIST_PATH)
              (nullish (advanced_routes (normalizeAdvancedCustomConfig c)) []))"

definition advancedCustomConfigUsesRelativeUpstreamPath :: "AdvancedCustomConfig option \<Rightarrow> bool" where
  "advancedCustomConfigUsesRelativeUpstreamPath config =
     (case config of
        None \<Rightarrow> False
      | Some c \<Rightarrow> list_ex (\<lambda>route. startsWith (getAdvancedCustomRouteUpstreamPath route) (js ''/''))
          (nullish (advanced_routes (normalizeAdvancedCustomConfig c)) []))"

definition getAdvancedCustomRouteSummaryLabel :: "AdvancedCustomRoute \<Rightarrow> jsstring option" where
  "getAdvancedCustomRouteSummaryLabel route =
     (let path = trim (nullish (incoming_path route) []) in
      if path = [] then None
      else Some (opt_str_or (map_of ADVANCED_CUSTOM_ROUTE_SUMMARY_LABELS path) (getAdvancedCustomIncomingPathLabel path)))"

record AdvancedCustomStats =
  routeCount :: nat
  stats_valid :: bool
  routeTypeLabels :: "jsstring list"

definition getAdvancedCustomStats ::
  "(jsstring \<Rightarrow> AdvancedCustomConfig option) \<Rightarrow> (jsstring \<Rightarrow> (jsstring \<times> jsstring) option) \<Rightarrow> jsstring option \<Rightarrow> AdvancedCustomStats" where
  "getAdvancedCustomStats parse url v =
     (case parseAdvancedCustomConfig parse v of
        None \<Rightarrow> \<lparr>routeCount = 0, stats_valid = False, routeTypeLabels = []\<rparr>
      | Some config \<Rightarrow>
          let normalized = normalizeAdvancedCustomConfig config; routes = nullish (advanced_routes normalized) [] in
          \<lparr>routeCount = length routes,
           stats_valid = (validateAdvancedCustomConfig url (Some normalized) = None),
           routeTypeLabels = uniq (filter (\<lambda>l. l \<noteq> []) (List.map_filter getAdvancedCustomRouteSummaryLabel routes))\<rparr>)"

end
