(* ===== verification/Channel_Form.thy ===== *)
theory Channel_Form
  imports Channel_Routes Js_Json Complex_Main
begin

text \<open>
  The form of a channel, \<open>features/channels/lib/channel-form.ts\<close>: the schema the form is validated with, the
  values it opens with for a stored channel, and the payloads it sends.  Two columns of a channel hold
  JSON text: \<open>setting\<close>, rebuilt from the form, and \<open>settings\<close>, an object of which the form manages some
  properties and keeps the others.  A value the form takes over from parsed JSON is kept as JSON, since
  only the schema checks its type.
\<close>

section \<open>The platform\<close>

text \<open>
  \<open>JSON.parse\<close> (\<open>None\<close> where it throws), \<open>JSON.stringify\<close> without and with indentation, \<open>String\<close> and \<open>Number\<close>
  on values other than strings and numbers (\<open>None\<close> is \<open>NaN\<close>), the URL parser, and the cast of parsed JSON
  to a route table (\<open>None\<close> where normalising it throws).
\<close>

record UrlParts =
  url_protocol :: jsstring
  url_host :: jsstring
  url_hostname :: jsstring
  url_port :: jsstring

record js_runtime =
  js_parse :: "jsstring \<Rightarrow> rat json option"
  js_stringify :: "rat json \<Rightarrow> jsstring"
  js_indented :: "rat json \<Rightarrow> jsstring"
  js_String :: "rat json \<Rightarrow> jsstring"
  js_Number :: "rat json \<Rightarrow> rat option"
  js_URL :: "jsstring \<Rightarrow> UrlParts option"
  cast_config :: "rat json \<Rightarrow> AdvancedCustomConfig option"

type_synonym json_object = "(jsstring \<times> rat json) list"

definition String_of :: "js_runtime \<Rightarrow> rat json \<Rightarrow> jsstring" where
  "String_of env v = (case v of JStr s \<Rightarrow> s | _ \<Rightarrow> js_String env v)"

definition Number_of :: "js_runtime \<Rightarrow> rat json \<Rightarrow> rat option" where
  "Number_of env v = (case v of JNum n \<Rightarrow> Some n | _ \<Rightarrow> js_Number env v)"

text \<open>\<open>value || fallback\<close>, \<open>value === true\<close>, and a property of a value other than \<open>null\<close>.\<close>

definition json_or :: "rat json option \<Rightarrow> rat json \<Rightarrow> rat json" where
  "json_or v d = (case v of None \<Rightarrow> d | Some x \<Rightarrow> if json_falsy x then d else x)"

definition is_true :: "rat json option \<Rightarrow> bool" where
  "is_true v \<longleftrightarrow> v = Some (JBool True)"

fun get_prop :: "rat json \<Rightarrow> jsstring \<Rightarrow> rat json option" where
  "get_prop (JObj ps) k = map_of ps k"
| "get_prop _ k = None"

text \<open>The object a route table is written as; properties that are \<open>undefined\<close> are left out.\<close>

definition auth_json :: "AdvancedCustomRouteAuth \<Rightarrow> rat json" where
  "auth_json a = JObj (prop_opt (js ''type'') JStr (auth_type a) @ prop_opt (js ''name'') JStr (auth_name a)
     @ prop_opt (js ''value'') JStr (auth_value a))"

definition route_json :: "AdvancedCustomRoute \<Rightarrow> rat json" where
  "route_json r = JObj (prop_opt (js ''incoming_path'') JStr (incoming_path r) @ prop_opt (js ''upstream_path'') JStr (upstream_path r)
     @ prop_opt (js ''converter'') JStr (converter r) @ prop_opt (js ''models'') (\<lambda>ms. JArr (map JStr ms)) (models r)
     @ prop_opt (js ''auth'') auth_json (route_auth r))"

definition config_json :: "AdvancedCustomConfig \<Rightarrow> rat json" where
  "config_json c = JObj (prop_opt (js ''advanced_routes'') (\<lambda>rs. JArr (map route_json rs)) (advanced_routes c))"

text \<open>The JSON reader and the URL parser the functions on route tables are given.\<close>

definition parse_config :: "js_runtime \<Rightarrow> jsstring \<Rightarrow> AdvancedCustomConfig option" where
  "parse_config env t = (case js_parse env t of Some (JObj ps) \<Rightarrow> cast_config env (JObj ps) | _ \<Rightarrow> None)"

definition config_url :: "js_runtime \<Rightarrow> jsstring \<Rightarrow> (jsstring \<times> jsstring) option" where
  "config_url env u = map_option (\<lambda>p. (url_protocol p, url_host p)) (js_URL env u)"

section \<open>Values\<close>

text \<open>A channel as the API returns it and as it is sent; \<open>None\<close> is \<open>null\<close> or a property left out.\<close>

record Channel =
  c_id :: "rat option"
  c_name :: "jsstring option"
  c_type :: rat
  c_base_url :: "jsstring option"
  c_key :: "jsstring option"
  c_openai_organization :: "jsstring option"
  c_models :: "jsstring option"
  c_group :: "jsstring option"
  c_model_mapping :: "jsstring option"
  c_priority :: "rat option"
  c_weight :: "rat option"
  c_test_model :: "jsstring option"
  c_auto_ban :: "rat option"
  c_status :: "rat option"
  c_status_code_mapping :: "jsstring option"
  c_tag :: "jsstring option"
  c_remark :: "jsstring option"
  c_setting :: "jsstring option"
  c_param_override :: "jsstring option"
  c_header_override :: "jsstring option"
  c_settings :: "jsstring option"
  c_other :: "jsstring option"
  c_multi_key_mode :: "jsstring option"

record ChannelFormColumns =
  f_name :: jsstring
  f_type :: rat
  f_base_url :: "jsstring option"
  f_key :: jsstring
  f_openai_organization :: "jsstring option"
  f_models :: jsstring
  f_group :: "jsstring list"
  f_model_mapping :: "jsstring option"
  f_priority :: "rat option"
  f_weight :: "rat option"
  f_test_model :: "jsstring option"
  f_auto_ban :: "rat option"
  f_status :: rat
  f_status_code_mapping :: "jsstring option"
  f_tag :: "jsstring option"
  f_remark :: "jsstring option"
  f_setting :: "jsstring option"
  f_param_override :: "jsstring option"
  f_header_override :: "jsstring option"
  f_settings :: "jsstring option"
  f_advanced_custom :: "jsstring option"
  f_other :: "jsstring option"
  f_multi_key_mode :: "jsstring option"
  f_multi_key_type :: "jsstring option"
  f_batch_add_set_key_prefix_2_name :: "bool option"
  f_key_mode :: "jsstring option"

record ChannelFormValues = ChannelFormColumns +
  f_force_format :: "rat json option"
  f_thinking_to_content :: "rat json option"
  f_proxy :: "rat json option"
  f_http_protocol :: "jsstring option"
  f_http2_connection_shards :: "rat json option"
  f_pass_through_body_enabled :: "rat json option"
  f_system_prompt :: "rat json option"
  f_system_prompt_override :: "rat json option"
  f_is_enterprise_account :: "bool option"
  f_vertex_key_type :: "rat json option"
  f_aws_key_type :: "rat json option"
  f_azure_responses_version :: "rat json option"
  f_allow_service_tier :: "bool option"
  f_disable_store :: "bool option"
  f_allow_safety_identifier :: "bool option"
  f_allow_include_obfuscation :: "bool option"
  f_allow_inference_geo :: "bool option"
  f_allow_speed :: "bool option"
  f_claude_beta_query :: "bool option"
  f_disable_task_polling_sleep :: "bool option"
  f_upstream_model_update_check_enabled :: "bool option"
  f_upstream_model_update_auto_sync_enabled :: "bool option"
  f_upstream_model_update_ignored_models :: "jsstring option"

section \<open>Validation\<close>

definition SUPPORTED_PROXY_PROTOCOLS :: "jsstring list" where
  "SUPPORTED_PROXY_PROTOCOLS = [js ''http:'', js ''https:'', js ''socks5:'', js ''socks5h:'']"

definition isOptionalProxyURL :: "js_runtime \<Rightarrow> jsstring option \<Rightarrow> bool" where
  "isOptionalProxyURL env v =
     (let trimmedValue = trim (nullish v []) in
      if trimmedValue = [] then True
      else case find_sub (js ''://'') trimmedValue of
        None \<Rightarrow> False
      | Some i \<Rightarrow>
          if i = 0 then False
          else
            let suffix = dropWhile (\<lambda>c. c \<notin> {47, 63, 35}) (drop (i + 3) trimmedValue) in
            if suffix \<noteq> [] \<and> suffix \<noteq> js ''/'' then False
            else case js_URL env trimmedValue of
              None \<Rightarrow> False
            | Some parsedURL \<Rightarrow> url_protocol parsedURL \<in> set SUPPORTED_PROXY_PROTOCOLS
                \<and> url_hostname parsedURL \<noteq> [] \<and> url_port parsedURL \<noteq> js ''0'')"

definition HTTP_PROTOCOL_AUTO :: jsstring where "HTTP_PROTOCOL_AUTO = js ''auto''"
definition HTTP_PROTOCOL_HTTP1 :: jsstring where "HTTP_PROTOCOL_HTTP1 = js ''http1''"
definition MAX_HTTP2_CONNECTION_SHARDS :: rat where "MAX_HTTP2_CONNECTION_SHARDS = 8"

text \<open>\<open>toLowerCase\<close> on the ASCII letters: no other character has a lower case among those of \<open>http1\<close>.\<close>

definition ascii_toLowerCase :: "jsstring \<Rightarrow> jsstring" where
  "ascii_toLowerCase s = map (\<lambda>c. if 65 \<le> c \<and> c \<le> 90 then c + 32 else c) s"

definition normalizeHttpProtocol :: "js_runtime \<Rightarrow> rat json option \<Rightarrow> jsstring" where
  "normalizeHttpProtocol env v =
     (let normalized = ascii_toLowerCase (trim (String_of env (json_or v (JStr [])))) in
      if normalized = HTTP_PROTOCOL_HTTP1 then HTTP_PROTOCOL_HTTP1 else HTTP_PROTOCOL_AUTO)"

text \<open>A comparison of a value that is not a number converts it; one with \<open>NaN\<close> is false.\<close>

definition normalizeHttp2ConnectionShards :: "js_runtime \<Rightarrow> rat json option \<Rightarrow> rat json" where
  "normalizeHttp2ConnectionShards env v =
     (case v of
        None \<Rightarrow> JNum 1
      | Some x \<Rightarrow>
          if x = JNull \<or> x = JNum 0 then JNum 1
          else case Number_of env x of
            None \<Rightarrow> x
          | Some n \<Rightarrow> if n < 1 then JNum 1 else if MAX_HTTP2_CONNECTION_SHARDS < n then JNum MAX_HTTP2_CONNECTION_SHARDS else x)"

text \<open>\<open>parseOptionalJson\<close>: the outer \<open>None\<close> is a syntax error, the inner one \<open>undefined\<close>.\<close>

definition parseOptionalJson :: "js_runtime \<Rightarrow> jsstring option \<Rightarrow> rat json option option" where
  "parseOptionalJson env v =
     (if trim (nullish v []) = [] then Some None else map_option Some (js_parse env (nullish v [])))"

fun isJsonObjectValue :: "rat json \<Rightarrow> bool" where
  "isJsonObjectValue (JObj _) = True"
| "isJsonObjectValue _ = False"

definition optional_json :: "js_runtime \<Rightarrow> (rat json \<Rightarrow> bool) \<Rightarrow> jsstring option \<Rightarrow> bool" where
  "optional_json env ok v =
     (case parseOptionalJson env v of None \<Rightarrow> False | Some None \<Rightarrow> True | Some (Some parsed) \<Rightarrow> ok parsed)"

definition isOptionalJsonObject :: "js_runtime \<Rightarrow> jsstring option \<Rightarrow> bool" where
  "isOptionalJsonObject env v = optional_json env isJsonObjectValue v"

definition isOptionalModelMapping :: "js_runtime \<Rightarrow> jsstring option \<Rightarrow> bool" where
  "isOptionalModelMapping env v =
     optional_json env (\<lambda>parsed. case parsed of JObj ps \<Rightarrow> list_all (\<lambda>p. as_string (snd p) \<noteq> None) ps | _ \<Rightarrow> False) v"

definition isInteger :: "rat \<Rightarrow> bool" where
  "isInteger n \<longleftrightarrow> of_int \<lfloor>n\<rfloor> = n"

definition status_code :: "rat option \<Rightarrow> bool" where
  "status_code n = (case n of None \<Rightarrow> False | Some code \<Rightarrow> isInteger code \<and> 100 \<le> code \<and> code \<le> 599)"

definition isOptionalStatusCodeMapping :: "js_runtime \<Rightarrow> jsstring option \<Rightarrow> bool" where
  "isOptionalStatusCodeMapping env v =
     optional_json env (\<lambda>parsed. case parsed of
         JObj ps \<Rightarrow> list_all (\<lambda>p. status_code (Number_of env (JStr (fst p))) \<and> status_code (Number_of env (snd p))) ps
       | _ \<Rightarrow> False) v"

definition non_blank_string :: "rat json option \<Rightarrow> bool" where
  "non_blank_string v = (case v of Some (JStr s) \<Rightarrow> trim s \<noteq> [] | _ \<Rightarrow> False)"

definition isCodexCredential :: "js_runtime \<Rightarrow> jsstring option \<Rightarrow> bool" where
  "isCodexCredential env v =
     optional_json env (\<lambda>parsed. isJsonObjectValue parsed \<and> non_blank_string (get_prop parsed (js ''access_token''))
       \<and> non_blank_string (get_prop parsed (js ''account_id''))) v"

definition isVertexJsonKey :: "js_runtime \<Rightarrow> jsstring option \<Rightarrow> bool" where
  "isVertexJsonKey env v =
     optional_json env (\<lambda>parsed. case parsed of JArr items \<Rightarrow> list_all isJsonObjectValue items | _ \<Rightarrow> isJsonObjectValue parsed) v"

definition opt_enum :: "jsstring list \<Rightarrow> jsstring option \<Rightarrow> bool" where
  "opt_enum options v = (case v of None \<Rightarrow> True | Some s \<Rightarrow> s \<in> set options)"

definition opt_json :: "(rat json \<Rightarrow> bool) \<Rightarrow> rat json option \<Rightarrow> bool" where
  "opt_json ok v = (case v of None \<Rightarrow> True | Some x \<Rightarrow> ok x)"

text \<open>The fields the object part of the schema rejects.\<close>

definition field_issues :: "js_runtime \<Rightarrow> ChannelFormValues \<Rightarrow> jsstring list" where
  "field_issues env f =
     (let boolean = opt_json (\<lambda>x. as_boolean x \<noteq> None); string = opt_json (\<lambda>x. as_string x \<noteq> None) in
      map fst (filter (\<lambda>p. \<not> snd p)
       [(js ''name'', f_name f \<noteq> []),
        (js ''type'', 0 \<le> f_type f),
        (js ''models'', f_models f \<noteq> []),
        (js ''group'', f_group f \<noteq> []),
        (js ''model_mapping'', isOptionalModelMapping env (f_model_mapping f)),
        (js ''status_code_mapping'', isOptionalStatusCodeMapping env (f_status_code_mapping f)),
        (js ''remark'', length (nullish (f_remark f) []) \<le> 255),
        (js ''setting'', isOptionalJsonObject env (f_setting f)),
        (js ''param_override'', isOptionalJsonObject env (f_param_override f)),
        (js ''header_override'', isOptionalJsonObject env (f_header_override f)),
        (js ''settings'', isOptionalJsonObject env (f_settings f)),
        (js ''multi_key_mode'', opt_enum [js ''single'', js ''batch'', js ''multi_to_single''] (f_multi_key_mode f)),
        (js ''multi_key_type'', opt_enum [js ''random'', js ''polling''] (f_multi_key_type f)),
        (js ''key_mode'', opt_enum [js ''append'', js ''replace''] (f_key_mode f)),
        (js ''force_format'', boolean (f_force_format f)),
        (js ''thinking_to_content'', boolean (f_thinking_to_content f)),
        (js ''proxy'', string (f_proxy f) \<and> isOptionalProxyURL env (Option.bind (f_proxy f) as_string)),
        (js ''http_protocol'', opt_enum [js ''auto'', js ''http1''] (f_http_protocol f)),
        (js ''http2_connection_shards'', opt_json (\<lambda>x. case x of JNum n \<Rightarrow> isInteger n | _ \<Rightarrow> False) (f_http2_connection_shards f)),
        (js ''pass_through_body_enabled'', boolean (f_pass_through_body_enabled f)),
        (js ''system_prompt'', string (f_system_prompt f)),
        (js ''system_prompt_override'', boolean (f_system_prompt_override f)),
        (js ''vertex_key_type'', opt_json (\<lambda>x. x \<in> {JStr (js ''json''), JStr (js ''api_key'')}) (f_vertex_key_type f)),
        (js ''aws_key_type'', opt_json (\<lambda>x. x \<in> {JStr (js ''ak_sk''), JStr (js ''api_key'')}) (f_aws_key_type f)),
        (js ''azure_responses_version'', string (f_azure_responses_version f))]))"

text \<open>The issues of the refinement, path and message.\<close>

definition blank :: "jsstring option \<Rightarrow> bool" where
  "blank v \<longleftrightarrow> trim (nullish v []) = []"

definition issue :: "bool \<Rightarrow> jsstring \<Rightarrow> jsstring \<Rightarrow> (jsstring \<times> jsstring) list" where
  "issue bad path message = (if bad then [(path, message)] else [])"

definition advanced_issues :: "js_runtime \<Rightarrow> ChannelFormValues \<Rightarrow> (jsstring \<times> jsstring) list" where
  "advanced_issues env f =
     (if f_type f = of_nat CHANNEL_TYPE_ADVANCED_CUSTOM then
        let config = parseAdvancedCustomConfig (parse_config env) (f_advanced_custom f) in
        (case validateAdvancedCustomConfig (config_url env) config of
           None \<Rightarrow> [] | Some e \<Rightarrow> [(js ''advanced_custom'', error_message e)])
        @ issue (advancedCustomConfigUsesRelativeUpstreamPath config \<and> blank (f_base_url f)) (js ''base_url'')
            (js ''Base URL is required when an advanced route uses an upstream path'')
        @ issue (f_upstream_model_update_check_enabled f = Some True
              \<and> \<not> hasValidAdvancedCustomModelListRoute (config_url env) config) (js ''upstream_model_update_check_enabled'')
            (js ''OpenAI Models route is required to enable upstream model checks'')
      else [])"

definition batch_mode :: "ChannelFormValues \<Rightarrow> bool" where
  "batch_mode f \<longleftrightarrow> nullish (f_multi_key_mode f) [] \<noteq> [] \<and> f_multi_key_mode f \<noteq> Some (js ''single'')"

definition refine_issues :: "js_runtime \<Rightarrow> ChannelFormValues \<Rightarrow> (jsstring \<times> jsstring) list" where
  "refine_issues env f =
     (let protocol = normalizeHttpProtocol env (map_option JStr (f_http_protocol f));
          shards = (case f_http2_connection_shards f of Some (JNum n) \<Rightarrow> n | _ \<Rightarrow> 1);
          has_key = (trim (f_key f) \<noteq> []) in
      issue (f_type f \<in> {3, 8, 36, 45, 60} \<and> blank (f_base_url f)) (js ''base_url'') (js ''Base URL is required for this channel type'')
      @ advanced_issues env f
      @ issue (f_type f \<in> {3, 18, 21, 39, 41, 49} \<and> blank (f_other f)) (js ''other'')
          (js ''This channel type requires additional configuration'')
      @ issue (f_type f = 57 \<and> batch_mode f) (js ''multi_key_mode'') (js ''Codex channels do not support batch creation'')
      @ issue (f_type f = 57 \<and> has_key \<and> \<not> isCodexCredential env (Some (f_key f))) (js ''key'')
          (js ''Codex credential must be a JSON object with access_token and account_id'')
      @ issue (f_type f = 41 \<and> f_vertex_key_type f = Some (JStr (js ''json'')) \<and> has_key \<and> \<not> isVertexJsonKey env (Some (f_key f)))
          (js ''key'') (js ''Vertex AI service account key must be valid JSON'')
      @ issue (f_type f = 41 \<and> f_vertex_key_type f = Some (JStr (js ''api_key'')) \<and> batch_mode f) (js ''multi_key_mode'')
          (js ''Vertex AI API Key mode does not support batch creation'')
      @ issue (shards < 1 \<or> MAX_HTTP2_CONNECTION_SHARDS < shards) (js ''http2_connection_shards'')
          (js ''HTTP/2 connection shards must be between 1 and 8'')
      @ issue (protocol = HTTP_PROTOCOL_HTTP1 \<and> 1 < shards) (js ''http2_connection_shards'')
          (js ''HTTP/2 connection shards must be 1 when HTTP/1.1 is selected''))"

definition channelFormSchema :: "js_runtime \<Rightarrow> ChannelFormValues \<Rightarrow> bool" where
  "channelFormSchema env f \<longleftrightarrow> field_issues env f = [] \<and> refine_issues env f = []"

section \<open>Lists in a column\<close>

definition parseModels :: "jsstring \<Rightarrow> jsstring list" where
  "parseModels ms = (if ms = [] then [] else filter (\<lambda>m. m \<noteq> []) (map trim (split_on 44 ms)))"

definition parseGroups :: "jsstring \<Rightarrow> jsstring list" where
  "parseGroups gs = (if gs = [] then [] else filter (\<lambda>g. g \<noteq> []) (map trim (split_on 44 gs)))"

definition formatModels :: "jsstring list \<Rightarrow> jsstring" where "formatModels ms = join [44] ms"

definition formatGroups :: "jsstring list \<Rightarrow> jsstring" where "formatGroups gs = join [44] gs"

definition validateJSON :: "js_runtime \<Rightarrow> jsstring \<Rightarrow> bool" where
  "validateJSON env v = (if trim v = [] then True else js_parse env v \<noteq> None)"

definition validateModelMapping :: "js_runtime \<Rightarrow> jsstring \<Rightarrow> bool" where
  "validateModelMapping env v = (if trim v = [] then True else validateJSON env v)"

section \<open>Opening a channel\<close>

definition CHANNEL_FORM_DEFAULT_VALUES :: ChannelFormValues where
  "CHANNEL_FORM_DEFAULT_VALUES =
     \<lparr>f_name = [], f_type = 1, f_base_url = Some [], f_key = [], f_openai_organization = Some [], f_models = [],
      f_group = [js ''default''], f_model_mapping = Some [], f_priority = Some 0, f_weight = Some 0, f_test_model = Some [],
      f_auto_ban = Some 1, f_status = 1, f_status_code_mapping = Some [], f_tag = Some [], f_remark = Some [], f_setting = Some [],
      f_param_override = Some [], f_header_override = Some [], f_settings = Some (js ''{}''), f_advanced_custom = Some [],
      f_other = Some [], f_multi_key_mode = Some (js ''single''), f_multi_key_type = Some (js ''random''),
      f_batch_add_set_key_prefix_2_name = Some False, f_key_mode = Some (js ''append''),
      f_force_format = Some (JBool False), f_thinking_to_content = Some (JBool False), f_proxy = Some (JStr []),
      f_http_protocol = Some HTTP_PROTOCOL_AUTO, f_http2_connection_shards = Some (JNum 1),
      f_pass_through_body_enabled = Some (JBool False), f_system_prompt = Some (JStr []), f_system_prompt_override = Some (JBool False),
      f_is_enterprise_account = Some False, f_vertex_key_type = Some (JStr (js ''json'')), f_aws_key_type = Some (JStr (js ''ak_sk'')),
      f_azure_responses_version = Some (JStr []), f_allow_service_tier = Some False, f_disable_store = Some False,
      f_allow_safety_identifier = Some False, f_allow_include_obfuscation = Some False, f_allow_inference_geo = Some False,
      f_allow_speed = Some False, f_claude_beta_query = Some False, f_disable_task_polling_sleep = Some False,
      f_upstream_model_update_check_enabled = Some False, f_upstream_model_update_auto_sync_enabled = Some False,
      f_upstream_model_update_ignored_models = Some []\<rparr>"

text \<open>The fields read from \<open>setting\<close>.  Reading a property of \<open>null\<close> throws, which is caught like a syntax error.\<close>

definition open_setting :: "js_runtime \<Rightarrow> jsstring option \<Rightarrow> ChannelFormValues \<Rightarrow> ChannelFormValues" where
  "open_setting env text f =
     (if opt_str_or text [] = [] then f
      else case js_parse env (nullish text []) of
        None \<Rightarrow> f
      | Some JNull \<Rightarrow> f
      | Some parsed \<Rightarrow>
          let protocol = normalizeHttpProtocol env (get_prop parsed (js ''http_protocol''));
              shards = normalizeHttp2ConnectionShards env (get_prop parsed (js ''http2_connection_shards'')) in
          f\<lparr>f_force_format := Some (json_or (get_prop parsed (js ''force_format'')) (JBool False)),
            f_thinking_to_content := Some (json_or (get_prop parsed (js ''thinking_to_content'')) (JBool False)),
            f_proxy := Some (json_or (get_prop parsed (js ''proxy'')) (JStr [])),
            f_http_protocol := Some protocol,
            f_http2_connection_shards := Some (if protocol = HTTP_PROTOCOL_HTTP1 then JNum 1 else shards),
            f_pass_through_body_enabled := Some (json_or (get_prop parsed (js ''pass_through_body_enabled'')) (JBool False)),
            f_system_prompt := Some (json_or (get_prop parsed (js ''system_prompt'')) (JStr [])),
            f_system_prompt_override := Some (json_or (get_prop parsed (js ''system_prompt_override'')) (JBool False))\<rparr>)"

text \<open>The fields read from \<open>settings\<close>.\<close>

definition ignored_text :: "js_runtime \<Rightarrow> rat json option \<Rightarrow> jsstring" where
  "ignored_text env v =
     (case v of Some (JArr vs) \<Rightarrow> join [44] (map (\<lambda>x. if x = JNull then [] else String_of env x) vs) | _ \<Rightarrow> [])"

definition advanced_text :: "js_runtime \<Rightarrow> rat json option \<Rightarrow> jsstring" where
  "advanced_text env v =
     (case v of
        None \<Rightarrow> []
      | Some a \<Rightarrow>
          if json_falsy a then []
          else case cast_config env a of
            None \<Rightarrow> []
          | Some c \<Rightarrow> stringifyAdvancedCustomConfig (\<lambda>c. js_indented env (config_json c)) c)"

definition open_settings :: "js_runtime \<Rightarrow> jsstring option \<Rightarrow> ChannelFormValues \<Rightarrow> ChannelFormValues" where
  "open_settings env text f =
     (if opt_str_or text [] = [] then f
      else case js_parse env (nullish text []) of
        None \<Rightarrow> f
      | Some JNull \<Rightarrow> f
      | Some parsed \<Rightarrow>
          let flag = (\<lambda>k. Some (is_true (get_prop parsed k))) in
          f\<lparr>f_vertex_key_type := Some (json_or (get_prop parsed (js ''vertex_key_type'')) (JStr (js ''json''))),
            f_azure_responses_version := Some (json_or (get_prop parsed (js ''azure_responses_version'')) (JStr [])),
            f_is_enterprise_account := flag (js ''openrouter_enterprise''),
            f_aws_key_type := Some (json_or (get_prop parsed (js ''aws_key_type'')) (JStr (js ''ak_sk''))),
            f_allow_service_tier := flag (js ''allow_service_tier''),
            f_disable_store := flag (js ''disable_store''),
            f_allow_safety_identifier := flag (js ''allow_safety_identifier''),
            f_allow_include_obfuscation := flag (js ''allow_include_obfuscation''),
            f_allow_inference_geo := flag (js ''allow_inference_geo''),
            f_allow_speed := flag (js ''allow_speed''),
            f_claude_beta_query := flag (js ''claude_beta_query''),
            f_disable_task_polling_sleep := flag (js ''disable_task_polling_sleep''),
            f_upstream_model_update_check_enabled := flag (js ''upstream_model_update_check_enabled''),
            f_upstream_model_update_auto_sync_enabled := flag (js ''upstream_model_update_auto_sync_enabled''),
            f_upstream_model_update_ignored_models := Some (ignored_text env (get_prop parsed (js ''upstream_model_update_ignored_models''))),
            f_advanced_custom := Some (advanced_text env (get_prop parsed (js ''advanced_custom'')))\<rparr>)"

text \<open>\<open>n || 0\<close> of a number that may be missing is \<open>nullish n 0\<close>.  The fields the function does not name are those of the
  defaults, which are the initial values of its variables.\<close>

definition form_columns :: "Channel \<Rightarrow> ChannelFormValues" where
  "form_columns ch =
     CHANNEL_FORM_DEFAULT_VALUES
         \<lparr>f_name := opt_str_or (c_name ch) [],
          f_type := c_type ch,
          f_base_url := Some (opt_str_or (c_base_url ch) []),
          f_key := [],
          f_openai_organization := Some (opt_str_or (c_openai_organization ch) []),
          f_models := opt_str_or (c_models ch) [],
          f_group := parseGroups (opt_str_or (c_group ch) (js ''default'')),
          f_model_mapping := Some (opt_str_or (c_model_mapping ch) []),
          f_priority := Some (nullish (c_priority ch) 0),
          f_weight := Some (nullish (c_weight ch) 0),
          f_test_model := Some (opt_str_or (c_test_model ch) []),
          f_auto_ban := Some (nullish (c_auto_ban ch) 1),
          f_status := nullish (c_status ch) 0,
          f_status_code_mapping := Some (opt_str_or (c_status_code_mapping ch) []),
          f_tag := Some (opt_str_or (c_tag ch) []),
          f_remark := Some (opt_str_or (c_remark ch) []),
          f_setting := Some (opt_str_or (c_setting ch) []),
          f_param_override := Some (opt_str_or (c_param_override ch) []),
          f_header_override := Some (opt_str_or (c_header_override ch) []),
          f_settings := Some (opt_str_or (c_settings ch) (js ''{}'')),
          f_other := Some (opt_str_or (c_other ch) []),
          f_multi_key_mode := Some (js ''single''),
          f_multi_key_type := Some (opt_str_or (c_multi_key_mode ch) (js ''random'')),
          f_batch_add_set_key_prefix_2_name := Some False,
          f_key_mode := Some (js ''append'')\<rparr>"

definition transformChannelToFormDefaults :: "js_runtime \<Rightarrow> Channel \<Rightarrow> ChannelFormValues" where
  "transformChannelToFormDefaults env ch =
     open_settings env (c_settings ch) (open_setting env (c_setting ch) (form_columns ch))"

section \<open>The two JSON columns\<close>

text \<open>\<open>formData.proxy?.trim()\<close>; \<open>None\<close> where the value has no such method, which the schema excludes.\<close>

definition proxy_text :: "rat json option \<Rightarrow> jsstring option" where
  "proxy_text v = (case v of None \<Rightarrow> Some [] | Some JNull \<Rightarrow> Some [] | Some (JStr s) \<Rightarrow> Some (trim s) | Some _ \<Rightarrow> None)"

definition setting_object :: "js_runtime \<Rightarrow> ChannelFormValues \<Rightarrow> jsstring \<Rightarrow> json_object" where
  "setting_object env f proxy =
     (let protocol = normalizeHttpProtocol env (map_option JStr (f_http_protocol f));
          shards = (if protocol = HTTP_PROTOCOL_HTTP1 then JNum 1 else normalizeHttp2ConnectionShards env (f_http2_connection_shards f)) in
      [(js ''force_format'', json_or (f_force_format f) (JBool False)),
       (js ''thinking_to_content'', json_or (f_thinking_to_content f) (JBool False)),
       (js ''proxy'', JStr proxy),
       (js ''pass_through_body_enabled'', json_or (f_pass_through_body_enabled f) (JBool False)),
       (js ''system_prompt'', json_or (f_system_prompt f) (JStr [])),
       (js ''system_prompt_override'', json_or (f_system_prompt_override f) (JBool False))]
      @ (if protocol = HTTP_PROTOCOL_HTTP1 then [(js ''http_protocol'', JStr HTTP_PROTOCOL_HTTP1)]
         else if (case Number_of env shards of None \<Rightarrow> False | Some n \<Rightarrow> 1 < n) then [(js ''http2_connection_shards'', shards)]
         else []))"

definition buildSettingJSON :: "js_runtime \<Rightarrow> ChannelFormValues \<Rightarrow> jsstring option" where
  "buildSettingJSON env f =
     map_option (\<lambda>proxy. js_stringify env (JObj (setting_object env f proxy))) (proxy_text (f_proxy f))"

text \<open>
  An edit of an object: a property is assigned, or deleted if present.
\<close>

type_synonym edit = "jsstring \<times> rat json option"

definition apply_edit :: "edit \<Rightarrow> json_object \<Rightarrow> json_object" where
  "apply_edit e ps = (case snd e of Some v \<Rightarrow> AList.update (fst e) v ps | None \<Rightarrow> AList.delete (fst e) ps)"

definition apply_edits :: "edit list \<Rightarrow> json_object \<Rightarrow> json_object" where
  "apply_edits es ps = fold apply_edit es ps"

definition MODEL_FETCHABLE_TYPES :: "rat list" where
  "MODEL_FETCHABLE_TYPES = [1, 4, 14, 17, 20, 23, 24, 25, 26, 27, 31, 34, 35, 40, 42, 43, 47, 48, 57, 58, 59, 60]"

definition flag_json :: "bool option \<Rightarrow> rat json" where
  "flag_json v = JBool (v = Some True)"

text \<open>The properties that depend on the type of the channel, in the order of the code.  For type 14 the code assigns
  \<open>allow_inference_geo\<close> in its second block, after deletions only.\<close>

definition type_edits :: "ChannelFormValues \<Rightarrow> edit list" where
  "type_edits f =
     (let t = f_type f; keep = (\<lambda>b v. if b then Some v else None) in
      [(js ''vertex_key_type'', keep (t = 41) (json_or (f_vertex_key_type f) (JStr (js ''json'')))),
       (js ''azure_responses_version'',
          keep (t = 3 \<and> \<not> json_falsy (json_or (f_azure_responses_version f) JNull)) (json_or (f_azure_responses_version f) JNull)),
       (js ''openrouter_enterprise'', keep (t = 20) (flag_json (f_is_enterprise_account f))),
       (js ''aws_key_type'', keep (t = 33) (json_or (f_aws_key_type f) (JStr (js ''ak_sk'')))),
       (js ''allow_service_tier'', keep (t \<in> {1, 14, 57}) (flag_json (f_allow_service_tier f))),
       (js ''disable_store'', keep (t \<in> {1, 57}) (flag_json (f_disable_store f))),
       (js ''allow_safety_identifier'', keep (t \<in> {1, 57}) (flag_json (f_allow_safety_identifier f))),
       (js ''allow_include_obfuscation'', keep (t \<in> {1, 57}) (flag_json (f_allow_include_obfuscation f))),
       (js ''allow_inference_geo'', keep (t \<in> {1, 57, 14}) (flag_json (f_allow_inference_geo f))),
       (js ''allow_speed'', keep (t = 14) (flag_json (f_allow_speed f))),
       (js ''claude_beta_query'', keep (t = 14) (flag_json (f_claude_beta_query f))),
       (js ''disable_task_polling_sleep'', Some (flag_json (f_disable_task_polling_sleep f)))])"

definition ignored_models :: "ChannelFormValues \<Rightarrow> jsstring list" where
  "ignored_models f =
     uniq (filter (\<lambda>m. m \<noteq> []) (map trim (split_on 44 (opt_str_or (f_upstream_model_update_ignored_models f) []))))"

definition update_edits :: "ChannelFormValues \<Rightarrow> edit list" where
  "update_edits f =
     [(js ''upstream_model_update_check_enabled'', Some (flag_json (f_upstream_model_update_check_enabled f))),
      (js ''upstream_model_update_auto_sync_enabled'',
         Some (JBool (f_upstream_model_update_check_enabled f = Some True \<and> f_upstream_model_update_auto_sync_enabled f = Some True))),
      (js ''upstream_model_update_ignored_models'', Some (JArr (map JStr (ignored_models f))))]"

fun is_array :: "rat json option \<Rightarrow> bool" where
  "is_array (Some (JArr _)) = True"
| "is_array _ = False"

fun is_number :: "rat json option \<Rightarrow> bool" where
  "is_number (Some (JNum _)) = True"
| "is_number _ = False"

definition last_edits :: "ChannelFormValues \<Rightarrow> json_object \<Rightarrow> edit list" where
  "last_edits f ps =
     (if \<not> is_array (map_of ps (js ''upstream_model_update_last_detected_models''))
        \<or> f_upstream_model_update_check_enabled f \<noteq> Some True
      then [(js ''upstream_model_update_last_detected_models'', Some (JArr []))] else [])
     @ (if \<not> is_number (map_of ps (js ''upstream_model_update_last_check_time''))
        then [(js ''upstream_model_update_last_check_time'', Some (JNum 0))] else [])"

definition advanced_edits :: "js_runtime \<Rightarrow> ChannelFormValues \<Rightarrow> edit list" where
  "advanced_edits env f =
     (if f_type f = of_nat CHANNEL_TYPE_ADVANCED_CUSTOM then
        (case parseAdvancedCustomConfig (parse_config env) (f_advanced_custom f) of
           None \<Rightarrow> []
         | Some c \<Rightarrow> [(js ''advanced_custom'', Some (config_json c))])
      else [(js ''advanced_custom'', None)])"

definition settings_object :: "js_runtime \<Rightarrow> ChannelFormValues \<Rightarrow> json_object \<Rightarrow> json_object" where
  "settings_object env f ps =
     (let ps1 = apply_edits (type_edits f) ps;
          ps2 = (if f_type f \<in> set MODEL_FETCHABLE_TYPES
                 then let ps' = apply_edits (update_edits f) ps1 in apply_edits (last_edits f ps') ps'
                 else ps1)
      in apply_edits (advanced_edits env f) ps2)"

text \<open>Properties of an array are not written; a value that is neither object nor array makes the code throw.\<close>

definition buildSettingsJSON :: "js_runtime \<Rightarrow> ChannelFormValues \<Rightarrow> jsstring option" where
  "buildSettingsJSON env f =
     (let text = opt_str_or (f_settings f) [];
          parsed = (if text \<noteq> [] \<and> text \<noteq> js ''{}'' then js_parse env text else None) in
      case nullish parsed (JObj []) of
        JObj ps \<Rightarrow> Some (js_stringify env (JObj (settings_object env f ps)))
      | JArr vs \<Rightarrow> Some (js_stringify env (JArr vs))
      | _ \<Rightarrow> None)"

section \<open>Payloads\<close>

definition normalizeBaseUrl :: "jsstring option \<Rightarrow> jsstring" where
  "normalizeBaseUrl v = rev (dropWhile (\<lambda>c. c = 47) (rev (trim (opt_str_or v []))))"

definition or_null :: "jsstring option \<Rightarrow> jsstring option" where
  "or_null v = (if opt_str_or v [] = [] then None else v)"

text \<open>The loop that turns empty strings into \<open>null\<close>.\<close>

definition clean_payload :: "Channel \<Rightarrow> Channel" where
  "clean_payload p =
     p\<lparr>c_name := or_null (c_name p), c_base_url := or_null (c_base_url p), c_key := or_null (c_key p),
       c_openai_organization := or_null (c_openai_organization p), c_models := or_null (c_models p), c_group := or_null (c_group p),
       c_model_mapping := or_null (c_model_mapping p), c_test_model := or_null (c_test_model p),
       c_status_code_mapping := or_null (c_status_code_mapping p), c_tag := or_null (c_tag p), c_remark := or_null (c_remark p),
       c_setting := or_null (c_setting p), c_param_override := or_null (c_param_override p),
       c_header_override := or_null (c_header_override p), c_settings := or_null (c_settings p), c_other := or_null (c_other p)\<rparr>"

text \<open>The properties both payloads share.\<close>

definition base_payload :: "ChannelFormValues \<Rightarrow> jsstring \<Rightarrow> jsstring \<Rightarrow> Channel" where
  "base_payload f setting settings =
     \<lparr>c_id = None, c_name = Some (f_name f), c_type = f_type f, c_base_url = or_null (Some (normalizeBaseUrl (f_base_url f))),
      c_key = None, c_openai_organization = or_null (f_openai_organization f), c_models = Some (f_models f),
      c_group = Some (formatGroups (f_group f)), c_model_mapping = or_null (f_model_mapping f), c_priority = None, c_weight = None,
      c_test_model = or_null (f_test_model f), c_auto_ban = Some (nullish (f_auto_ban f) 1), c_status = None,
      c_status_code_mapping = or_null (f_status_code_mapping f), c_tag = or_null (f_tag f), c_remark = Some (opt_str_or (f_remark f) []),
      c_setting = Some setting, c_param_override = or_null (f_param_override f), c_header_override = or_null (f_header_override f),
      c_settings = Some settings, c_other = Some (opt_str_or (f_other f) []), c_multi_key_mode = None\<rparr>"

definition or_null_number :: "rat option \<Rightarrow> rat option" where
  "or_null_number v = (if v = Some 0 then None else v)"

record CreatePayload =
  create_mode :: jsstring
  create_multi_key_mode :: "jsstring option"
  create_batch_prefix :: "bool option"
  create_channel :: Channel

definition transformFormDataToCreatePayload :: "js_runtime \<Rightarrow> ChannelFormValues \<Rightarrow> CreatePayload option" where
  "transformFormDataToCreatePayload env f =
     (case (buildSettingJSON env f, buildSettingsJSON env f) of
        (Some setting, Some settings) \<Rightarrow>
          let mode = opt_str_or (f_multi_key_mode f) (js ''single'') in
          Some \<lparr>create_mode = mode,
            create_multi_key_mode = (if mode = js ''multi_to_single'' then f_multi_key_type f else None),
            create_batch_prefix = (if mode = js ''batch'' then f_batch_add_set_key_prefix_2_name f else None),
            create_channel = clean_payload ((base_payload f setting settings)
              \<lparr>c_key := Some (f_key f), c_priority := or_null_number (f_priority f), c_weight := or_null_number (f_weight f),
               c_status := Some (f_status f)\<rparr>)\<rparr>
      | _ \<Rightarrow> None)"

text \<open>The payload of an update sends empty strings for the columns that may be cleared.\<close>

definition update_payload :: "ChannelFormValues \<Rightarrow> rat \<Rightarrow> jsstring \<Rightarrow> jsstring \<Rightarrow> Channel" where
  "update_payload f channelId setting settings =
     (clean_payload ((base_payload f setting settings)
        \<lparr>c_id := Some channelId, c_priority := Some (nullish (f_priority f) 0), c_weight := Some (nullish (f_weight f) 0),
         c_key := (if trim (f_key f) \<noteq> [] then Some (f_key f) else None)\<rparr>))
      \<lparr>c_base_url := Some (normalizeBaseUrl (f_base_url f)),
       c_openai_organization := Some (opt_str_or (f_openai_organization f) []),
       c_test_model := Some (opt_str_or (f_test_model f) []),
       c_tag := Some (opt_str_or (f_tag f) []),
       c_remark := Some (opt_str_or (f_remark f) []),
       c_model_mapping := Some (opt_str_or (f_model_mapping f) []),
       c_status_code_mapping := Some (opt_str_or (f_status_code_mapping f) []),
       c_param_override := Some (opt_str_or (f_param_override f) []),
       c_header_override := Some (opt_str_or (f_header_override f) [])\<rparr>"

definition transformFormDataToUpdatePayload :: "js_runtime \<Rightarrow> ChannelFormValues \<Rightarrow> rat \<Rightarrow> Channel option" where
  "transformFormDataToUpdatePayload env f channelId =
     (case (buildSettingJSON env f, buildSettingsJSON env f) of
        (Some setting, Some settings) \<Rightarrow> Some (update_payload f channelId setting settings)
      | _ \<Rightarrow> None)"

end
