(* ===== verification/Channel_Routes_Server.thy ===== *)
theory Channel_Routes_Server
  imports Channel_Routes
begin

text \<open>
  The same route table on the server, \<open>src/relaykit/dto/channel_settings.go\<close>: \<open>Validate\<close>, which guards
  what is stored, and the matching of a request to a route.  A Go string is the sequence of its characters,
  as in the client; \<open>compile\<close> is \<open>regexp.Compile\<close> followed by \<open>MatchString\<close>, \<open>None\<close> where the pattern is
  invalid, and \<open>url\<close> gives the scheme and the host of \<open>url.Parse\<close>, \<open>None\<close> on an error.  A missing JSON
  property is the empty string, and a missing object a \<open>nil\<close> pointer.
\<close>

section \<open>Types\<close>

record ServerAuth =
  Type :: jsstring
  Name :: jsstring
  Value :: jsstring

record ServerRoute =
  IncomingPath :: jsstring
  UpstreamPath :: jsstring
  Converter :: jsstring
  Models :: "jsstring list"
  Auth :: "ServerAuth option"

text \<open>\<open>strings.TrimSpace\<close>: the white space of Unicode, which differs from the one of JavaScript in U+0085 and
  U+FEFF.\<close>

definition go_space :: "code_unit \<Rightarrow> bool" where
  "go_space c \<longleftrightarrow> c \<in> {9, 10, 11, 12, 13, 32, 133, 160, 5760, 8232, 8233, 8239, 8287, 12288} \<or> (8192 \<le> c \<and> c \<le> 8202)"

definition TrimSpace :: "jsstring \<Rightarrow> jsstring" where
  "TrimSpace s = rev (dropWhile go_space (rev (dropWhile go_space s)))"

text \<open>What the server decodes from the text the client saves.\<close>

definition decode_auth :: "AdvancedCustomRouteAuth \<Rightarrow> ServerAuth" where
  "decode_auth a = \<lparr>Type = nullish (auth_type a) [], Name = nullish (auth_name a) [], Value = nullish (auth_value a) []\<rparr>"

definition decode_route :: "AdvancedCustomRoute \<Rightarrow> ServerRoute" where
  "decode_route r = \<lparr>IncomingPath = nullish (incoming_path r) [], UpstreamPath = nullish (upstream_path r) [],
     Converter = nullish (converter r) [], Models = nullish (models r) [], Auth = map_option decode_auth (route_auth r)\<rparr>"

definition decode_config :: "AdvancedCustomConfig \<Rightarrow> ServerRoute list" where
  "decode_config c = map decode_route (nullish (advanced_routes c) [])"

section \<open>Validation\<close>

datatype RouteError =
    ConfigRequired
  | NoRoutes
  | PathRequired nat
  | PathSlash nat
  | PathQuery nat
  | ModelListTwice nat nat
  | ModelListModels nat
  | ModelListConverter nat
  | ModelListUpstream nat
  | CatchAllTwice nat
  | CatchAllNotLast nat
  | RegexEmpty nat jsstring
  | RegexInvalid nat jsstring
  | ModelTwice nat jsstring
  | ModelOverlap nat nat jsstring
  | UpstreamRequired nat
  | UpstreamInvalid nat
  | UpstreamScheme nat
  | ConverterUnknown nat jsstring
  | ConverterPath nat jsstring
  | AuthName nat
  | AuthValue nat
  | AuthType nat jsstring

definition normalizeModels :: "jsstring list \<Rightarrow> jsstring list" where
  "normalizeModels ms = filter (\<lambda>m. m \<noteq> []) (map TrimSpace ms)"

definition validateModelRule :: "(jsstring \<Rightarrow> (jsstring \<Rightarrow> bool) option) \<Rightarrow> nat \<Rightarrow> jsstring \<Rightarrow> RouteError option" where
  "validateModelRule compile i model =
     (if \<not> prefix (js ''re:'') model then None
      else let pattern = drop 3 model in
        if pattern = [] then Some (RegexEmpty i model)
        else if compile pattern = None then Some (RegexInvalid i model) else None)"

text \<open>\<open>advancedCustomPathModelState\<close> has the two fields of the record of the client; -1 is \<open>None\<close>.\<close>

type_synonym PathModelState = PathModels

fun models_loop ::
  "(jsstring \<Rightarrow> (jsstring \<Rightarrow> bool) option) \<Rightarrow> nat \<Rightarrow> jsstring list \<Rightarrow> jsstring list \<Rightarrow> (jsstring, nat) jsmap \<Rightarrow>
   RouteError option \<times> (jsstring, nat) jsmap" where
  "models_loop compile i [] seen ms = (None, ms)"
| "models_loop compile i (model # rest) seen ms =
     (case validateModelRule compile i model of
        Some e \<Rightarrow> (Some e, ms)
      | None \<Rightarrow>
          if model \<in> set seen then (Some (ModelTwice i model), ms)
          else (case map_get ms model of
                  Some existing \<Rightarrow> (Some (ModelOverlap i existing model), ms)
                | None \<Rightarrow> models_loop compile i rest (model # seen) (map_put ms model i)))"

definition validateRouteModels ::
  "(jsstring \<Rightarrow> (jsstring \<Rightarrow> bool) option) \<Rightarrow> nat \<Rightarrow> jsstring \<Rightarrow> jsstring list \<Rightarrow> (jsstring, PathModelState) jsmap \<Rightarrow>
   RouteError option \<times> (jsstring, PathModelState) jsmap" where
  "validateRouteModels compile i path ms paths =
     (let state = nullish (map_get paths path) \<lparr>catchAllIndex = None, path_models = []\<rparr>; normalized = normalizeModels ms in
      if normalized = [] then
        if catchAllIndex state \<noteq> None then (Some (CatchAllTwice i), map_put paths path state)
        else (None, map_put paths path (state\<lparr>catchAllIndex := Some i\<rparr>))
      else if catchAllIndex state \<noteq> None then (Some (CatchAllNotLast i), map_put paths path state)
      else
        let (err, seen) = models_loop compile i normalized [] (path_models state)
        in (err, map_put paths path (state\<lparr>path_models := seen\<rparr>)))"

text \<open>\<open>strings.EqualFold\<close> on the ASCII letters a scheme consists of.\<close>

definition ascii_lower :: "code_unit \<Rightarrow> code_unit" where
  "ascii_lower c = (if 65 \<le> c \<and> c \<le> 90 then c + 32 else c)"

text \<open>\<open>ValidateHTTPTransport\<close>, the check of the transport settings of a channel; no character outside ASCII has a
  lower case among those of the accepted protocols.\<close>

datatype TransportError = ProtocolInvalid jsstring | ShardsInvalid int | ShardsWithHttp1

definition ValidateHTTPTransport :: "jsstring \<Rightarrow> int \<Rightarrow> TransportError option" where
  "ValidateHTTPTransport HTTPProtocol HTTP2ConnectionShards =
     (let protocol = map ascii_lower (TrimSpace HTTPProtocol) in
      if protocol \<notin> {[], js ''auto'', js ''http1''} then Some (ProtocolInvalid HTTPProtocol)
      else if HTTP2ConnectionShards < 0 \<or> HTTP2ConnectionShards > 8 then Some (ShardsInvalid HTTP2ConnectionShards)
      else if protocol = js ''http1'' \<and> HTTP2ConnectionShards > 1 then Some ShardsWithHttp1
      else None)"

definition validateUpstreamTarget :: "(jsstring \<Rightarrow> (jsstring \<times> jsstring) option) \<Rightarrow> nat \<Rightarrow> jsstring \<Rightarrow> RouteError option" where
  "validateUpstreamTarget url i upstream =
     (if prefix (js ''/'') upstream then (if prefix (js ''//'') upstream then Some (UpstreamInvalid i) else None)
      else case url upstream of
        None \<Rightarrow> Some (UpstreamInvalid i)
      | Some (scheme, host) \<Rightarrow>
          if scheme = [] \<or> host = [] then Some (UpstreamInvalid i)
          else if map ascii_lower scheme \<noteq> js ''http'' \<and> map ascii_lower scheme \<noteq> js ''https'' then Some (UpstreamScheme i)
          else None)"

definition IsAdvancedCustomConverterAllowed :: "jsstring \<Rightarrow> bool" where
  "IsAdvancedCustomConverterAllowed c \<longleftrightarrow> c \<in> {NONE, MESSAGES_TO_CHAT, CHAT_TO_MESSAGES, CHAT_TO_RESPONSES,
     RESPONSES_TO_CHAT, RESPONSES_TO_GEMINI, GEMINI_TO_CHAT, CHAT_TO_GEMINI}"

definition validateConverterPath :: "nat \<Rightarrow> jsstring \<Rightarrow> jsstring \<Rightarrow> RouteError option" where
  "validateConverterPath i path conv =
     (if path = js ''/v1/alpha/search'' then (if conv = NONE then None else Some (ConverterPath i conv))
      else if conv = NONE then None
      else if conv = MESSAGES_TO_CHAT then (if path = js ''/v1/messages'' then None else Some (ConverterPath i conv))
      else if conv = CHAT_TO_MESSAGES \<or> conv = CHAT_TO_RESPONSES \<or> conv = CHAT_TO_GEMINI
      then (if path = js ''/v1/chat/completions'' then None else Some (ConverterPath i conv))
      else if conv = RESPONSES_TO_CHAT \<or> conv = RESPONSES_TO_GEMINI
      then (if path = js ''/v1/responses'' then None else Some (ConverterPath i conv))
      else if conv = GEMINI_TO_CHAT
      then (if str_includes path (js '':generateContent'') \<or> str_includes path (js '':streamGenerateContent'') then None
            else Some (ConverterPath i conv))
      else Some (ConverterPath i conv))"

definition validateServerAuth :: "nat \<Rightarrow> ServerAuth option \<Rightarrow> RouteError option" where
  "validateServerAuth i auth =
     (case auth of
        None \<Rightarrow> None
      | Some a \<Rightarrow>
          let authType = TrimSpace (Type a) in
          if authType = NONE then None
          else if authType = js ''header'' \<or> authType = js ''query'' then
            (if TrimSpace (Name a) = [] then Some (AuthName i)
             else if TrimSpace (Value a) = [] then Some (AuthValue i) else None)
          else Some (AuthType i (Type a)))"

fun or_error :: "'e option \<Rightarrow> 'e option \<Rightarrow> 'e option" where
  "or_error (Some e) _ = Some e"
| "or_error None x = x"

definition model_list_check :: "nat \<Rightarrow> nat option \<Rightarrow> jsstring list \<Rightarrow> jsstring \<Rightarrow> jsstring \<Rightarrow> RouteError option" where
  "model_list_check i listIndex ms conv upstream =
     (case listIndex of
        Some j \<Rightarrow> Some (ModelListTwice i j)
      | None \<Rightarrow>
          if normalizeModels ms \<noteq> [] then Some (ModelListModels i)
          else if conv \<noteq> NONE then Some (ModelListConverter i)
          else if str_includes upstream (js ''{model}'') then Some (ModelListUpstream i)
          else None)"

fun validate_loop ::
  "(jsstring \<Rightarrow> (jsstring \<Rightarrow> bool) option) \<Rightarrow> (jsstring \<Rightarrow> (jsstring \<times> jsstring) option) \<Rightarrow> nat \<Rightarrow> ServerRoute list \<Rightarrow>
   (jsstring, PathModelState) jsmap \<Rightarrow> nat option \<Rightarrow> RouteError option" where
  "validate_loop compile url i [] paths listIndex = None"
| "validate_loop compile url i (route # routes) paths listIndex =
     (let path = TrimSpace (IncomingPath route); upstream = TrimSpace (UpstreamPath route);
          conv = str_or (TrimSpace (Converter route)) NONE;
          isList = (path = js ''/v1/models'') in
      if path = [] then Some (PathRequired i)
      else if \<not> prefix (js ''/'') path then Some (PathSlash i)
      else if str_includes path (js ''?'') then Some (PathQuery i)
      else or_error (if isList then model_list_check i listIndex (Models route) conv upstream else None)
        (case validateRouteModels compile i path (Models route) paths of
           (Some e, paths') \<Rightarrow> Some e
         | (None, paths') \<Rightarrow>
             if upstream = [] then Some (UpstreamRequired i)
             else or_error (validateUpstreamTarget url i upstream)
               (if \<not> IsAdvancedCustomConverterAllowed conv then Some (ConverterUnknown i conv)
                else or_error (validateConverterPath i path conv)
                  (or_error (validateServerAuth i (Auth route))
                    (validate_loop compile url (i + 1) routes paths' (if isList then Some i else listIndex))))))"

definition Validate ::
  "(jsstring \<Rightarrow> (jsstring \<Rightarrow> bool) option) \<Rightarrow> (jsstring \<Rightarrow> (jsstring \<times> jsstring) option) \<Rightarrow> ServerRoute list option \<Rightarrow> RouteError option" where
  "Validate compile url config =
     (case config of
        None \<Rightarrow> Some ConfigRequired
      | Some routes \<Rightarrow> if routes = [] then Some NoRoutes else validate_loop compile url 0 routes [] None)"

section \<open>Matching a request\<close>

text \<open>\<open>strings.Split\<close> for a non-empty separator and \<open>strings.Replace\<close> of the first occurrence.\<close>

function split_sub :: "jsstring \<Rightarrow> jsstring \<Rightarrow> jsstring list" where
  "split_sub sep s =
     (case find_sub sep s of
        None \<Rightarrow> [s]
      | Some i \<Rightarrow> if sep = [] then [s] else take i s # split_sub sep (drop (i + length sep) s))"
  by pat_completeness auto
termination split_sub
  by (relation "measure (\<lambda>(sep, s). length s)") (auto dest!: find_sub_bound simp flip: length_greater_0_conv)

declare split_sub.simps [simp del]

definition replace_first :: "jsstring \<Rightarrow> jsstring \<Rightarrow> jsstring \<Rightarrow> jsstring" where
  "replace_first s old fresh =
     (case find_sub old s of None \<Rightarrow> s | Some i \<Rightarrow> take i s @ fresh @ drop (i + length old) s)"

definition TrimPrefix :: "jsstring \<Rightarrow> jsstring \<Rightarrow> jsstring" where
  "TrimPrefix s p = (if prefix p s then drop (length p) s else s)"

definition TrimSuffix :: "jsstring \<Rightarrow> jsstring \<Rightarrow> jsstring" where
  "TrimSuffix s p = (if suffix p s then take (length s - length p) s else s)"

definition matchIncomingPathTemplate :: "jsstring \<Rightarrow> jsstring \<Rightarrow> bool" where
  "matchIncomingPathTemplate configuredPath requestPath =
     (if \<not> str_includes configuredPath (js ''{model}'') then configuredPath = requestPath
      else case split_sub (js ''{model}'') configuredPath of
        [before, after] \<Rightarrow>
          prefix before requestPath \<and> suffix after requestPath
          \<and> (let model = TrimSuffix (TrimPrefix requestPath before) after in model \<noteq> [] \<and> \<not> str_includes model (js ''/''))
      | _ \<Rightarrow> False)"

definition matchIncomingPath :: "jsstring \<Rightarrow> jsstring \<Rightarrow> bool" where
  "matchIncomingPath configuredPath requestPath =
     (if matchIncomingPathTemplate configuredPath requestPath then True
      else if str_includes configuredPath (js '':generateContent'')
      then matchIncomingPathTemplate
        (replace_first configuredPath (js '':generateContent'') (js '':streamGenerateContent'')) requestPath
      else False)"

definition matchModelRule :: "(jsstring \<Rightarrow> (jsstring \<Rightarrow> bool) option) \<Rightarrow> jsstring \<Rightarrow> jsstring \<Rightarrow> bool" where
  "matchModelRule compile rule model =
     (if \<not> prefix (js ''re:'') rule then rule = model
      else let pattern = drop 3 rule in
        if pattern = [] then False
        else case compile pattern of None \<Rightarrow> False | Some matches \<Rightarrow> matches model)"

definition matchRouteModel :: "(jsstring \<Rightarrow> (jsstring \<Rightarrow> bool) option) \<Rightarrow> jsstring list \<Rightarrow> jsstring \<Rightarrow> bool" where
  "matchRouteModel compile ms model =
     (let normalized = normalizeModels ms in
      normalized = [] \<or> list_ex (\<lambda>rule. matchModelRule compile rule model) normalized)"

definition MatchPath :: "ServerRoute list option \<Rightarrow> jsstring \<Rightarrow> ServerRoute option" where
  "MatchPath config requestPath =
     find (\<lambda>route. matchIncomingPath (TrimSpace (IncomingPath route)) requestPath) (nullish config [])"

definition MatchPathForModel ::
  "(jsstring \<Rightarrow> (jsstring \<Rightarrow> bool) option) \<Rightarrow> ServerRoute list option \<Rightarrow> jsstring \<Rightarrow> jsstring \<Rightarrow> ServerRoute option" where
  "MatchPathForModel compile config requestPath model =
     find (\<lambda>route. matchIncomingPath (TrimSpace (IncomingPath route)) requestPath
                    \<and> matchRouteModel compile (Models route) (TrimSpace model)) (nullish config [])"

definition ModelListRoute :: "ServerRoute list option \<Rightarrow> ServerRoute option" where
  "ModelListRoute config = find (\<lambda>route. TrimSpace (IncomingPath route) = js ''/v1/models'') (nullish config [])"

definition SupportsPath :: "ServerRoute list option \<Rightarrow> jsstring \<Rightarrow> bool" where
  "SupportsPath config requestPath \<longleftrightarrow> MatchPath config requestPath \<noteq> None"

definition SupportsPathForModel ::
  "(jsstring \<Rightarrow> (jsstring \<Rightarrow> bool) option) \<Rightarrow> ServerRoute list option \<Rightarrow> jsstring \<Rightarrow> jsstring \<Rightarrow> bool" where
  "SupportsPathForModel compile config requestPath model \<longleftrightarrow> MatchPathForModel compile config requestPath model \<noteq> None"

definition isGeminiIncomingPath :: "jsstring \<Rightarrow> bool" where
  "isGeminiIncomingPath path \<longleftrightarrow> prefix (js ''/v1beta/models/'') path
     \<and> (str_includes path (js '':generateContent'') \<or> str_includes path (js '':streamGenerateContent''))"

definition endpointTypeFromIncomingPath :: "jsstring \<Rightarrow> jsstring option" where
  "endpointTypeFromIncomingPath path =
     (case map_of
        [(js ''/v1/chat/completions'', js ''openai''), (js ''/v1/responses'', js ''openai-response''),
         (js ''/v1/responses/compact'', js ''openai-response-compact''), (js ''/v1/alpha/search'', js ''openai-alpha-search''),
         (js ''/v1/messages'', js ''anthropic''), (js ''/v1/rerank'', js ''jina-rerank''),
         (js ''/v1/images/generations'', js ''image-generation''), (js ''/v1/embeddings'', js ''embeddings'')] path of
        Some t \<Rightarrow> Some t
      | None \<Rightarrow> if isGeminiIncomingPath path then Some (js ''gemini'') else None)"

definition SupportedEndpointTypesForModel ::
  "(jsstring \<Rightarrow> (jsstring \<Rightarrow> bool) option) \<Rightarrow> ServerRoute list option \<Rightarrow> jsstring \<Rightarrow> jsstring list" where
  "SupportedEndpointTypesForModel compile config model =
     uniq (List.map_filter (\<lambda>route. endpointTypeFromIncomingPath (TrimSpace (IncomingPath route)))
       (filter (\<lambda>route. matchRouteModel compile (Models route) (TrimSpace model)) (nullish config [])))"

end
