(* ===== verification/Channel_Routes_Laws.thy ===== *)
theory Channel_Routes_Laws
  imports Channel_Routes_Server
begin

text \<open>
  Laws of the route tables of advanced custom channels.  Both validators walk the routes with a table of
  the rules seen for each path; a locale states what one step of such a walk checks and derives which
  tables are accepted.  It is interpreted for the validator of the client and for the one of the server.
\<close>

section \<open>Tables of routes\<close>

definition path_state :: "models_by_path \<Rightarrow> jsstring \<Rightarrow> PathModels" where
  "path_state m p = nullish (map_get m p) \<lparr>catchAllIndex = None, path_models = []\<rparr>"

text \<open>The rules of a route fit to those seen for its path, and what is seen afterwards.\<close>

definition admits :: "(jsstring \<Rightarrow> bool) \<Rightarrow> jsstring list \<Rightarrow> PathModels \<Rightarrow> bool" where
  "admits good ms st \<longleftrightarrow> catchAllIndex st = None \<and> distinct ms
     \<and> (\<forall>x\<in>set ms. good x \<and> map_get (path_models st) x = None)"

definition admit :: "nat \<Rightarrow> jsstring \<Rightarrow> jsstring list \<Rightarrow> models_by_path \<Rightarrow> models_by_path" where
  "admit i p ms m =
     map_put m p (if ms = [] then (path_state m p)\<lparr>catchAllIndex := Some i\<rparr>
                  else (path_state m p)\<lparr>path_models := fold (\<lambda>x t. map_put t x i) ms (path_models (path_state m p))\<rparr>)"

lemma path_state_put: "path_state (map_put m p st) q = (if p = q then st else path_state m q)"
  by (simp add: path_state_def nullish_def map_get_put)

lemma fold_put_keys: "map_get (fold (\<lambda>x t. map_put t x i) ms t) y = None \<longleftrightarrow> y \<notin> set ms \<and> map_get t y = None"
  by (induction ms arbitrary: t) (auto simp: map_get_put)

text \<open>A table is separated: routes of one path have different rules, and one without rules is the last.\<close>

definition fits :: "('r \<Rightarrow> jsstring) \<Rightarrow> ('r \<Rightarrow> jsstring list) \<Rightarrow> 'r \<Rightarrow> 'r \<Rightarrow> bool" where
  "fits path rules r q \<longleftrightarrow> (path r = path q \<longrightarrow> rules r \<noteq> [] \<and> set (rules r) \<inter> set (rules q) = {})"

locale route_table =
  fixes path :: "'r \<Rightarrow> jsstring"
    and rules :: "'r \<Rightarrow> jsstring list"
    and good :: "jsstring \<Rightarrow> bool"
    and alone :: "bool \<Rightarrow> 'r \<Rightarrow> bool"
    and check :: "nat \<Rightarrow> 'r list \<Rightarrow> models_by_path \<Rightarrow> nat option \<Rightarrow> 'e option"
  assumes check_Nil: "check i [] m l = None"
    and check_Cons: "check i (r # rs) m l = None \<longleftrightarrow>
      alone (l \<noteq> None) r \<and> admits good (rules r) (path_state m (path r))
      \<and> check (Suc i) rs (admit i (path r) (rules r) m) (if path r = js ''/v1/models'' then Some i else l) = None"
    and list_once: "path r = js ''/v1/models'' \<Longrightarrow> alone b r \<longleftrightarrow> \<not> b \<and> alone False r"
    and list_no_rules: "path r = js ''/v1/models'' \<Longrightarrow> alone b r \<Longrightarrow> rules r = []"
    and other_alone: "path r \<noteq> js ''/v1/models'' \<Longrightarrow> alone b r = alone False r"
begin

definition route_ok :: "'r \<Rightarrow> bool" where
  "route_ok r \<longleftrightarrow> alone False r \<and> distinct (rules r) \<and> list_all good (rules r)"

definition seen :: "'r list \<Rightarrow> models_by_path \<Rightarrow> nat option \<Rightarrow> bool" where
  "seen ds m l \<longleftrightarrow> list_all route_ok ds
     \<and> (\<forall>p. catchAllIndex (path_state m p) = None \<longleftrightarrow> (\<forall>d\<in>set ds. path d = p \<longrightarrow> rules d \<noteq> []))
     \<and> (\<forall>p x. map_get (path_models (path_state m p)) x = None \<longleftrightarrow> (\<forall>d\<in>set ds. path d = p \<longrightarrow> x \<notin> set (rules d)))
     \<and> (l = None \<longleftrightarrow> (\<forall>d\<in>set ds. path d \<noteq> js ''/v1/models''))"

lemma seen_rules:
  assumes "seen ds m l"
  shows "admits good (rules r) (path_state m (path r)) \<longleftrightarrow>
    distinct (rules r) \<and> list_all good (rules r) \<and> (\<forall>d\<in>set ds. fits path rules d r)"
proof -
  let ?st = "path_state m (path r)"
  have c: "catchAllIndex ?st = None \<longleftrightarrow> (\<forall>d\<in>set ds. path d = path r \<longrightarrow> rules d \<noteq> [])"
    and k: "map_get (path_models ?st) x = None \<longleftrightarrow> (\<forall>d\<in>set ds. path d = path r \<longrightarrow> x \<notin> set (rules d))" for x
    using assms unfolding seen_def by blast+
  show ?thesis unfolding admits_def c k fits_def list_all_iff by blast
qed

lemma seen_alone:
  assumes "seen ds m l" "\<forall>d\<in>set ds. fits path rules d r"
  shows "alone (l \<noteq> None) r = alone False r"
proof (cases "path r = js ''/v1/models''")
  case True
  have "path d \<noteq> js ''/v1/models''" if d: "d \<in> set ds" for d
  proof
    assume p: "path d = js ''/v1/models''"
    have "alone False d" using assms(1) d by (simp add: seen_def route_ok_def list_all_iff)
    with list_no_rules p have "rules d = []" by blast
    with assms(2) d p True show False by (simp add: fits_def)
  qed
  with assms(1) have "l = None" unfolding seen_def by blast
  then show ?thesis by simp
next
  case False
  then show ?thesis by (rule other_alone)
qed

lemma seen_admits:
  assumes "seen ds m l"
  shows "alone (l \<noteq> None) r \<and> admits good (rules r) (path_state m (path r)) \<longleftrightarrow>
    route_ok r \<and> (\<forall>d\<in>set ds. fits path rules d r)"
  using seen_rules [OF assms, of r] seen_alone [OF assms, of r] unfolding route_ok_def by blast

lemma seen_admit:
  assumes "seen ds m l" "route_ok r"
  shows "seen (ds @ [r]) (admit i (path r) (rules r) m) (if path r = js ''/v1/models'' then Some i else l)"
proof -
  let ?m = "admit i (path r) (rules r) m"
  have st: "path_state ?m p = (if path r = p then (if rules r = [] then (path_state m p)\<lparr>catchAllIndex := Some i\<rparr>
      else (path_state m p)\<lparr>path_models := fold (\<lambda>x t. map_put t x i) (rules r) (path_models (path_state m p))\<rparr>)
      else path_state m p)" for p
    by (simp add: admit_def path_state_put)
  have "catchAllIndex (path_state ?m p) = None \<longleftrightarrow> (\<forall>d\<in>set (ds @ [r]). path d = p \<longrightarrow> rules d \<noteq> [])" for p
    using assms(1) unfolding seen_def st by auto
  moreover have "map_get (path_models (path_state ?m p)) x = None \<longleftrightarrow> (\<forall>d\<in>set (ds @ [r]). path d = p \<longrightarrow> x \<notin> set (rules d))" for p x
    using assms(1) unfolding seen_def st by (auto simp: fold_put_keys)
  ultimately show ?thesis
    using assms unfolding seen_def by (auto simp: list_all_iff)
qed

lemma check_seen:
  "seen ds m l \<Longrightarrow> check i rs m l = None \<longleftrightarrow>
     list_all route_ok rs \<and> (\<forall>d\<in>set ds. \<forall>r\<in>set rs. fits path rules d r) \<and> sorted_wrt (fits path rules) rs"
proof (induction rs arbitrary: i ds m l)
  case (Cons r rs)
  let ?l = "if path r = js ''/v1/models'' then Some i else l"
  show ?case
  proof (cases "route_ok r")
    case True
    from Cons.IH [OF seen_admit [OF Cons.prems True, of i], of "Suc i"] seen_admits [OF Cons.prems, of r] True
    show ?thesis unfolding check_Cons by auto
  next
    case False
    with seen_admits [OF Cons.prems, of r] show ?thesis unfolding check_Cons by auto
  qed
qed (simp add: check_Nil)

lemma accepted_iff:
  "check 0 rs [] None = None \<longleftrightarrow> list_all route_ok rs \<and> sorted_wrt (fits path rules) rs"
proof -
  have "seen [] [] None" by (simp add: seen_def path_state_def nullish_def)
  from check_seen [OF this] show ?thesis by simp
qed

end

section \<open>The two validators\<close>

abbreviation client_path :: "AdvancedCustomRoute \<Rightarrow> jsstring" where
  "client_path r \<equiv> trim (nullish (incoming_path r) [])"

abbreviation client_rules :: "AdvancedCustomRoute \<Rightarrow> jsstring list" where
  "client_rules r \<equiv> normalizeAdvancedCustomRouteModels (models r)"

abbreviation client_converter :: "AdvancedCustomRoute \<Rightarrow> jsstring" where
  "client_converter r \<equiv> opt_str_or (converter r) NONE"

definition client_good :: "jsstring \<Rightarrow> bool" where
  "client_good x \<longleftrightarrow> \<not> (getAdvancedCustomModelRuleKind x = Regex \<and> getAdvancedCustomRegexModelPattern x = [])"

definition client_alone :: "(jsstring \<Rightarrow> (jsstring \<times> jsstring) option) \<Rightarrow> bool \<Rightarrow> AdvancedCustomRoute \<Rightarrow> bool" where
  "client_alone url b r \<longleftrightarrow> incoming_path_error (client_path r) = None
     \<and> (client_path r = ADVANCED_CUSTOM_MODEL_LIST_PATH \<longrightarrow>
          model_list_error b (client_rules r) (client_converter r) (getAdvancedCustomRouteUpstreamPath r) = None)
     \<and> target_error url (client_path r) (getAdvancedCustomRouteUpstreamPath r) (client_converter r) (route_auth r) = None"

lemma route_models_loop_iff:
  "fst (route_models_loop i ms xs t) = None \<longleftrightarrow>
     distinct ms \<and> set ms \<inter> set xs = {} \<and> (\<forall>x\<in>set ms. client_good x \<and> map_get t x = None)"
  by (induction i ms xs t rule: route_models_loop.induct) (auto simp: client_good_def map_get_put)

lemma route_models_loop_table:
  "fst (route_models_loop i ms xs t) = None \<Longrightarrow> snd (route_models_loop i ms xs t) = fold (\<lambda>x t. map_put t x i) ms t"
  by (induction i ms xs t rule: route_models_loop.induct) (auto split: if_splits)

lemma client_models:
  "fst (validateAdvancedCustomRouteModels i p ms m) = None \<longleftrightarrow> admits client_good ms (path_state m p)"
  "fst (validateAdvancedCustomRouteModels i p ms m) = None \<Longrightarrow> snd (validateAdvancedCustomRouteModels i p ms m) = admit i p ms m"
  using route_models_loop_iff [of i ms "[]" "path_models (path_state m p)"]
    route_models_loop_table [of i ms "[]" "path_models (path_state m p)"]
  by (auto simp: validateAdvancedCustomRouteModels_def admits_def admit_def Let_def path_state_def split: prod.splits if_splits)

lemma client_step:
  "validate_routes url i (r # rs) m l = None \<longleftrightarrow>
     client_alone url (l \<noteq> None) r \<and> admits client_good (client_rules r) (path_state m (client_path r))
     \<and> validate_routes url (Suc i) rs (admit i (client_path r) (client_rules r) m)
         (if client_path r = js ''/v1/models'' then Some i else l) = None"
proof -
  let ?v = "validateAdvancedCustomRouteModels i (client_path r) (client_rules r) m"
  obtain e m' where v: "?v = (e, m')" by (cases ?v) auto
  have a: "e = None \<longleftrightarrow> admits client_good (client_rules r) (path_state m (client_path r))"
    "e = None \<Longrightarrow> m' = admit i (client_path r) (client_rules r) m"
    using client_models [where i = i and p = "client_path r" and ms = "client_rules r" and m = m] by (simp_all add: v)
  show ?thesis
    unfolding validate_routes.simps Let_def v client_alone_def a(1) [symmetric]
    by (auto simp: a(2) ADVANCED_CUSTOM_MODEL_LIST_PATH_def simp del: js_Cons split: option.splits if_splits)
qed

interpretation client: route_table client_path client_rules client_good "client_alone url" "validate_routes url" for url
proof
  fix i r rs m l
  show "validate_routes url i (r # rs) m l = None \<longleftrightarrow> client_alone url (l \<noteq> None) r
      \<and> admits client_good (client_rules r) (path_state m (client_path r))
      \<and> validate_routes url (Suc i) rs (admit i (client_path r) (client_rules r) m)
          (if client_path r = js ''/v1/models'' then Some i else l) = None"
    by (rule client_step)
qed (auto simp: client_alone_def model_list_error_def ADVANCED_CUSTOM_MODEL_LIST_PATH_def simp del: js_Cons split: if_splits)

abbreviation server_path :: "ServerRoute \<Rightarrow> jsstring" where
  "server_path r \<equiv> TrimSpace (IncomingPath r)"

abbreviation server_rules :: "ServerRoute \<Rightarrow> jsstring list" where
  "server_rules r \<equiv> normalizeModels (Models r)"

abbreviation server_converter :: "ServerRoute \<Rightarrow> jsstring" where
  "server_converter r \<equiv> str_or (TrimSpace (Converter r)) NONE"

definition server_good :: "(jsstring \<Rightarrow> (jsstring \<Rightarrow> bool) option) \<Rightarrow> jsstring \<Rightarrow> bool" where
  "server_good compile x \<longleftrightarrow> validateModelRule compile 0 x = None"

definition server_alone :: "(jsstring \<Rightarrow> (jsstring \<times> jsstring) option) \<Rightarrow> bool \<Rightarrow> ServerRoute \<Rightarrow> bool" where
  "server_alone url b r \<longleftrightarrow>
     prefix (js ''/'') (server_path r) \<and> \<not> str_includes (server_path r) (js ''?'')
     \<and> (server_path r = js ''/v1/models'' \<longrightarrow> \<not> b \<and> server_rules r = [] \<and> server_converter r = NONE
          \<and> \<not> str_includes (TrimSpace (UpstreamPath r)) (js ''{model}''))
     \<and> TrimSpace (UpstreamPath r) \<noteq> [] \<and> validateUpstreamTarget url 0 (TrimSpace (UpstreamPath r)) = None
     \<and> IsAdvancedCustomConverterAllowed (server_converter r)
     \<and> validateConverterPath 0 (server_path r) (server_converter r) = None
     \<and> validateServerAuth 0 (Auth r) = None"

text \<open>The position of a route only appears in the messages.\<close>

lemma position_only_reported:
  "validateModelRule compile i x = None \<longleftrightarrow> validateModelRule compile 0 x = None"
  "validateUpstreamTarget url i u = None \<longleftrightarrow> validateUpstreamTarget url 0 u = None"
  "validateConverterPath i p c = None \<longleftrightarrow> validateConverterPath 0 p c = None"
  "validateServerAuth i a = None \<longleftrightarrow> validateServerAuth 0 a = None"
     apply (simp add: validateModelRule_def Let_def del: js_Cons)
    apply (simp add: validateUpstreamTarget_def del: js_Cons split: option.split)
   apply (simp only: validateConverterPath_def if_distrib [where f = "\<lambda>x. x = None"] option.distinct(2) simp_thms)
  apply (simp add: validateServerAuth_def Let_def del: js_Cons split: option.split)
  done

lemma or_error_None: "or_error a b = None \<longleftrightarrow> a = None \<and> b = None"
  by (cases a) auto

lemma models_loop_iff:
  "fst (models_loop compile i ms xs t) = None \<longleftrightarrow>
     distinct ms \<and> set ms \<inter> set xs = {} \<and> (\<forall>x\<in>set ms. server_good compile x \<and> map_get t x = None)"
proof (induction compile i ms xs t rule: models_loop.induct)
  case (2 compile i model rest seen ms)
  show ?case
  proof (cases "validateModelRule compile i model")
    case None
    then have "server_good compile model" using position_only_reported(1) [of compile i model] by (simp add: server_good_def)
    with None 2 show ?thesis by (auto simp: map_get_put split: option.splits)
  next
    case (Some e)
    then have "\<not> server_good compile model" using position_only_reported(1) [of compile i model] by (simp add: server_good_def)
    with Some show ?thesis by simp
  qed
qed simp

lemma models_loop_table:
  "fst (models_loop compile i ms xs t) = None \<Longrightarrow> snd (models_loop compile i ms xs t) = fold (\<lambda>x t. map_put t x i) ms t"
  by (induction compile i ms xs t rule: models_loop.induct) (auto split: if_splits option.splits)

lemma server_models:
  "fst (validateRouteModels compile i p ms m) = None \<longleftrightarrow> admits (server_good compile) (normalizeModels ms) (path_state m p)"
  "fst (validateRouteModels compile i p ms m) = None \<Longrightarrow> snd (validateRouteModels compile i p ms m) = admit i p (normalizeModels ms) m"
  using models_loop_iff [of compile i "normalizeModels ms" "[]" "path_models (path_state m p)"]
    models_loop_table [of compile i "normalizeModels ms" "[]" "path_models (path_state m p)"]
  by (auto simp: validateRouteModels_def admits_def admit_def Let_def path_state_def split: prod.splits if_splits)

lemma server_step:
  "validate_loop compile url i (r # rs) m l = None \<longleftrightarrow>
     server_alone url (l \<noteq> None) r \<and> admits (server_good compile) (server_rules r) (path_state m (server_path r))
     \<and> validate_loop compile url (Suc i) rs (admit i (server_path r) (server_rules r) m)
         (if server_path r = js ''/v1/models'' then Some i else l) = None"
proof -
  let ?v = "validateRouteModels compile i (server_path r) (Models r) m"
  obtain e m' where v: "?v = (e, m')" by (cases ?v) auto
  have a: "e = None \<longleftrightarrow> admits (server_good compile) (server_rules r) (path_state m (server_path r))"
    "e = None \<Longrightarrow> m' = admit i (server_path r) (server_rules r) m"
    using server_models [where i = i and p = "server_path r" and ms = "Models r" and m = m and compile = compile] by (simp_all add: v)
  have c: "model_list_check i l (Models r) (server_converter r) u = None \<longleftrightarrow>
      l = None \<and> server_rules r = [] \<and> server_converter r = NONE \<and> \<not> str_includes u (js ''{model}'')" for u
    by (auto simp: model_list_check_def simp del: js_Cons split: option.splits)
  have n: "prefix (js ''/'') (server_path r) \<Longrightarrow> server_path r \<noteq> []" by auto
  show ?thesis
    unfolding validate_loop.simps Let_def v server_alone_def a(1) [symmetric]
    using n a(2) by (cases e) (auto simp: or_error_None c position_only_reported(2-4) [where i = i] simp del: js_Cons not_None_eq)
qed

interpretation server: route_table server_path server_rules "server_good compile" "server_alone url" "validate_loop compile url"
  for compile url
proof
  fix i r rs m l
  show "validate_loop compile url i (r # rs) m l = None \<longleftrightarrow> server_alone url (l \<noteq> None) r
      \<and> admits (server_good compile) (server_rules r) (path_state m (server_path r))
      \<and> validate_loop compile url (Suc i) rs (admit i (server_path r) (server_rules r) m)
          (if server_path r = js ''/v1/models'' then Some i else l) = None"
    by (rule server_step)
qed (unfold server_alone_def, simp, blast+)

end
