(* ===== verification/Channel_Routes_Agreement.thy ===== *)
theory Channel_Routes_Agreement
  imports Channel_Routes_Laws
begin

text \<open>
  What the two validators of the route table of an advanced custom channel mean for each other and for the
  routing of requests: which tables the client accepts, when the server accepts what the client saved,
  and which route a request of a validated table takes.
\<close>

section \<open>The tables the client accepts\<close>

definition valid_auth :: "AdvancedCustomRouteAuth option \<Rightarrow> bool" where
  "valid_auth auth \<longleftrightarrow>
     (case auth of
        None \<Rightarrow> True
      | Some a \<Rightarrow> auth_type a = Some NONE
          \<or> auth_type a \<in> {Some (js ''header''), Some (js ''query'')}
             \<and> trim (nullish (auth_name a) []) \<noteq> [] \<and> trim (nullish (auth_value a) []) \<noteq> [])"

text \<open>What is asked of a route by itself.\<close>

definition valid_route :: "(jsstring \<Rightarrow> (jsstring \<times> jsstring) option) \<Rightarrow> AdvancedCustomRoute \<Rightarrow> bool" where
  "valid_route url r \<longleftrightarrow>
     prefix (js ''/'') (client_path r) \<and> \<not> str_includes (client_path r) (js ''?'')
     \<and> getAdvancedCustomRouteUpstreamPath r \<noteq> [] \<and> isFullHttpURLOrAbsolutePath url (getAdvancedCustomRouteUpstreamPath r)
     \<and> isAdvancedCustomConverter (client_converter r) \<and> isConverterPathAllowed (client_path r) (client_converter r)
     \<and> valid_auth (route_auth r) \<and> distinct (client_rules r) \<and> js ''re:'' \<notin> set (client_rules r)
     \<and> (client_path r = js ''/v1/models'' \<longrightarrow>
          client_rules r = [] \<and> client_converter r = NONE
          \<and> \<not> str_includes (getAdvancedCustomRouteUpstreamPath r) (js ''{model}''))"

lemma validateRouteAuth_iff: "validateRouteAuth a = None \<longleftrightarrow> valid_auth a"
  by (auto simp: validateRouteAuth_def valid_auth_def simp del: js_Cons split: option.splits)

lemma client_good_iff: "client_good x \<longleftrightarrow> x \<noteq> js ''re:''"
  by (auto simp: client_good_def getAdvancedCustomModelRuleKind_def getAdvancedCustomRegexModelPattern_def
      ADVANCED_CUSTOM_MODEL_REGEX_PREFIX_def startsWith_def prefix_def)

lemma valid_route_iff: "client.route_ok url r \<longleftrightarrow> valid_route url r"
proof -
  have "incoming_path_error p = None \<longleftrightarrow> prefix (js ''/'') p \<and> \<not> str_includes p (js ''?'')" for p
    by (auto simp: incoming_path_error_def startsWith_def)
  moreover have "model_list_error False ms c u = None \<longleftrightarrow> ms = [] \<and> c = NONE \<and> \<not> str_includes u (js ''{model}'')" for ms c u
    by (simp add: model_list_error_def del: js_Cons)
  moreover have "target_error url p u c a = None \<longleftrightarrow> u \<noteq> [] \<and> isFullHttpURLOrAbsolutePath url u
      \<and> isAdvancedCustomConverter c \<and> isConverterPathAllowed p c \<and> valid_auth a" for p u c a
    by (simp add: target_error_def validateRouteAuth_iff)
  moreover have "list_all client_good ms \<longleftrightarrow> js ''re:'' \<notin> set ms" for ms
    unfolding list_all_iff client_good_iff by blast
  ultimately show ?thesis
    by (simp only: client.route_ok_def client_alone_def valid_route_def ADVANCED_CUSTOM_MODEL_LIST_PATH_def conj_ac)
qed

text \<open>Normalisation keeps what validation reads.\<close>

lemma normalized_rules: "client_rules (normalizeAdvancedCustomRoute r) = client_rules r"
  by (auto simp: normalizeAdvancedCustomRoute_def normalizeAdvancedCustomRouteModels_def Let_def nullish_def
      filter_map o_def intro!: map_idI)

lemma normalized_fields:
  "client_path (normalizeAdvancedCustomRoute r) = client_path r"
  "getAdvancedCustomRouteUpstreamPath (normalizeAdvancedCustomRoute r) = getAdvancedCustomRouteUpstreamPath r"
  "client_converter (normalizeAdvancedCustomRoute r) = client_converter r"
  "valid_auth (route_auth (normalizeAdvancedCustomRoute r)) = valid_auth (route_auth r)"
  by (auto simp: normalizeAdvancedCustomRoute_def Let_def nullish_def getAdvancedCustomRouteUpstreamPath_def
      opt_str_or_def str_or_def valid_auth_def split: option.splits if_splits)

lemma normalized_valid: "valid_route url (normalizeAdvancedCustomRoute r) = valid_route url r"
  unfolding valid_route_def normalized_fields normalized_rules ..

lemma normalized_fits:
  "fits client_path client_rules (normalizeAdvancedCustomRoute r) (normalizeAdvancedCustomRoute q) = fits client_path client_rules r q"
  unfolding fits_def normalized_fields normalized_rules ..

lemma accepted_routes:
  "validateAdvancedCustomConfig url (Some c) = None \<longleftrightarrow>
     (let routes = nullish (advanced_routes c) [] in
      routes \<noteq> [] \<and> list_all (valid_route url) routes \<and> sorted_wrt (fits client_path client_rules) routes)"
  by (simp add: validateAdvancedCustomConfig_def normalizeAdvancedCustomConfig_def Let_def client.accepted_iff
      valid_route_iff list.pred_map o_def normalized_valid sorted_wrt_map normalized_fits)

section \<open>From the client to the server\<close>

text \<open>The code units on which the white space of JavaScript and of Go differs.\<close>

definition same_space :: "jsstring \<Rightarrow> bool" where
  "same_space s \<longleftrightarrow> 133 \<notin> set s \<and> 65279 \<notin> set s"

definition same_space_route :: "AdvancedCustomRoute \<Rightarrow> bool" where
  "same_space_route r \<longleftrightarrow> same_space (nullish (incoming_path r) []) \<and> same_space (nullish (upstream_path r) [])
     \<and> list_all same_space (nullish (models r) [])
     \<and> (\<forall>a. route_auth r = Some a \<longrightarrow> same_space (nullish (auth_name a) []) \<and> same_space (nullish (auth_value a) []))"

text \<open>Both URL parsers read the same scheme and agree on whether there is a host.\<close>

definition same_url ::
  "(jsstring \<Rightarrow> (jsstring \<times> jsstring) option) \<Rightarrow> (jsstring \<Rightarrow> (jsstring \<times> jsstring) option) \<Rightarrow> jsstring \<Rightarrow> bool" where
  "same_url url go_url u \<longleftrightarrow>
     (case url u of
        None \<Rightarrow> True
      | Some (protocol, host) \<Rightarrow>
          (case go_url u of
             None \<Rightarrow> False
           | Some (scheme, host') \<Rightarrow> protocol = map ascii_lower scheme @ js '':'' \<and> (host = [] \<longleftrightarrow> host' = [])))"

lemma same_space_go: "c \<noteq> 133 \<Longrightarrow> c \<noteq> 65279 \<Longrightarrow> go_space c = is_space c"
  by (auto simp: go_space_def is_space_def)

lemma dropWhile_cong_set: "(\<And>c. c \<in> set s \<Longrightarrow> P c = Q c) \<Longrightarrow> dropWhile P s = dropWhile Q s"
  by (induction s) auto

lemma TrimSpace_trim:
  assumes "same_space s"
  shows "TrimSpace s = trim s"
proof -
  have eq: "go_space c = is_space c" if "c \<in> set s" for c
    using assms that same_space_go [of c] by (auto simp: same_space_def)
  then have front: "dropWhile go_space s = dropWhile is_space s"
    by (rule dropWhile_cong_set)
  have "dropWhile go_space (rev (dropWhile is_space s)) = dropWhile is_space (rev (dropWhile is_space s))"
    by (rule dropWhile_cong_set, rule eq) (auto dest!: set_dropWhileD)
  with front show ?thesis by (simp add: TrimSpace_def trim_def)
qed

lemma same_space_trim: "same_space s \<Longrightarrow> same_space (trim s)"
  using set_trim by (auto simp: same_space_def)

text \<open>The server reads from a saved route what the client validated.\<close>

abbreviation saved :: "AdvancedCustomRoute \<Rightarrow> ServerRoute" where
  "saved r \<equiv> decode_route (normalizeAdvancedCustomRoute r)"

lemma saved_path: "same_space_route r \<Longrightarrow> server_path (saved r) = client_path r"
  by (simp add: decode_route_def normalizeAdvancedCustomRoute_def Let_def TrimSpace_trim same_space_route_def nullish_def)

lemma saved_upstream: "same_space_route r \<Longrightarrow> TrimSpace (UpstreamPath (saved r)) = getAdvancedCustomRouteUpstreamPath r"
  by (simp add: decode_route_def normalizeAdvancedCustomRoute_def Let_def TrimSpace_trim same_space_trim
      same_space_route_def getAdvancedCustomRouteUpstreamPath_def nullish_def)

lemma saved_rules:
  assumes "same_space_route r"
  shows "server_rules (saved r) = client_rules r"
proof -
  have "Models (saved r) = client_rules r"
    by (simp add: decode_route_def normalizeAdvancedCustomRoute_def Let_def nullish_def)
  moreover have "same_space x" if "x \<in> set (client_rules r)" for x
    using assms that by (auto simp: normalizeAdvancedCustomRouteModels_def same_space_route_def list_all_iff same_space_trim)
  moreover have "trim x = x" "x \<noteq> []" if "x \<in> set (client_rules r)" for x
    using that by (auto simp: normalizeAdvancedCustomRouteModels_def)
  ultimately show ?thesis
    by (simp add: normalizeModels_def TrimSpace_trim cong: map_cong)
qed

lemma registered_converter: "isAdvancedCustomConverter c \<longleftrightarrow> IsAdvancedCustomConverterAllowed c"
  by (auto simp: isAdvancedCustomConverter_def IsAdvancedCustomConverterAllowed_def ADVANCED_CUSTOM_CONVERTER_OPTIONS_def
      simp del: js_Cons)

lemma registered_trimmed: "IsAdvancedCustomConverterAllowed c \<Longrightarrow> TrimSpace c = c"
  unfolding IsAdvancedCustomConverterAllowed_def
  by (elim insertE emptyE; hypsubst; simp add: TrimSpace_def go_space_def)

lemma saved_converter:
  assumes "isAdvancedCustomConverter (client_converter r)"
  shows "server_converter (saved r) = client_converter r"
proof -
  have "Converter (saved r) = client_converter r"
    by (simp add: decode_route_def normalizeAdvancedCustomRoute_def Let_def)
  moreover have "client_converter r \<noteq> []"
    by (auto simp: opt_str_or_def str_or_def split: option.splits)
  ultimately show ?thesis
    using assms registered_trimmed [of "client_converter r"] by (simp add: registered_converter str_or_def)
qed

lemma converter_paths: "IsAdvancedCustomConverterAllowed c \<Longrightarrow> validateConverterPath 0 p c = None \<longleftrightarrow> isConverterPathAllowed p c"
  unfolding IsAdvancedCustomConverterAllowed_def validateConverterPath_def isConverterPathAllowed_def
  by (elim insertE emptyE; hypsubst; simp)

lemma saved_auth:
  assumes "same_space_route r" "valid_auth (route_auth r)"
  shows "validateServerAuth 0 (Auth (saved r)) = None"
proof (cases "route_auth r")
  case None
  then show ?thesis
    by (simp add: decode_route_def normalizeAdvancedCustomRoute_def Let_def validateServerAuth_def)
next
  case (Some a)
  have auth: "Auth (saved r) = Some \<lparr>Type = nullish (auth_type a) [], Name = nullish (auth_name a) [], Value = nullish (auth_value a) []\<rparr>"
    using Some by (simp add: decode_route_def decode_auth_def normalizeAdvancedCustomRoute_def Let_def)
  have t: "TrimSpace (js ''none'') = js ''none''" "TrimSpace (js ''header'') = js ''header''" "TrimSpace (js ''query'') = js ''query''"
    by (simp_all add: TrimSpace_def go_space_def)
  show ?thesis
    using assms Some unfolding auth
    by (auto simp: validateServerAuth_def valid_auth_def same_space_route_def TrimSpace_trim t Let_def simp del: js_Cons)
qed

lemma saved_target:
  assumes "isFullHttpURLOrAbsolutePath url u" "same_url url go_url u"
  shows "validateUpstreamTarget go_url 0 u = None"
proof (cases "prefix (js ''/'') u")
  case True
  with assms(1) show ?thesis
    by (simp add: isFullHttpURLOrAbsolutePath_def validateUpstreamTarget_def startsWith_def del: js_Cons split: if_splits)
next
  case False
  with assms(1) obtain protocol host where u: "url u = Some (protocol, host)" "host \<noteq> []"
    "protocol = js ''http:'' \<or> protocol = js ''https:''"
    by (auto simp: isFullHttpURLOrAbsolutePath_def startsWith_def simp del: js_Cons split: option.splits)
  with assms(2) obtain scheme host' where g: "go_url u = Some (scheme, host')" "protocol = map ascii_lower scheme @ js '':''" "host' \<noteq> []"
    by (auto simp: same_url_def simp del: js_Cons split: option.splits prod.splits)
  have "map ascii_lower scheme = js ''http'' \<or> map ascii_lower scheme = js ''https''"
    using u(3) g(2) by (auto simp: append_eq_Cons_conv)
  moreover from this have "scheme \<noteq> []" by auto
  ultimately show ?thesis
    using False g by (auto simp: validateUpstreamTarget_def simp del: js_Cons)
qed

lemma saved_good: "server_good compile x \<longleftrightarrow> client_good x \<and> (prefix (js ''re:'') x \<longrightarrow> compile (drop 3 x) \<noteq> None)"
  by (auto simp: server_good_def validateModelRule_def client_good_iff Let_def prefix_def)

lemma saved_alone:
  assumes "valid_route url r" "same_space_route r" "same_url url go_url (getAdvancedCustomRouteUpstreamPath r)"
  shows "server_alone go_url False (saved r)"
proof -
  have c: "isAdvancedCustomConverter (client_converter r)" using assms(1) by (simp add: valid_route_def)
  then have "validateConverterPath 0 (client_path r) (client_converter r) = None"
    using assms(1) by (simp add: converter_paths registered_converter valid_route_def)
  with assms c show ?thesis
    unfolding server_alone_def saved_path [OF assms(2)] saved_rules [OF assms(2)] saved_upstream [OF assms(2)] saved_converter [OF c]
    by (simp add: valid_route_def saved_auth saved_target [OF _ assms(3)] registered_converter del: js_Cons)
qed

lemma saved_ok:
  assumes "valid_route url r" "same_space_route r" "same_url url go_url (getAdvancedCustomRouteUpstreamPath r)"
  shows "server.route_ok compile go_url (saved r) \<longleftrightarrow>
    (\<forall>x\<in>set (client_rules r). prefix (js ''re:'') x \<longrightarrow> compile (drop 3 x) \<noteq> None)"
proof -
  have "distinct (client_rules r)" "\<forall>x\<in>set (client_rules r). client_good x"
    using assms(1) by (auto simp: valid_route_def client_good_iff simp del: js_Cons)
  with saved_alone [OF assms] show ?thesis
    unfolding server.route_ok_def saved_rules [OF assms(2)] list_all_iff saved_good by blast
qed

lemma Validate_iff:
  "Validate compile go_url (Some routes) = None \<longleftrightarrow>
     routes \<noteq> [] \<and> list_all (server.route_ok compile go_url) routes \<and> sorted_wrt (fits server_path server_rules) routes"
  by (simp add: Validate_def server.accepted_iff)

text \<open>The tables the server accepts among those the client saved.\<close>

lemma saved_accepted_iff:
  assumes "validateAdvancedCustomConfig url (Some c) = None"
    and "\<forall>r\<in>set (nullish (advanced_routes c) []). same_space_route r \<and> same_url url go_url (getAdvancedCustomRouteUpstreamPath r)"
  shows "Validate compile go_url (Some (decode_config (normalizeAdvancedCustomConfig c))) = None \<longleftrightarrow>
    (\<forall>r\<in>set (nullish (advanced_routes c) []). \<forall>x\<in>set (normalizeAdvancedCustomRouteModels (models r)).
       prefix (js ''re:'') x \<longrightarrow> compile (drop 3 x) \<noteq> None)"
proof -
  define routes where "routes = nullish (advanced_routes c) []"
  have valid: "routes \<noteq> []" "\<forall>r\<in>set routes. valid_route url r" "sorted_wrt (fits client_path client_rules) routes"
    using assms(1) by (simp_all add: accepted_routes routes_def Let_def list_all_iff)
  have same: "same_space_route r" "same_url url go_url (getAdvancedCustomRouteUpstreamPath r)" if "r \<in> set routes" for r
    using assms(2) that by (simp_all add: routes_def)
  have "decode_config (normalizeAdvancedCustomConfig c) = map saved routes"
    by (simp add: decode_config_def normalizeAdvancedCustomConfig_def routes_def)
  moreover have "fits server_path server_rules (saved r) (saved q) = fits client_path client_rules r q"
    if "r \<in> set routes" "q \<in> set routes" for r q
    using same(1) that by (simp add: fits_def saved_path saved_rules)
  then have "sorted_wrt (fits server_path server_rules) (map saved routes)"
    using valid(3) by (auto simp: sorted_wrt_map intro: sorted_wrt_mono_rel [rotated])
  moreover have "server.route_ok compile go_url (saved r) \<longleftrightarrow>
      (\<forall>x\<in>set (client_rules r). prefix (js ''re:'') x \<longrightarrow> compile (drop 3 x) \<noteq> None)" if "r \<in> set routes" for r
    using saved_ok that valid(2) same by blast
  ultimately show ?thesis
    using valid(1) by (simp add: Validate_iff list_all_iff flip: routes_def)
qed

section \<open>Properties\<close>

text \<open>C17: The validator of the client accepts exactly the tables with at least one route, each valid by itself,
  in which two routes of one path share no model rule and only the last route of a path has none.\<close>

theorem accepted_tables:
  "validateAdvancedCustomConfig url (Some c) = None \<longleftrightarrow>
     (let routes = nullish (advanced_routes c) [] in
      routes \<noteq> [] \<and> list_all (valid_route url) routes \<and> sorted_wrt (fits client_path client_rules) routes)"
  by (rule accepted_routes)


text \<open>A table with a route for two rules and a route for every other model.\<close>

definition sample_routes :: "AdvancedCustomRoute list" where
  "sample_routes =
     [\<lparr>incoming_path = Some (js ''/v1/responses''), upstream_path = Some (js ''https://a.io/v1''),
       converter = Some RESPONSES_TO_CHAT, models = Some [js '' gpt-5'', js ''re:^o''],
       route_auth = Some \<lparr>auth_type = Some (js ''header''), auth_name = Some (js ''X-Key''), auth_value = Some (js ''{api_key}'')\<rparr>\<rparr>,
      \<lparr>incoming_path = Some (js ''/v1/responses''), upstream_path = Some (js ''/v1/responses''),
       converter = None, models = None, route_auth = None\<rparr>]"

definition sample_table :: AdvancedCustomConfig where
  "sample_table = \<lparr>advanced_routes = Some sample_routes\<rparr>"

abbreviation sample_url :: "jsstring \<Rightarrow> (jsstring \<times> jsstring) option" where
  "sample_url \<equiv> \<lambda>u. if prefix (js ''https://'') u then Some (js ''https:'', drop 8 u) else None"

abbreviation sample_go_url :: "jsstring \<Rightarrow> (jsstring \<times> jsstring) option" where
  "sample_go_url \<equiv> \<lambda>u. if prefix (js ''https://'') u then Some (js ''HTTPS'', drop 8 u) else None"

lemma sample_accepted: "validateAdvancedCustomConfig sample_url (Some sample_table) = None"
proof -
  have "list_all (valid_route sample_url) sample_routes"
    by (simp add: sample_routes_def valid_route_def valid_auth_def trim_def is_space_def str_includes_def
        getAdvancedCustomRouteUpstreamPath_def isFullHttpURLOrAbsolutePath_def startsWith_def opt_str_or_def str_or_def
        isAdvancedCustomConverter_def ADVANCED_CUSTOM_CONVERTER_OPTIONS_def isConverterPathAllowed_def
        normalizeAdvancedCustomRouteModels_def)
  moreover have "sorted_wrt (fits client_path client_rules) sample_routes"
    by (simp add: sample_routes_def fits_def trim_def is_space_def normalizeAdvancedCustomRouteModels_def)
  ultimately show ?thesis
    by (simp add: accepted_routes Let_def sample_table_def) (simp add: sample_routes_def)
qed


section \<open>Routing\<close>

lemma match_itself: "\<not> str_includes p (js ''{model}'') \<Longrightarrow> matchIncomingPath p p"
  by (simp add: matchIncomingPath_def matchIncomingPathTemplate_def)

lemma TrimSpace_ends:
  assumes "TrimSpace s \<noteq> []"
  shows "\<not> go_space (hd (TrimSpace s))" "\<not> go_space (last (TrimSpace s))"
proof -
  let ?t = "dropWhile go_space s"
  have ne: "dropWhile go_space (rev ?t) \<noteq> []" using assms by (simp add: TrimSpace_def)
  show "\<not> go_space (last (TrimSpace s))"
    using hd_dropWhile_not [OF ne] by (simp add: TrimSpace_def last_rev)
  obtain w where w: "?t = TrimSpace s @ w"
    using rev_dropWhile_rev_prefix [of ?t go_space] by (auto simp: TrimSpace_def)
  with assms have "?t \<noteq> []" "hd ?t = hd (TrimSpace s)" by auto
  with hd_dropWhile_not [of go_space s] show "\<not> go_space (hd (TrimSpace s))" by simp
qed

lemma TrimSpace_TrimSpace [simp]: "TrimSpace (TrimSpace s) = TrimSpace s"
proof (cases "TrimSpace s = []")
  case False
  with TrimSpace_ends [OF False] show ?thesis
    by (subst TrimSpace_def) (simp add: dropWhile_id hd_rev)
next
  case True
  show ?thesis unfolding True by (simp add: TrimSpace_def)
qed

lemma rule_trimmed: "x \<in> set (server_rules r) \<Longrightarrow> TrimSpace x = x"
  by (auto simp: normalizeModels_def)

lemma find_append: "find P (xs @ ys) = (case find P xs of None \<Rightarrow> find P ys | Some x \<Rightarrow> Some x)"
  by (induction xs) auto

lemma first_match:
  assumes "Validate compile go_url (Some routes) = None" "r \<in> set routes" "P r"
    and "\<And>q. q \<in> set routes \<Longrightarrow> P q \<Longrightarrow> fits server_path server_rules q r \<Longrightarrow> False"
  shows "find P routes = Some r"
proof -
  have "sorted_wrt (fits server_path server_rules) routes"
    using assms(1) by (simp add: Validate_iff)
  moreover from assms(2) obtain us vs where routes: "routes = us @ r # vs" by (meson split_list)
  ultimately have "\<not> P q" if "q \<in> set us" for q
    using assms(4) [of q] that by (auto simp: sorted_wrt_append)
  then have "find P us = None" by (auto simp: find_None_iff)
  with assms(3) show ?thesis by (simp add: routes find_append)
qed


definition sample_named :: ServerRoute where
  "sample_named = \<lparr>IncomingPath = js ''/v1/responses'', UpstreamPath = js ''/v1/chat'', Converter = RESPONSES_TO_CHAT,
     Models = [js '' gpt-5'', js ''re:^o''], Auth = None\<rparr>"

definition sample_rest :: ServerRoute where
  "sample_rest = \<lparr>IncomingPath = js ''/v1/responses'', UpstreamPath = js ''/v1/responses'', Converter = [], Models = [], Auth = None\<rparr>"

definition sample_compile :: "jsstring \<Rightarrow> (jsstring \<Rightarrow> bool) option" where
  "sample_compile p = (if p = js ''^o'' then Some (prefix (js ''o'')) else None)"

lemmas sample_server_simps = sample_named_def sample_rest_def TrimSpace_def go_space_def normalizeModels_def

lemma sample_server_accepted: "Validate sample_compile (\<lambda>u. None) (Some [sample_named, sample_rest]) = None"
  unfolding Validate_iff server.route_ok_def
  by (simp add: server_alone_def server_good_def validateModelRule_def fits_def
      validateUpstreamTarget_def IsAdvancedCustomConverterAllowed_def validateConverterPath_def validateServerAuth_def
      str_or_def str_includes_def sample_compile_def sample_server_simps)


lemma endpoint_paths:
  assumes "endpointTypeFromIncomingPath p = Some t" "t \<noteq> js ''gemini''"
  shows "p \<in> {js ''/v1/chat/completions'', js ''/v1/responses'', js ''/v1/responses/compact'', js ''/v1/alpha/search'',
    js ''/v1/messages'', js ''/v1/rerank'', js ''/v1/images/generations'', js ''/v1/embeddings''}"
  using assms unfolding endpointTypeFromIncomingPath_def
  by (auto simp del: js_Cons split: option.splits if_splits dest!: map_of_SomeD)

text \<open>An endpoint type the server advertises for a model, other than that of the Gemini paths with a placeholder,
  is served: a request for the model at the path of the type finds a route.\<close>

theorem advertised_endpoint_served:
  assumes "t \<in> set (SupportedEndpointTypesForModel compile config model)" "t \<noteq> js ''gemini''"
  shows "\<exists>p. endpointTypeFromIncomingPath p = Some t \<and> SupportsPathForModel compile config p model"
proof -
  obtain r where r: "r \<in> set (nullish config [])" "matchRouteModel compile (Models r) (TrimSpace model)"
    "endpointTypeFromIncomingPath (server_path r) = Some t"
    using assms(1) by (auto simp: SupportedEndpointTypesForModel_def map_filter_def set_uniq split: if_splits)
  have "\<not> str_includes (server_path r) (js ''{model}'')"
    using endpoint_paths [OF r(3) assms(2)] by (auto simp: str_includes_def)
  then have "matchIncomingPath (server_path r) (server_path r)" by (rule match_itself)
  with r have "SupportsPathForModel compile config (server_path r) model"
    by (auto simp: SupportsPathForModel_def MatchPathForModel_def find_None_iff)
  with r(3) show ?thesis by blast
qed

theorem advertised_endpoint_served_witness:
  "\<exists>p. endpointTypeFromIncomingPath p = Some (js ''openai-response'')
     \<and> SupportsPathForModel sample_compile (Some [sample_named, sample_rest]) p (js ''o1'')"
  by (rule advertised_endpoint_served)
    (simp_all add: SupportedEndpointTypesForModel_def matchRouteModel_def matchModelRule_def sample_compile_def
      endpointTypeFromIncomingPath_def map_filter_def sample_server_simps)

end
