(* ===== verification/Channel_Form_Laws.thy ===== *)
theory Channel_Form_Laws
  imports Channel_Form Channel_Routes_Agreement
begin

text \<open>
  Laws of the channel form.  The object in the column \<open>settings\<close> is changed by edits of single properties; the
  laws of edits give what a saved object has, what it keeps of the previous one, and that saving what was
  opened changes nothing.
\<close>

section \<open>Edits of an object\<close>

definition holds :: "edit list \<Rightarrow> json_object \<Rightarrow> bool" where
  "holds es ps \<longleftrightarrow> (\<forall>e\<in>set es. map_of ps (fst e) = snd e)"

lemma update_same: "map_of ps k = Some v \<Longrightarrow> AList.update k v ps = ps"
  by (induction ps) (auto split: if_splits)

lemma delete_absent: "map_of ps k = None \<Longrightarrow> AList.delete k ps = ps"
  by (induction ps) (auto simp: AList.delete_eq split: if_splits)

lemma lookup_edit: "map_of (apply_edit e ps) k = (if fst e = k then snd e else map_of ps k)"
  by (auto simp: apply_edit_def update_conv' delete_conv' split: option.split)

lemma apply_edits_simps [simp]:
  "apply_edits [] ps = ps" "apply_edits (e # es) ps = apply_edits es (apply_edit e ps)"
  by (simp_all add: apply_edits_def)

lemma lookup_other: "k \<notin> set (map fst es) \<Longrightarrow> map_of (apply_edits es ps) k = map_of ps k"
  by (induction es arbitrary: ps) (auto simp: lookup_edit)

lemma holds_apply: "distinct (map fst es) \<Longrightarrow> holds es (apply_edits es ps)"
proof (induction es arbitrary: ps)
  case (Cons e es)
  then have "map_of (apply_edits es (apply_edit e ps)) (fst e) = snd e"
    by (subst lookup_other) (simp_all add: lookup_edit)
  with Cons show ?case by (simp add: holds_def)
qed (simp add: holds_def)

lemma holds_other: "set (map fst es) \<inter> set (map fst es') = {} \<Longrightarrow> holds es (apply_edits es' ps) = holds es ps"
  by (auto simp: holds_def lookup_other disjoint_iff)

lemma apply_holding: "holds es ps \<Longrightarrow> apply_edits es ps = ps"
proof (induction es)
  case (Cons e es)
  then have "apply_edit e ps = ps"
    by (auto simp: holds_def apply_edit_def update_same delete_absent split: option.split)
  with Cons show ?case by (simp add: holds_def)
qed simp

section \<open>The managed properties\<close>

lemma js_inject: "js s = js t \<longleftrightarrow> s = t"
  by (simp add: js_def inj_map_eq_map inj_def)

definition type_keys :: "jsstring list" where
  "type_keys = [js ''vertex_key_type'', js ''azure_responses_version'', js ''openrouter_enterprise'', js ''aws_key_type'',
     js ''allow_service_tier'', js ''disable_store'', js ''allow_safety_identifier'', js ''allow_include_obfuscation'',
     js ''allow_inference_geo'', js ''allow_speed'', js ''claude_beta_query'', js ''disable_task_polling_sleep'']"

definition update_keys :: "jsstring list" where
  "update_keys = [js ''upstream_model_update_check_enabled'', js ''upstream_model_update_auto_sync_enabled'',
     js ''upstream_model_update_ignored_models'']"

definition last_keys :: "jsstring list" where
  "last_keys = [js ''upstream_model_update_last_detected_models'', js ''upstream_model_update_last_check_time'']"

definition advanced_keys :: "jsstring list" where
  "advanced_keys = [js ''advanced_custom'']"

definition managed_keys :: "jsstring list" where
  "managed_keys = type_keys @ update_keys @ last_keys @ advanced_keys"

lemma distinct_managed: "distinct managed_keys"
  by (simp add: managed_keys_def type_keys_def update_keys_def last_keys_def advanced_keys_def)

lemma edits_keys:
  "map fst (type_edits f) = type_keys"
  "map fst (update_edits f) = update_keys"
  "set (map fst (last_edits f ps)) \<subseteq> set last_keys"
  "distinct (map fst (last_edits f ps))"
  "set (map fst (advanced_edits env f)) \<subseteq> set advanced_keys"
  "distinct (map fst (advanced_edits env f))"
  by (auto simp: type_edits_def type_keys_def update_edits_def update_keys_def last_edits_def last_keys_def
      advanced_edits_def advanced_keys_def Let_def js_inject simp del: js_Cons split: option.splits)

text \<open>What a saved object has.\<close>

lemma managed_disjoint:
  "set type_keys \<inter> set update_keys = {}" "set type_keys \<inter> set last_keys = {}" "set type_keys \<inter> set advanced_keys = {}"
  "set update_keys \<inter> set last_keys = {}" "set update_keys \<inter> set advanced_keys = {}" "set last_keys \<inter> set advanced_keys = {}"
  using distinct_managed unfolding managed_keys_def distinct_append set_append by blast+

definition last_ok :: "ChannelFormValues \<Rightarrow> json_object \<Rightarrow> bool" where
  "last_ok f ps \<longleftrightarrow> is_array (map_of ps (js ''upstream_model_update_last_detected_models''))
     \<and> (f_upstream_model_update_check_enabled f \<noteq> Some True \<longrightarrow>
          map_of ps (js ''upstream_model_update_last_detected_models'') = Some (JArr []))
     \<and> is_number (map_of ps (js ''upstream_model_update_last_check_time''))"

lemma last_ok_apply: "last_ok f (apply_edits (last_edits f ps) ps)"
  by (auto simp: last_ok_def last_edits_def lookup_edit js_inject simp del: js_Cons)

lemma last_ok_holds: "last_ok f ps \<Longrightarrow> holds (last_edits f ps) ps"
  by (auto simp: last_ok_def last_edits_def holds_def)

definition saved_settings :: "js_runtime \<Rightarrow> ChannelFormValues \<Rightarrow> json_object \<Rightarrow> bool" where
  "saved_settings env f ps \<longleftrightarrow> holds (type_edits f) ps \<and> holds (advanced_edits env f) ps
     \<and> (f_type f \<in> set MODEL_FETCHABLE_TYPES \<longrightarrow> holds (update_edits f) ps \<and> last_ok f ps)"

lemma settings_object_saved: "saved_settings env f (settings_object env f ps)"
proof -
  let ?p1 = "apply_edits (type_edits f) ps"
  let ?p2 = "apply_edits (update_edits f) ?p1"
  let ?p3 = "apply_edits (last_edits f ?p2) ?p2"
  let ?adv = "apply_edits (advanced_edits env f)"
  have dis: "distinct (map fst (type_edits f))" "distinct (map fst (update_edits f))"
    using distinct_managed by (simp_all add: edits_keys managed_keys_def)
  have type: "holds (type_edits f) ?p1" using dis(1) by (rule holds_apply)
  have apart: "set (map fst (type_edits f)) \<inter> set (map fst (update_edits f)) = {}"
    "set (map fst (type_edits f)) \<inter> set (map fst (last_edits f q)) = {}"
    "set (map fst (type_edits f)) \<inter> set (map fst (advanced_edits env f)) = {}"
    "set (map fst (update_edits f)) \<inter> set (map fst (last_edits f q)) = {}"
    "set (map fst (update_edits f)) \<inter> set (map fst (advanced_edits env f)) = {}" for q
    using managed_disjoint edits_keys(3) [of f] edits_keys(5) [of env f] unfolding edits_keys(1,2) by blast+
  have last_adv: "last_ok f (?adv q) = last_ok f q" for q
  proof -
    have "map_of (?adv q) k = map_of q k" if "k \<in> set last_keys" for k
      using that edits_keys(5) [of env f] managed_disjoint(6) by (intro lookup_other) blast
    then show ?thesis by (simp add: last_ok_def last_keys_def del: js_Cons)
  qed
  have adv: "holds (advanced_edits env f) (?adv q)" for q by (rule holds_apply [OF edits_keys(6)])
  have "holds (type_edits f) ?p3" "holds (update_edits f) ?p3"
    using type holds_apply [OF dis(2), of ?p1] apart by (simp_all only: holds_other)
  moreover have "last_ok f ?p3" by (rule last_ok_apply)
  ultimately show ?thesis
    unfolding saved_settings_def settings_object_def Let_def
    using type apart adv by (simp add: holds_other last_adv)
qed

lemma resave_settings: "saved_settings env f ps \<Longrightarrow> settings_object env f ps = ps"
  by (auto simp: saved_settings_def settings_object_def Let_def apply_holding last_ok_holds)

lemma settings_object_other: "k \<notin> set managed_keys \<Longrightarrow> map_of (settings_object env f ps) k = map_of ps k"
proof -
  assume k: "k \<notin> set managed_keys"
  then have "k \<notin> set (map fst (type_edits f))" "k \<notin> set (map fst (update_edits f))" "k \<notin> set (map fst (last_edits f q))"
    "k \<notin> set (map fst (advanced_edits env f))" for q
    using edits_keys(3) [of f q] edits_keys(5) [of env f] unfolding edits_keys(1,2) managed_keys_def by auto
  then show ?thesis by (simp add: settings_object_def Let_def lookup_other)
qed

section \<open>Opening what was saved\<close>

lemma json_or_idem [simp]: "json_or (Some (json_or v d)) d = json_or v d"
  by (simp add: json_or_def split: option.split)

lemma is_true_flag [simp]: "is_true (Some (flag_json v)) \<longleftrightarrow> v = Some True" "is_true (Some (JBool b)) = b"
  by (simp_all add: is_true_def flag_json_def)

lemma normalize_route_idem: "normalizeAdvancedCustomRoute (normalizeAdvancedCustomRoute r) = normalizeAdvancedCustomRoute r"
proof -
  have "normalizeAdvancedCustomRouteModels (models (normalizeAdvancedCustomRoute r)) = normalizeAdvancedCustomRouteModels (models r)"
    by (rule normalized_rules)
  moreover have "opt_str_or (Some (opt_str_or c NONE)) NONE = opt_str_or c NONE" for c
    by (auto simp: opt_str_or_def str_or_def split: option.splits)
  ultimately show ?thesis
    by (simp add: normalizeAdvancedCustomRoute_def Let_def getAdvancedCustomRouteUpstreamPath_def option.map_comp o_def del: js_Cons)
qed

lemma normalize_config_idem [simp]: "normalizeAdvancedCustomConfig (normalizeAdvancedCustomConfig c) = normalizeAdvancedCustomConfig c"
  by (simp add: normalizeAdvancedCustomConfig_def normalize_route_idem)

lemma opened_settings:
  assumes "opt_str_or text [] \<noteq> []" "js_parse env (nullish text []) = Some (JObj ps)"
  shows "open_settings env text f =
    (let flag = (\<lambda>k. Some (is_true (map_of ps k))) in
     f\<lparr>f_vertex_key_type := Some (json_or (map_of ps (js ''vertex_key_type'')) (JStr (js ''json''))),
       f_azure_responses_version := Some (json_or (map_of ps (js ''azure_responses_version'')) (JStr [])),
       f_is_enterprise_account := flag (js ''openrouter_enterprise''),
       f_aws_key_type := Some (json_or (map_of ps (js ''aws_key_type'')) (JStr (js ''ak_sk''))),
       f_allow_service_tier := flag (js ''allow_service_tier''),
       f_disable_store := flag (js ''disable_store''),
       f_allow_safety_identifier := flag (js ''allow_safety_identifier''),
       f_allow_include_obfuscation := flag (js ''allow_include_obfuscation''),
       f_allow_inference_geo := flag (js ''allow_inference_geo''),
       f_allow_speed := flag (js ''allow_speed''),
       f_claude_beta_query := flag (js ''claude_beta_query''),
       f_disable_task_polling_sleep := flag (js ''disable_task_polling_sleep''),
       f_upstream_model_update_check_enabled := flag (js ''upstream_model_update_check_enabled''),
       f_upstream_model_update_auto_sync_enabled := flag (js ''upstream_model_update_auto_sync_enabled''),
       f_upstream_model_update_ignored_models := Some (ignored_text env (map_of ps (js ''upstream_model_update_ignored_models''))),
       f_advanced_custom := Some (advanced_text env (map_of ps (js ''advanced_custom'')))\<rparr>)"
  using assms unfolding open_settings_def by (simp del: js_Cons)

lemma opened_type_edits:
  assumes "holds (type_edits f) ps" "opt_str_or text [] \<noteq> []" "js_parse env (nullish text []) = Some (JObj ps)" "f_type g = f_type f"
  shows "type_edits (open_settings env text g) = type_edits f"
proof -
  have azure: "json_or (Some (json_or v JNull)) (JStr []) = json_or v JNull" if "\<not> json_falsy (json_or v JNull)" for v
    using that by (simp add: json_or_def)
  show ?thesis
    using assms(1) unfolding holds_def opened_settings [OF assms(2,3)] Let_def
    by (simp add: type_edits_def Let_def assms(4) flag_json_def azure json_or_def [of None] json_or_def [of "Some (JStr [])"] del: js_Cons)
qed

lemma ignored_models_text:
  "ignored_models f = uniq (filter (\<lambda>m. m \<noteq> []) (map trim (split_on 44 (join [44] (ignored_models f)))))"
proof (cases "ignored_models f = []")
  case False
  let ?ms = "ignored_models f"
  have "44 \<notin> set m \<and> trim m = m \<and> m \<noteq> []" if m: "m \<in> set ?ms" for m
  proof -
    obtain x where x: "x \<in> set (split_on 44 (opt_str_or (f_upstream_model_update_ignored_models f) []))" "m = trim x" "m \<noteq> []"
      using m unfolding ignored_models_def set_uniq set_filter set_map by blast
    moreover have "44 \<notin> set (trim x)" using split_on_no_sep [OF x(1)] set_trim by blast
    ultimately show ?thesis by simp
  qed
  then have "split_on 44 (join [44] ?ms) = ?ms" "map trim ?ms = ?ms" "filter (\<lambda>m. m \<noteq> []) ?ms = ?ms"
    using False by (auto intro!: split_on_join map_idI simp: filter_id_conv)
  then show ?thesis by (simp add: ignored_models_def)
next
  case True
  show ?thesis unfolding True by simp
qed

lemma opened_update_edits:
  assumes "holds (update_edits f) ps" "opt_str_or text [] \<noteq> []" "js_parse env (nullish text []) = Some (JObj ps)"
  shows "update_edits (open_settings env text g) = update_edits f"
    "(f_upstream_model_update_check_enabled (open_settings env text g) = Some True) = (f_upstream_model_update_check_enabled f = Some True)"
proof -
  have l: "map_of ps (js ''upstream_model_update_check_enabled'') = Some (flag_json (f_upstream_model_update_check_enabled f))"
    "map_of ps (js ''upstream_model_update_auto_sync_enabled'') =
       Some (JBool (f_upstream_model_update_check_enabled f = Some True \<and> f_upstream_model_update_auto_sync_enabled f = Some True))"
    "map_of ps (js ''upstream_model_update_ignored_models'') = Some (JArr (map JStr (ignored_models f)))"
    using assms(1) by (simp_all add: holds_def update_edits_def del: js_Cons)
  have read: "ignored_text env (Some (JArr (map JStr (ignored_models f)))) = join [44] (ignored_models f)"
    by (simp add: ignored_text_def String_of_def o_def)
  have "f_upstream_model_update_ignored_models (open_settings env text g) = Some (join [44] (ignored_models f))"
    by (simp add: opened_settings [OF assms(2,3)] Let_def l read del: js_Cons)
  moreover have "opt_str_or (Some t) [] = t" for t by (simp add: str_or_def)
  ultimately have "ignored_models (open_settings env text g) = ignored_models f"
    unfolding ignored_models_def [of "open_settings env text g"] by (simp only: ignored_models_text [symmetric])
  moreover show "(f_upstream_model_update_check_enabled (open_settings env text g) = Some True) = (f_upstream_model_update_check_enabled f = Some True)"
    by (simp add: opened_settings [OF assms(2,3)] Let_def l del: js_Cons)
  ultimately show "update_edits (open_settings env text g) = update_edits f"
    by (auto simp: update_edits_def opened_settings [OF assms(2,3)] Let_def l flag_json_def simp del: js_Cons)
qed

text \<open>A table that was accepted is written and read back.\<close>

definition config_reads_back :: "js_runtime \<Rightarrow> AdvancedCustomConfig \<Rightarrow> bool" where
  "config_reads_back env c \<longleftrightarrow> js_parse env (js_indented env (config_json c)) = Some (config_json c)
     \<and> trim (js_indented env (config_json c)) \<noteq> [] \<and> cast_config env (config_json c) = Some c"

lemma opened_advanced_edits:
  assumes "holds (advanced_edits env f) ps" "opt_str_or text [] \<noteq> []" "js_parse env (nullish text []) = Some (JObj ps)" "f_type g = f_type f"
    and "f_type f = of_nat CHANNEL_TYPE_ADVANCED_CUSTOM \<Longrightarrow>
      \<exists>c. parseAdvancedCustomConfig (parse_config env) (f_advanced_custom f) = Some c \<and> config_reads_back env c"
  shows "advanced_edits env (open_settings env text g) = advanced_edits env f"
proof (cases "f_type f = of_nat CHANNEL_TYPE_ADVANCED_CUSTOM")
  case True
  with assms(5) obtain c where c: "parseAdvancedCustomConfig (parse_config env) (f_advanced_custom f) = Some c" "config_reads_back env c"
    by blast
  then obtain c0 where n: "c = normalizeAdvancedCustomConfig c0"
    by (auto simp: parseAdvancedCustomConfig_def split: if_splits)
  have "map_of ps (js ''advanced_custom'') = Some (config_json c)"
    using assms(1) True c(1) by (simp add: holds_def advanced_edits_def del: js_Cons)
  moreover have "\<not> json_falsy (config_json c)" by (simp add: config_json_def)
  ultimately have t: "f_advanced_custom (open_settings env text g) = Some (js_indented env (config_json c))"
    using c(2) n by (simp add: opened_settings [OF assms(2,3)] Let_def advanced_text_def config_reads_back_def
        stringifyAdvancedCustomConfig_def del: js_Cons)
  have "parse_config env (js_indented env (config_json c)) = Some c"
    using c(2) by (simp add: parse_config_def config_reads_back_def config_json_def)
  then have "parseAdvancedCustomConfig (parse_config env) (f_advanced_custom (open_settings env text g)) = Some c"
    using c(2) n by (simp add: t parseAdvancedCustomConfig_def config_reads_back_def)
  with c(1) True assms(4) show ?thesis
    by (simp add: advanced_edits_def opened_settings [OF assms(2,3)] Let_def del: js_Cons)
next
  case False
  with assms(4) show ?thesis
    by (simp add: advanced_edits_def opened_settings [OF assms(2,3)] Let_def del: js_Cons)
qed

lemma opened_type: "f_type (open_settings env text g) = f_type g" "f_type (open_setting env text' g) = f_type g"
  by (simp_all add: open_settings_def open_setting_def Let_def del: js_Cons split: option.split json.split)

lemma reopened_settings:
  assumes "saved_settings env f ps" "opt_str_or text [] \<noteq> []" "js_parse env (nullish text []) = Some (JObj ps)" "f_type g = f_type f"
    and "f_type f = of_nat CHANNEL_TYPE_ADVANCED_CUSTOM \<Longrightarrow>
      \<exists>c. parseAdvancedCustomConfig (parse_config env) (f_advanced_custom f) = Some c \<and> config_reads_back env c"
  shows "settings_object env (open_settings env text g) ps = ps"
proof (rule resave_settings)
  let ?g = "open_settings env text g"
  have h: "holds (type_edits f) ps" "holds (advanced_edits env f) ps"
    "f_type f \<in> set MODEL_FETCHABLE_TYPES \<Longrightarrow> holds (update_edits f) ps \<and> last_ok f ps"
    using assms(1) by (simp_all add: saved_settings_def)
  have "holds (type_edits ?g) ps"
    using h(1) unfolding opened_type_edits [OF h(1) assms(2-4)] .
  moreover have "advanced_edits env ?g = advanced_edits env f"
    by (rule opened_advanced_edits [OF h(2) assms(2-4)]) (rule assms(5))
  then have "holds (advanced_edits env ?g) ps" using h(2) by simp
  moreover have "holds (update_edits ?g) ps \<and> last_ok ?g ps" if "f_type ?g \<in> set MODEL_FETCHABLE_TYPES"
  proof -
    have u: "holds (update_edits f) ps" "last_ok f ps" using h(3) that assms(4) by (simp_all add: opened_type)
    show ?thesis
      using u unfolding opened_update_edits(1) [OF u(1) assms(2,3)] last_ok_def opened_update_edits(2) [OF u(1) assms(2,3)] by blast
  qed
  ultimately show "saved_settings env ?g ps" by (simp add: saved_settings_def)
qed

text \<open>The column \<open>setting\<close>.\<close>

lemma protocol_cases: "normalizeHttpProtocol env v = HTTP_PROTOCOL_HTTP1 \<or> normalizeHttpProtocol env v = HTTP_PROTOCOL_AUTO"
  by (simp add: normalizeHttpProtocol_def Let_def)

lemma protocol_values [simp]:
  "normalizeHttpProtocol env None = HTTP_PROTOCOL_AUTO"
  "normalizeHttpProtocol env (Some (JStr HTTP_PROTOCOL_HTTP1)) = HTTP_PROTOCOL_HTTP1"
  "normalizeHttpProtocol env (Some (JStr HTTP_PROTOCOL_AUTO)) = HTTP_PROTOCOL_AUTO"
  "HTTP_PROTOCOL_AUTO \<noteq> HTTP_PROTOCOL_HTTP1" "HTTP_PROTOCOL_HTTP1 \<noteq> HTTP_PROTOCOL_AUTO"
  by (simp_all add: normalizeHttpProtocol_def Let_def json_or_def String_of_def HTTP_PROTOCOL_HTTP1_def HTTP_PROTOCOL_AUTO_def
      trim_def is_space_def ascii_toLowerCase_def)

lemma protocol_idem [simp]: "normalizeHttpProtocol env (Some (JStr (normalizeHttpProtocol env v))) = normalizeHttpProtocol env v"
  using protocol_cases [of env v] by auto

lemma shards_values [simp]:
  "normalizeHttp2ConnectionShards env None = JNum 1" "normalizeHttp2ConnectionShards env (Some (JNum 1)) = JNum 1"
  by (simp_all add: normalizeHttp2ConnectionShards_def Number_of_def MAX_HTTP2_CONNECTION_SHARDS_def)

lemma shards_idem [simp]:
  "normalizeHttp2ConnectionShards env (Some (normalizeHttp2ConnectionShards env v)) = normalizeHttp2ConnectionShards env v"
  by (auto simp: normalizeHttp2ConnectionShards_def Number_of_def MAX_HTTP2_CONNECTION_SHARDS_def split: option.split)

lemma opened_setting:
  assumes "opt_str_or text [] \<noteq> []" "js_parse env (nullish text []) = Some (JObj (setting_object env f proxy))" "trim proxy = proxy"
  shows "setting_object env (open_setting env text g) proxy = setting_object env f proxy"
    "f_proxy (open_setting env text g) = Some (JStr proxy)"
proof -
  let ?ps = "setting_object env f proxy"
  let ?p = "normalizeHttpProtocol env (map_option JStr (f_http_protocol f))"
  let ?n = "normalizeHttp2ConnectionShards env (f_http2_connection_shards f)"
  let ?many = "case Number_of env ?n of None \<Rightarrow> False | Some n \<Rightarrow> 1 < n"
  have l: "map_of ?ps (js ''force_format'') = Some (json_or (f_force_format f) (JBool False))"
    "map_of ?ps (js ''thinking_to_content'') = Some (json_or (f_thinking_to_content f) (JBool False))"
    "map_of ?ps (js ''proxy'') = Some (JStr proxy)"
    "map_of ?ps (js ''pass_through_body_enabled'') = Some (json_or (f_pass_through_body_enabled f) (JBool False))"
    "map_of ?ps (js ''system_prompt'') = Some (json_or (f_system_prompt f) (JStr []))"
    "map_of ?ps (js ''system_prompt_override'') = Some (json_or (f_system_prompt_override f) (JBool False))"
    "map_of ?ps (js ''http_protocol'') = (if ?p = HTTP_PROTOCOL_HTTP1 then Some (JStr HTTP_PROTOCOL_HTTP1) else None)"
    "map_of ?ps (js ''http2_connection_shards'') = (if ?p \<noteq> HTTP_PROTOCOL_HTTP1 \<and> ?many then Some ?n else None)"
    by (simp_all add: setting_object_def Let_def js_inject del: js_Cons)
  have "json_or (Some (JStr proxy)) (JStr []) = JStr proxy" by (simp add: json_or_def)
  then have o: "open_setting env text g =
      g\<lparr>f_force_format := Some (json_or (f_force_format f) (JBool False)),
        f_thinking_to_content := Some (json_or (f_thinking_to_content f) (JBool False)),
        f_proxy := Some (JStr proxy), f_http_protocol := Some ?p,
        f_http2_connection_shards := Some (if ?p \<noteq> HTTP_PROTOCOL_HTTP1 \<and> ?many then ?n else JNum 1),
        f_pass_through_body_enabled := Some (json_or (f_pass_through_body_enabled f) (JBool False)),
        f_system_prompt := Some (json_or (f_system_prompt f) (JStr [])),
        f_system_prompt_override := Some (json_or (f_system_prompt_override f) (JBool False))\<rparr>"
    using assms(1,2) protocol_cases [of env "map_option JStr (f_http_protocol f)"]
    by (elim disjE) (simp_all add: open_setting_def l Let_def del: js_Cons)
  show "f_proxy (open_setting env text g) = Some (JStr proxy)" by (simp add: o)
  have "Number_of env (JNum 1) = Some 1" by (simp add: Number_of_def)
  then show "setting_object env (open_setting env text g) proxy = setting_object env f proxy"
    by (simp add: o setting_object_def Let_def del: js_Cons)
qed

section \<open>Saving what was opened\<close>

text \<open>The two parsers of a column leave the other fields alone.\<close>

lemma opened_columns [simp]:
  "f_name (open_setting env text g) = f_name g" "f_base_url (open_setting env text g) = f_base_url g"
  "f_key (open_setting env text g) = f_key g" "f_openai_organization (open_setting env text g) = f_openai_organization g"
  "f_models (open_setting env text g) = f_models g" "f_group (open_setting env text g) = f_group g"
  "f_model_mapping (open_setting env text g) = f_model_mapping g" "f_priority (open_setting env text g) = f_priority g"
  "f_weight (open_setting env text g) = f_weight g" "f_test_model (open_setting env text g) = f_test_model g"
  "f_auto_ban (open_setting env text g) = f_auto_ban g" "f_status_code_mapping (open_setting env text g) = f_status_code_mapping g"
  "f_tag (open_setting env text g) = f_tag g" "f_remark (open_setting env text g) = f_remark g"
  "f_param_override (open_setting env text g) = f_param_override g" "f_header_override (open_setting env text g) = f_header_override g"
  "f_settings (open_setting env text g) = f_settings g" "f_other (open_setting env text g) = f_other g"
  "f_type (open_setting env text g) = f_type g"
  by (simp_all add: open_setting_def Let_def del: js_Cons split: option.split json.split)

lemma opened_columns' [simp]:
  "f_name (open_settings env text g) = f_name g" "f_base_url (open_settings env text g) = f_base_url g"
  "f_key (open_settings env text g) = f_key g" "f_openai_organization (open_settings env text g) = f_openai_organization g"
  "f_models (open_settings env text g) = f_models g" "f_group (open_settings env text g) = f_group g"
  "f_model_mapping (open_settings env text g) = f_model_mapping g" "f_priority (open_settings env text g) = f_priority g"
  "f_weight (open_settings env text g) = f_weight g" "f_test_model (open_settings env text g) = f_test_model g"
  "f_auto_ban (open_settings env text g) = f_auto_ban g" "f_status_code_mapping (open_settings env text g) = f_status_code_mapping g"
  "f_tag (open_settings env text g) = f_tag g" "f_remark (open_settings env text g) = f_remark g"
  "f_param_override (open_settings env text g) = f_param_override g" "f_header_override (open_settings env text g) = f_header_override g"
  "f_settings (open_settings env text g) = f_settings g" "f_other (open_settings env text g) = f_other g"
  "f_type (open_settings env text g) = f_type g" "f_proxy (open_settings env text g) = f_proxy g"
  "f_force_format (open_settings env text g) = f_force_format g"
  "f_thinking_to_content (open_settings env text g) = f_thinking_to_content g"
  "f_pass_through_body_enabled (open_settings env text g) = f_pass_through_body_enabled g"
  "f_system_prompt (open_settings env text g) = f_system_prompt g"
  "f_system_prompt_override (open_settings env text g) = f_system_prompt_override g"
  "f_http_protocol (open_settings env text g) = f_http_protocol g"
  "f_http2_connection_shards (open_settings env text g) = f_http2_connection_shards g"
  by (simp_all add: open_settings_def Let_def del: js_Cons split: option.split json.split)

lemma opened_setting_object [simp]: "setting_object env (open_settings env' text g) proxy = setting_object env g proxy"
  by (simp add: setting_object_def Let_def del: js_Cons)

text \<open>The object in \<open>settings\<close> before the form is saved.\<close>

definition old_settings :: "js_runtime \<Rightarrow> ChannelFormValues \<Rightarrow> json_object" where
  "old_settings env f =
     (case js_parse env (nullish (f_settings f) []) of Some (JObj ps) \<Rightarrow> ps | _ \<Rightarrow> [])"

definition blank_throws :: "js_runtime \<Rightarrow> bool" where
  "blank_throws env \<longleftrightarrow> (\<forall>s. trim s = [] \<longrightarrow> js_parse env s = None) \<and> js_parse env (js ''{}'') = Some (JObj [])"

lemma empty_throws: "blank_throws env \<Longrightarrow> js_parse env [] = None"
  by (simp add: blank_throws_def)

lemma braces_parse: "blank_throws env \<Longrightarrow> js_parse env (js ''{}'') = Some (JObj [])"
  unfolding blank_throws_def by blast

definition reads_back :: "js_runtime \<Rightarrow> rat json \<Rightarrow> bool" where
  "reads_back env v \<longleftrightarrow> js_parse env (js_stringify env v) = Some v"

lemma schema_fields:
  assumes "channelFormSchema env f"
  shows "f_name f \<noteq> []" "f_models f \<noteq> []" "f_group f \<noteq> []" "isOptionalJsonObject env (f_settings f)"
    "opt_json (\<lambda>x. as_string x \<noteq> None) (f_proxy f)"
    "opt_json (\<lambda>x. case x of JNum n \<Rightarrow> isInteger n | _ \<Rightarrow> False) (f_http2_connection_shards f)"
  using assms unfolding channelFormSchema_def field_issues_def Let_def map_is_Nil_conv filter_empty_conv
  by (simp_all del: js_Cons not_None_eq)

lemma schema_settings:
  assumes "channelFormSchema env f" "blank_throws env"
  shows "buildSettingsJSON env f = Some (js_stringify env (JObj (settings_object env f (old_settings env f))))"
proof -
  let ?t = "nullish (f_settings f) []"
  have o: "opt_str_or (f_settings f) [] = ?t" by (cases "f_settings f") (simp_all add: str_or_def)
  have "isOptionalJsonObject env (f_settings f)"
    using assms(1) by (rule schema_fields(4))
  then have "trim ?t = [] \<or> (\<exists>ps. js_parse env ?t = Some (JObj ps))"
    by (auto simp: isOptionalJsonObject_def optional_json_def parseOptionalJson_def elim: isJsonObjectValue.elims
        split: if_splits option.splits)
  then show ?thesis
  proof
    assume "trim ?t = []"
    with assms(2) have "js_parse env ?t = None" by (simp add: blank_throws_def)
    then show ?thesis by (simp add: buildSettingsJSON_def old_settings_def o Let_def del: js_Cons)
  next
    assume "\<exists>ps. js_parse env ?t = Some (JObj ps)"
    then obtain ps where ps: "js_parse env ?t = Some (JObj ps)" by blast
    have "?t \<noteq> []" using ps empty_throws [OF assms(2)] by (metis option.distinct(1))
    moreover have "ps = []" if "?t = js ''{}''" using ps braces_parse [OF assms(2)] that by simp
    ultimately show ?thesis
      using ps by (cases "?t = js ''{}''") (simp_all add: buildSettingsJSON_def old_settings_def o Let_def del: js_Cons)
  qed
qed

lemma settings_object_ne: "settings_object env f ps \<noteq> []"
proof
  assume e: "settings_object env f ps = []"
  have "holds (type_edits f) (settings_object env f ps)"
    using settings_object_saved by (simp add: saved_settings_def)
  then have "map_of (settings_object env f ps) (js ''disable_task_polling_sleep'') \<noteq> None"
    by (simp add: holds_def type_edits_def Let_def del: js_Cons)
  then show False unfolding e by simp
qed

lemma written_text:
  assumes "reads_back env (JObj ps)" "blank_throws env"
  shows "js_stringify env (JObj ps) \<noteq> []" "ps \<noteq> [] \<Longrightarrow> js_stringify env (JObj ps) \<noteq> js ''{}''"
  using assms empty_throws [of env] braces_parse [of env] unfolding reads_back_def by (metis option.distinct(1), metis json.inject(5) option.inject)

lemma proxy_trimmed: "proxy_text v = Some p \<Longrightarrow> trim p = p" "proxy_text (Some (JStr p)) = Some (trim p)"
  by (auto simp: proxy_text_def split: option.splits json.splits)

lemma schema_config:
  assumes "channelFormSchema env f" "f_type f = of_nat CHANNEL_TYPE_ADVANCED_CUSTOM"
  shows "\<exists>c. parseAdvancedCustomConfig (parse_config env) (f_advanced_custom f) = Some c
    \<and> validateAdvancedCustomConfig (config_url env) (Some c) = None"
proof -
  have "validateAdvancedCustomConfig (config_url env) (parseAdvancedCustomConfig (parse_config env) (f_advanced_custom f)) = None"
    using assms by (auto simp: channelFormSchema_def refine_issues_def advanced_issues_def Let_def simp del: js_Cons split: option.splits)
  then show ?thesis
    by (cases "parseAdvancedCustomConfig (parse_config env) (f_advanced_custom f)") (simp_all add: validateAdvancedCustomConfig_def)
qed

text \<open>The stored channel has the columns that were sent.\<close>

definition stores :: "Channel \<Rightarrow> Channel \<Rightarrow> bool" where
  "stores p ch \<longleftrightarrow> ch\<lparr>c_id := c_id p, c_key := c_key p, c_status := c_status p, c_multi_key_mode := c_multi_key_mode p\<rparr> = p"

text \<open>The JSON texts that saving writes are read back.\<close>

definition columns_read_back :: "js_runtime \<Rightarrow> ChannelFormValues \<Rightarrow> bool" where
  "columns_read_back env f \<longleftrightarrow> blank_throws env
     \<and> (\<forall>proxy. proxy_text (f_proxy f) = Some proxy \<longrightarrow> reads_back env (JObj (setting_object env f proxy)))
     \<and> reads_back env (JObj (settings_object env f (old_settings env f)))
     \<and> (\<forall>c. parseAdvancedCustomConfig (parse_config env) (f_advanced_custom f) = Some c \<longrightarrow> config_reads_back env c)"

lemma reopened_columns:
  assumes "channelFormSchema env f" "columns_read_back env f"
    and setting: "buildSettingJSON env f = Some t1" and settings: "buildSettingsJSON env f = Some t2"
    and g: "g = open_settings env (Some t2) (open_setting env (Some t1) h)"
    and h: "f_type h = f_type f" "f_settings h = Some t2"
  shows "buildSettingJSON env g = Some t1" "buildSettingsJSON env g = Some t2" "t1 \<noteq> []" "t2 \<noteq> []"
proof -
  let ?ps = "settings_object env f (old_settings env f)"
  from setting obtain proxy where p: "proxy_text (f_proxy f) = Some proxy" "t1 = js_stringify env (JObj (setting_object env f proxy))"
    by (auto simp: buildSettingJSON_def)
  have env: "blank_throws env" "reads_back env (JObj (setting_object env f proxy))" "reads_back env (JObj ?ps)"
    using assms(2) p(1) by (auto simp: columns_read_back_def)
  have t2: "t2 = js_stringify env (JObj ?ps)" using schema_settings [OF assms(1) env(1)] settings by simp
  have ne: "t1 \<noteq> []" "t2 \<noteq> []" "t2 \<noteq> js ''{}''"
    unfolding p(2) t2 using written_text [OF env(2,1)] written_text [OF env(3,1)] settings_object_ne by blast+
  then show "t1 \<noteq> []" "t2 \<noteq> []" by simp_all
  have some: "str_or t [] = t" for t :: jsstring by (simp add: str_or_def)
  have parse: "js_parse env (nullish (Some t1) []) = Some (JObj (setting_object env f proxy))"
    "js_parse env (nullish (Some t2) []) = Some (JObj ?ps)"
    using env(2,3) by (simp_all add: reads_back_def p(2) t2)
  have nonempty: "opt_str_or (Some t1) [] \<noteq> []" using ne(1) some by simp
  note o = opened_setting [OF nonempty parse(1) proxy_trimmed(1) [OF p(1)], of h]
  have "f_proxy g = Some (JStr proxy)" "setting_object env g proxy = setting_object env f proxy"
    using o by (simp_all add: g)
  then show "buildSettingJSON env g = Some t1"
    by (simp add: buildSettingJSON_def proxy_trimmed(2) proxy_trimmed(1) [OF p(1)] p(2))
  have config: "\<exists>c. parseAdvancedCustomConfig (parse_config env) (f_advanced_custom f) = Some c \<and> config_reads_back env c"
    if "f_type f = of_nat CHANNEL_TYPE_ADVANCED_CUSTOM"
    using schema_config [OF assms(1) that] assms(2) by (auto simp: columns_read_back_def)
  have "settings_object env g ?ps = ?ps"
    unfolding g by (rule reopened_settings [OF settings_object_saved _ parse(2) _ config]) (simp_all add: ne some h)
  then show "buildSettingsJSON env g = Some t2"
    using parse(2) ne by (simp add: buildSettingsJSON_def g h some Let_def t2 [symmetric] del: js_Cons)
qed

lemma base_url_stable:
  assumes "\<forall>c\<in>set (nullish v []). \<not> is_space c"
  shows "normalizeBaseUrl (Some (normalizeBaseUrl v)) = normalizeBaseUrl v"
proof -
  have some: "opt_str_or v [] = nullish v []" "str_or t [] = t" for t :: jsstring
    by (cases v) (simp_all add: str_or_def)
  let ?s = "rev (dropWhile (\<lambda>c. c = 47) (rev (nullish v [])))"
  have "set ?s \<subseteq> set (nullish v [])" by (auto dest: set_dropWhileD)
  then have "trim ?s = ?s" "trim (nullish v []) = nullish v []"
    using assms by (auto intro!: trim_no_space)
  moreover have "dropWhile P (dropWhile P xs) = dropWhile P xs" for P and xs :: jsstring
    by (rule dropWhile_id) (rule hd_dropWhile_not)
  ultimately show ?thesis by (simp add: normalizeBaseUrl_def some)
qed

lemma groups_stable:
  assumes "gs \<noteq> []" "\<forall>g\<in>set gs. g \<noteq> [] \<and> trim g = g \<and> 44 \<notin> set g"
  shows "parseGroups (formatGroups gs) = gs" "formatGroups gs \<noteq> []"
proof -
  show ne: "formatGroups gs \<noteq> []" using assms by (auto simp: formatGroups_def join_eq_Nil)
  have "split_on 44 (join [44] gs) = gs" using assms by (auto intro!: split_on_join)
  moreover have "map trim gs = gs" "filter (\<lambda>g. g \<noteq> []) gs = gs"
    using assms(2) by (auto intro!: map_idI simp: filter_id_conv)
  ultimately show "parseGroups (formatGroups gs) = gs" using ne by (simp add: parseGroups_def formatGroups_def)
qed

definition plain_columns :: "ChannelFormValues \<Rightarrow> bool" where
  "plain_columns f \<longleftrightarrow> list_all (\<lambda>g. g \<noteq> [] \<and> trim g = g \<and> 44 \<notin> set g) (f_group f)
     \<and> list_all (\<lambda>c. \<not> is_space c) (nullish (f_base_url f) [])"

text \<open>The columns of a stored payload.\<close>

lemma stored_columns:
  assumes "stores (update_payload f i t1 t2) ch" "f_name f \<noteq> []" "f_models f \<noteq> []" "formatGroups (f_group f) \<noteq> []" "t1 \<noteq> []" "t2 \<noteq> []"
  shows "c_name ch = Some (f_name f)" "c_type ch = f_type f" "c_base_url ch = Some (normalizeBaseUrl (f_base_url f))"
    "c_openai_organization ch = Some (opt_str_or (f_openai_organization f) [])" "c_models ch = Some (f_models f)"
    "c_group ch = Some (formatGroups (f_group f))" "c_model_mapping ch = Some (opt_str_or (f_model_mapping f) [])"
    "c_priority ch = Some (nullish (f_priority f) 0)" "c_weight ch = Some (nullish (f_weight f) 0)"
    "c_test_model ch = Some (opt_str_or (f_test_model f) [])" "c_auto_ban ch = Some (nullish (f_auto_ban f) 1)"
    "c_status_code_mapping ch = Some (opt_str_or (f_status_code_mapping f) [])" "c_tag ch = Some (opt_str_or (f_tag f) [])"
    "c_remark ch = Some (opt_str_or (f_remark f) [])" "c_setting ch = Some t1"
    "c_param_override ch = Some (opt_str_or (f_param_override f) [])" "c_header_override ch = Some (opt_str_or (f_header_override f) [])"
    "c_settings ch = Some t2" "opt_str_or (c_other ch) [] = opt_str_or (f_other f) []"
  using assms by (cases ch; auto simp: stores_def update_payload_def clean_payload_def base_payload_def or_null_def str_or_def)+

section \<open>Properties\<close>

text \<open>C9: Editing a channel is stable.  When an accepted form was saved and the channel is opened again, saving it without
  a change sends exactly the payload that was sent before, apart from the key, which is not sent: every
  column, both JSON columns included, is read back as it was written.  The group names are assumed
  without commas and surrounding blanks, the base URL without blanks.\<close>

theorem resave_sends_same:
  assumes "channelFormSchema env f" "plain_columns f" "columns_read_back env f"
    and "transformFormDataToUpdatePayload env f i = Some p" "stores p ch"
  shows "transformFormDataToUpdatePayload env (transformChannelToFormDefaults env ch) i = Some (p\<lparr>c_key := None\<rparr>)"
proof -
  have some: "str_or t [] = t" for t :: jsstring by (simp add: str_or_def)
  obtain t1 t2 where t: "buildSettingJSON env f = Some t1" "buildSettingsJSON env f = Some t2"
    using assms(4) by (auto simp: transformFormDataToUpdatePayload_def split: option.splits)
  have base: "normalizeBaseUrl (Some (normalizeBaseUrl (f_base_url f))) = normalizeBaseUrl (f_base_url f)"
    using assms(2) by (intro base_url_stable) (simp add: plain_columns_def list_all_iff)
  have plain: "\<forall>g\<in>set (f_group f). g \<noteq> [] \<and> trim g = g \<and> 44 \<notin> set g"
    using assms(2) by (simp add: plain_columns_def list_all_iff)
  note group = groups_stable [OF schema_fields(3) [OF assms(1)] plain]
  have p: "p = update_payload f i t1 t2" using assms(4) t by (simp add: transformFormDataToUpdatePayload_def)
  let ?g = "transformChannelToFormDefaults env ch"
  have ne: "t1 \<noteq> []" "t2 \<noteq> []"
    using reopened_columns(3,4) [OF assms(1,3) t refl, of "f\<lparr>f_settings := Some t2\<rparr>"] by simp_all
  note c = stored_columns [OF assms(5) [unfolded p] schema_fields(1,2) [OF assms(1)] group(2) ne]
  have g: "?g = open_settings env (Some t2) (open_setting env (Some t1) (form_columns ch))"
    by (simp add: transformChannelToFormDefaults_def c)
  have "f_type (form_columns ch) = f_type f" "f_settings (form_columns ch) = Some t2"
    using ne by (simp_all add: form_columns_def c str_or_def)
  then have build: "buildSettingJSON env ?g = Some t1" "buildSettingsJSON env ?g = Some t2"
    using reopened_columns(1,2) [OF assms(1,3) t g] by simp_all
  have "str_or (formatGroups (f_group f)) d = formatGroups (f_group f)" for d using group(2) by (simp add: str_or_def)
  then have "update_payload ?g i t1 t2 = (update_payload f i t1 t2)\<lparr>c_key := None\<rparr>"
    unfolding g update_payload_def base_payload_def clean_payload_def form_columns_def
    by (simp add: c group base some or_null_def trim_def)
  then show ?thesis by (simp add: transformFormDataToUpdatePayload_def build p)
qed

text \<open>A form with both JSON columns, and a runtime that reads and writes their texts.\<close>

definition sample_form :: ChannelFormValues where
  "sample_form = CHANNEL_FORM_DEFAULT_VALUES
     \<lparr>f_name := js ''c'', f_type := 14, f_models := js ''m'', f_base_url := Some (js ''https://a.io/''), f_settings := Some (js ''O''),
      f_proxy := Some (JStr []), f_http2_connection_shards := Some (JNum 4), f_allow_speed := Some True,
      f_upstream_model_update_ignored_models := Some (js ''a, b''), f_key := js ''k''\<rparr>"

definition sample_old :: json_object where
  "sample_old = [(js ''custom'', JStr (js ''x'')), (js ''aws_key_type'', JStr (js ''ak_sk''))]"

definition sample_setting :: json_object where
  "sample_setting = [(js ''force_format'', JBool False), (js ''thinking_to_content'', JBool False), (js ''proxy'', JStr []),
     (js ''pass_through_body_enabled'', JBool False), (js ''system_prompt'', JStr []), (js ''system_prompt_override'', JBool False),
     (js ''http2_connection_shards'', JNum 4)]"

definition sample_settings :: json_object where
  "sample_settings = [(js ''custom'', JStr (js ''x'')), (js ''allow_service_tier'', JBool False), (js ''allow_inference_geo'', JBool False),
     (js ''allow_speed'', JBool True), (js ''claude_beta_query'', JBool False), (js ''disable_task_polling_sleep'', JBool False),
     (js ''upstream_model_update_check_enabled'', JBool False), (js ''upstream_model_update_auto_sync_enabled'', JBool False),
     (js ''upstream_model_update_ignored_models'', JArr [JStr (js ''a''), JStr (js ''b'')]),
     (js ''upstream_model_update_last_detected_models'', JArr []), (js ''upstream_model_update_last_check_time'', JNum 0)]"

definition sample_runtime :: js_runtime where
  "sample_runtime =
     \<lparr>js_parse = (\<lambda>t. if t = js ''O'' then Some (JObj sample_old)
        else if t = js ''S'' then Some (JObj sample_setting)
        else if t = js ''T'' then Some (JObj sample_settings)
        else if t = js ''{}'' then Some (JObj []) else None),
      js_stringify = (\<lambda>v. if v = JObj sample_setting then js ''S'' else js ''T''),
      js_indented = (\<lambda>v. []), js_String = (\<lambda>v. []), js_Number = (\<lambda>v. None), js_URL = (\<lambda>u. None), cast_config = (\<lambda>v. None)\<rparr>"

lemma sample_settings_object: "settings_object env sample_form sample_old = sample_settings"
  by (simp add: settings_object_def type_edits_def update_edits_def last_edits_def advanced_edits_def apply_edit_def Let_def
      sample_form_def sample_old_def sample_settings_def CHANNEL_FORM_DEFAULT_VALUES_def MODEL_FETCHABLE_TYPES_def flag_json_def
      ignored_models_def CHANNEL_TYPE_ADVANCED_CUSTOM_def js_inject trim_def is_space_def str_or_def uniq_def set_add_def json_or_def
      AList.delete_eq)

lemma sample_setting_object: "setting_object env sample_form [] = sample_setting"
  by (simp add: setting_object_def Let_def sample_form_def sample_setting_def CHANNEL_FORM_DEFAULT_VALUES_def json_or_def
      normalizeHttp2ConnectionShards_def Number_of_def MAX_HTTP2_CONNECTION_SHARDS_def)

lemma sample_proxy: "proxy_text (f_proxy sample_form) = Some []"
  by (simp add: proxy_text_def sample_form_def)

lemma optional_json_blank: "optional_json env ok (Some [])"
  by (simp add: optional_json_def parseOptionalJson_def)

lemma sample_parse [simp]:
  "js_parse sample_runtime (js ''O'') = Some (JObj sample_old)" "js_parse sample_runtime (js ''S'') = Some (JObj sample_setting)"
  "js_parse sample_runtime (js ''T'') = Some (JObj sample_settings)"
  "js_stringify sample_runtime (JObj sample_setting) = js ''S''"
  "js_stringify sample_runtime (JObj sample_settings) = js ''T''"
  by (simp_all add: sample_runtime_def sample_setting_def sample_settings_def)

lemma sample_form_schema: "channelFormSchema sample_runtime sample_form"
proof -
  have "optional_json sample_runtime isJsonObjectValue (Some (js ''O''))"
    unfolding optional_json_def parseOptionalJson_def nullish_simps sample_parse by simp
  then have "field_issues sample_runtime sample_form = []"
    unfolding field_issues_def Let_def map_is_Nil_conv filter_empty_conv
    by (simp add: sample_form_def CHANNEL_FORM_DEFAULT_VALUES_def optional_json_blank isOptionalModelMapping_def
        isOptionalStatusCodeMapping_def isOptionalJsonObject_def opt_enum_def opt_json_def isOptionalProxyURL_def Let_def
        HTTP_PROTOCOL_AUTO_def isInteger_def del: js_Cons) auto
  moreover have "refine_issues sample_runtime sample_form = []"
    by (simp add: refine_issues_def advanced_issues_def issue_def sample_form_def CHANNEL_FORM_DEFAULT_VALUES_def Let_def
        CHANNEL_TYPE_ADVANCED_CUSTOM_def MAX_HTTP2_CONNECTION_SHARDS_def del: js_Cons)
  ultimately show ?thesis by (simp add: channelFormSchema_def)
qed

lemma sample_runtime_blank: "blank_throws sample_runtime"
  by (auto simp: blank_throws_def sample_runtime_def trim_def is_space_def)

lemma sample_old_settings: "old_settings sample_runtime sample_form = sample_old"
  by (simp add: old_settings_def sample_form_def del: js_Cons)

lemma sample_reads_back: "columns_read_back sample_runtime sample_form"
proof -
  have "parseAdvancedCustomConfig (parse_config sample_runtime) (f_advanced_custom sample_form) = None"
    by (simp add: parseAdvancedCustomConfig_def sample_form_def CHANNEL_FORM_DEFAULT_VALUES_def)
  then show ?thesis
    by (simp add: columns_read_back_def sample_runtime_blank sample_proxy sample_setting_object sample_settings_object
        sample_old_settings reads_back_def del: js_Cons)
qed

abbreviation sample_payload :: Channel where
  "sample_payload \<equiv> update_payload sample_form 7 (js ''S'') (js ''T'')"

theorem resave_sends_same_witness:
  "transformFormDataToUpdatePayload sample_runtime (transformChannelToFormDefaults sample_runtime sample_payload) 7 =
     Some (sample_payload\<lparr>c_key := None\<rparr>)"
proof (rule resave_sends_same [OF sample_form_schema _ sample_reads_back])
  show "plain_columns sample_form"
    by (simp add: plain_columns_def sample_form_def CHANNEL_FORM_DEFAULT_VALUES_def trim_def is_space_def)
  show "transformFormDataToUpdatePayload sample_runtime sample_form 7 = Some sample_payload"
    using schema_settings [OF sample_form_schema sample_runtime_blank]
    by (simp add: transformFormDataToUpdatePayload_def buildSettingJSON_def sample_proxy sample_setting_object
        sample_old_settings sample_settings_object del: js_Cons)
  show "stores sample_payload sample_payload" by (simp add: stores_def)
qed

text \<open>The types of channel a property of \<open>settings\<close> belongs to.\<close>

definition type_owners :: "(jsstring \<times> rat list) list" where
  "type_owners = [(js ''vertex_key_type'', [41]), (js ''azure_responses_version'', [3]), (js ''openrouter_enterprise'', [20]),
     (js ''aws_key_type'', [33]), (js ''allow_service_tier'', [1, 14, 57]), (js ''disable_store'', [1, 57]),
     (js ''allow_safety_identifier'', [1, 57]), (js ''allow_include_obfuscation'', [1, 57]), (js ''allow_inference_geo'', [1, 14, 57]),
     (js ''allow_speed'', [14]), (js ''claude_beta_query'', [14]), (js ''advanced_custom'', [58])]"

lemma owners_only:
  assumes "(k, ts) \<in> set type_owners" "f_type f \<notin> set ts"
  shows "map_of (settings_object env f ps) k = None"
proof -
  let ?o = "settings_object env f ps"
  have "holds (type_edits f) ?o" "holds (advanced_edits env f) ?o"
    using settings_object_saved by (simp_all add: saved_settings_def)
  then show ?thesis
    using assms unfolding type_owners_def holds_def
    by (auto simp: type_edits_def advanced_edits_def CHANNEL_TYPE_ADVANCED_CUSTOM_def Let_def simp del: js_Cons)
qed



text \<open>What the server decodes from the column \<open>setting\<close>: a missing property is the zero value.\<close>

definition decode_transport :: "json_object \<Rightarrow> jsstring \<times> int" where
  "decode_transport ps =
     (case map_of ps (js ''http_protocol'') of Some (JStr s) \<Rightarrow> s | _ \<Rightarrow> [],
      case map_of ps (js ''http2_connection_shards'') of Some (JNum n) \<Rightarrow> \<lfloor>n\<rfloor> | _ \<Rightarrow> 0)"

lemma schema_shards:
  assumes "channelFormSchema env f"
  shows "f_http2_connection_shards f = None \<or> (\<exists>n. f_http2_connection_shards f = Some (JNum n) \<and> 1 \<le> n \<and> n \<le> 8)"
proof (cases "f_http2_connection_shards f")
  case (Some x)
  with schema_fields(6) [OF assms] obtain n where n: "x = JNum n" by (cases x) (auto simp: opt_json_def)
  have "refine_issues env f = []" using assms by (simp add: channelFormSchema_def)
  with Some n show ?thesis
    by (auto simp: refine_issues_def issue_def Let_def MAX_HTTP2_CONNECTION_SHARDS_def not_less simp del: js_Cons split: if_splits)
qed simp

lemma transport_ok:
  assumes "channelFormSchema env f"
  shows "case_prod ValidateHTTPTransport (decode_transport (setting_object env f proxy)) = None"
proof -
  let ?p = "normalizeHttpProtocol env (map_option JStr (f_http_protocol f))"
  let ?n = "normalizeHttp2ConnectionShards env (f_http2_connection_shards f)"
  obtain n where n: "?n = JNum n" "1 \<le> n" "n \<le> 8"
    using schema_shards [OF assms]
    by (elim disjE exE) (auto simp: normalizeHttp2ConnectionShards_def Number_of_def MAX_HTTP2_CONNECTION_SHARDS_def)
  then have "0 \<le> \<lfloor>n\<rfloor>" "\<lfloor>n\<rfloor> \<le> 8" by linarith+
  moreover have "map_of (setting_object env f proxy) (js ''http_protocol'') = (if ?p = HTTP_PROTOCOL_HTTP1 then Some (JStr (js ''http1'')) else None)"
    "map_of (setting_object env f proxy) (js ''http2_connection_shards'') = (if ?p \<noteq> HTTP_PROTOCOL_HTTP1 \<and> 1 < n then Some (JNum n) else None)"
    by (simp_all add: setting_object_def Let_def js_inject n Number_of_def HTTP_PROTOCOL_HTTP1_def del: js_Cons)
  ultimately show ?thesis
    by (cases "?p = HTTP_PROTOCOL_HTTP1")
      (simp_all add: decode_transport_def ValidateHTTPTransport_def TrimSpace_def go_space_def ascii_lower_def)
qed


definition custom_form :: ChannelFormValues where
  "custom_form = sample_form\<lparr>f_type := 58, f_advanced_custom := Some (js ''A'')\<rparr>"

definition custom_runtime :: js_runtime where
  "custom_runtime = sample_runtime
     \<lparr>js_parse := (\<lambda>t. if t = js ''A'' then Some (JObj []) else js_parse sample_runtime t),
      js_URL := (\<lambda>u. if prefix (js ''https://'') u
        then Some \<lparr>url_protocol = js ''https:'', url_host = drop 8 u, url_hostname = drop 8 u, url_port = []\<rparr> else None),
      cast_config := (\<lambda>v. Some sample_table)\<rparr>"

lemma custom_config:
  "config_url custom_runtime = sample_url"
  "parseAdvancedCustomConfig (parse_config custom_runtime) (f_advanced_custom custom_form) = Some (normalizeAdvancedCustomConfig sample_table)"
  "validateAdvancedCustomConfig sample_url (Some (normalizeAdvancedCustomConfig sample_table)) = None"
proof -
  show "config_url custom_runtime = sample_url" by (rule ext) (simp add: config_url_def custom_runtime_def del: js_Cons)
  show "parseAdvancedCustomConfig (parse_config custom_runtime) (f_advanced_custom custom_form) = Some (normalizeAdvancedCustomConfig sample_table)"
    by (simp add: parseAdvancedCustomConfig_def parse_config_def custom_form_def custom_runtime_def trim_def is_space_def)
  show "validateAdvancedCustomConfig sample_url (Some (normalizeAdvancedCustomConfig sample_table)) = None"
    using sample_accepted by (simp add: validateAdvancedCustomConfig_def)
qed

lemma custom_schema: "channelFormSchema custom_runtime custom_form"
proof -
  have "optional_json custom_runtime isJsonObjectValue (Some (js ''O''))"
    by (simp add: optional_json_def parseOptionalJson_def custom_runtime_def js_inject trim_def is_space_def)
      (simp add: sample_runtime_def)
  then have "field_issues custom_runtime custom_form = []"
    unfolding field_issues_def Let_def map_is_Nil_conv filter_empty_conv
    by (simp add: custom_form_def sample_form_def CHANNEL_FORM_DEFAULT_VALUES_def optional_json_blank isOptionalModelMapping_def
        isOptionalStatusCodeMapping_def isOptionalJsonObject_def opt_enum_def opt_json_def isOptionalProxyURL_def Let_def
        HTTP_PROTOCOL_AUTO_def isInteger_def del: js_Cons) auto
  moreover have "advanced_issues custom_runtime custom_form = []"
    unfolding advanced_issues_def Let_def custom_config option.case
    by (simp add: custom_form_def sample_form_def CHANNEL_FORM_DEFAULT_VALUES_def issue_def blank_def trim_def is_space_def)
  then have "refine_issues custom_runtime custom_form = []"
    by (simp add: refine_issues_def issue_def custom_form_def sample_form_def CHANNEL_FORM_DEFAULT_VALUES_def Let_def
        MAX_HTTP2_CONNECTION_SHARDS_def del: js_Cons)
  ultimately show ?thesis by (simp add: channelFormSchema_def)
qed


end
