(* ===== verification/Json_Number.thy ===== *)
theory Json_Number
  imports Js_Json
begin

text \<open>
  The numbers of JSON text.  A number is kept as an exact decimal \<open>m * 10 ^ e\<close>, with no trailing zero in \<open>m\<close>;
  rounding to a double is not modelled.  \<open>num_string\<close> is \<open>Number.prototype.toString\<close>, which is also what
  \<open>JSON.stringify\<close> writes, and \<open>read_number\<close> is the number of the grammar of \<open>JSON.parse\<close>.  Reading what was
  written gives the number back.
\<close>

section \<open>Decimals\<close>

datatype decimal = Decimal (mantissa: int) (exponent: int)

instantiation decimal :: zero
begin

definition zero_decimal :: decimal where
  "zero_decimal = Decimal 0 0"

instance ..

end

fun canonical :: "decimal \<Rightarrow> bool" where
  "canonical (Decimal m e) \<longleftrightarrow> (if m = 0 then e = 0 else m mod 10 \<noteq> 0)"

function norm :: "int \<Rightarrow> int \<Rightarrow> decimal" where
  "norm m e = (if m = 0 then Decimal 0 0 else if m mod 10 = 0 then norm (m div 10) (e + 1) else Decimal m e)"
  by pat_completeness auto
termination norm
  by (relation "measure (\<lambda>(m, e). nat \<bar>m\<bar>)") auto

declare norm.simps [simp del]

definition decimal_of_int :: "int \<Rightarrow> decimal" where
  "decimal_of_int i = norm i 0"

text \<open>\<open>Number.isInteger(x)\<close>, and the integer.\<close>

fun decimal_int :: "decimal \<Rightarrow> int option" where
  "decimal_int (Decimal m e) = (if 0 \<le> e then Some (m * 10 ^ nat e) else None)"

section \<open>Writing\<close>

text \<open>The digits \<open>ds\<close> of a positive number, with the decimal point \<open>n\<close> places from the left: plain up to 21
  digits, with leading zeros from \<open>10 ^ -6\<close>, in exponential form otherwise.\<close>

definition pos_string :: "jsstring \<Rightarrow> int \<Rightarrow> jsstring" where
  "pos_string ds e =
     (let n = int (length ds) + e in
      if 0 \<le> e \<and> n \<le> 21 then ds @ replicate (nat e) 48
      else if 0 < n \<and> n \<le> 21 then take (nat n) ds @ 46 # drop (nat n) ds
      else if -6 < n \<and> n \<le> 0 then 48 # 46 # replicate (nat (- n)) 48 @ ds
      else hd ds # (if tl ds = [] then [] else 46 # tl ds)
             @ 101 # (if n \<le> 0 then 45 else 43) # dec (nat \<bar>n - 1\<bar>))"

fun num_string :: "decimal \<Rightarrow> jsstring" where
  "num_string (Decimal m e) =
     (if m = 0 then [48] else (if m < 0 then [45] else []) @ pos_string (dec (nat \<bar>m\<bar>)) e)"

section \<open>Reading\<close>

definition read_digits :: "jsstring \<Rightarrow> jsstring \<times> jsstring" where
  "read_digits s = (takeWhile is_digit s, dropWhile is_digit s)"

text \<open>The fraction and the exponent, both optional: \<open>None\<close> where digits are missing.\<close>

definition read_fraction :: "jsstring \<Rightarrow> (jsstring \<times> jsstring) option" where
  "read_fraction s = (case s of
     c # t \<Rightarrow> if c = 46 then if fst (read_digits t) = [] then None else Some (read_digits t) else Some ([], s)
   | [] \<Rightarrow> Some ([], s))"

definition read_exponent :: "jsstring \<Rightarrow> (int \<times> jsstring) option" where
  "read_exponent s = (case s of
     c # t \<Rightarrow>
       if c = 101 \<or> c = 69 then
         let (neg, u) = (case t of
               d # t' \<Rightarrow> if d = 45 then (True, t') else if d = 43 then (False, t') else (False, t)
             | [] \<Rightarrow> (False, []));
             (ds, r) = read_digits u
         in if ds = [] then None else Some (if neg then - int (parse_dec ds) else int (parse_dec ds), r)
       else Some (0, s)
   | [] \<Rightarrow> Some (0, s))"

text \<open>An unsigned number; a leading zero is followed by no other digit.\<close>

definition read_unsigned :: "bool \<Rightarrow> jsstring \<Rightarrow> (decimal \<times> jsstring) option" where
  "read_unsigned neg s =
     (let (whole, r) = read_digits s in
      if whole = [] \<or> (hd whole = 48 \<and> tl whole \<noteq> []) then None
      else Option.bind (read_fraction r) (\<lambda>(frac, r).
             Option.bind (read_exponent r) (\<lambda>(x, r).
               let m = int (parse_dec (whole @ frac)) in
               Some (norm (if neg then - m else m) (x - int (length frac)), r))))"

definition read_number :: "jsstring \<Rightarrow> (decimal \<times> jsstring) option" where
  "read_number s = (case s of
     c # t \<Rightarrow> if c = 45 then read_unsigned True t else read_unsigned False s
   | [] \<Rightarrow> None)"

section \<open>Normal forms\<close>

lemma norm_canonical [simp]: "canonical (norm m e)"
  by (induction m e rule: norm.induct) (simp add: norm.simps)

lemma norm_id: "canonical (Decimal m e) \<Longrightarrow> norm m e = Decimal m e"
  by (simp add: norm.simps split: if_splits)

lemma norm_ten: "m \<noteq> 0 \<Longrightarrow> norm (m * 10) e = norm m (e + 1)"
  by (subst norm.simps) simp

lemma norm_shift: "m \<noteq> 0 \<Longrightarrow> norm (m * 10 ^ j) e = norm m (e + int j)"
proof (induction j arbitrary: e)
  case (Suc j)
  have "norm (m * 10 ^ Suc j) e = norm (m * 10 ^ j) (e + 1)"
    using norm_ten [of "m * 10 ^ j" e] Suc.prems by (simp add: ac_simps)
  with Suc show ?case by (simp add: algebra_simps)
qed simp

section \<open>Reading what was written\<close>

definition digits :: "jsstring \<Rightarrow> bool" where
  "digits s \<longleftrightarrow> (\<forall>c\<in>set s. is_digit c)"

text \<open>The text after a number in a JSON text.\<close>

definition num_end :: "jsstring \<Rightarrow> bool" where
  "num_end s \<longleftrightarrow> (s = [] \<or> \<not> is_digit (hd s) \<and> hd s \<notin> {46, 101, 69})"

lemma read_digits_append:
  "digits ds \<Longrightarrow> r = [] \<or> \<not> is_digit (hd r) \<Longrightarrow> read_digits (ds @ r) = (ds, r)"
  by (cases r) (simp_all add: read_digits_def digits_def takeWhile_append2 dropWhile_append2 takeWhile_append dropWhile_append)

lemma dec_digits_all: "digits (dec n)"
  by (auto simp: digits_def dec_digits)

lemma read_fraction_none: "num_end r \<or> hd r \<in> {101, 69} \<Longrightarrow> read_fraction r = Some ([], r)"
  by (cases r) (auto simp: read_fraction_def num_end_def)

lemma read_fraction_some:
  "digits f \<Longrightarrow> f \<noteq> [] \<Longrightarrow> r = [] \<or> \<not> is_digit (hd r) \<Longrightarrow> read_fraction (46 # f @ r) = Some (f, r)"
  by (simp add: read_fraction_def read_digits_append)

lemma read_exponent_none: "num_end r \<Longrightarrow> read_exponent r = Some (0, r)"
  by (cases r) (auto simp: read_exponent_def num_end_def)

lemma read_exponent_some:
  assumes "num_end r"
  shows "read_exponent (101 # (if x < 0 then 45 else 43) # dec (nat \<bar>x\<bar>) @ r) = Some (x, r)"
proof -
  have "read_digits (dec (nat \<bar>x\<bar>) @ r) = (dec (nat \<bar>x\<bar>), r)"
    using assms by (intro read_digits_append) (auto simp: dec_digits_all num_end_def)
  then show ?thesis by (cases "x < 0") (simp_all add: read_exponent_def)
qed

text \<open>A number in any of its written forms: digits, then perhaps a fraction, then perhaps an exponent.\<close>

lemma read_unsigned_plain:
  assumes "digits w" "w \<noteq> []" "hd w \<noteq> 48 \<or> tl w = []" "num_end r"
  shows "read_unsigned neg (w @ r) = Some (norm (if neg then - int (parse_dec w) else int (parse_dec w)) 0, r)"
  using assms read_digits_append [of w r]
  by (auto simp: read_unsigned_def read_fraction_none read_exponent_none num_end_def Let_def)

lemma read_unsigned_fraction:
  assumes "digits w" "w \<noteq> []" "hd w \<noteq> 48 \<or> tl w = []" "digits f" "f \<noteq> []" "num_end r"
  shows "read_unsigned neg (w @ 46 # f @ r)
    = Some (norm (if neg then - int (parse_dec (w @ f)) else int (parse_dec (w @ f))) (- int (length f)), r)"
proof -
  have "read_digits (w @ 46 # f @ r) = (w, 46 # f @ r)"
    using assms(1) by (intro read_digits_append) (auto simp: is_digit_def)
  moreover have "read_fraction (46 # f @ r) = Some (f, r)"
    using assms by (intro read_fraction_some) (auto simp: num_end_def)
  ultimately show ?thesis using assms
    by (auto simp: read_unsigned_def read_exponent_none Let_def)
qed

lemma read_unsigned_exponent:
  assumes "digits w" "w \<noteq> []" "hd w \<noteq> 48 \<or> tl w = []" "num_end r"
  shows "read_unsigned neg (w @ 101 # (if x < 0 then 45 else 43) # dec (nat \<bar>x\<bar>) @ r)
    = Some (norm (if neg then - int (parse_dec w) else int (parse_dec w)) x, r)"
proof -
  let ?e = "101 # (if x < 0 then 45 else 43) # dec (nat \<bar>x\<bar>) @ r"
  have "read_digits (w @ ?e) = (w, ?e)"
    using assms(1) by (intro read_digits_append) (auto simp: is_digit_def)
  moreover have "read_fraction ?e = Some ([], ?e)" by (rule read_fraction_none) simp
  ultimately show ?thesis using assms read_exponent_some [OF assms(4), of x]
    by (auto simp: read_unsigned_def Let_def)
qed

lemma read_unsigned_both:
  assumes "digits w" "w \<noteq> []" "hd w \<noteq> 48 \<or> tl w = []" "digits f" "f \<noteq> []" "num_end r"
  shows "read_unsigned neg (w @ 46 # f @ 101 # (if x < 0 then 45 else 43) # dec (nat \<bar>x\<bar>) @ r)
    = Some (norm (if neg then - int (parse_dec (w @ f)) else int (parse_dec (w @ f))) (x - int (length f)), r)"
proof -
  let ?e = "101 # (if x < 0 then 45 else 43) # dec (nat \<bar>x\<bar>) @ r"
  have "read_digits (w @ 46 # f @ ?e) = (w, 46 # f @ ?e)"
    using assms(1) by (intro read_digits_append) (auto simp: is_digit_def)
  moreover have "read_fraction (46 # f @ ?e) = Some (f, ?e)"
    using assms by (intro read_fraction_some) (auto simp: is_digit_def)
  ultimately show ?thesis using assms read_exponent_some [OF assms(6), of x]
    by (auto simp: read_unsigned_def Let_def)
qed

lemma parse_dec_zeros: "parse_dec (ds @ replicate j 48) = parse_dec ds * 10 ^ j"
proof (induction j)
  case (Suc j)
  have "ds @ replicate (Suc j) 48 = (ds @ replicate j 48) @ [48]"
    by (simp add: replicate_append_same)
  with Suc show ?case by (simp add: parse_dec_append del: append_assoc)
qed simp

lemma parse_dec_leading: "parse_dec (replicate j 48 @ ds) = parse_dec ds"
  by (induction j) (simp_all add: parse_dec_def)

lemma dec_first: "0 < n \<Longrightarrow> hd (dec n) \<noteq> 48"
proof (induction n rule: dec.induct)
  case (1 n)
  show ?case
  proof (cases "n < 10")
    case False
    with 1 show ?thesis by (simp add: dec.simps [of n] hd_append)
  qed (use 1 in \<open>simp add: dec.simps [of n]\<close>)
qed

lemma digits_parts:
  "digits s \<Longrightarrow> digits (take n s)" "digits s \<Longrightarrow> digits (drop n s)"
  "digits (replicate n 48)" "digits s \<Longrightarrow> digits t \<Longrightarrow> digits (s @ t)"
  by (auto simp: digits_def is_digit_def dest: in_set_takeD in_set_dropD)

lemma signed_shift:
  "0 < k \<Longrightarrow> norm (if neg then - int (k * 10 ^ j) else int (k * 10 ^ j)) e
     = norm (if neg then - int k else int k) (e + int j)"
  using norm_shift [of "- int k" j e] norm_shift [of "int k" j e] by simp

lemma read_pos_string:
  assumes "0 < k" "num_end r"
  shows "read_unsigned neg (pos_string (dec k) e @ r) = Some (norm (if neg then - int k else int k) e, r)"
proof -
  define ds n where "ds = dec k" and "n = int (length ds) + e"
  have ds: "digits ds" "ds \<noteq> []" "hd ds \<noteq> 48" "parse_dec ds = k" "0 < length ds"
    using assms(1) by (simp_all add: ds_def dec_digits_all dec_first)
  consider (plain) "0 \<le> e" "n \<le> 21" | (point) "e < 0" "0 < n" "n \<le> 21" | (small) "e < 0" "-6 < n" "n \<le> 0"
    | (exp) "\<not> (0 \<le> e \<and> n \<le> 21)" "\<not> (0 < n \<and> n \<le> 21)" "\<not> (-6 < n \<and> n \<le> 0)"
    by linarith
  then show ?thesis
  proof cases
    case plain
    then have "pos_string ds e = ds @ replicate (nat e) 48"
      by (simp add: pos_string_def n_def Let_def)
    moreover have "read_unsigned neg ((ds @ replicate (nat e) 48) @ r)
        = Some (norm (if neg then - int (k * 10 ^ nat e) else int (k * 10 ^ nat e)) 0, r)"
      using read_unsigned_plain [of "ds @ replicate (nat e) 48" r neg] ds assms(2)
      by (simp add: digits_parts parse_dec_zeros)
    ultimately show ?thesis using plain signed_shift [OF assms(1), of neg "nat e" 0] by (simp add: ds_def)
  next
    case point
    then have "pos_string ds e = take (nat n) ds @ 46 # drop (nat n) ds" "nat n < length ds" "int (length (drop (nat n) ds)) = - e"
      by (simp_all add: pos_string_def n_def Let_def)
    moreover have "read_unsigned neg (take (nat n) ds @ 46 # drop (nat n) ds @ r)
        = Some (norm (if neg then - int k else int k) (- int (length (drop (nat n) ds))), r)"
      using read_unsigned_fraction [of "take (nat n) ds" "drop (nat n) ds" r neg] ds assms(2) point calculation(2)
      by (simp add: digits_parts)
    ultimately show ?thesis by (simp add: ds_def)
  next
    case small
    let ?z = "replicate (nat (- n)) 48"
    have "pos_string ds e = [48] @ 46 # ?z @ ds" "int (length (?z @ ds)) = - e"
      using small by (simp_all add: pos_string_def n_def Let_def)
    moreover have "parse_dec ([48] @ ?z @ ds) = k"
      using parse_dec_leading [of "Suc (nat (- n))" ds] ds by simp
    moreover have "read_unsigned neg ([48] @ 46 # (?z @ ds) @ r)
        = Some (norm (if neg then - int (parse_dec ([48] @ ?z @ ds)) else int (parse_dec ([48] @ ?z @ ds)))
            (- int (length (?z @ ds))), r)"
      using ds(2) assms(2) digits_parts(4) [OF digits_parts(3) ds(1)] digits_parts(3) [of 1]
      by (intro read_unsigned_fraction) simp_all
    ultimately show ?thesis unfolding ds_def [symmetric] by (simp only: append_assoc append_Cons append_Nil minus_minus)
  next
    case exp
    obtain d t where dt: "ds = d # t" using ds(2) by (cases ds) auto
    have one: "digits [d]" "digits t" using ds(1) dt by (simp_all add: digits_def)
    have str: "pos_string ds e = d # (if t = [] then [] else 46 # t) @ 101 # (if n - 1 < 0 then 45 else 43) # dec (nat \<bar>n - 1\<bar>)"
      using exp dt unfolding pos_string_def n_def Let_def by (auto simp: algebra_simps)
    have k: "parse_dec (d # t) = k" "d \<noteq> 48" using ds dt by simp_all
    have "read_unsigned neg (pos_string ds e @ r) = Some (norm (if neg then - int k else int k) e, r)"
    proof (cases "t = []")
      case True
      have "n - 1 = e" using True dt by (simp add: n_def)
      moreover have "read_unsigned neg ([d] @ 101 # (if n - 1 < 0 then 45 else 43) # dec (nat \<bar>n - 1\<bar>) @ r)
          = Some (norm (if neg then - int (parse_dec [d]) else int (parse_dec [d])) (n - 1), r)"
        using one k assms(2) by (intro read_unsigned_exponent) simp_all
      ultimately show ?thesis using True k(1) by (simp add: str)
    next
      case False
      have "n - 1 - int (length t) = e" using dt by (simp add: n_def)
      moreover have "read_unsigned neg ([d] @ 46 # t @ 101 # (if n - 1 < 0 then 45 else 43) # dec (nat \<bar>n - 1\<bar>) @ r)
          = Some (norm (if neg then - int (parse_dec ([d] @ t)) else int (parse_dec ([d] @ t))) (n - 1 - int (length t)), r)"
        using one k assms(2) False by (intro read_unsigned_both) simp_all
      ultimately show ?thesis using False k(1) by (simp add: str)
    qed
    then show ?thesis by (simp only: ds_def)
  qed
qed

lemma pos_string_first: "\<exists>c t. pos_string (dec k) e = c # t \<and> c \<noteq> 45"
proof -
  obtain c t where ct: "dec k = c # t" by (cases "dec k") auto
  then have c: "c \<noteq> 45" using dec_digits [of c k] by (auto simp: is_digit_def)
  have "take (nat n) (c # t) = c # take (nat n - 1) t" if "0 < n" for n :: int
    using that by (cases "nat n") auto
  with ct c show ?thesis by (simp add: pos_string_def Let_def)
qed

text \<open>Reading a number that was written gives it back, whatever may follow it in a text.\<close>

lemma read_num_string:
  assumes "canonical d" "num_end r"
  shows "read_number (num_string d @ r) = Some (d, r)"
proof (cases d)
  case (Decimal m e)
  show ?thesis
  proof (cases "m = 0")
    case True
    with Decimal assms show ?thesis
      using read_unsigned_plain [of "[48]" r False]
      by (simp add: read_number_def digits_def is_digit_def parse_dec_def norm.simps)
  next
    case False
    obtain c t where ct: "pos_string (dec (nat \<bar>m\<bar>)) e = c # t" "c \<noteq> 45" using pos_string_first by blast
    have "read_unsigned (m < 0) ((c # t) @ r) = Some (Decimal m e, r)"
      using read_pos_string [of "nat \<bar>m\<bar>" r "m < 0" e] False assms Decimal norm_id [of m e]
      by (simp add: ct)
    with False ct Decimal show ?thesis by (cases "m < 0") (simp_all add: read_number_def)
  qed
qed

lemma read_unsigned_canonical: "read_unsigned neg s = Some (d, r) \<Longrightarrow> canonical d"
  by (auto simp: read_unsigned_def Let_def bind_eq_Some_conv split: if_splits prod.splits)

lemma read_number_canonical: "read_number s = Some (d, r) \<Longrightarrow> canonical d"
  by (auto simp: read_number_def read_unsigned_canonical split: list.splits if_splits)

end
