(* ===== verification/Json_Text.thy ===== *)
theory Json_Text
  imports Json_Number "HOL-Library.Monad_Syntax" "HOL-Library.Multiset"
begin

text \<open>
  The text form of JSON: \<open>JSON.stringify(v)\<close>, \<open>JSON.stringify(v, null, 2)\<close> and \<open>JSON.parse\<close> on code units.  Strings
  are escaped as the language does it, lone surrogates included; an object lists its properties in the order
  in which they are enumerated, array indices first.  The reader takes fuel, which \<open>json_parse\<close> provides
  from the length of the text; more fuel reads no more texts (\<open>json_parse_complete\<close>).

  Shown: every value that can come out of the reader is well formed, and reading what was written gives a
  well-formed value back, with and without indentation.
\<close>

section \<open>Strings\<close>

definition high_surrogate :: "code_unit \<Rightarrow> bool" where
  "high_surrogate c \<longleftrightarrow> 55296 \<le> c \<and> c \<le> 56319"

definition low_surrogate :: "code_unit \<Rightarrow> bool" where
  "low_surrogate c \<longleftrightarrow> 56320 \<le> c \<and> c \<le> 57343"

definition hex_char :: "nat \<Rightarrow> code_unit" where
  "hex_char n = (if n < 10 then 48 + n else 87 + n)"

definition hex_value :: "code_unit \<Rightarrow> nat option" where
  "hex_value c = (if 48 \<le> c \<and> c \<le> 57 then Some (c - 48)
     else if 97 \<le> c \<and> c \<le> 102 then Some (c - 87)
     else if 65 \<le> c \<and> c \<le> 70 then Some (c - 55) else None)"

definition u_escape :: "code_unit \<Rightarrow> jsstring" where
  "u_escape c = [92, 117, hex_char (c div 4096), hex_char (c div 256 mod 16), hex_char (c div 16 mod 16), hex_char (c mod 16)]"

definition hex4 :: "code_unit \<Rightarrow> code_unit \<Rightarrow> code_unit \<Rightarrow> code_unit \<Rightarrow> code_unit option" where
  "hex4 a b c d = do {
     w \<leftarrow> hex_value a; x \<leftarrow> hex_value b; y \<leftarrow> hex_value c; z \<leftarrow> hex_value d;
     Some (4096 * w + 256 * x + 16 * y + z)
   }"

text \<open>The escapes of one letter: the letter and the unit it stands for; \<open>/\<close> is only read.\<close>

definition escapes :: "(code_unit \<times> code_unit) list" where
  "escapes = [(8, 98), (9, 116), (10, 110), (12, 102), (13, 114), (34, 34), (92, 92)]"

definition unescape :: "code_unit \<Rightarrow> code_unit option" where
  "unescape e = (if e = 47 then Some 47 else map_of (map prod.swap escapes) e)"

fun quote_units :: "jsstring \<Rightarrow> jsstring" where
  "quote_units [] = []"
| "quote_units (c # s) =
     (case map_of escapes c of
        Some e \<Rightarrow> 92 # e # quote_units s
      | None \<Rightarrow>
          if c < 32 \<or> low_surrogate c then u_escape c @ quote_units s
          else if high_surrogate c then
            (case s of
               d # t \<Rightarrow> if low_surrogate d then c # d # quote_units t else u_escape c @ quote_units s
             | [] \<Rightarrow> u_escape c)
          else c # quote_units s)"

definition quote :: "jsstring \<Rightarrow> jsstring" where
  "quote s = 34 # quote_units s @ [34]"

text \<open>The units up to the closing quote.\<close>

fun read_units :: "jsstring \<Rightarrow> (jsstring \<times> jsstring) option" where
  "read_units [] = None"
| "read_units (c # s) =
     (if c = 34 then Some ([], s)
      else if c < 32 then None
      else if c = 92 then
        (case s of
           [] \<Rightarrow> None
         | e # t \<Rightarrow>
             if e = 117 then
               (case t of
                  h1 # h2 # h3 # h4 # u \<Rightarrow>
                    (case hex4 h1 h2 h3 h4 of
                       None \<Rightarrow> None
                     | Some x \<Rightarrow> map_option (map_prod (Cons x) id) (read_units u))
                | _ \<Rightarrow> None)
             else
               (case unescape e of
                  None \<Rightarrow> None
                | Some x \<Rightarrow> map_option (map_prod (Cons x) id) (read_units t)))
      else map_option (map_prod (Cons c) id) (read_units s))"

lemma hex_value_char: "n < 16 \<Longrightarrow> hex_value (hex_char n) = Some n"
  by (auto simp: hex_value_def hex_char_def)

lemma read_u_escape:
  assumes "c < 65536"
  shows "read_units (u_escape c @ s) = map_option (map_prod (Cons c) id) (read_units s)"
proof -
  have "c = 16 * (c div 16) + c mod 16" "c div 16 = 16 * (c div 256) + c div 16 mod 16"
    "c div 256 = 16 * (c div 4096) + c div 256 mod 16"
    using mult_div_mod_eq [of 16 "c div 16"] mult_div_mod_eq [of 16 "c div 256"]
    by (simp_all add: div_mult2_eq [of c 16 16, simplified] div_mult2_eq [of c 256 16, simplified])
  then have "c = 4096 * (c div 4096) + 256 * (c div 256 mod 16) + 16 * (c div 16 mod 16) + c mod 16" by linarith
  moreover have "c div 4096 < 16" using assms by simp
  ultimately have "hex4 (hex_char (c div 4096)) (hex_char (c div 256 mod 16)) (hex_char (c div 16 mod 16)) (hex_char (c mod 16)) = Some c"
    by (simp add: hex4_def hex_value_char)
  then show ?thesis by (simp add: u_escape_def)
qed

lemma read_escape: "map_of escapes c = Some e \<Longrightarrow> read_units (92 # e # s) = map_option (map_prod (Cons c) id) (read_units s)"
  by (auto simp: escapes_def unescape_def split: if_splits)

lemma read_plain:
  "map_of escapes c = None \<Longrightarrow> 32 \<le> c \<Longrightarrow> read_units (c # s) = map_option (map_prod (Cons c) id) (read_units s)"
  by (auto simp: escapes_def split: if_splits)

lemma surrogate_plain:
  "low_surrogate c \<or> high_surrogate c \<Longrightarrow> 32 \<le> c \<and> c < 65536 \<and> map_of escapes c = None"
  by (auto simp: low_surrogate_def high_surrogate_def escapes_def)

lemma read_close: "read_units (34 # r) = Some ([], r)"
  by simp

lemma read_quote_units: "read_units (quote_units s @ 34 # r) = Some (s, r)"
proof (induction s rule: quote_units.induct)
  case (2 c s)
  show ?case
  proof (cases "map_of escapes c")
    case (Some e)
    with 2 show ?thesis by (simp add: read_escape del: read_units.simps)
  next
    case None
    consider "c < 32 \<or> low_surrogate c" | "32 \<le> c" "\<not> low_surrogate c" "high_surrogate c"
      | "32 \<le> c" "\<not> low_surrogate c" "\<not> high_surrogate c" by linarith
    then show ?thesis
    proof cases
      case 1
      then have "c < 65536" using surrogate_plain [of c] by auto
      with 1 None 2 show ?thesis by (simp add: read_u_escape del: read_units.simps)
    next
      case 2
      then have "c < 65536" using surrogate_plain by blast
      with 2 None "2.IH" surrogate_plain show ?thesis
        by (auto simp: read_u_escape read_plain read_close simp del: read_units.simps split: list.splits)
    next
      case 3
      with None "2.IH" show ?thesis by (simp add: read_plain del: read_units.simps)
    qed
  qed
qed simp

lemma read_units_shorter: "read_units s = Some (x, r) \<Longrightarrow> length r < length s"
proof (induction "length s" arbitrary: s x rule: less_induct)
  case less
  then have IH: "length t < length s \<Longrightarrow> read_units t = Some (y, r) \<Longrightarrow> length r \<le> length t" for t y
    using less_imp_le by blast
  from less.prems show ?case
    by (cases s) (auto split: if_splits list.splits option.splits dest!: IH [rotated])
qed

section \<open>Objects\<close>

text \<open>A key that is an array index; such properties are enumerated first, in ascending order.\<close>

definition is_index :: "jsstring \<Rightarrow> bool" where
  "is_index k \<longleftrightarrow> k = dec (parse_dec k) \<and> parse_dec k < 4294967295"

definition order_props :: "(jsstring \<times> 'v) list \<Rightarrow> (jsstring \<times> 'v) list" where
  "order_props ps = sort_key (\<lambda>p. parse_dec (fst p)) (filter (\<lambda>p. is_index (fst p)) ps) @ filter (\<lambda>p. \<not> is_index (fst p)) ps"

text \<open>The properties of an object whose members are read in turn: a later member replaces the value.\<close>

definition object_of :: "(jsstring \<times> 'v) list \<Rightarrow> (jsstring \<times> 'v) list" where
  "object_of ps = order_props (foldl (\<lambda>m p. map_put m (fst p) (snd p)) [] ps)"

fun json_ok :: "decimal json \<Rightarrow> bool" where
  "json_ok (JNum d) = canonical d"
| "json_ok (JArr vs) = (\<forall>v\<in>set vs. json_ok v)"
| "json_ok (JObj ps) = (distinct (map fst ps) \<and> order_props ps = ps \<and> (\<forall>p\<in>set ps. json_ok (snd p)))"
| "json_ok _ = True"

lemma order_props_idem: "order_props (order_props ps) = order_props ps"
proof -
  let ?i = "filter (\<lambda>p. is_index (fst p)) ps" and ?n = "filter (\<lambda>p. \<not> is_index (fst p)) ps"
  let ?s = "sort_key (\<lambda>p. parse_dec (fst p)) ?i"
  have "filter (\<lambda>p. is_index (fst p)) (?s @ ?n) = ?s" "filter (\<lambda>p. \<not> is_index (fst p)) (?s @ ?n) = ?n"
    by (auto simp: filter_id_conv filter_empty_conv)
  then show ?thesis unfolding order_props_def by (simp add: sort_key_id_if_sorted)
qed

lemma mset_order_props: "mset (order_props ps) = mset ps"
  by (simp add: order_props_def)

lemma put_fresh: "k \<notin> set (map fst m) \<Longrightarrow> map_put m k v = m @ [(k, v)]"
  by (induction m) auto

lemma foldl_put_distinct:
  "distinct (map fst (m @ ps)) \<Longrightarrow> foldl (\<lambda>m p. map_put m (fst p) (snd p)) m ps = m @ ps"
proof (induction ps arbitrary: m)
  case (Cons p ps)
  then have "foldl (\<lambda>m p. map_put m (fst p) (snd p)) m (p # ps) = foldl (\<lambda>m p. map_put m (fst p) (snd p)) (m @ [p]) ps"
    by (simp add: put_fresh)
  also have "\<dots> = (m @ [p]) @ ps" using Cons.prems by (intro Cons.IH) simp
  finally show ?case by simp
qed simp

lemma object_of_id: "distinct (map fst ps) \<Longrightarrow> order_props ps = ps \<Longrightarrow> object_of ps = ps"
  using foldl_put_distinct [of "[]" ps] by (simp add: object_of_def)

lemma set_json_put: "set (map_put m k v) \<subseteq> insert (k, v) (set m)"
  by (induction m) auto

lemma foldl_put_ok:
  "distinct (map fst m) \<Longrightarrow> distinct (map fst (foldl (\<lambda>m p. map_put m (fst p) (snd p)) m ps))
     \<and> set (foldl (\<lambda>m p. map_put m (fst p) (snd p)) m ps) \<subseteq> set m \<union> set ps"
proof (induction ps arbitrary: m)
  case (Cons p ps)
  from Cons.IH [OF distinct_keys_put [OF Cons.prems], of "fst p" "snd p"] set_json_put [of "fst p" "snd p" m]
  show ?case by auto
qed simp

lemma object_of_ok: "distinct (map fst (object_of ps)) \<and> order_props (object_of ps) = object_of ps \<and> set (object_of ps) \<subseteq> set ps"
proof -
  define m where "m = foldl (\<lambda>m p. map_put m (fst p) (snd p)) [] ps"
  have o: "object_of ps = order_props m" by (simp add: object_of_def m_def)
  have "mset (map fst (order_props m)) = mset (map fst m)" by (simp only: mset_map mset_order_props)
  then have "distinct (map fst (order_props m)) = distinct (map fst m)" by (rule mset_eq_imp_distinct_iff)
  moreover have "set (order_props m) = set m" by (rule mset_eq_setD [OF mset_order_props])
  moreover have "distinct (map fst m)" "set m \<subseteq> set ps"
    using foldl_put_ok [of "[]" ps] by (simp_all add: m_def)
  ultimately show ?thesis by (simp add: o order_props_idem)
qed

section \<open>Writing and reading values\<close>

text \<open>The line break between the parts of an array or object: none without indentation.\<close>

definition line_break :: "bool \<Rightarrow> nat \<Rightarrow> jsstring" where
  "line_break ind l = (if ind then 10 # replicate (2 * l) 32 else [])"

fun json_write :: "bool \<Rightarrow> nat \<Rightarrow> decimal json \<Rightarrow> jsstring" where
  "json_write ind l JNull = js ''null''"
| "json_write ind l (JBool b) = (if b then js ''true'' else js ''false'')"
| "json_write ind l (JNum d) = num_string d"
| "json_write ind l (JStr s) = quote s"
| "json_write ind l (JArr vs) =
     (if vs = [] then [91, 93]
      else 91 # line_break ind (Suc l) @ join (44 # line_break ind (Suc l)) (map (json_write ind (Suc l)) vs)
             @ line_break ind l @ [93])"
| "json_write ind l (JObj ps) =
     (if ps = [] then [123, 125]
      else 123 # line_break ind (Suc l)
             @ join (44 # line_break ind (Suc l))
                 (map (\<lambda>p. quote (fst p) @ 58 # (if ind then [32] else []) @ json_write ind (Suc l) (snd p)) ps)
             @ line_break ind l @ [125])"

definition json_stringify :: "decimal json \<Rightarrow> jsstring" where
  "json_stringify v = json_write False 0 v"

definition json_indented :: "decimal json \<Rightarrow> jsstring" where
  "json_indented v = json_write True 0 v"

definition json_space :: "code_unit \<Rightarrow> bool" where
  "json_space c \<longleftrightarrow> c \<in> {9, 10, 13, 32}"

definition skip :: "jsstring \<Rightarrow> jsstring" where
  "skip s = dropWhile json_space s"

fun read_value :: "nat \<Rightarrow> jsstring \<Rightarrow> (decimal json \<times> jsstring) option"
  and read_elems :: "nat \<Rightarrow> jsstring \<Rightarrow> (decimal json list \<times> jsstring) option"
  and read_members :: "nat \<Rightarrow> jsstring \<Rightarrow> ((jsstring \<times> decimal json) list \<times> jsstring) option" where
  "read_value 0 s = None"
| "read_value (Suc n) s =
     (case s of
        [] \<Rightarrow> None
      | c # t \<Rightarrow>
          if c = 34 then map_option (map_prod JStr id) (read_units t)
          else if c = 91 then
            (if skip t \<noteq> [] \<and> hd (skip t) = 93 then Some (JArr [], tl (skip t))
             else map_option (map_prod JArr id) (read_elems n (skip t)))
          else if c = 123 then
            (if skip t \<noteq> [] \<and> hd (skip t) = 125 then Some (JObj [], tl (skip t))
             else map_option (map_prod (JObj \<circ> object_of) id) (read_members n (skip t)))
          else if prefix (js ''null'') s then Some (JNull, drop 4 s)
          else if prefix (js ''true'') s then Some (JBool True, drop 4 s)
          else if prefix (js ''false'') s then Some (JBool False, drop 5 s)
          else map_option (map_prod JNum id) (read_number s))"
| "read_elems 0 s = None"
| "read_elems (Suc n) s =
     (case read_value n s of
        None \<Rightarrow> None
      | Some (v, r) \<Rightarrow>
          (case skip r of
             [] \<Rightarrow> None
           | c # t \<Rightarrow>
               if c = 44 then map_option (map_prod (Cons v) id) (read_elems n (skip t))
               else if c = 93 then Some ([v], t) else None))"
| "read_members 0 s = None"
| "read_members (Suc n) s =
     (case s of
        [] \<Rightarrow> None
      | q # s' \<Rightarrow>
          if q \<noteq> 34 then None
          else case read_units s' of
            None \<Rightarrow> None
          | Some (k, r) \<Rightarrow>
              if skip r = [] \<or> hd (skip r) \<noteq> 58 then None
              else case read_value n (skip (tl (skip r))) of
                None \<Rightarrow> None
              | Some (v, r) \<Rightarrow>
                  (case skip r of
                     [] \<Rightarrow> None
                   | c # t \<Rightarrow>
                       if c = 44 then map_option (map_prod (Cons (k, v)) id) (read_members n (skip t))
                       else if c = 125 then Some ([(k, v)], t) else None))"

definition json_parse :: "jsstring \<Rightarrow> decimal json option" where
  "json_parse s = (case read_value (2 * length s + 1) (skip s) of
     None \<Rightarrow> None | Some (v, r) \<Rightarrow> if skip r = [] then Some v else None)"

declare read_value.simps [simp del] read_elems.simps [simp del] read_members.simps [simp del]

section \<open>What is read is well formed, and fuel does not matter\<close>

text \<open>One step of each reader: what it reads, on which shorter text it continues, and that it does the same
  with any fuel that lets it continue.\<close>

lemma skip_shorter: "length (skip s) \<le> length s"
  by (simp add: skip_def length_dropWhile_le)

lemma dropWhile_digit_shorter: "length (dropWhile is_digit s) \<le> length s"
  by (rule length_dropWhile_le)

lemma read_fraction_shorter: "read_fraction s = Some (f, r) \<Longrightarrow> length r \<le> length s"
  using dropWhile_digit_shorter [of "tl s"]
  by (auto simp: read_fraction_def read_digits_def split: list.splits if_splits)

lemma read_exponent_shorter: "read_exponent s = Some (x, r) \<Longrightarrow> length r \<le> length s"
  using dropWhile_digit_shorter [of "tl s"] dropWhile_digit_shorter [of "tl (tl s)"]
  by (auto simp: read_exponent_def read_digits_def Let_def split: list.splits if_splits)

lemma read_unsigned_shorter: "read_unsigned neg s = Some (d, r) \<Longrightarrow> length r < length s"
proof -
  assume a: "read_unsigned neg s = Some (d, r)"
  then have "takeWhile is_digit s \<noteq> []"
    by (auto simp: read_unsigned_def read_digits_def Let_def)
  then have "length (dropWhile is_digit s) < length s"
    by (metis length_append length_greater_0_conv less_add_same_cancel2 takeWhile_dropWhile_id)
  with a show ?thesis
    by (auto simp: read_unsigned_def read_digits_def Let_def bind_eq_Some_conv split: if_splits
        dest!: read_fraction_shorter read_exponent_shorter)
qed

lemma read_number_shorter: "read_number s = Some (d, r) \<Longrightarrow> length r < length s"
  by (auto simp: read_number_def split: list.splits if_splits dest: read_unsigned_shorter)

definition leaf :: "decimal json \<Rightarrow> bool" where
  "leaf v \<longleftrightarrow> json_ok v \<and> (case v of JArr vs \<Rightarrow> vs = [] | JObj ps \<Rightarrow> ps = [] | _ \<Rightarrow> True)"

lemma read_value_step:
  assumes "read_value (Suc n) s = Some (v, r)"
  shows "leaf v \<and> length r < length s \<and> (\<forall>m. read_value (Suc m) s = Some (v, r))
    \<or> (\<exists>vs t. v = JArr vs \<and> read_elems n t = Some (vs, r) \<and> length t < length s
         \<and> (\<forall>m. read_elems m t = Some (vs, r) \<longrightarrow> read_value (Suc m) s = Some (v, r)))
    \<or> (\<exists>ps t. v = JObj (object_of ps) \<and> read_members n t = Some (ps, r) \<and> length t < length s
         \<and> (\<forall>m. read_members m t = Some (ps, r) \<longrightarrow> read_value (Suc m) s = Some (v, r)))"
proof (cases s)
  case (Cons c t)
  have sk: "length (skip t) < length s" "length (tl (skip t)) < length s"
    using skip_shorter [of t] Cons by auto
  consider (str) "c = 34" | (arr) "c = 91" | (obj) "c = 123" | (other) "c \<notin> {34, 91, 123}" by blast
  then show ?thesis
  proof cases
    case str
    then show ?thesis using assms Cons
      by (auto simp: read_value.simps leaf_def dest: read_units_shorter)
  next
    case arr
    show ?thesis
    proof (cases "skip t \<noteq> [] \<and> hd (skip t) = 93")
      case True
      with arr assms Cons sk show ?thesis by (auto simp: read_value.simps leaf_def)
    next
      case False
      with arr assms Cons obtain vs where "v = JArr vs" "read_elems n (skip t) = Some (vs, r)"
        by (auto simp: read_value.simps)
      moreover from this have "\<forall>m. read_elems m (skip t) = Some (vs, r) \<longrightarrow> read_value (Suc m) s = Some (v, r)"
        using False arr Cons by (auto simp: read_value.simps)
      ultimately show ?thesis using sk by blast
    qed
  next
    case obj
    show ?thesis
    proof (cases "skip t \<noteq> [] \<and> hd (skip t) = 125")
      case True
      with obj assms Cons sk show ?thesis by (auto simp: read_value.simps leaf_def order_props_def)
    next
      case False
      with obj assms Cons obtain ps where "v = JObj (object_of ps)" "read_members n (skip t) = Some (ps, r)"
        by (auto simp: read_value.simps)
      moreover from this have "\<forall>m. read_members m (skip t) = Some (ps, r) \<longrightarrow> read_value (Suc m) s = Some (v, r)"
        using False obj Cons by (auto simp: read_value.simps)
      ultimately show ?thesis using sk by blast
    qed
  next
    case other
    have "leaf v \<and> length r < length s" using other assms Cons
      by (auto simp: read_value.simps leaf_def read_number_canonical split: if_splits dest: read_number_shorter)
    moreover have "\<forall>m. read_value (Suc m) s = Some (v, r)" using other assms Cons by (simp add: read_value.simps)
    ultimately show ?thesis by blast
  qed
qed (use assms in \<open>simp add: read_value.simps\<close>)

lemma read_elems_step:
  assumes "read_elems (Suc n) s = Some (vs, r)"
  obtains v r1 where "read_value n s = Some (v, r1)" "vs = [v]" "length r < length r1"
      "\<And>m. read_value m s = Some (v, r1) \<Longrightarrow> read_elems (Suc m) s = Some (vs, r)"
  | v r1 t us where "read_value n s = Some (v, r1)" "length t < length r1" "read_elems n t = Some (us, r)" "vs = v # us"
      "\<And>m. read_value m s = Some (v, r1) \<Longrightarrow> read_elems m t = Some (us, r) \<Longrightarrow> read_elems (Suc m) s = Some (vs, r)"
proof -
  obtain v r1 where v: "read_value n s = Some (v, r1)"
    using assms by (auto simp: read_elems.simps split: option.splits)
  obtain c t where ct: "skip r1 = c # t" using assms v by (auto simp: read_elems.simps split: list.splits)
  have t: "length t < length r1" "length (skip t) < length r1"
    using skip_shorter [of r1] skip_shorter [of t] ct by auto
  show thesis
  proof (cases "c = 44")
    case True
    with assms v ct obtain us where "read_elems n (skip t) = Some (us, r)" "vs = v # us"
      by (auto simp: read_elems.simps)
    with True v ct t(2) show thesis by (intro that(2) [of v r1 "skip t" us]) (simp_all add: read_elems.simps)
  next
    case False
    with assms v ct have "vs = [v]" "r = t" "c = 93" by (simp_all add: read_elems.simps split: if_splits)
    with False v ct t(1) show thesis by (intro that(1) [of v r1]) (simp_all add: read_elems.simps)
  qed
qed

lemma read_members_step:
  assumes "read_members (Suc n) s = Some (ps, r)"
  obtains k s1 v r1 where "length s1 < length s" "read_value n s1 = Some (v, r1)" "ps = [(k, v)]" "length r < length r1"
      "\<And>m. read_value m s1 = Some (v, r1) \<Longrightarrow> read_members (Suc m) s = Some (ps, r)"
  | k s1 v r1 t us where "length s1 < length s" "read_value n s1 = Some (v, r1)" "length t < length r1"
      "read_members n t = Some (us, r)" "ps = (k, v) # us"
      "\<And>m. read_value m s1 = Some (v, r1) \<Longrightarrow> read_members m t = Some (us, r) \<Longrightarrow> read_members (Suc m) s = Some (ps, r)"
proof -
  obtain s' k r0 where k: "s = 34 # s'" "read_units s' = Some (k, r0)" "skip r0 \<noteq> []" "hd (skip r0) = 58"
    using assms by (auto simp: read_members.simps split: list.splits option.splits if_splits)
  define s1 where "s1 = skip (tl (skip r0))"
  have s1: "length s1 < length s"
    using k read_units_shorter [of s'] skip_shorter [of r0] skip_shorter [of "tl (skip r0)"] by (fastforce simp: s1_def)
  obtain v r1 where v: "read_value n s1 = Some (v, r1)"
    using assms k by (auto simp: read_members.simps s1_def split: option.splits)
  obtain c t where ct: "skip r1 = c # t" using assms k v by (auto simp: read_members.simps s1_def split: list.splits)
  have t: "length t < length r1" "length (skip t) < length r1"
    using skip_shorter [of r1] skip_shorter [of t] ct by auto
  have any: "read_members (Suc m) s = (if c = 44 then map_option (map_prod (Cons (k, v)) id) (read_members m (skip t))
      else if c = 125 then Some ([(k, v)], t) else None)" if "read_value m s1 = Some (v, r1)" for m
    using k ct that by (simp add: read_members.simps s1_def)
  show thesis
  proof (cases "c = 44")
    case True
    with assms any [OF v] obtain us where "read_members n (skip t) = Some (us, r)" "ps = (k, v) # us" by auto
    with True s1 v t(2) any show thesis by (intro that(2) [of s1 v r1 "skip t" us k]) simp_all
  next
    case False
    with assms any [OF v] have "ps = [(k, v)]" "r = t" "c = 125" by (simp_all split: if_splits)
    with False s1 v t(1) any show thesis by (intro that(1) [of s1 v r1 k]) simp_all
  qed
qed

text \<open>With fuel \<open>n\<close> a reader is sound: it returns well-formed values and a shorter rest, and returns the same
  with any fuel that is at least twice the length of the text.\<close>

definition value_sound :: "nat \<Rightarrow> bool" where
  "value_sound n \<longleftrightarrow> (\<forall>s v r. read_value n s = Some (v, r) \<longrightarrow>
     json_ok v \<and> length r < length s \<and> (\<forall>m. 2 * length s \<le> m \<longrightarrow> read_value m s = Some (v, r)))"

definition elems_sound :: "nat \<Rightarrow> bool" where
  "elems_sound n \<longleftrightarrow> (\<forall>s vs r. read_elems n s = Some (vs, r) \<longrightarrow>
     (\<forall>v\<in>set vs. json_ok v) \<and> length r < length s \<and> (\<forall>m. 2 * length s < m \<longrightarrow> read_elems m s = Some (vs, r)))"

definition members_sound :: "nat \<Rightarrow> bool" where
  "members_sound n \<longleftrightarrow> (\<forall>s ps r. read_members n s = Some (ps, r) \<longrightarrow>
     (\<forall>p\<in>set ps. json_ok (snd p)) \<and> length r < length s \<and> (\<forall>m. 2 * length s < m \<longrightarrow> read_members m s = Some (ps, r)))"

lemma value_soundD:
  assumes "value_sound n" "read_value n s = Some (v, r)"
  shows "json_ok v" "length r < length s" "2 * length s \<le> m \<Longrightarrow> read_value m s = Some (v, r)"
  using assms unfolding value_sound_def by blast+

lemma elems_soundD:
  assumes "elems_sound n" "read_elems n s = Some (vs, r)"
  shows "\<forall>v\<in>set vs. json_ok v" "length r < length s" "2 * length s < m \<Longrightarrow> read_elems m s = Some (vs, r)"
  using assms unfolding elems_sound_def by blast+

lemma members_soundD:
  assumes "members_sound n" "read_members n s = Some (ps, r)"
  shows "\<forall>p\<in>set ps. json_ok (snd p)" "length r < length s" "2 * length s < m \<Longrightarrow> read_members m s = Some (ps, r)"
  using assms unfolding members_sound_def by blast+

lemma value_sound_Suc:
  assumes "elems_sound n" "members_sound n"
  shows "value_sound (Suc n)"
  unfolding value_sound_def
proof (intro allI impI)
  fix s v r assume "read_value (Suc n) s = Some (v, r)"
  then have "json_ok v \<and> length r < length s \<and> (\<forall>m. 2 * length s \<le> Suc m \<longrightarrow> read_value (Suc m) s = Some (v, r))"
  proof (elim read_value_step [THEN disjE] disjE exE conjE)
    assume "leaf v" "length r < length s" "\<forall>m. read_value (Suc m) s = Some (v, r)"
    then show ?thesis by (simp add: leaf_def)
  next
    fix us t assume t: "v = JArr us" "read_elems n t = Some (us, r)" "length t < length s"
      "\<forall>m. read_elems m t = Some (us, r) \<longrightarrow> read_value (Suc m) s = Some (v, r)"
    note E = elems_soundD [OF assms(1) t(2)]
    have "read_value (Suc m) s = Some (v, r)" if "2 * length s \<le> Suc m" for m
      using that t(3) E(3) [of m] t(4) by simp
    with t(1,3) E(1,2) show ?thesis by simp
  next
    fix us t assume t: "v = JObj (object_of us)" "read_members n t = Some (us, r)" "length t < length s"
      "\<forall>m. read_members m t = Some (us, r) \<longrightarrow> read_value (Suc m) s = Some (v, r)"
    note M = members_soundD [OF assms(2) t(2)]
    have "read_value (Suc m) s = Some (v, r)" if "2 * length s \<le> Suc m" for m
      using that t(3) M(3) [of m] t(4) by simp
    moreover have "json_ok v" using t(1) M(1) object_of_ok [of us] by auto
    ultimately show ?thesis using t(3) M(2) by simp
  qed
  then show "json_ok v \<and> length r < length s \<and> (\<forall>m. 2 * length s \<le> m \<longrightarrow> read_value m s = Some (v, r))"
    using not0_implies_Suc by (metis le_zero_eq length_0_conv less_nat_zero_code list.size(3) mult_eq_0_iff zero_neq_numeral)
qed

lemma elems_sound_Suc:
  assumes "value_sound n" "elems_sound n"
  shows "elems_sound (Suc n)"
  unfolding elems_sound_def
proof (intro allI impI)
  fix s vs r assume "read_elems (Suc n) s = Some (vs, r)"
  then show "(\<forall>v\<in>set vs. json_ok v) \<and> length r < length s \<and> (\<forall>m. 2 * length s < m \<longrightarrow> read_elems m s = Some (vs, r))"
  proof (cases rule: read_elems_step)
    case (1 v r1)
    note V = value_soundD [OF assms(1) 1(1)]
    have "read_elems m s = Some (vs, r)" if "2 * length s < m" for m
    proof (cases m)
      case (Suc k)
      with that show ?thesis using 1(4) [OF V(3)] by simp
    qed (use that in simp)
    with 1(2,3) V(1,2) show ?thesis by simp
  next
    case (2 v r1 t us)
    note V = value_soundD [OF assms(1) 2(1)] and E = elems_soundD [OF assms(2) 2(3)]
    have "read_elems m s = Some (vs, r)" if "2 * length s < m" for m
    proof (cases m)
      case (Suc k)
      with that V(2) 2(2) show ?thesis using 2(5) [OF V(3) E(3)] by simp
    qed (use that in simp)
    with 2(2,4) V(1,2) E(1,2) show ?thesis by simp
  qed
qed

lemma members_sound_Suc:
  assumes "value_sound n" "members_sound n"
  shows "members_sound (Suc n)"
  unfolding members_sound_def
proof (intro allI impI)
  fix s ps r assume "read_members (Suc n) s = Some (ps, r)"
  then show "(\<forall>p\<in>set ps. json_ok (snd p)) \<and> length r < length s \<and> (\<forall>m. 2 * length s < m \<longrightarrow> read_members m s = Some (ps, r))"
  proof (cases rule: read_members_step)
    case (1 k s1 v r1)
    note V = value_soundD [OF assms(1) 1(2)]
    have "read_members m s = Some (ps, r)" if "2 * length s < m" for m
    proof (cases m)
      case (Suc k)
      with that 1(1) show ?thesis using 1(5) [OF V(3)] by simp
    qed (use that in simp)
    with 1(1,3,4) V(1,2) show ?thesis by simp
  next
    case (2 k s1 v r1 t us)
    note V = value_soundD [OF assms(1) 2(2)] and M = members_soundD [OF assms(2) 2(4)]
    have "read_members m s = Some (ps, r)" if "2 * length s < m" for m
    proof (cases m)
      case (Suc k)
      with that V(2) 2(1,3) show ?thesis using 2(6) [OF V(3) M(3)] by simp
    qed (use that in simp)
    with 2(1,3,5) V(1,2) M(1,2) show ?thesis by simp
  qed
qed

lemma read_sound: "value_sound n \<and> elems_sound n \<and> members_sound n"
proof (induction n)
  case 0
  show ?case
    by (simp add: value_sound_def elems_sound_def members_sound_def read_value.simps read_elems.simps read_members.simps)
qed (simp add: value_sound_Suc elems_sound_Suc members_sound_Suc)

text \<open>Values read are well formed; the fuel of \<open>json_parse\<close> reads every text that some fuel reads.\<close>

lemma json_parse_ok: "json_parse s = Some v \<Longrightarrow> json_ok v"
  using value_soundD(1) read_sound by (auto simp: json_parse_def split: option.splits if_splits)

lemma json_parse_complete:
  assumes "read_value n (skip s) = Some (v, r)" "skip r = []"
  shows "json_parse s = Some v"
proof -
  have "read_value (2 * length s + 1) (skip s) = Some (v, r)"
    using value_soundD(3) [OF _ assms(1)] read_sound skip_shorter [of s] by simp
  with assms(2) show ?thesis by (simp add: json_parse_def)
qed

section \<open>Reading what was written\<close>

lemma skip_break: "skip (line_break ind l @ s) = skip s"
  by (auto simp: skip_def line_break_def json_space_def dropWhile_append)

lemma skip_id: "s = [] \<or> \<not> json_space (hd s) \<Longrightarrow> skip s = s"
  by (auto simp: skip_def intro: dropWhile_id)

text \<open>The first unit of a value: never a space, and none that closes an array or object.\<close>

definition opens :: "code_unit \<Rightarrow> bool" where
  "opens c \<longleftrightarrow> c \<in> {34, 45, 91, 102, 110, 116, 123} \<or> is_digit c"

lemma num_first: "\<exists>c t. num_string d = c # t \<and> (c = 45 \<or> is_digit c)"
proof (cases d)
  case (Decimal m e)
  obtain c t where ct: "dec (nat \<bar>m\<bar>) = c # t" by (cases "dec (nat \<bar>m\<bar>)") auto
  then have c: "is_digit c" using dec_digits [of c "nat \<bar>m\<bar>"] by auto
  have "take (nat n) (c # t) = c # take (nat n - 1) t" if "0 < n" for n :: int
    using that by (cases "nat n") auto
  with Decimal ct c show ?thesis by (simp add: pos_string_def Let_def is_digit_def)
qed

lemma write_first: "\<exists>c t. json_write ind l v = c # t \<and> opens c"
proof (cases v)
  case (JNum d)
  with num_first [of d] show ?thesis by (auto simp: opens_def)
qed (auto simp: opens_def quote_def)

lemma opens_simps: "opens c \<Longrightarrow> \<not> json_space c \<and> c \<noteq> 93 \<and> c \<noteq> 125"
  by (auto simp: opens_def json_space_def is_digit_def)

lemma skip_write [simp]: "skip (json_write ind l v @ s) = json_write ind l v @ s"
  using write_first [of ind l v] by (auto intro!: skip_id dest: opens_simps)

lemma skip_quote [simp]: "skip (quote k @ s) = quote k @ s"
  by (auto intro!: skip_id simp: quote_def json_space_def)

lemma read_quote_value: "read_value (Suc n) (quote s @ r) = Some (JStr s, r)"
  by (simp add: read_value.simps quote_def read_quote_units)

lemma read_num_value:
  assumes "canonical d" "num_end r"
  shows "read_value (Suc n) (num_string d @ r) = Some (JNum d, r)"
proof -
  obtain c t where "num_string d = c # t" "c = 45 \<or> is_digit c" using num_first by blast
  with read_num_string [OF assms] show ?thesis by (auto simp: read_value.simps is_digit_def)
qed

lemma num_end_break [simp]: "num_end (line_break ind l @ 93 # r)" "num_end (line_break ind l @ 125 # r)" "num_end (44 # r)"
  by (simp_all add: num_end_def line_break_def is_digit_def)

lemma skip_close [simp]:
  "skip (93 # r) = 93 # r" "skip (125 # r) = 125 # r" "skip (44 # r) = 44 # r" "skip (58 # r) = 58 # r" "skip (32 # s) = skip s"
  by (simp_all add: skip_def json_space_def)

text \<open>The elements of an array and the members of an object, each of which is read back.\<close>

definition member_text :: "bool \<Rightarrow> nat \<Rightarrow> jsstring \<times> decimal json \<Rightarrow> jsstring" where
  "member_text ind l p = quote (fst p) @ 58 # (if ind then [32] else []) @ json_write ind l (snd p)"

lemma read_elems_written:
  assumes "vs \<noteq> []" "length (join (44 # line_break ind l) (map (json_write ind l) vs)) < n"
    and "\<And>v n r. v \<in> set vs \<Longrightarrow> length (json_write ind l v) \<le> n \<Longrightarrow> num_end r \<Longrightarrow> read_value n (json_write ind l v @ r) = Some (v, r)"
  shows "read_elems n (join (44 # line_break ind l) (map (json_write ind l) vs) @ line_break ind k @ 93 # r) = Some (vs, r)"
  using assms
proof (induction vs arbitrary: n)
  case (Cons v vs)
  then obtain m where n: "n = Suc m" by (cases n) auto
  show ?case
  proof (cases vs)
    case Nil
    with Cons.prems n Cons.prems(3) [of v m "line_break ind k @ 93 # r"] show ?thesis
      by (simp add: read_elems.simps skip_break)
  next
    case (Cons u us)
    let ?rest = "join (44 # line_break ind l) (map (json_write ind l) vs) @ line_break ind k @ 93 # r"
    have "read_value m (json_write ind l v @ 44 # line_break ind l @ ?rest) = Some (v, 44 # line_break ind l @ ?rest)"
      using Cons.prems(3) [of v m "44 # line_break ind l @ ?rest"] Cons.prems(2) Cons n by simp
    moreover have "read_elems m ?rest = Some (vs, r)"
      using Cons.IH [of m] Cons.prems(2,3) Cons n by simp
    moreover have "skip (line_break ind l @ ?rest) = ?rest"
      using Cons by (cases us) (simp_all add: skip_break)
    ultimately show ?thesis using Cons n by (simp add: read_elems.simps)
  qed
qed simp

lemma read_member:
  assumes "read_value n (json_write ind l v @ r) = Some (v, r)"
  shows "read_members (Suc n) (member_text ind l (k, v) @ r) =
    (case skip r of
       [] \<Rightarrow> None
     | c # t \<Rightarrow>
         if c = 44 then map_option (map_prod (Cons (k, v)) id) (read_members n (skip t))
         else if c = 125 then Some ([(k, v)], t) else None)"
  using assms by (cases ind) (simp_all add: read_members.simps member_text_def quote_def read_quote_units)

lemma skip_member [simp]: "skip (member_text ind l p @ s) = member_text ind l p @ s"
  by (simp add: member_text_def)

lemma read_members_written:
  assumes "ps \<noteq> []" "length (join (44 # line_break ind l) (map (member_text ind l) ps)) < n"
    and "\<And>p n r. p \<in> set ps \<Longrightarrow> length (json_write ind l (snd p)) \<le> n \<Longrightarrow> num_end r
      \<Longrightarrow> read_value n (json_write ind l (snd p) @ r) = Some (snd p, r)"
  shows "read_members n (join (44 # line_break ind l) (map (member_text ind l) ps) @ line_break ind k @ 125 # r) = Some (ps, r)"
  using assms
proof (induction ps arbitrary: n)
  case (Cons p ps)
  then obtain m where n: "n = Suc m" by (cases n) auto
  have len: "length (json_write ind l (snd p)) \<le> length (member_text ind l p)" by (simp add: member_text_def)
  show ?case
  proof (cases ps)
    case Nil
    have "read_value m (json_write ind l (snd p) @ line_break ind k @ 125 # r) = Some (snd p, line_break ind k @ 125 # r)"
      using Cons.prems(2) len n Nil by (intro Cons.prems(3)) simp_all
    from read_member [OF this, of "fst p"] Nil n show ?thesis by (simp add: skip_break)
  next
    case (Cons q qs)
    let ?rest = "join (44 # line_break ind l) (map (member_text ind l) ps) @ line_break ind k @ 125 # r"
    have "read_value m (json_write ind l (snd p) @ 44 # line_break ind l @ ?rest) = Some (snd p, 44 # line_break ind l @ ?rest)"
      using Cons.prems(2) len n Cons by (intro Cons.prems(3)) simp_all
    note head = read_member [OF this, of "fst p"]
    moreover have "read_members m ?rest = Some (ps, r)"
      using Cons.IH [of m] Cons.prems(2,3) Cons n by simp
    moreover have "skip (line_break ind l @ ?rest) = ?rest"
      using Cons by (cases qs) (simp_all add: skip_break)
    ultimately show ?thesis using Cons n by simp
  qed
qed simp

lemma read_written:
  "json_ok v \<Longrightarrow> length (json_write ind l v) \<le> n \<Longrightarrow> num_end r \<Longrightarrow> read_value n (json_write ind l v @ r) = Some (v, r)"
proof (induction ind l v arbitrary: n r rule: json_write.induct)
  case (5 ind l vs)
  let ?b = "line_break ind (Suc l)"
  show ?case
  proof (cases "vs = []")
    case True
    with 5 show ?thesis by (cases n) (simp_all add: read_value.simps)
  next
    case False
    let ?t = "join (44 # ?b) (map (json_write ind (Suc l)) vs) @ line_break ind l @ 93 # r"
    obtain m where n: "n = Suc m" "length (join (44 # ?b) (map (json_write ind (Suc l)) vs)) < m"
      using 5(3) False by (cases n) auto
    have "read_elems m ?t = Some (vs, r)"
      using 5 False n(2) by (intro read_elems_written) auto
    moreover have "\<exists>c u. ?t = c # u \<and> opens c"
      using False write_first [of ind "Suc l" "hd vs"] by (cases vs; cases "tl vs") auto
    then have "skip (?b @ ?t) = ?t" "hd ?t \<noteq> 93"
      by (auto simp: skip_break dest: opens_simps intro!: skip_id)
    ultimately show ?thesis using False n by (simp add: read_value.simps)
  qed
next
  case (6 ind l ps)
  let ?b = "line_break ind (Suc l)"
  show ?case
  proof (cases "ps = []")
    case True
    with 6 show ?thesis by (cases n) (simp_all add: read_value.simps)
  next
    case False
    let ?t = "join (44 # ?b) (map (member_text ind (Suc l)) ps) @ line_break ind l @ 125 # r"
    have w: "json_write ind l (JObj ps) @ r = 123 # ?b @ ?t"
      using False by (simp add: member_text_def [abs_def])
    obtain m where n: "n = Suc m" "length (join (44 # ?b) (map (member_text ind (Suc l)) ps)) < m"
      using 6(3) False by (cases n) (auto simp: member_text_def [abs_def])
    have "read_members m ?t = Some (ps, r)"
      using 6 False n(2) by (intro read_members_written) auto
    moreover have "\<exists>u. ?t = 34 # u" using False by (cases ps; cases "tl ps") (auto simp: member_text_def quote_def)
    then have "skip (?b @ ?t) = ?t" "hd ?t \<noteq> 125"
      by (auto simp: skip_break json_space_def intro!: skip_id)
    moreover have "object_of ps = ps" using 6(2) by (simp add: object_of_id)
    ultimately show ?thesis using False n(1) unfolding w by (simp add: read_value.simps)
  qed
next
  case (3 ind l d)
  then show ?case using num_first [of d] by (cases n) (auto simp: read_num_value)
next
  case (4 ind l s)
  then show ?case by (cases n) (simp_all add: read_quote_value, simp add: quote_def)
next
  case (1 ind l)
  then show ?case by (cases n) (simp_all add: read_value.simps)
next
  case (2 ind l b)
  then show ?case by (cases n; cases b) (simp_all add: read_value.simps)
qed

text \<open>Reading a written value gives it back.\<close>

lemma parse_written:
  assumes "json_ok v"
  shows "json_parse (json_write ind l v) = Some v"
proof (rule json_parse_complete)
  show "read_value (length (json_write ind l v)) (skip (json_write ind l v)) = Some (v, [])"
    using read_written [OF assms, of ind l "length (json_write ind l v)" "[]"] skip_write [of ind l v "[]"]
    by (simp add: num_end_def)
qed (simp add: skip_def)

lemma parse_stringify: "json_ok v \<Longrightarrow> json_parse (json_stringify v) = Some v"
  by (simp add: json_stringify_def parse_written)

lemma parse_indented: "json_ok v \<Longrightarrow> json_parse (json_indented v) = Some v"
  by (simp add: json_indented_def parse_written)

end
