(* ===== verification/Param_Override.thy ===== *)
theory Param_Override
  imports Json_Text Channel_Routes_Server
begin

text \<open>
  The editor of request parameter overrides, the part of
  \<open>features/channels/components/dialogs/param-override-editor-dialog.tsx\<close> above the component: rules and their
  conditions, how they are read from the stored text, validated and written, and the drafts of the values of
  \<open>return_error\<close> and \<open>prune_objects\<close> rules.  \<open>JSON.parse\<close> and \<open>JSON.stringify\<close> are those of \<open>Json_Text\<close>.  Every
  rule, condition and draft rule gets an identifier from the clock and the module counter \<open>localIdSeed\<close>, which is
  passed along; the clock is any function of the counter.
\<close>

section \<open>Values of the language\<close>

text \<open>\<open>String(v)\<close>; \<open>null\<close> and \<open>undefined\<close> are empty inside an array.\<close>

fun json_String :: "decimal json \<Rightarrow> jsstring" where
  "json_String JNull = js ''null''"
| "json_String (JBool b) = (if b then js ''true'' else js ''false'')"
| "json_String (JNum d) = num_string d"
| "json_String (JStr s) = s"
| "json_String (JArr vs) = join [44] (map (\<lambda>v. if v = JNull then [] else json_String v) vs)"
| "json_String (JObj ps) = js ''[object Object]''"

text \<open>\<open>Number(s)\<close> on a string: blank is zero, a prefix gives the radix; \<open>None\<close> is \<open>NaN\<close> or infinite.\<close>

definition radix_digits :: "nat \<Rightarrow> jsstring \<Rightarrow> decimal option" where
  "radix_digits b s = (if s \<noteq> [] \<and> (\<forall>c\<in>set s. case hex_value c of None \<Rightarrow> False | Some d \<Rightarrow> d < b)
     then Some (norm (int (foldl (\<lambda>n c. b * n + the (hex_value c)) 0 s)) 0) else None)"

definition decimal_literal :: "bool \<Rightarrow> jsstring \<Rightarrow> decimal option" where
  "decimal_literal neg s =
     (let (w, r) = read_digits s;
          (f, r) = (case r of c # t \<Rightarrow> if c = 46 then read_digits t else ([], r) | [] \<Rightarrow> ([], r))
      in if w = [] \<and> f = [] then None
         else case read_exponent r of
           Some (x, []) \<Rightarrow>
             let m = int (parse_dec (w @ f)) in Some (norm (if neg then - m else m) (x - int (length f)))
         | _ \<Rightarrow> None)"

definition string_Number :: "jsstring \<Rightarrow> decimal option" where
  "string_Number str = (case trim str of
     [] \<Rightarrow> Some 0
   | c # s \<Rightarrow>
       if c = 48 \<and> s \<noteq> [] \<and> hd s \<in> {120, 88} then radix_digits 16 (tl s)
       else if c = 48 \<and> s \<noteq> [] \<and> hd s \<in> {111, 79} then radix_digits 8 (tl s)
       else if c = 48 \<and> s \<noteq> [] \<and> hd s \<in> {98, 66} then radix_digits 2 (tl s)
       else if c = 45 then decimal_literal True s
       else if c = 43 then decimal_literal False s
       else decimal_literal False (c # s))"

fun json_Number :: "decimal json option \<Rightarrow> decimal option" where
  "json_Number None = None"
| "json_Number (Some JNull) = Some 0"
| "json_Number (Some (JBool b)) = Some (if b then Decimal 1 0 else 0)"
| "json_Number (Some (JNum d)) = Some d"
| "json_Number (Some (JStr s)) = string_Number s"
| "json_Number (Some (JArr vs)) = string_Number (json_String (JArr vs))"
| "json_Number (Some (JObj ps)) = None"

text \<open>A property of a value other than \<open>null\<close>, \<open>v || d\<close>, and a property read as a string.\<close>

fun jprop :: "decimal json \<Rightarrow> jsstring \<Rightarrow> decimal json option" where
  "jprop (JObj ps) k = map_of ps k"
| "jprop _ k = None"

definition truthy_or :: "decimal json option \<Rightarrow> decimal json \<Rightarrow> decimal json" where
  "truthy_or v d = (case v of None \<Rightarrow> d | Some x \<Rightarrow> if json_falsy x then d else x)"

definition str_prop :: "decimal json \<Rightarrow> jsstring \<Rightarrow> jsstring" where
  "str_prop v k = (case jprop v k of Some (JStr s) \<Rightarrow> s | _ \<Rightarrow> [])"

definition true_prop :: "decimal json \<Rightarrow> jsstring \<Rightarrow> bool" where
  "true_prop v k \<longleftrightarrow> jprop v k = Some (JBool True)"

text \<open>\<open>toUpperCase\<close> on the ASCII letters: no other character has its upper case among those of \<open>AND\<close> and \<open>OR\<close>.\<close>

definition ascii_upper :: "code_unit \<Rightarrow> code_unit" where
  "ascii_upper c = (if 97 \<le> c \<and> c \<le> 122 then c - 32 else c)"

section \<open>Rules\<close>

record ParamOverrideCondition =
  cond_id :: jsstring
  cond_path :: jsstring
  cond_mode :: jsstring
  cond_value_text :: jsstring
  cond_invert :: bool
  cond_pass_missing_key :: bool

record ParamOverrideOperation =
  op_id :: jsstring
  op_description :: jsstring
  op_path :: jsstring
  op_mode :: jsstring
  op_from :: jsstring
  op_to :: jsstring
  op_value_text :: jsstring
  op_keep_origin :: bool
  op_logic :: jsstring
  op_conditions :: "ParamOverrideCondition list"

definition OPERATION_MODE_VALUES :: "jsstring list" where
  "OPERATION_MODE_VALUES = map js
     [''set'', ''delete'', ''append'', ''prepend'', ''copy'', ''move'', ''replace'', ''regex_replace'',
      ''trim_prefix'', ''trim_suffix'', ''ensure_prefix'', ''ensure_suffix'', ''trim_space'', ''to_lower'',
      ''to_upper'', ''return_error'', ''prune_objects'', ''pass_headers'', ''sync_fields'', ''set_header'',
      ''delete_header'', ''copy_header'', ''move_header'']"

definition CONDITION_MODE_VALUES :: "jsstring list" where
  "CONDITION_MODE_VALUES = map js
     [''full'', ''prefix'', ''suffix'', ''contains'', ''gt'', ''gte'', ''lt'', ''lte'']"

text \<open>Which fields a mode has; a flag left out is false, as is the \<open>to: false\<close> of the replacing modes.\<close>

record ModeMeta =
  meta_path :: bool
  meta_pathOptional :: bool
  meta_value :: bool
  meta_from :: bool
  meta_to :: bool
  meta_keepOrigin :: bool
  meta_pathAlias :: bool

definition no_meta :: ModeMeta where
  "no_meta = \<lparr>meta_path = False, meta_pathOptional = False, meta_value = False, meta_from = False, meta_to = False,
     meta_keepOrigin = False, meta_pathAlias = False\<rparr>"

definition set_meta :: ModeMeta where
  "set_meta = no_meta\<lparr>meta_path := True, meta_value := True, meta_keepOrigin := True\<rparr>"

definition MODE_META :: "(jsstring \<times> ModeMeta) list" where
  "MODE_META =
     (let path = no_meta\<lparr>meta_path := True\<rparr>; path_value = path\<lparr>meta_value := True\<rparr>;
          from_to = no_meta\<lparr>meta_from := True, meta_to := True\<rparr>;
          alias = from_to\<lparr>meta_keepOrigin := True, meta_pathAlias := True\<rparr>
      in [(js ''delete'', path), (js ''set'', set_meta), (js ''append'', set_meta), (js ''prepend'', set_meta),
          (js ''copy'', from_to), (js ''move'', from_to),
          (js ''replace'', path\<lparr>meta_from := True\<rparr>), (js ''regex_replace'', path\<lparr>meta_from := True\<rparr>),
          (js ''trim_prefix'', path_value), (js ''trim_suffix'', path_value),
          (js ''ensure_prefix'', path_value), (js ''ensure_suffix'', path_value),
          (js ''trim_space'', path), (js ''to_lower'', path), (js ''to_upper'', path),
          (js ''return_error'', no_meta\<lparr>meta_value := True\<rparr>),
          (js ''prune_objects'', no_meta\<lparr>meta_pathOptional := True, meta_value := True\<rparr>),
          (js ''pass_headers'', no_meta\<lparr>meta_value := True, meta_keepOrigin := True\<rparr>),
          (js ''sync_fields'', from_to), (js ''set_header'', set_meta), (js ''delete_header'', path),
          (js ''copy_header'', alias), (js ''move_header'', alias)])"

definition mode_meta :: "jsstring \<Rightarrow> ModeMeta" where
  "mode_meta mode = nullish (map_of MODE_META mode) set_meta"

definition VALUE_REQUIRED_MODES :: "jsstring list" where
  "VALUE_REQUIRED_MODES = map js [''trim_prefix'', ''trim_suffix'', ''ensure_prefix'', ''ensure_suffix'',
     ''set_header'', ''return_error'', ''prune_objects'', ''pass_headers'']"

definition FROM_REQUIRED_MODES :: "jsstring list" where
  "FROM_REQUIRED_MODES = map js [''copy'', ''move'', ''replace'', ''regex_replace'', ''copy_header'', ''move_header'', ''sync_fields'']"

definition TO_REQUIRED_MODES :: "jsstring list" where
  "TO_REQUIRED_MODES = map js [''copy'', ''move'', ''copy_header'', ''move_header'', ''sync_fields'']"

section \<open>Reading rules\<close>

definition nextLocalId :: "(nat \<Rightarrow> nat) \<Rightarrow> nat \<Rightarrow> jsstring \<times> nat" where
  "nextLocalId clock seed = (js ''po_'' @ dec (clock seed) @ 95 # dec seed, Suc seed)"

fun toValueText :: "decimal json option \<Rightarrow> jsstring" where
  "toValueText None = []"
| "toValueText (Some (JStr s)) = s"
| "toValueText (Some v) = json_stringify v"

definition parseLooseValue :: "jsstring \<Rightarrow> decimal json" where
  "parseLooseValue valueText =
     (let raw = trim valueText in if raw = [] then JStr [] else nullish (json_parse raw) (JStr raw))"

definition verifyJSON :: "jsstring \<Rightarrow> bool" where
  "verifyJSON s \<longleftrightarrow> json_parse s \<noteq> None"

definition mode_in :: "jsstring list \<Rightarrow> decimal json option \<Rightarrow> jsstring \<Rightarrow> jsstring" where
  "mode_in modes v d = (case v of Some (JStr m) \<Rightarrow> if m \<in> set modes then m else d | _ \<Rightarrow> d)"

text \<open>\<open>None\<close> where reading a property of \<open>null\<close> throws.\<close>

definition normalizeCondition :: "(nat \<Rightarrow> nat) \<Rightarrow> decimal json \<Rightarrow> nat \<Rightarrow> (ParamOverrideCondition \<times> nat) option" where
  "normalizeCondition clock v seed =
     (if v = JNull then None
      else let (i, seed') = nextLocalId clock seed in
        Some (\<lparr>cond_id = i, cond_path = str_prop v (js ''path''),
               cond_mode = mode_in CONDITION_MODE_VALUES (jprop v (js ''mode'')) (js ''full''),
               cond_value_text = toValueText (jprop v (js ''value'')),
               cond_invert = true_prop v (js ''invert''),
               cond_pass_missing_key = true_prop v (js ''pass_missing_key'')\<rparr>, seed'))"

text \<open>\<open>vs.map(f)\<close> for a function that takes identifiers and may throw.\<close>

fun map_alloc :: "('v \<Rightarrow> nat \<Rightarrow> ('a \<times> nat) option) \<Rightarrow> 'v list \<Rightarrow> nat \<Rightarrow> ('a list \<times> nat) option" where
  "map_alloc f [] seed = Some ([], seed)"
| "map_alloc f (v # vs) seed = do {
     (x, seed') \<leftarrow> f v seed;
     (xs, seed'') \<leftarrow> map_alloc f vs seed';
     Some (x # xs, seed'')
   }"

definition logic_of :: "decimal json option \<Rightarrow> jsstring" where
  "logic_of v = (if map ascii_upper (json_String (truthy_or v (JStr (js ''OR'')))) = js ''AND'' then js ''AND'' else js ''OR'')"

definition normalizeOperation :: "(nat \<Rightarrow> nat) \<Rightarrow> decimal json \<Rightarrow> nat \<Rightarrow> (ParamOverrideOperation \<times> nat) option" where
  "normalizeOperation clock v seed =
     (if v = JNull then None
      else do {
        let (i, seed') = nextLocalId clock seed;
        (conds, seed'') \<leftarrow> (case jprop v (js ''conditions'') of
            Some (JArr cs) \<Rightarrow> map_alloc (normalizeCondition clock) cs seed' | _ \<Rightarrow> Some ([], seed'));
        Some (\<lparr>op_id = i, op_description = str_prop v (js ''description''), op_path = str_prop v (js ''path''),
               op_mode = mode_in OPERATION_MODE_VALUES (jprop v (js ''mode'')) (js ''set''),
               op_from = str_prop v (js ''from''), op_to = str_prop v (js ''to''),
               op_value_text = toValueText (jprop v (js ''value'')),
               op_keep_origin = true_prop v (js ''keep_origin''),
               op_logic = logic_of (jprop v (js ''logic'')), op_conditions = conds\<rparr>, seed'')
      })"

definition createDefaultCondition :: "(nat \<Rightarrow> nat) \<Rightarrow> nat \<Rightarrow> ParamOverrideCondition \<times> nat" where
  "createDefaultCondition clock seed = the (normalizeCondition clock (JObj []) seed)"

definition createDefaultOperation :: "(nat \<Rightarrow> nat) \<Rightarrow> nat \<Rightarrow> ParamOverrideOperation \<times> nat" where
  "createDefaultOperation clock seed = the (normalizeOperation clock (JObj [(js ''mode'', JStr (js ''set''))]) seed)"

text \<open>\<open>next.splice(at, 0, x)\<close>, and moving the rule \<open>sourceId\<close> next to the rule \<open>targetId\<close>.\<close>

definition insert_at :: "nat \<Rightarrow> 'a \<Rightarrow> 'a list \<Rightarrow> 'a list" where
  "insert_at k x xs = take k xs @ x # drop k xs"

definition reorderOperations ::
  "ParamOverrideOperation list \<Rightarrow> jsstring \<Rightarrow> jsstring \<Rightarrow> bool \<Rightarrow> ParamOverrideOperation list" where
  "reorderOperations ops sourceId targetId after =
     (if sourceId = [] \<or> targetId = [] \<or> sourceId = targetId then ops
      else case findIndex (\<lambda>o'. op_id o' = sourceId) ops of
        None \<Rightarrow> ops
      | Some i \<Rightarrow>
          let rest = take i ops @ drop (Suc i) ops in
          case findIndex (\<lambda>o'. op_id o' = targetId) rest of
            None \<Rightarrow> ops
          | Some j \<Rightarrow> insert_at (if after then Suc j else j) (ops ! i) rest)"

definition condition_set :: "ParamOverrideCondition \<Rightarrow> bool" where
  "condition_set c \<longleftrightarrow> trim (cond_path c) \<noteq> [] \<or> trim (cond_value_text c) \<noteq> [] \<or> cond_mode c \<noteq> js ''full''
     \<or> cond_invert c \<or> cond_pass_missing_key c"

definition isOperationBlank :: "ParamOverrideOperation \<Rightarrow> bool" where
  "isOperationBlank operation \<longleftrightarrow>
     op_mode operation = js ''set'' \<and> trim (op_path operation) = [] \<and> trim (op_from operation) = []
     \<and> trim (op_to operation) = [] \<and> trim (op_value_text operation) = [] \<and> \<not> op_keep_origin operation
     \<and> \<not> (\<exists>c\<in>set (op_conditions operation). condition_set c)"

section \<open>Drafts of values\<close>

text \<open>The ends of a \<open>sync_fields\<close> rule: a kind and a key.\<close>

definition parseSyncTargetSpec :: "jsstring \<Rightarrow> jsstring \<times> jsstring" where
  "parseSyncTargetSpec spec =
     (let raw = trim spec in
      if raw = [] then (js ''json'', [])
      else case find_sub [58] raw of
        None \<Rightarrow> (js ''json'', raw)
      | Some idx \<Rightarrow>
          let pre = map ascii_lower (trim (take idx raw)); key = trim (drop (Suc idx) raw) in
          (if pre = js ''header'' then js ''header'' else js ''json'', key))"

definition buildSyncTargetSpec :: "jsstring \<Rightarrow> jsstring \<Rightarrow> jsstring" where
  "buildSyncTargetSpec kind key =
     (let normalizedType = (if kind = js ''header'' then js ''header'' else js ''json''); normalizedKey = trim key in
      if normalizedKey = [] then [] else normalizedType @ 58 # normalizedKey)"

record ReturnErrorDraft =
  re_message :: jsstring
  re_statusCode :: "decimal option"
  re_code :: jsstring
  re_type :: jsstring
  re_skipRetry :: bool
  re_simpleMode :: bool

definition return_error_defaults :: ReturnErrorDraft where
  "return_error_defaults = \<lparr>re_message = [], re_statusCode = Some (decimal_of_int 400), re_code = [], re_type = [],
     re_skipRetry = True, re_simpleMode = True\<rparr>"

definition valid_status :: "decimal option \<Rightarrow> bool" where
  "valid_status d = (case Option.bind d decimal_int of None \<Rightarrow> False | Some i \<Rightarrow> 100 \<le> i \<and> i \<le> 599)"

definition status_or_400 :: "decimal option \<Rightarrow> decimal" where
  "status_or_400 d = (if valid_status d then the d else decimal_of_int 400)"

definition or_prop :: "decimal json \<Rightarrow> jsstring \<Rightarrow> jsstring" where
  "or_prop v k = json_String (truthy_or (jprop v k) (JStr []))"

definition parseReturnErrorDraft :: "jsstring \<Rightarrow> ReturnErrorDraft" where
  "parseReturnErrorDraft valueText =
     (let raw = trim valueText in
      if raw = [] then return_error_defaults
      else case json_parse raw of
        Some (JObj ps) \<Rightarrow>
          let v = JObj ps;
              statusRaw = (if jprop v (js ''status_code'') \<noteq> None then jprop v (js ''status_code'') else jprop v (js ''status''))
          in \<lparr>re_message = trim (json_String (truthy_or (jprop v (js ''message''))
                  (truthy_or (jprop v (js ''msg'')) (JStr [])))),
              re_statusCode = Some (status_or_400 (json_Number statusRaw)),
              re_code = trim (or_prop v (js ''code'')), re_type = trim (or_prop v (js ''type'')),
              re_skipRetry = (jprop v (js ''skip_retry'') \<noteq> Some (JBool False)), re_simpleMode = False\<rparr>
      | _ \<Rightarrow> return_error_defaults\<lparr>re_message := raw\<rparr>)"

definition buildReturnErrorValueText :: "ReturnErrorDraft \<Rightarrow> jsstring" where
  "buildReturnErrorValueText draft =
     (let message = trim (re_message draft); code = trim (re_code draft); kind = trim (re_type draft) in
      if re_simpleMode draft then message
      else json_stringify (JObj
        ([(js ''message'', JStr message), (js ''status_code'', JNum (status_or_400 (re_statusCode draft)))]
         @ (if code = [] then [] else [(js ''code'', JStr code)])
         @ (if kind = [] then [] else [(js ''type'', JStr kind)])
         @ (if re_skipRetry draft then [] else [(js ''skip_retry'', JBool False)]))))"

record PruneRule =
  pr_id :: jsstring
  pr_path :: jsstring
  pr_mode :: jsstring
  pr_value_text :: jsstring
  pr_invert :: bool
  pr_pass_missing_key :: bool

record PruneObjectsDraft =
  pd_simpleMode :: bool
  pd_typeText :: jsstring
  pd_logic :: jsstring
  pd_recursive :: bool
  pd_rules :: "PruneRule list"

definition normalizePruneRule :: "(nat \<Rightarrow> nat) \<Rightarrow> decimal json \<Rightarrow> nat \<Rightarrow> PruneRule \<times> nat" where
  "normalizePruneRule clock v seed =
     (let (i, seed') = nextLocalId clock seed in
      (\<lparr>pr_id = i, pr_path = str_prop v (js ''path''),
        pr_mode = mode_in CONDITION_MODE_VALUES (jprop v (js ''mode'')) (js ''full''),
        pr_value_text = toValueText (jprop v (js ''value'')),
        pr_invert = true_prop v (js ''invert''), pr_pass_missing_key = true_prop v (js ''pass_missing_key'')\<rparr>, seed'))"

fun prune_rules :: "(nat \<Rightarrow> nat) \<Rightarrow> decimal json list \<Rightarrow> nat \<Rightarrow> PruneRule list \<times> nat" where
  "prune_rules clock [] seed = ([], seed)"
| "prune_rules clock (v # vs) seed =
     (let (x, seed') = normalizePruneRule clock v seed; (xs, seed'') = prune_rules clock vs seed' in (x # xs, seed''))"

text \<open>The entries of an object as full matches, and the objects among the items of an array.\<close>

definition full_matches :: "(jsstring \<times> decimal json) list \<Rightarrow> decimal json list" where
  "full_matches ps = map (\<lambda>p. JObj [(js ''path'', JStr (fst p)), (js ''mode'', JStr (js ''full'')), (js ''value'', snd p)]) ps"

definition is_object :: "decimal json \<Rightarrow> bool" where
  "is_object v = (case v of JArr _ \<Rightarrow> True | JObj _ \<Rightarrow> True | _ \<Rightarrow> False)"

definition draft_rules :: "decimal json \<Rightarrow> decimal json list" where
  "draft_rules v =
     (case jprop v (js ''where'') of Some (JObj ps) \<Rightarrow> full_matches ps | _ \<Rightarrow> [])
     @ (case jprop v (js ''conditions'') of
          Some (JArr cs) \<Rightarrow> filter is_object cs
        | Some (JObj ps) \<Rightarrow> full_matches ps
        | _ \<Rightarrow> [])"

definition parsePruneObjectsDraft :: "(nat \<Rightarrow> nat) \<Rightarrow> jsstring \<Rightarrow> nat \<Rightarrow> PruneObjectsDraft \<times> nat" where
  "parsePruneObjectsDraft clock valueText seed =
     (let raw = trim valueText;
          defaults = \<lparr>pd_simpleMode = True, pd_typeText = [], pd_logic = js ''AND'', pd_recursive = True, pd_rules = []\<rparr>
      in if raw = [] then (defaults, seed)
      else case json_parse raw of
        None \<Rightarrow> (defaults\<lparr>pd_typeText := raw\<rparr>, seed)
      | Some (JObj ps) \<Rightarrow>
          let v = JObj ps; (rules, seed') = prune_rules clock (draft_rules v) seed in
          (\<lparr>pd_simpleMode = (\<forall>k\<in>set (map js [''logic'', ''recursive'', ''where'', ''conditions'']). jprop v k = None),
            pd_typeText = (case jprop v (js ''type'') of None \<Rightarrow> [] | Some x \<Rightarrow> trim (json_String x)),
            pd_logic = (if map ascii_upper (json_String (truthy_or (jprop v (js ''logic'')) (JStr (js ''AND'')))) = js ''OR''
                        then js ''OR'' else js ''AND''),
            pd_recursive = (jprop v (js ''recursive'') \<noteq> Some (JBool False)),
            pd_rules = rules\<rparr>, seed')
      | Some JNull \<Rightarrow> (defaults, seed)
      | Some v \<Rightarrow> (defaults\<lparr>pd_typeText := trim (json_String v)\<rparr>, seed))"

definition prune_condition :: "PruneRule \<Rightarrow> decimal json" where
  "prune_condition rule =
     JObj ([(js ''path'', JStr (trim (pr_path rule))),
            (js ''mode'', JStr (if pr_mode rule \<in> set CONDITION_MODE_VALUES then pr_mode rule else js ''full''))]
       @ (if trim (pr_value_text rule) = [] then [] else [(js ''value'', parseLooseValue (trim (pr_value_text rule)))])
       @ (if pr_invert rule then [(js ''invert'', JBool True)] else [])
       @ (if pr_pass_missing_key rule then [(js ''pass_missing_key'', JBool True)] else []))"

definition buildPruneObjectsValueText :: "PruneObjectsDraft \<Rightarrow> jsstring" where
  "buildPruneObjectsValueText draft =
     (let typeText = trim (pd_typeText draft);
          conditions = map prune_condition (filter (\<lambda>r. trim (pr_path r) \<noteq> []) (pd_rules draft))
      in if pd_simpleMode draft then typeText
         else if typeText = [] \<and> conditions = [] then json_stringify (JObj [(js ''logic'', JStr (js ''AND''))])
         else json_stringify (JObj
           ((if typeText = [] then [] else [(js ''type'', JStr typeText)])
            @ (if map ascii_upper (str_or (pd_logic draft) (js ''AND'')) = js ''OR'' then [(js ''logic'', JStr (js ''OR''))] else [])
            @ (if pd_recursive draft then [] else [(js ''recursive'', JBool False)])
            @ (if conditions = [] then [] else [(js ''conditions'', JArr conditions)]))))"

text \<open>\<open>String(i ?? '')\<close> for an item, and the names a \<open>pass_headers\<close> value lists.\<close>

definition item_string :: "decimal json \<Rightarrow> jsstring" where
  "item_string v = (if v = JNull then [] else json_String v)"

definition nonblank :: "jsstring list \<Rightarrow> jsstring list" where
  "nonblank xs = filter (\<lambda>x. x \<noteq> []) (map trim xs)"

fun parsePassHeaderNames :: "decimal json \<Rightarrow> jsstring list" where
  "parsePassHeaderNames (JArr vs) = nonblank (map item_string vs)"
| "parsePassHeaderNames (JObj ps) =
     (case map_of ps (js ''headers'') of
        Some (JArr vs) \<Rightarrow> nonblank (map item_string vs)
      | _ \<Rightarrow> (case map_of ps (js ''header'') of Some v \<Rightarrow> nonblank [item_string v] | None \<Rightarrow> []))"
| "parsePassHeaderNames (JStr s) = nonblank (split_on 44 s)"
| "parsePassHeaderNames _ = []"

section \<open>Validating and writing rules\<close>

definition buildConditionPayload :: "ParamOverrideCondition \<Rightarrow> decimal json option" where
  "buildConditionPayload condition =
     (let path = trim (cond_path condition) in
      if path = [] then None
      else Some (JObj ([(js ''path'', JStr path), (js ''mode'', JStr (str_or (cond_mode condition) (js ''full''))),
                        (js ''value'', parseLooseValue (cond_value_text condition))]
             @ (if cond_invert condition then [(js ''invert'', JBool True)] else [])
             @ (if cond_pass_missing_key condition then [(js ''pass_missing_key'', JBool True)] else []))))"

text \<open>The messages of the validation, each with the line of its rule.\<close>

datatype RuleProblem =
    MissingTargetPath | MissingSourceField | MissingTargetField | MissingValue
  | ReturnErrorNeedsMessage | PruneMissingConditions | PassHeadersMissing | PassHeadersInvalid

definition rule_problem :: "ParamOverrideOperation \<Rightarrow> RuleProblem option" where
  "rule_problem op =
     (let mode = str_or (op_mode op) (js ''set''); meta = mode_meta mode; pathValue = trim (op_path op);
          fromValue = trim (op_from op); toValue = trim (op_to op); raw = trim (op_value_text op)
      in if meta_path meta \<and> pathValue = [] then Some MissingTargetPath
      else if mode \<in> set FROM_REQUIRED_MODES \<and> fromValue = [] \<and> \<not> (meta_pathAlias meta \<and> pathValue \<noteq> [])
        then Some MissingSourceField
      else if mode \<in> set TO_REQUIRED_MODES \<and> toValue = [] \<and> \<not> (meta_pathAlias meta \<and> pathValue \<noteq> [])
        then Some MissingTargetField
      else if mode \<in> set VALUE_REQUIRED_MODES \<and> raw = [] then Some MissingValue
      else if mode = js ''return_error'' then
        (case json_parse raw of
           Some (JObj ps) \<Rightarrow> if trim (or_prop (JObj ps) (js ''message'')) = [] then Some ReturnErrorNeedsMessage else None
         | _ \<Rightarrow> None)
      else if mode = js ''prune_objects'' then if raw = [] then Some PruneMissingConditions else None
      else if mode = js ''pass_headers'' then
        if raw = [] then Some PassHeadersMissing
        else if parsePassHeaderNames (parseLooseValue raw) = [] then Some PassHeadersInvalid else None
      else None)"

fun validateOperations :: "nat \<Rightarrow> ParamOverrideOperation list \<Rightarrow> (nat \<times> RuleProblem) option" where
  "validateOperations i [] = None"
| "validateOperations i (op # ops) =
     (case rule_problem op of Some p \<Rightarrow> Some (i + 1, p) | None \<Rightarrow> validateOperations (i + 1) ops)"

definition operation_payload :: "ParamOverrideOperation \<Rightarrow> decimal json" where
  "operation_payload op =
     (let mode = str_or (op_mode op) (js ''set''); meta = mode_meta mode; descriptionValue = trim (op_description op);
          pathValue = trim (op_path op); fromValue = trim (op_from op); toValue = trim (op_to op);
          conditions = List.map_filter buildConditionPayload (op_conditions op);
          alias = (\<lambda>s. if meta_pathAlias meta \<and> s = [] then pathValue else s)
      in JObj ([(js ''mode'', JStr mode)]
         @ (if descriptionValue = [] then [] else [(js ''description'', JStr descriptionValue)])
         @ (if meta_path meta \<or> meta_pathOptional meta \<and> pathValue \<noteq> [] then [(js ''path'', JStr pathValue)] else [])
         @ (if meta_value meta then [(js ''value'', parseLooseValue (op_value_text op))] else [])
         @ (if meta_keepOrigin meta \<and> op_keep_origin op then [(js ''keep_origin'', JBool True)] else [])
         @ (if meta_from meta then [(js ''from'', JStr (alias fromValue))] else [])
         @ (if meta_to meta \<or> toValue \<noteq> [] then [(js ''to'', JStr (alias toValue))] else [])
         @ (if conditions = [] then []
            else [(js ''conditions'', JArr conditions),
                  (js ''logic'', JStr (if op_logic op = js ''AND'' then js ''AND'' else js ''OR''))])))"

definition operations_payload :: "ParamOverrideOperation list \<Rightarrow> decimal json" where
  "operations_payload ops = JObj [(js ''operations'', JArr (map operation_payload ops))]"

datatype EditorError = InvalidRule nat RuleProblem | InvalidJsonFormat | LegacyNotObject

definition buildOperationsJson :: "ParamOverrideOperation list \<Rightarrow> bool \<Rightarrow> EditorError + jsstring" where
  "buildOperationsJson sourceOperations validate =
     (let filteredOps = filter (\<lambda>op. \<not> isOperationBlank op) sourceOperations in
      if filteredOps = [] then Inr []
      else case (if validate then validateOperations 0 filteredOps else None) of
        Some (line, p) \<Rightarrow> Inl (InvalidRule line p)
      | None \<Rightarrow> Inr (json_indented (operations_payload filteredOps)))"

section \<open>Opening the editor\<close>

datatype EditMode = EditVisual | EditJson
datatype VisualMode = VisualOperations | VisualLegacy

record EditorState =
  editMode :: EditMode
  visualMode :: VisualMode
  legacyValue :: jsstring
  operations :: "ParamOverrideOperation list"
  jsonText :: jsstring
  jsonError :: bool

text \<open>The rules of a parsed text: the default rule where it lists none.\<close>

definition opened_operations ::
  "(nat \<Rightarrow> nat) \<Rightarrow> decimal json list \<Rightarrow> nat \<Rightarrow> (ParamOverrideOperation list \<times> nat) option" where
  "opened_operations clock vs seed =
     (if vs = [] then Some (map_prod (\<lambda>x. [x]) id (createDefaultOperation clock seed))
      else map_alloc (normalizeOperation clock) vs seed)"

definition parseInitialState :: "(nat \<Rightarrow> nat) \<Rightarrow> jsstring \<Rightarrow> nat \<Rightarrow> (EditorState \<times> nat) option" where
  "parseInitialState clock rawValue seed =
     (let trimmed = trim rawValue;
          with_default = (\<lambda>mode visual legacy json err.
            let (d, seed') = createDefaultOperation clock seed in
            Some (\<lparr>editMode = mode, visualMode = visual, legacyValue = legacy, operations = [d],
                   jsonText = json, jsonError = err\<rparr>, seed'))
      in if trimmed = [] then with_default EditVisual VisualOperations [] [] False
      else case json_parse trimmed of
        None \<Rightarrow> with_default EditJson VisualOperations [] rawValue True
      | Some v \<Rightarrow>
          (case (v, jprop v (js ''operations'')) of
             (JObj ps, Some (JArr vs)) \<Rightarrow>
               map_option (map_prod (\<lambda>ops. \<lparr>editMode = EditVisual, visualMode = VisualOperations, legacyValue = [],
                   operations = ops, jsonText = json_indented v, jsonError = False\<rparr>) id) (opened_operations clock vs seed)
           | (JObj ps, _) \<Rightarrow> with_default EditVisual VisualLegacy (json_indented v) (json_indented v) False
           | _ \<Rightarrow> with_default EditJson VisualOperations [] (json_indented v) False))"

end
