(* ===== verification/Param_Override_Server.thy ===== *)
theory Param_Override_Server
  imports Param_Override
begin

text \<open>
  How the gateway reads a parameter override, \<open>relay/common/override.go\<close>: the rules and their conditions, and
  the values of \<open>return_error\<close>, \<open>pass_headers\<close>, \<open>prune_objects\<close> and \<open>sync_fields\<close> rules.  A decoded JSON value is a
  \<open>decimal json\<close>; an absent key is \<open>None\<close>.  \<open>fmt.Sprintf\<close> on values other than strings and the order in which Go
  lists the entries of a map are given as arguments.
\<close>

section \<open>Rules\<close>

record ConditionOperation =
  Cond_Path :: jsstring
  Cond_Mode :: jsstring
  Cond_Value :: "decimal json option"
  Cond_Invert :: bool
  Cond_PassMissingKey :: bool

record ParamOperation =
  Op_Path :: jsstring
  Op_Mode :: jsstring
  Op_Value :: "decimal json option"
  Op_KeepOrigin :: bool
  Op_From :: jsstring
  Op_To :: jsstring
  Op_Conditions :: "ConditionOperation list"
  Op_Logic :: jsstring

text \<open>A type assertion on a key: the zero value where it fails.\<close>

definition go_string :: "decimal json \<Rightarrow> jsstring \<Rightarrow> jsstring" where
  "go_string v k = (case jprop v k of Some (JStr s) \<Rightarrow> s | _ \<Rightarrow> [])"

definition go_bool :: "decimal json \<Rightarrow> jsstring \<Rightarrow> bool \<Rightarrow> bool" where
  "go_bool v k d = (case jprop v k of Some (JBool b) \<Rightarrow> b | _ \<Rightarrow> d)"

definition condition_item :: "decimal json \<Rightarrow> ConditionOperation option" where
  "condition_item v =
     (case v of
        JObj ps \<Rightarrow>
          let path = go_string v (js ''path''); mode = go_string v (js ''mode'') in
          if TrimSpace path = [] \<or> TrimSpace mode = [] then None
          else Some \<lparr>Cond_Path = path, Cond_Mode = mode, Cond_Value = jprop v (js ''value''),
                     Cond_Invert = go_bool v (js ''invert'') False,
                     Cond_PassMissingKey = go_bool v (js ''pass_missing_key'') False\<rparr>
      | _ \<Rightarrow> None)"

text \<open>The entries of an object as full matches, in the order in which Go lists them.\<close>

definition entry_conditions ::
  "((jsstring \<times> decimal json) list \<Rightarrow> (jsstring \<times> decimal json) list) \<Rightarrow> (jsstring \<times> decimal json) list \<Rightarrow> ConditionOperation list" where
  "entry_conditions entries ps =
     map (\<lambda>p. \<lparr>Cond_Path = TrimSpace (fst p), Cond_Mode = js ''full'', Cond_Value = Some (snd p),
                Cond_Invert = False, Cond_PassMissingKey = False\<rparr>)
       (filter (\<lambda>p. TrimSpace (fst p) \<noteq> []) (entries ps))"

definition parseConditionOperations ::
  "((jsstring \<times> decimal json) list \<Rightarrow> (jsstring \<times> decimal json) list) \<Rightarrow> decimal json \<Rightarrow> ConditionOperation list option" where
  "parseConditionOperations entries raw =
     (case raw of
        JObj ps \<Rightarrow> if entry_conditions entries ps = [] then None else Some (entry_conditions entries ps)
      | JArr vs \<Rightarrow> sequence (map condition_item vs)
      | _ \<Rightarrow> None)"

definition parse_operation ::
  "((jsstring \<times> decimal json) list \<Rightarrow> (jsstring \<times> decimal json) list) \<Rightarrow> decimal json \<Rightarrow> ParamOperation option" where
  "parse_operation entries v =
     (case (v, jprop v (js ''mode'')) of
        (JObj ps, Some (JStr mode)) \<Rightarrow>
          map_option (\<lambda>conditions.
              \<lparr>Op_Path = go_string v (js ''path''), Op_Mode = mode, Op_Value = jprop v (js ''value''),
               Op_KeepOrigin = go_bool v (js ''keep_origin'') False,
               Op_From = go_string v (js ''from''), Op_To = go_string v (js ''to''), Op_Conditions = conditions,
               Op_Logic = (case jprop v (js ''logic'') of Some (JStr s) \<Rightarrow> s | _ \<Rightarrow> js ''OR'')\<rparr>)
            (case jprop v (js ''conditions'') of None \<Rightarrow> Some [] | Some c \<Rightarrow> parseConditionOperations entries c)
      | _ \<Rightarrow> None)"

definition tryParseOperations ::
  "((jsstring \<times> decimal json) list \<Rightarrow> (jsstring \<times> decimal json) list) \<Rightarrow> decimal json \<Rightarrow> ParamOperation list option" where
  "tryParseOperations entries paramOverride =
     (case jprop paramOverride (js ''operations'') of
        Some (JArr vs) \<Rightarrow> sequence (map (parse_operation entries) vs) | _ \<Rightarrow> None)"

text \<open>\<open>strings.EqualFold\<close> against ASCII letters without \<open>k\<close>: the long s also folds to \<open>s\<close>.\<close>

definition fold_unit :: "code_unit \<Rightarrow> code_unit" where
  "fold_unit c = (if c = 383 then 115 else ascii_lower c)"

definition buildLegacyParamOverride :: "decimal json \<Rightarrow> (jsstring \<times> decimal json) list" where
  "buildLegacyParamOverride paramOverride =
     (case paramOverride of
        JObj ps \<Rightarrow> filter (\<lambda>p. map fold_unit (TrimSpace (fst p)) \<noteq> js ''operations'') ps
      | _ \<Rightarrow> [])"

section \<open>Values of rules\<close>

record ParamOverrideReturnError =
  Err_Message :: jsstring
  Err_StatusCode :: int
  Err_Code :: jsstring
  Err_Type :: jsstring
  Err_SkipRetry :: bool

definition parseOverrideInt :: "decimal json \<Rightarrow> int option" where
  "parseOverrideInt v = (case v of JNum d \<Rightarrow> decimal_int d | _ \<Rightarrow> None)"

definition parseParamOverrideReturnError ::
  "(decimal json \<Rightarrow> jsstring) \<Rightarrow> decimal json option \<Rightarrow> ParamOverrideReturnError option" where
  "parseParamOverrideReturnError sprint value' =
     (let result = \<lparr>Err_Message = [], Err_StatusCode = 400, Err_Code = js ''invalid_request'',
                     Err_Type = js ''invalid_request_error'', Err_SkipRetry = True\<rparr>;
          parsed = (case value' of
             Some (JStr s) \<Rightarrow> Some (result\<lparr>Err_Message := TrimSpace s\<rparr>)
           | Some (JObj ps) \<Rightarrow>
               let v = JObj ps; message = TrimSpace (go_string v (js ''message''));
                   code = (case jprop v (js ''code'') of None \<Rightarrow> [] | Some c \<Rightarrow> TrimSpace (sprint c));
                   kind = TrimSpace (go_string v (js ''type''));
                   status = (if jprop v (js ''status_code'') \<noteq> None then jprop v (js ''status_code'') else jprop v (js ''status''))
               in map_option (\<lambda>st. \<lparr>Err_Message = (if message = [] then TrimSpace (go_string v (js ''msg'')) else message),
                      Err_StatusCode = st, Err_Code = str_or code (Err_Code result), Err_Type = str_or kind (Err_Type result),
                      Err_SkipRetry = go_bool v (js ''skip_retry'') True\<rparr>)
                    (case status of None \<Rightarrow> Some 400 | Some x \<Rightarrow> parseOverrideInt x)
           | _ \<Rightarrow> None)
      in case parsed of
           None \<Rightarrow> None
         | Some e \<Rightarrow> if Err_Message e = [] \<or> Err_StatusCode e < 100 \<or> 511 < Err_StatusCode e then None else Some e)"

record pruneObjectsOptions =
  Prune_Conditions :: "ConditionOperation list"
  Prune_Logic :: jsstring
  Prune_Recursive :: bool

definition full_match :: "jsstring \<Rightarrow> decimal json \<Rightarrow> ConditionOperation" where
  "full_match path v = \<lparr>Cond_Path = path, Cond_Mode = js ''full'', Cond_Value = Some v, Cond_Invert = False, Cond_PassMissingKey = False\<rparr>"

definition parsePruneObjectsOptions ::
  "((jsstring \<times> decimal json) list \<Rightarrow> (jsstring \<times> decimal json) list) \<Rightarrow> decimal json option \<Rightarrow> pruneObjectsOptions option" where
  "parsePruneObjectsOptions entries value' =
     (let parsed = (case value' of
         Some (JStr s) \<Rightarrow>
           if TrimSpace s = [] then None
           else Some \<lparr>Prune_Conditions = [full_match (js ''type'') (JStr (TrimSpace s))], Prune_Logic = js ''AND'', Prune_Recursive = True\<rparr>
       | Some (JObj ps) \<Rightarrow>
           let v = JObj ps; logic = go_string v (js ''logic'') in do {
             conditions \<leftarrow> (case jprop v (js ''conditions'') of None \<Rightarrow> Some [] | Some c \<Rightarrow> parseConditionOperations entries c);
             whereMatches \<leftarrow> (case jprop v (js ''where'') of
                 None \<Rightarrow> Some [] | Some (JObj qs) \<Rightarrow> Some (entry_conditions entries qs) | Some _ \<Rightarrow> None);
             Some \<lparr>Prune_Conditions = conditions @ whereMatches
                     @ (case jprop v (js ''type'') of None \<Rightarrow> [] | Some x \<Rightarrow> [full_match (js ''type'') x]),
                   Prune_Logic = (if TrimSpace logic = [] then js ''AND'' else logic),
                   Prune_Recursive = go_bool v (js ''recursive'') True\<rparr>
           }
       | _ \<Rightarrow> None)
      in case parsed of None \<Rightarrow> None | Some opts \<Rightarrow> if Prune_Conditions opts = [] then None else Some opts)"

definition parseSyncTarget :: "jsstring \<Rightarrow> (jsstring \<times> jsstring) option" where
  "parseSyncTarget spec =
     (let raw = TrimSpace spec in
      if raw = [] then None
      else case find_sub [58] raw of
        None \<Rightarrow> Some (js ''json'', raw)
      | Some idx \<Rightarrow>
          let kind = map ascii_lower (TrimSpace (take idx raw)); key = TrimSpace (drop (Suc idx) raw) in
          if key = [] then None
          else if kind = js ''json'' \<or> kind = js ''body'' then Some (js ''json'', key)
          else if kind = js ''header'' then Some (js ''header'', key)
          else None)"

end
