(* ===== verification/Param_Override_Laws.thy ===== *)
theory Param_Override_Laws
  imports Param_Override_Server Channel_Form_Laws
begin

text \<open>
  What the editor of parameter overrides keeps and what the gateway makes of it.  Saving, opening and saving
  again writes the same text as long as no value is a quoted string; the gateway reads every saved rule as it was
  written; and the exceptions: a quoted string turns into the value it spells, conditions written as an object and
  settings beside the rules are dropped, and some values pass the editor and fail at the gateway.
\<close>

section \<open>Values shown and read again\<close>

lemma trimmed_write: "trimmed (json_write ind l v)"
proof -
  obtain c t where f: "json_write ind l v = c # t" "opens c" using write_first by blast
  have "\<not> is_space c" using f(2) by (auto simp: opens_def is_space_def is_digit_def)
  moreover have "\<not> is_space (last (json_write ind l v))"
  proof (cases v)
    case (JNum d)
    have "is_digit (last (num_string d))"
    proof (cases d)
      case (Decimal m e)
      have l: "is_digit (last (dec k))" for k
        using dec_digits [of "last (dec k)" k] by (simp add: last_in_set)
      have "drop (nat n) (dec k) \<noteq> [] \<Longrightarrow> last (drop (nat n) (dec k)) = last (dec k)" for n k
        by (simp add: last_drop)
      with l Decimal show ?thesis
        by (auto simp: pos_string_def Let_def last_append is_digit_def split: if_splits)
    qed
    with JNum show ?thesis by (auto simp: is_space_def is_digit_def)
  qed (auto simp: quote_def is_space_def)
  ultimately show ?thesis using f(1) by (simp add: trimmed_def)
qed

lemma trim_write [simp]: "trim (json_write ind l v) = json_write ind l v"
  by (rule trim_id [OF trimmed_write])

lemma write_ne [simp]: "json_write ind l v \<noteq> []"
  using write_first [of ind l v] by auto

lemma loose_ok: "json_ok (parseLooseValue t)"
  by (auto simp: parseLooseValue_def Let_def nullish_def json_parse_ok split: option.splits)

text \<open>A text that is not a quoted string.\<close>

definition unquoted :: "jsstring \<Rightarrow> bool" where
  "unquoted t \<longleftrightarrow> (\<forall>s. json_parse (trim t) \<noteq> Some (JStr s))"

definition shown :: "jsstring \<Rightarrow> jsstring" where
  "shown t = toValueText (Some (parseLooseValue t))"

lemma toValueText_value: "(\<And>s. v \<noteq> JStr s) \<Longrightarrow> toValueText (Some v) = json_stringify v"
  by (cases v) auto

text \<open>The text that the value of a text is shown as reads like the text itself.\<close>

lemma shown_same:
  assumes "unquoted t"
  shows "trim (shown t) = [] \<longleftrightarrow> trim t = []" "json_parse (trim (shown t)) = json_parse (trim t)"
    "parseLooseValue (shown t) = parseLooseValue t"
proof -
  have "(trim (shown t) = [] \<longleftrightarrow> trim t = []) \<and> json_parse (trim (shown t)) = json_parse (trim t)"
  proof (cases "trim t = []")
    case True
    then show ?thesis by (simp add: shown_def parseLooseValue_def)
  next
    case False
    show ?thesis
    proof (cases "json_parse (trim t)")
      case None
      with False show ?thesis by (simp add: shown_def parseLooseValue_def Let_def)
    next
      case (Some v)
      then have "\<And>s. v \<noteq> JStr s" using assms by (auto simp: unquoted_def)
      with Some False have "shown t = json_stringify v"
        by (simp add: shown_def parseLooseValue_def Let_def toValueText_value)
      with Some False parse_stringify [OF json_parse_ok [OF Some]] show ?thesis
        by (simp add: json_stringify_def)
    qed
  qed
  then show "trim (shown t) = [] \<longleftrightarrow> trim t = []" "json_parse (trim (shown t)) = json_parse (trim t)"
    by blast+
  then show "parseLooseValue (shown t) = parseLooseValue t"
  proof (cases "json_parse (trim t)")
    case None
    have "shown t = trim t" using None by (simp add: shown_def parseLooseValue_def Let_def)
    then show ?thesis by (simp add: parseLooseValue_def)
  qed (auto simp: parseLooseValue_def Let_def \<open>(trim (shown t) = []) = (trim t = [])\<close> \<open>json_parse (trim (shown t)) = json_parse (trim t)\<close>)
qed

section \<open>Payloads\<close>

lemma lookup_if [simp]:
  "map_of ((if b then [] else [(k, v)]) @ ys) k' = (if \<not> b \<and> k' = k then Some v else map_of ys k')"
  "map_of ((if b then [(k, v)] else []) @ ys) k' = (if b \<and> k' = k then Some v else map_of ys k')"
  by auto

lemma not_index: "k \<noteq> [] \<Longrightarrow> \<not> is_digit (hd k) \<Longrightarrow> \<not> is_index k"
  using dec_digits [of "hd (dec (parse_dec k))" "parse_dec k"] by (auto simp: is_index_def)

lemma order_props_plain: "\<forall>p\<in>set ps. \<not> is_index (fst p) \<Longrightarrow> order_props ps = ps"
  by (simp add: order_props_def filter_id_conv)

text \<open>The keys that the editor writes are no array indices.\<close>

definition override_keys :: "jsstring list" where
  "override_keys = map js [''mode'', ''description'', ''path'', ''value'', ''keep_origin'', ''from'', ''to'', ''conditions'',
     ''logic'', ''invert'', ''pass_missing_key'', ''operations'', ''message'', ''status_code'', ''code'', ''type'', ''skip_retry'', ''recursive'']"

lemma override_key_plain: "k \<in> set override_keys \<Longrightarrow> \<not> is_index k"
  by (rule not_index) (auto simp: override_keys_def is_digit_def)

lemma subseq_distinct_keys: "subseq xs ys \<Longrightarrow> distinct ys \<Longrightarrow> distinct xs"
  by (auto simp: subseq_conv_nths intro: distinct_nthsI)

text \<open>An object put together from pieces, each of which has some of its keys in order.\<close>

lemma pieces_subseq:
  "list_all2 (\<lambda>p ks. subseq (map fst p) ks) pieces kss \<Longrightarrow> subseq (map fst (concat pieces)) (concat kss)"
  by (induction rule: list_all2_induct) (auto intro: list_emb_append_mono)

lemma pieces_object_ok:
  assumes "list_all2 (\<lambda>p ks. subseq (map fst p) ks) pieces kss" "distinct (concat kss)" "set (concat kss) \<subseteq> set override_keys"
    and "list_all (\<lambda>p. \<forall>x\<in>set p. json_ok (snd x)) pieces"
  shows "json_ok (JObj (concat pieces))"
proof -
  note sub = pieces_subseq [OF assms(1)]
  have "distinct (map fst (concat pieces))" using subseq_distinct_keys [OF sub assms(2)] .
  moreover have "set (map fst (concat pieces)) \<subseteq> set override_keys"
    using list_emb_set [OF sub] assms(3) by (metis subsetD subsetI)
  then have "order_props (concat pieces) = concat pieces"
    using override_key_plain by (intro order_props_plain) (auto simp: subset_iff)
  ultimately show ?thesis using assms(4) by (auto simp: list_all_iff)
qed

lemmas key_simps = js_inject override_keys_def

lemma condition_payload_ok:
  assumes "buildConditionPayload c = Some v"
  shows "json_ok v"
proof -
  let ?kss = "[[js ''path'', js ''mode'', js ''value''], [js ''invert''], [js ''pass_missing_key'']]"
  let ?pieces = "[[(js ''path'', JStr (trim (cond_path c))), (js ''mode'', JStr (str_or (cond_mode c) (js ''full''))),
      (js ''value'', parseLooseValue (cond_value_text c))],
    (if cond_invert c then [(js ''invert'', JBool True)] else []),
    (if cond_pass_missing_key c then [(js ''pass_missing_key'', JBool True)] else [])]"
  have "v = JObj (concat ?pieces)" using assms by (simp add: buildConditionPayload_def Let_def split: if_splits del: js_Cons)
  moreover have "json_ok (JObj (concat ?pieces))"
    by (rule pieces_object_ok [of _ ?kss]) (simp_all add: key_simps loose_ok del: js_Cons)
  ultimately show ?thesis by simp
qed

lemma conditions_payload_ok: "v \<in> set (List.map_filter buildConditionPayload cs) \<Longrightarrow> json_ok v"
  by (auto simp: List.map_filter_def condition_payload_ok)

lemma operation_payload_ok: "json_ok (operation_payload op)"
proof -
  let ?kss = "[[js ''mode''], [js ''description''], [js ''path''], [js ''value''], [js ''keep_origin''], [js ''from''], [js ''to''],
    [js ''conditions'', js ''logic'']]"
  have pieces: "json_ok (JObj (p1 @ p2 @ p3 @ p4 @ p5 @ p6 @ p7 @ p8))"
    if "list_all2 (\<lambda>p ks. subseq (map fst p) ks) [p1, p2, p3, p4, p5, p6, p7, p8] ?kss"
      "list_all (\<lambda>p. \<forall>x\<in>set p. json_ok (snd x)) [p1, p2, p3, p4, p5, p6, p7, p8]" for p1 p2 p3 p4 p5 p6 p7 p8
    using pieces_object_ok [OF that(1) _ _ that(2)] by (simp add: key_simps del: js_Cons json_ok.simps)
  show ?thesis unfolding operation_payload_def Let_def
    by (rule pieces) (simp_all add: loose_ok conditions_payload_ok del: js_Cons)
qed

lemma operations_payload_ok: "json_ok (operations_payload ops)"
  using pieces_object_ok [of "[[(js ''operations'', JArr (map operation_payload ops))]]" "[[js ''operations'']]"]
  by (simp add: operations_payload_def key_simps operation_payload_ok del: js_Cons)

section \<open>Reading a payload\<close>

abbreviation payload_mode :: "ParamOverrideOperation \<Rightarrow> jsstring" where
  "payload_mode op \<equiv> str_or (op_mode op) (js ''set'')"

abbreviation payload_meta :: "ParamOverrideOperation \<Rightarrow> ModeMeta" where
  "payload_meta op \<equiv> mode_meta (payload_mode op)"

definition aliased :: "ParamOverrideOperation \<Rightarrow> jsstring \<Rightarrow> jsstring" where
  "aliased op s = (if meta_pathAlias (payload_meta op) \<and> s = [] then trim (op_path op) else s)"

definition payload_conditions :: "ParamOverrideOperation \<Rightarrow> decimal json list" where
  "payload_conditions op = List.map_filter buildConditionPayload (op_conditions op)"

lemma payload_props:
  "jprop (operation_payload op) (js ''mode'') = Some (JStr (payload_mode op))"
  "jprop (operation_payload op) (js ''description'') =
     (if trim (op_description op) = [] then None else Some (JStr (trim (op_description op))))"
  "jprop (operation_payload op) (js ''path'') =
     (if meta_path (payload_meta op) \<or> meta_pathOptional (payload_meta op) \<and> trim (op_path op) \<noteq> []
      then Some (JStr (trim (op_path op))) else None)"
  "jprop (operation_payload op) (js ''value'') =
     (if meta_value (payload_meta op) then Some (parseLooseValue (op_value_text op)) else None)"
  "jprop (operation_payload op) (js ''keep_origin'') =
     (if meta_keepOrigin (payload_meta op) \<and> op_keep_origin op then Some (JBool True) else None)"
  "jprop (operation_payload op) (js ''from'') =
     (if meta_from (payload_meta op) then Some (JStr (aliased op (trim (op_from op)))) else None)"
  "jprop (operation_payload op) (js ''to'') =
     (if meta_to (payload_meta op) \<or> trim (op_to op) \<noteq> [] then Some (JStr (aliased op (trim (op_to op)))) else None)"
  "jprop (operation_payload op) (js ''conditions'') =
     (if payload_conditions op = [] then None else Some (JArr (payload_conditions op)))"
  "jprop (operation_payload op) (js ''logic'') =
     (if payload_conditions op = [] then None else Some (JStr (if op_logic op = js ''AND'' then js ''AND'' else js ''OR'')))"
  by (simp_all add: operation_payload_def Let_def aliased_def payload_conditions_def js_inject del: js_Cons)

lemma payload_object: "\<exists>ps. operation_payload op = JObj ps"
  by (simp add: operation_payload_def Let_def)

lemma payload_not_null [simp]: "operation_payload op \<noteq> JNull"
  using payload_object [of op] by auto

lemma condition_props:
  assumes "buildConditionPayload c = Some v"
  shows "jprop v (js ''path'') = Some (JStr (trim (cond_path c)))" "trim (cond_path c) \<noteq> []"
    "jprop v (js ''mode'') = Some (JStr (str_or (cond_mode c) (js ''full'')))"
    "jprop v (js ''value'') = Some (parseLooseValue (cond_value_text c))"
    "jprop v (js ''invert'') = (if cond_invert c then Some (JBool True) else None)"
    "jprop v (js ''pass_missing_key'') = (if cond_pass_missing_key c then Some (JBool True) else None)"
    "\<exists>ps. v = JObj ps"
  using assms by (auto simp: buildConditionPayload_def Let_def js_inject simp del: js_Cons split: if_splits)

section \<open>Opening what was saved\<close>

lemma condition_mode_valid: "m \<in> set CONDITION_MODE_VALUES \<Longrightarrow> str_or m d = m"
  by (auto simp: CONDITION_MODE_VALUES_def)

lemma operation_mode_valid: "m \<in> set OPERATION_MODE_VALUES \<Longrightarrow> str_or m d = m"
  by (auto simp: OPERATION_MODE_VALUES_def)

lemma reopened_condition:
  assumes "buildConditionPayload c = Some v" "cond_mode c \<in> set CONDITION_MODE_VALUES" "unquoted (cond_value_text c)"
  shows "\<exists>c'. normalizeCondition clock v seed = Some (c', Suc seed) \<and> buildConditionPayload c' = Some v"
proof -
  note p = condition_props [OF assms(1)]
  obtain ps where v: "v = JObj ps" using p(7) by blast
  let ?c = "\<lparr>cond_id = fst (nextLocalId clock seed), cond_path = trim (cond_path c), cond_mode = cond_mode c,
    cond_value_text = shown (cond_value_text c), cond_invert = cond_invert c, cond_pass_missing_key = cond_pass_missing_key c\<rparr>"
  have "normalizeCondition clock v seed = Some (?c, Suc seed)"
    using p(1,3-6) v assms(2)
    by (simp add: normalizeCondition_def nextLocalId_def str_prop_def true_prop_def mode_in_def shown_def condition_mode_valid)
  moreover have "buildConditionPayload ?c = buildConditionPayload c"
    unfolding buildConditionPayload_def Let_def by (simp add: shown_same(3) [OF assms(3)] del: js_Cons)
  with assms(1) have "buildConditionPayload ?c = Some v" by simp
  ultimately show ?thesis by blast
qed

definition rule_ready :: "ParamOverrideOperation \<Rightarrow> bool" where
  "rule_ready op \<longleftrightarrow> op_mode op \<in> set OPERATION_MODE_VALUES \<and> unquoted (op_value_text op)
     \<and> (\<forall>c\<in>set (op_conditions op). cond_mode c \<in> set CONDITION_MODE_VALUES \<and> unquoted (cond_value_text c))"

lemma reopened_conditions:
  assumes "\<forall>c\<in>set cs. cond_mode c \<in> set CONDITION_MODE_VALUES \<and> unquoted (cond_value_text c)"
  shows "\<exists>cs' seed'. map_alloc (normalizeCondition clock) (List.map_filter buildConditionPayload cs) seed = Some (cs', seed')
    \<and> List.map_filter buildConditionPayload cs' = List.map_filter buildConditionPayload cs"
  using assms
proof (induction cs arbitrary: seed)
  case (Cons c cs)
  show ?case
  proof (cases "buildConditionPayload c")
    case None
    with Cons show ?thesis by (simp add: List.map_filter_simps)
  next
    case (Some v)
    from reopened_condition [OF Some] Cons.prems obtain c' where
      c': "normalizeCondition clock v seed = Some (c', Suc seed)" "buildConditionPayload c' = Some v" by fastforce
    from Cons.IH [of "Suc seed"] Cons.prems obtain cs' seed' where
      "map_alloc (normalizeCondition clock) (List.map_filter buildConditionPayload cs) (Suc seed) = Some (cs', seed')"
      "List.map_filter buildConditionPayload cs' = List.map_filter buildConditionPayload cs" by auto
    with Some c' show ?thesis by (simp add: List.map_filter_simps)
  qed
qed (simp add: List.map_filter_simps)

text \<open>A rule as it is opened again: fields trimmed, those its mode does not have left out.\<close>

definition reopened_as :: "ParamOverrideOperation \<Rightarrow> ParamOverrideOperation \<Rightarrow> bool" where
  "reopened_as op op' \<longleftrightarrow>
     op_description op' = trim (op_description op)
     \<and> op_mode op' = op_mode op
     \<and> op_path op' = (if meta_path (payload_meta op) \<or> meta_pathOptional (payload_meta op) then trim (op_path op) else [])
     \<and> op_value_text op' = (if meta_value (payload_meta op) then shown (op_value_text op) else [])
     \<and> op_keep_origin op' = (meta_keepOrigin (payload_meta op) \<and> op_keep_origin op)
     \<and> op_from op' = (if meta_from (payload_meta op) then aliased op (trim (op_from op)) else [])
     \<and> op_to op' = (if meta_to (payload_meta op) \<or> trim (op_to op) \<noteq> [] then aliased op (trim (op_to op)) else [])
     \<and> (payload_conditions op \<noteq> [] \<longrightarrow> op_logic op' = (if op_logic op = js ''AND'' then js ''AND'' else js ''OR''))
     \<and> payload_conditions op' = payload_conditions op"

lemma logic_simps: "logic_of (Some (JStr (js ''AND''))) = js ''AND''" "logic_of (Some (JStr (js ''OR''))) = js ''OR''"
  by (simp_all add: logic_of_def truthy_or_def ascii_upper_def)

lemma reopened_operation:
  assumes "rule_ready op"
  shows "\<exists>op' seed'. normalizeOperation clock (operation_payload op) seed = Some (op', seed') \<and> reopened_as op op'"
proof -
  have m: "op_mode op \<in> set OPERATION_MODE_VALUES" "payload_mode op = op_mode op"
    using assms by (simp_all add: rule_ready_def operation_mode_valid)
  from reopened_conditions [of "op_conditions op" clock "Suc seed"] assms obtain cs seed' where
    cs: "map_alloc (normalizeCondition clock) (payload_conditions op) (Suc seed) = Some (cs, seed')"
      "List.map_filter buildConditionPayload cs = payload_conditions op"
    by (auto simp: rule_ready_def payload_conditions_def)
  show ?thesis
  proof (cases "payload_conditions op = []")
    case True
    with cs have "cs = []" "seed' = Suc seed" by auto
    with True cs m show ?thesis
      by (simp add: normalizeOperation_def nextLocalId_def payload_props str_prop_def true_prop_def mode_in_def reopened_as_def
          shown_def payload_conditions_def List.map_filter_simps del: js_Cons)
  next
    case False
    with cs m show ?thesis
      by (simp add: normalizeOperation_def nextLocalId_def payload_props str_prop_def true_prop_def mode_in_def reopened_as_def
          shown_def payload_conditions_def logic_simps del: js_Cons)
  qed
qed

lemma reopened_payload:
  assumes "reopened_as op op'" "rule_ready op"
  shows "operation_payload op' = operation_payload op"
proof -
  have m: "payload_mode op' = payload_mode op" "payload_meta op' = payload_meta op"
    using assms(1) by (simp_all add: reopened_as_def)
  have v: "meta_value (payload_meta op) \<Longrightarrow> parseLooseValue (op_value_text op') = parseLooseValue (op_value_text op)"
    using assms shown_same(3) by (simp add: reopened_as_def rule_ready_def)
  show ?thesis
    using assms(1) v
    unfolding operation_payload_def Let_def m payload_conditions_def [symmetric] aliased_def [symmetric]
    by (simp add: reopened_as_def aliased_def del: js_Cons)
qed

lemma mode_fields:
  "m \<in> set FROM_REQUIRED_MODES \<Longrightarrow> meta_from (mode_meta m)"
  "m \<in> set TO_REQUIRED_MODES \<Longrightarrow> meta_to (mode_meta m)"
  "m \<in> set VALUE_REQUIRED_MODES \<Longrightarrow> meta_value (mode_meta m)"
  "meta_path (mode_meta (js ''set''))" "meta_value (mode_meta (js ''return_error''))" "meta_value (mode_meta (js ''pass_headers''))"
  by (auto simp: FROM_REQUIRED_MODES_def TO_REQUIRED_MODES_def VALUE_REQUIRED_MODES_def mode_meta_def MODE_META_def Let_def
      js_inject nullish_def no_meta_def set_meta_def simp del: js_Cons)

lemma value_modes: "js ''return_error'' \<in> set VALUE_REQUIRED_MODES" "js ''prune_objects'' \<in> set VALUE_REQUIRED_MODES" "js ''pass_headers'' \<in> set VALUE_REQUIRED_MODES"
  by (simp_all add: VALUE_REQUIRED_MODES_def)

text \<open>What a valid rule satisfies, one requirement at a time.\<close>

lemma rule_problem_None_iff:
  "rule_problem op = None \<longleftrightarrow>
     (meta_path (payload_meta op) \<longrightarrow> trim (op_path op) \<noteq> [])
     \<and> (payload_mode op \<in> set FROM_REQUIRED_MODES \<longrightarrow> aliased op (trim (op_from op)) \<noteq> [])
     \<and> (payload_mode op \<in> set TO_REQUIRED_MODES \<longrightarrow> aliased op (trim (op_to op)) \<noteq> [])
     \<and> (payload_mode op \<in> set VALUE_REQUIRED_MODES \<longrightarrow> trim (op_value_text op) \<noteq> [])
     \<and> (payload_mode op = js ''return_error'' \<longrightarrow>
          (\<forall>ps. json_parse (trim (op_value_text op)) = Some (JObj ps) \<longrightarrow> trim (or_prop (JObj ps) (js ''message'')) \<noteq> []))
     \<and> (payload_mode op = js ''pass_headers'' \<longrightarrow> parsePassHeaderNames (parseLooseValue (op_value_text op)) \<noteq> [])"
proof -
  have l: "parseLooseValue (trim t) = parseLooseValue t" for t by (simp add: parseLooseValue_def)
  have d: "js ''return_error'' \<noteq> js ''prune_objects''" "js ''return_error'' \<noteq> js ''pass_headers''" "js ''prune_objects'' \<noteq> js ''pass_headers''"
    by (simp_all add: js_inject del: js_Cons)
  have i: "(if a then Some x else e) = None \<longleftrightarrow> \<not> a \<and> e = None" for a and x :: RuleProblem and e by simp
  have o: "(case r of Some (JObj ps) \<Rightarrow> if P ps then Some x else None | _ \<Rightarrow> None) = None \<longleftrightarrow> (\<forall>ps. r = Some (JObj ps) \<longrightarrow> \<not> P ps)"
    for r :: "decimal json option" and x :: RuleProblem and P
    by (auto split: option.splits json.splits)
  consider "payload_mode op = js ''return_error''" | "payload_mode op = js ''prune_objects''" | "payload_mode op = js ''pass_headers''"
    | "payload_mode op \<notin> {js ''return_error'', js ''prune_objects'', js ''pass_headers''}" by blast
  then show ?thesis
    by cases (use d value_modes in \<open>simp_all add: rule_problem_def Let_def aliased_def l i o del: js_Cons\<close>, blast+)
qed

lemma trim_aliased [simp]: "trim (aliased op (trim s)) = aliased op (trim s)"
  by (simp add: aliased_def)

lemma aliased_ne: "s \<noteq> [] \<Longrightarrow> aliased op s = s"
  by (simp add: aliased_def)

lemma reopened_valid:
  assumes "reopened_as op op'" "rule_ready op" "rule_problem op = None"
  shows "rule_problem op' = None" "\<not> isOperationBlank op'"
proof -
  note r = assms(1) [unfolded reopened_as_def]
  have m: "payload_mode op' = payload_mode op" using r by simp
  have u: "unquoted (op_value_text op)" using assms(2) by (simp add: rule_ready_def)
  note q = assms(3) [unfolded rule_problem_None_iff]
  have path: "meta_path (payload_meta op) \<Longrightarrow> trim (op_path op') \<noteq> []" using r q by simp
  have "payload_mode op \<in> set FROM_REQUIRED_MODES \<Longrightarrow> aliased op' (trim (op_from op')) \<noteq> []"
    using r q mode_fields(1) by (simp add: aliased_ne)
  moreover have "payload_mode op \<in> set TO_REQUIRED_MODES \<Longrightarrow> aliased op' (trim (op_to op')) \<noteq> []"
    using r q mode_fields(2) by (simp add: aliased_ne)
  moreover have "payload_mode op \<in> set VALUE_REQUIRED_MODES \<Longrightarrow> trim (op_value_text op') \<noteq> []"
    using r q mode_fields(3) shown_same(1) [OF u] by simp
  moreover have "payload_mode op = js ''return_error'' \<Longrightarrow> json_parse (trim (op_value_text op')) = json_parse (trim (op_value_text op))"
    using r mode_fields(5) shown_same(2) [OF u] by simp
  moreover have "payload_mode op = js ''pass_headers'' \<Longrightarrow> parseLooseValue (op_value_text op') = parseLooseValue (op_value_text op)"
    using r mode_fields(6) shown_same(3) [OF u] by simp
  ultimately show "rule_problem op' = None" using path q unfolding rule_problem_None_iff m by simp
  have "op_mode op' = js ''set'' \<Longrightarrow> payload_mode op = js ''set''" using r by simp
  with path mode_fields(4) show "\<not> isOperationBlank op'" by (auto simp: isOperationBlank_def)
qed

lemma validate_None_iff: "validateOperations i ops = None \<longleftrightarrow> (\<forall>op\<in>set ops. rule_problem op = None)"
  by (induction ops arbitrary: i) (auto split: option.splits)

lemma reopened_operations:
  assumes "\<forall>op\<in>set ops. rule_ready op"
  shows "\<exists>ops' seed'. map_alloc (normalizeOperation clock) (map operation_payload ops) seed = Some (ops', seed')
    \<and> list_all2 reopened_as ops ops'"
  using assms
proof (induction ops arbitrary: seed)
  case (Cons op ops)
  from reopened_operation [of op clock seed] Cons.prems obtain op' s where
    op': "normalizeOperation clock (operation_payload op) seed = Some (op', s)" "reopened_as op op'" by auto
  with Cons.IH [of s] Cons.prems show ?case by fastforce
qed simp

lemma reopened_list:
  assumes "list_all2 reopened_as ops ops'" "\<forall>op\<in>set ops. rule_ready op" "\<forall>op\<in>set ops. rule_problem op = None"
  shows "map operation_payload ops' = map operation_payload ops" "\<forall>op\<in>set ops'. rule_problem op = None \<and> \<not> isOperationBlank op"
proof -
  have at: "i < length ops \<Longrightarrow> reopened_as (ops ! i) (ops' ! i)" "length ops' = length ops" for i
    using assms(1) by (simp_all add: list_all2_conv_all_nth)
  show "map operation_payload ops' = map operation_payload ops"
  proof (rule nth_equalityI)
    fix i assume "i < length (map operation_payload ops')"
    then have i: "i < length ops" "i < length ops'" using at(2) by simp_all
    then have "operation_payload (ops' ! i) = operation_payload (ops ! i)"
      using at(1) [OF i(1)] assms(2) nth_mem by (intro reopened_payload) blast+
    with i show "map operation_payload ops' ! i = map operation_payload ops ! i" by (simp only: nth_map)
  qed (simp add: at(2))
  show "\<forall>op\<in>set ops'. rule_problem op = None \<and> \<not> isOperationBlank op"
  proof
    fix op assume "op \<in> set ops'"
    then obtain i where i: "i < length ops" "op = ops' ! i" using at(2) by (metis in_set_conv_nth)
    have "rule_ready (ops ! i)" "rule_problem (ops ! i) = None" using assms(2,3) nth_mem [OF i(1)] by blast+
    from reopened_valid [OF at(1) [OF i(1)] this] i(2) show "rule_problem op = None \<and> \<not> isOperationBlank op" by (simp only:) blast
  qed
qed

lemma open_rules:
  assumes "trim t \<noteq> []" "json_parse (trim t) = Some (JObj ps)" "map_of ps (js ''operations'') = Some (JArr vs)"
  shows "parseInitialState clock t seed =
    map_option (map_prod (\<lambda>ops. \<lparr>editMode = EditVisual, visualMode = VisualOperations, legacyValue = [],
        operations = ops, jsonText = json_indented (JObj ps), jsonError = False\<rparr>) id) (opened_operations clock vs seed)"
  using assms by (simp add: parseInitialState_def del: js_Cons)

text \<open>C13: Saving rules is stable.  When the editor saves rules none of whose values is a quoted string, then
  opening the saved text gives the visual editor with rules that are saved as exactly the same text: trimming,
  fields that a mode does not have, path aliases and conditions without a path settle with the first save.\<close>

theorem param_resave_same:
  assumes "buildOperationsJson ops True = Inr t" "t \<noteq> []"
    and "\<forall>op\<in>set ops. rule_ready op"
  shows "\<exists>st seed'. parseInitialState clock t seed = Some (st, seed')
    \<and> editMode st = EditVisual \<and> visualMode st = VisualOperations \<and> buildOperationsJson (operations st) True = Inr t"
proof -
  define fops where "fops = filter (\<lambda>op. \<not> isOperationBlank op) ops"
  have f: "fops \<noteq> []" "validateOperations 0 fops = None" "t = json_indented (operations_payload fops)"
    using assms(1,2) by (auto simp: buildOperationsJson_def fops_def Let_def split: if_splits option.splits)
  have ready: "\<forall>op\<in>set fops. rule_ready op" using assms(3) by (simp add: fops_def)
  obtain ops' seed' where o: "map_alloc (normalizeOperation clock) (map operation_payload fops) seed = Some (ops', seed')"
      "list_all2 reopened_as fops ops'" using reopened_operations [OF ready] by blast
  have valid: "\<forall>op\<in>set fops. rule_problem op = None" using f(2) by (simp add: validate_None_iff)
  have ops': "map operation_payload ops' = map operation_payload fops" "\<forall>op\<in>set ops'. rule_problem op = None \<and> \<not> isOperationBlank op"
    using reopened_list [OF o(2) ready valid] by blast+
  have t: "trim t = t" "json_parse t = Some (operations_payload fops)"
    by (simp_all only: f(3) json_indented_def trim_write parse_written [OF operations_payload_ok])
  have "parseInitialState clock t seed = Some (\<lparr>editMode = EditVisual, visualMode = VisualOperations, legacyValue = [],
      operations = ops', jsonText = json_indented (operations_payload fops), jsonError = False\<rparr>, seed')"
    using open_rules [of t "[(js ''operations'', JArr (map operation_payload fops))]"] t assms(2) f(1) o(1)
    by (simp add: operations_payload_def opened_operations_def del: js_Cons)
  moreover have "filter (\<lambda>op. \<not> isOperationBlank op) ops' = ops'" "ops' \<noteq> []"
    using ops' f(1) by (auto simp: filter_id_conv)
  then have "buildOperationsJson ops' True = Inr t"
    using ops' f(3) validate_None_iff [of 0 ops'] by (simp add: buildOperationsJson_def operations_payload_def Let_def del: js_Cons)
  ultimately show ?thesis by simp
qed

definition sample_rule :: ParamOverrideOperation where
  "sample_rule = \<lparr>op_id = js ''po_0_0'', op_description = [], op_path = js '' temperature'', op_mode = js ''set'', op_from = [], op_to = [],
     op_value_text = js '' 0.70'', op_keep_origin = True, op_logic = js ''AND'',
     op_conditions = [\<lparr>cond_id = js ''po_0_1'', cond_path = js ''model'', cond_mode = js ''prefix'', cond_value_text = js ''gpt-'',
       cond_invert = False, cond_pass_missing_key = False\<rparr>]\<rparr>"

lemmas number_eval = skip_def json_space_def read_value.simps read_number_def read_unsigned_def read_digits_def is_digit_def
  read_fraction_def read_exponent_def Let_def norm.simps parse_dec_def

lemma json_parse_fails: "read_value (Suc n) (skip s) = None \<Longrightarrow> skip s \<noteq> [] \<Longrightarrow> hd (skip s) \<notin> {91, 123} \<Longrightarrow> json_parse s = None"
  by (auto simp: json_parse_def read_value.simps neq_Nil_conv split: if_splits)

lemma sample_values: "json_parse (js ''0.70'') = Some (JNum (Decimal 7 (-1)))" "json_parse (js ''gpt-'') = None"
  by (rule json_parse_complete [of "Suc 0" _ _ "[]"], simp_all add: number_eval)
    (rule json_parse_fails [of 0], simp_all add: number_eval)

lemma sample_texts [simp]:
  "trim (js '' 0.70'') = js ''0.70''" "trim (js ''gpt-'') = js ''gpt-''" "trim (js '' temperature'') = js ''temperature''"
  by (simp_all add: trim_def is_space_def)

lemma sample_ready: "rule_ready sample_rule" "rule_problem sample_rule = None" "\<not> isOperationBlank sample_rule"
proof -
  have ne: "js ''temperature'' \<noteq> []" "js ''set'' \<noteq> []" by simp_all
  show "rule_ready sample_rule"
    by (simp add: rule_ready_def sample_rule_def unquoted_def sample_values OPERATION_MODE_VALUES_def CONDITION_MODE_VALUES_def del: js_Cons)
  show "\<not> isOperationBlank sample_rule" using ne by (simp add: isOperationBlank_def sample_rule_def del: js_Cons)
  show "rule_problem sample_rule = None"
    using ne by (simp add: rule_problem_None_iff sample_rule_def str_or_def FROM_REQUIRED_MODES_def TO_REQUIRED_MODES_def
        VALUE_REQUIRED_MODES_def js_inject del: js_Cons)
qed

theorem param_resave_same_witness:
  "\<exists>st seed'. parseInitialState (\<lambda>_. 0) (json_indented (operations_payload [sample_rule])) 2 = Some (st, seed')
    \<and> editMode st = EditVisual \<and> visualMode st = VisualOperations
    \<and> buildOperationsJson (operations st) True = Inr (json_indented (operations_payload [sample_rule]))"
  by (rule param_resave_same [of "[sample_rule]"])
    (simp_all add: buildOperationsJson_def sample_ready Let_def json_indented_def)

end
