(* ===== verification/Param_Override_Agreement.thy ===== *)
theory Param_Override_Agreement
  imports Param_Override_Laws
begin

text \<open>
  What the gateway makes of the rules the editor saves, and where editor and gateway disagree.
\<close>

section \<open>The gateway reads what was saved\<close>

text \<open>A saved rule as the gateway is to read it.\<close>

definition server_condition :: "ParamOverrideCondition \<Rightarrow> ConditionOperation" where
  "server_condition c = \<lparr>Cond_Path = trim (cond_path c), Cond_Mode = cond_mode c,
     Cond_Value = Some (parseLooseValue (cond_value_text c)), Cond_Invert = cond_invert c,
     Cond_PassMissingKey = cond_pass_missing_key c\<rparr>"

definition server_operation :: "ParamOverrideOperation \<Rightarrow> ParamOperation" where
  "server_operation op =
     (let meta = mode_meta (op_mode op); conds = filter (\<lambda>c. trim (cond_path c) \<noteq> []) (op_conditions op) in
      \<lparr>Op_Path = (if meta_path meta \<or> meta_pathOptional meta then trim (op_path op) else []), Op_Mode = op_mode op,
       Op_Value = (if meta_value meta then Some (parseLooseValue (op_value_text op)) else None),
       Op_KeepOrigin = (meta_keepOrigin meta \<and> op_keep_origin op),
       Op_From = (if meta_from meta then aliased op (trim (op_from op)) else []),
       Op_To = (if meta_to meta \<or> trim (op_to op) \<noteq> [] then aliased op (trim (op_to op)) else []),
       Op_Conditions = map server_condition conds,
       Op_Logic = (if conds \<noteq> [] \<and> op_logic op = js ''AND'' then js ''AND'' else js ''OR'')\<rparr>)"

text \<open>The modes of a rule are those of the controls, and its condition paths have no space that only one side trims.\<close>

definition rule_shaped :: "ParamOverrideOperation \<Rightarrow> bool" where
  "rule_shaped op \<longleftrightarrow> op_mode op \<in> set OPERATION_MODE_VALUES
     \<and> (\<forall>c\<in>set (op_conditions op). cond_mode c \<in> set CONDITION_MODE_VALUES \<and> same_space (cond_path c))"

lemma trim_subset: "same_space s \<Longrightarrow> same_space (trim s)"
  using set_trim [of s] by (auto simp: same_space_def)

lemma go_string_simps: "jprop v k = Some (JStr s) \<Longrightarrow> go_string v k = s" "jprop v k = None \<Longrightarrow> go_string v k = []"
  by (simp_all add: go_string_def)

lemma go_bool_simps: "jprop v k = Some (JBool b) \<Longrightarrow> go_bool v k d = b" "jprop v k = None \<Longrightarrow> go_bool v k d = d"
  by (simp_all add: go_bool_def)

lemma condition_mode_trimmed: "m \<in> set CONDITION_MODE_VALUES \<Longrightarrow> TrimSpace m \<noteq> []"
  by (auto simp: CONDITION_MODE_VALUES_def TrimSpace_def go_space_def)

lemma read_condition:
  assumes "buildConditionPayload c = Some v" "cond_mode c \<in> set CONDITION_MODE_VALUES" "same_space (cond_path c)"
  shows "condition_item v = Some (server_condition c)"
proof -
  note p = condition_props [OF assms(1)]
  have g: "go_string v (js ''path'') = trim (cond_path c)" "go_string v (js ''mode'') = cond_mode c"
    using p(1,3) assms(2) by (simp_all add: go_string_def condition_mode_valid)
  have b: "go_bool v (js ''invert'') False = cond_invert c" "go_bool v (js ''pass_missing_key'') False = cond_pass_missing_key c"
    using p(5,6) by (simp_all add: go_bool_def)
  have t: "TrimSpace (trim (cond_path c)) \<noteq> []" "TrimSpace (cond_mode c) \<noteq> []"
    using p(2) TrimSpace_trim [OF trim_subset [OF assms(3)]] condition_mode_trimmed [OF assms(2)] by simp_all
  obtain ps where "v = JObj ps" using p(7) by blast
  with g b t p(4) show ?thesis by (simp add: condition_item_def server_condition_def Let_def del: js_Cons)
qed

lemma build_condition_None_iff: "buildConditionPayload c = None \<longleftrightarrow> trim (cond_path c) = []"
  by (simp add: buildConditionPayload_def Let_def)

lemma read_conditions:
  assumes "\<forall>c\<in>set cs. cond_mode c \<in> set CONDITION_MODE_VALUES \<and> same_space (cond_path c)"
  shows "sequence (map condition_item (List.map_filter buildConditionPayload cs))
    = Some (map server_condition (filter (\<lambda>c. trim (cond_path c) \<noteq> []) cs))"
  using assms
proof (induction cs)
  case (Cons c cs)
  show ?case
  proof (cases "buildConditionPayload c")
    case None
    then have "trim (cond_path c) = []" using build_condition_None_iff by blast
    with None Cons show ?thesis by (simp add: List.map_filter_simps)
  next
    case (Some v)
    then have "trim (cond_path c) \<noteq> []" using build_condition_None_iff [of c] by auto
    with Some Cons read_condition [OF Some] show ?thesis by (simp add: List.map_filter_simps)
  qed
qed (simp add: List.map_filter_simps)

lemma payload_conditions_Nil: "payload_conditions op = [] \<longleftrightarrow> filter (\<lambda>c. trim (cond_path c) \<noteq> []) (op_conditions op) = []"
  using build_condition_None_iff by (auto simp: payload_conditions_def List.map_filter_def filter_empty_conv)

lemma parse_operation_object:
  assumes "v = JObj ps" "jprop v (js ''mode'') = Some (JStr m)"
    and "(case jprop v (js ''conditions'') of None \<Rightarrow> Some [] | Some c \<Rightarrow> parseConditionOperations entries c) = Some cs"
  shows "parse_operation entries v = Some \<lparr>Op_Path = go_string v (js ''path''), Op_Mode = m, Op_Value = jprop v (js ''value''),
    Op_KeepOrigin = go_bool v (js ''keep_origin'') False, Op_From = go_string v (js ''from''), Op_To = go_string v (js ''to''),
    Op_Conditions = cs, Op_Logic = (case jprop v (js ''logic'') of Some (JStr s) \<Rightarrow> s | _ \<Rightarrow> js ''OR'')\<rparr>"
  using assms(2,3) unfolding parse_operation_def assms(1) by (simp del: js_Cons)

lemma read_operation:
  assumes "rule_shaped op"
  shows "parse_operation entries (operation_payload op) = Some (server_operation op)"
proof -
  have m: "payload_mode op = op_mode op" using assms by (simp add: rule_shaped_def operation_mode_valid)
  obtain ps where ps: "operation_payload op = JObj ps" using payload_object by blast
  note props = payload_props [of op, unfolded m]
  let ?cs = "filter (\<lambda>c. trim (cond_path c) \<noteq> []) (op_conditions op)"
  have "(case jprop (operation_payload op) (js ''conditions'') of None \<Rightarrow> Some [] | Some c \<Rightarrow> parseConditionOperations entries c)
      = Some (map server_condition ?cs)"
    using read_conditions [of "op_conditions op"] assms payload_conditions_Nil [of op]
    by (simp add: props(8) rule_shaped_def parseConditionOperations_def del: js_Cons) (simp add: payload_conditions_def)
  moreover have "(case jprop (operation_payload op) (js ''logic'') of Some (JStr s) \<Rightarrow> s | _ \<Rightarrow> js ''OR'')
      = (if ?cs \<noteq> [] \<and> op_logic op = js ''AND'' then js ''AND'' else js ''OR'')"
    using payload_conditions_Nil [of op] by (simp add: props(9) del: js_Cons)
  ultimately show ?thesis
    using parse_operation_object [OF ps props(1), of entries]
    by (simp add: server_operation_def go_string_def go_bool_def Let_def props del: js_Cons)
qed

lemma sequence_all: "(\<And>x. x \<in> set xs \<Longrightarrow> f x = Some (g x)) \<Longrightarrow> sequence (map f xs) = Some (map g xs)"
  by (induction xs) simp_all

text \<open>C14: The gateway reads the rules as the editor wrote them.  The text that the editor saves is read as a list of
  rules, never as legacy settings: one for every rule that is not blank, in order, with the mode, the trimmed path,
  source and target (or the path in their place), the value, and the conditions that have a path.\<close>

theorem server_reads_saved:
  assumes "buildOperationsJson ops validate = Inr t" "t \<noteq> []" "\<forall>op\<in>set ops. rule_shaped op"
  shows "\<exists>v. json_parse t = Some v
    \<and> tryParseOperations entries v = Some (map server_operation (filter (\<lambda>op. \<not> isOperationBlank op) ops))
    \<and> buildLegacyParamOverride v = []"
proof -
  let ?ops = "filter (\<lambda>op. \<not> isOperationBlank op) ops" and ?v = "operations_payload (filter (\<lambda>op. \<not> isOperationBlank op) ops)"
  have "t = json_indented ?v" using assms(1,2)
    by (auto simp: buildOperationsJson_def Let_def split: if_splits option.splits)
  then have "json_parse t = Some ?v" by (simp only: parse_indented [OF operations_payload_ok])
  moreover have "sequence (map (parse_operation entries) (map operation_payload ?ops)) = Some (map server_operation ?ops)"
    using sequence_all [of ?ops "\<lambda>op. parse_operation entries (operation_payload op)" server_operation] assms(3)
    by (simp add: read_operation comp_def)
  then have "tryParseOperations entries ?v = Some (map server_operation ?ops)"
    by (simp add: tryParseOperations_def operations_payload_def del: js_Cons)
  moreover have "buildLegacyParamOverride ?v = []"
    by (simp add: buildLegacyParamOverride_def operations_payload_def TrimSpace_def go_space_def fold_unit_def ascii_lower_def)
  ultimately show ?thesis by blast
qed

lemma sample_shaped: "rule_shaped sample_rule"
  by (simp add: rule_shaped_def sample_rule_def OPERATION_MODE_VALUES_def CONDITION_MODE_VALUES_def same_space_def)

lemma sample_built: "buildOperationsJson [sample_rule] True = Inr (json_indented (operations_payload [sample_rule]))"
  by (simp add: buildOperationsJson_def sample_ready Let_def)

theorem server_reads_saved_witness:
  "\<exists>v. json_parse (json_indented (operations_payload [sample_rule])) = Some v
    \<and> tryParseOperations id v = Some [server_operation sample_rule] \<and> buildLegacyParamOverride v = []"
proof -
  have "json_indented (operations_payload [sample_rule]) \<noteq> []" unfolding json_indented_def by (rule write_ne)
  from server_reads_saved [OF sample_built this, of id] show ?thesis by (simp add: sample_shaped sample_ready)
qed

section \<open>What saving loses\<close>

text \<open>A quoted value does not stay quoted.  A value text that is a string in quotes is saved as that string, but
  shown without its quotes when the rule is opened again: when the string itself spells another JSON value, the
  next save writes that value.\<close>

theorem quoted_value_lost:
  assumes "op_mode op \<in> set OPERATION_MODE_VALUES" "meta_value (mode_meta (op_mode op))"
    and "op_value_text op = json_stringify (JStr s)" "json_parse (trim s) = Some v" "trim s \<noteq> []"
    and "normalizeOperation clock (operation_payload op) seed = Some (op', seed')"
  shows "jprop (operation_payload op) (js ''value'') = Some (JStr s)
    \<and> jprop (operation_payload op') (js ''value'') = Some v"
proof -
  have m: "payload_mode op = op_mode op" using assms(1) by (simp add: operation_mode_valid)
  have val: "parseLooseValue (op_value_text op) = JStr s"
    using parse_stringify [of "JStr s"] assms(3) by (simp add: parseLooseValue_def json_stringify_def del: json_write.simps)
  have "op_mode op' = op_mode op" "op_value_text op' = s"
    using assms(1,2,6) by (auto simp: normalizeOperation_def nextLocalId_def payload_props m val mode_in_def bind_eq_Some_conv
        simp del: js_Cons split: option.splits)
  with assms(2,4,5) m val show ?thesis by (simp add: payload_props parseLooseValue_def del: js_Cons)
qed

definition quoted_rule :: ParamOverrideOperation where
  "quoted_rule = sample_rule\<lparr>op_value_text := json_stringify (JStr (js ''1'')), op_conditions := []\<rparr>"

theorem quoted_value_lost_witness:
  "\<exists>op' seed'. normalizeOperation (\<lambda>_. 0) (operation_payload quoted_rule) 2 = Some (op', seed')
    \<and> jprop (operation_payload quoted_rule) (js ''value'') = Some (JStr (js ''1''))
    \<and> jprop (operation_payload op') (js ''value'') = Some (JNum (Decimal 1 0))"
proof -
  have q: "op_mode quoted_rule = js ''set''" "op_conditions quoted_rule = []" "payload_conditions quoted_rule = []"
    "op_value_text quoted_rule = json_stringify (JStr (js ''1''))" "op_mode quoted_rule \<in> set OPERATION_MODE_VALUES"
    by (simp_all add: quoted_rule_def sample_rule_def payload_conditions_def List.map_filter_simps OPERATION_MODE_VALUES_def)
  then obtain op' seed' where n: "normalizeOperation (\<lambda>_. 0) (operation_payload quoted_rule) 2 = Some (op', seed')"
    by (simp add: normalizeOperation_def nextLocalId_def payload_props del: js_Cons)
  have "json_parse (trim (js ''1'')) = Some (JNum (Decimal 1 0))"
    by (rule json_parse_complete [of "Suc 0" _ _ "[]"]) (simp_all add: number_eval trim_def is_space_def)
  moreover have "meta_value (mode_meta (op_mode quoted_rule))"
    by (simp add: q(1) mode_meta_def MODE_META_def Let_def js_inject nullish_def set_meta_def no_meta_def del: js_Cons)
  ultimately show ?thesis using n quoted_value_lost [OF q(5) _ q(4) _ _ n]
    by (auto simp: trim_def is_space_def)
qed

text \<open>C33: Conditions written as an object are dropped.  The gateway accepts the conditions of a rule as an object of
  full matches and applies the rule only where they hold; the editor opens such a rule without conditions, and what it
  saves the gateway applies to every request.\<close>

theorem object_conditions_dropped:
  assumes "map_of ps (js ''conditions'') = Some (JObj cs)" "parse_operation entries (JObj ps) = Some sop"
  shows "Op_Conditions sop \<noteq> []
    \<and> (\<exists>op seed'. normalizeOperation clock (JObj ps) seed = Some (op, seed')
         \<and> (\<exists>sop'. parse_operation entries (operation_payload op) = Some sop' \<and> Op_Conditions sop' = []))"
proof -
  have "Op_Conditions sop \<noteq> []"
    using assms by (auto simp: parse_operation_def parseConditionOperations_def simp del: js_Cons split: option.splits json.splits if_splits)
  moreover obtain op seed' where n: "normalizeOperation clock (JObj ps) seed = Some (op, seed')"
      "op_conditions op = []" "op_mode op \<in> set OPERATION_MODE_VALUES"
  proof -
    have "mode_in OPERATION_MODE_VALUES v (js ''set'') \<in> set OPERATION_MODE_VALUES" for v
      by (auto simp: mode_in_def OPERATION_MODE_VALUES_def split: option.splits json.splits)
    with assms(1) show thesis using that
      by (simp add: normalizeOperation_def nextLocalId_def del: js_Cons)
  qed
  then have "rule_shaped op" by (simp add: rule_shaped_def)
  from read_operation [OF this, of entries] n(2)
  have "\<exists>sop'. parse_operation entries (operation_payload op) = Some sop' \<and> Op_Conditions sop' = []"
    by (simp add: server_operation_def Let_def)
  ultimately show ?thesis using n(1) by blast
qed

definition matched_rule :: "(jsstring \<times> decimal json) list" where
  "matched_rule = [(js ''mode'', JStr (js ''delete'')), (js ''path'', JStr (js ''tools'')),
     (js ''conditions'', JObj [(js ''model'', JStr (js ''gpt''))])]"

theorem object_conditions_dropped_witness:
  "\<exists>op seed'. normalizeOperation (\<lambda>_. 0) (JObj matched_rule) 0 = Some (op, seed')
    \<and> (\<exists>sop'. parse_operation id (operation_payload op) = Some sop' \<and> Op_Conditions sop' = [])"
proof -
  have c: "map_of matched_rule (js ''conditions'') = Some (JObj [(js ''model'', JStr (js ''gpt''))])"
    by (simp add: matched_rule_def)
  have "\<exists>sop. parse_operation id (JObj matched_rule) = Some sop"
    by (simp add: parse_operation_def matched_rule_def parseConditionOperations_def entry_conditions_def TrimSpace_def go_space_def)
  then show ?thesis using object_conditions_dropped [OF c, of id _ "\<lambda>_. 0" 0] by blast
qed

text \<open>C34: Settings beside the rules are dropped.  The gateway applies the other entries of an override that lists rules
  as plain settings; the editor opens such an override as its rules only, and what it saves has no other entry.\<close>

theorem settings_beside_rules_dropped:
  assumes "json_parse (trim t) = Some (JObj ps)" "map_of ps (js ''operations'') = Some (JArr vs)" "trim t \<noteq> []"
    and "(k, x) \<in> set ps" "map fold_unit (TrimSpace k) \<noteq> js ''operations''"
    and "parseInitialState clock t seed = Some (st, seed')" "buildOperationsJson (operations st) True = Inr t'" "t' \<noteq> []"
  shows "(k, x) \<in> set (buildLegacyParamOverride (JObj ps)) \<and> visualMode st = VisualOperations
    \<and> (\<exists>v'. json_parse t' = Some v' \<and> buildLegacyParamOverride v' = [])"
proof -
  have "(k, x) \<in> set (buildLegacyParamOverride (JObj ps))" using assms(4,5) by (simp add: buildLegacyParamOverride_def del: js_Cons)
  moreover have "visualMode st = VisualOperations"
    using assms(6) unfolding open_rules [OF assms(3,1,2)] by auto
  moreover have "t' = json_indented (operations_payload (filter (\<lambda>op. \<not> isOperationBlank op) (operations st)))"
    using assms(7,8) by (auto simp: buildOperationsJson_def Let_def split: if_splits option.splits)
  then have "json_parse t' = Some (operations_payload (filter (\<lambda>op. \<not> isOperationBlank op) (operations st)))"
    by (simp only: parse_indented [OF operations_payload_ok])
  moreover have "buildLegacyParamOverride (operations_payload ops) = []" for ops
    by (simp add: buildLegacyParamOverride_def operations_payload_def TrimSpace_def go_space_def fold_unit_def ascii_lower_def)
  ultimately show ?thesis by blast
qed

definition mixed_override :: "(jsstring \<times> decimal json) list" where
  "mixed_override = [(js ''temperature'', JNum 0), (js ''operations'', JArr [operation_payload sample_rule])]"

lemma mixed_override_ok: "json_ok (JObj mixed_override)"
proof -
  have "\<not> is_index (js ''temperature'')" "\<not> is_index (js ''operations'')"
    by (rule not_index; simp add: is_digit_def)+
  then have "order_props mixed_override = mixed_override"
    by (intro order_props_plain) (simp add: mixed_override_def del: js_Cons)
  then show ?thesis
    by (simp add: mixed_override_def operation_payload_ok zero_decimal_def js_inject del: js_Cons)
qed

theorem settings_beside_rules_dropped_witness:
  "\<exists>st seed' t' v'. parseInitialState (\<lambda>_. 0) (json_indented (JObj mixed_override)) 2 = Some (st, seed')
    \<and> buildOperationsJson (operations st) True = Inr t' \<and> json_parse t' = Some v'
    \<and> (js ''temperature'', JNum 0) \<in> set (buildLegacyParamOverride (JObj mixed_override)) \<and> buildLegacyParamOverride v' = []"
proof -
  let ?t = "json_indented (JObj mixed_override)"
  have t: "trim ?t = ?t" "?t \<noteq> []" "json_parse (trim ?t) = Some (JObj mixed_override)"
    using parse_indented [OF mixed_override_ok] by (simp_all add: json_indented_def del: json_write.simps)
  have m: "map_of mixed_override (js ''operations'') = Some (JArr [operation_payload sample_rule])"
    by (simp add: mixed_override_def js_inject del: js_Cons)
  obtain ops' seed' where o: "map_alloc (normalizeOperation (\<lambda>_. 0)) (map operation_payload [sample_rule]) 2 = Some (ops', seed')"
      "list_all2 reopened_as [sample_rule] ops'"
    using reopened_operations [of "[sample_rule]" "\<lambda>_. 0" 2] sample_ready(1) by auto
  note l = reopened_list [OF o(2)]
  have ops': "map operation_payload ops' = [operation_payload sample_rule]" "\<forall>op\<in>set ops'. rule_problem op = None \<and> \<not> isOperationBlank op"
    using l sample_ready by simp_all
  define st where "st = \<lparr>editMode = EditVisual, visualMode = VisualOperations, legacyValue = [], operations = ops', jsonText = ?t, jsonError = False\<rparr>"
  have open': "parseInitialState (\<lambda>_. 0) ?t 2 = Some (st, seed')"
    using open_rules [OF _ t(3) m, of "\<lambda>_. 0" 2] t(1,2) o(1) by (simp add: opened_operations_def st_def)
  have "ops' \<noteq> []" "filter (\<lambda>op. \<not> isOperationBlank op) ops' = ops'" using ops' by (auto simp: filter_id_conv)
  then have built: "buildOperationsJson (operations st) True = Inr (json_indented (operations_payload ops'))"
    using ops'(2) validate_None_iff [of 0 ops'] by (simp add: buildOperationsJson_def st_def Let_def)
  have "(js ''temperature'', JNum 0) \<in> set mixed_override" "map fold_unit (TrimSpace (js ''temperature'')) \<noteq> js ''operations''"
    by (simp_all add: mixed_override_def TrimSpace_def go_space_def fold_unit_def ascii_lower_def)
  from settings_beside_rules_dropped [OF t(3) m _ this open' built] t(1,2) open' built show ?thesis
    by (auto simp: json_indented_def)
qed

section \<open>Values that pass the editor\<close>

text \<open>C35: An empty pruning rule is saved and fails at the gateway.  A pruning draft in advanced mode with no type and no
  condition that has a path is written as an object with only a logic; the editor accepts the rule, and the gateway
  refuses its value, which fails every request that the rule applies to.\<close>

theorem empty_prune_rule_saved:
  assumes "\<not> pd_simpleMode draft" "trim (pd_typeText draft) = []" "\<forall>r\<in>set (pd_rules draft). trim (pr_path r) = []"
    and "op_mode op = js ''prune_objects''" "op_value_text op = buildPruneObjectsValueText draft"
  shows "rule_problem op = None \<and> parsePruneObjectsOptions entries (Some (parseLooseValue (op_value_text op))) = None"
proof -
  let ?v = "JObj [(js ''logic'', JStr (js ''AND''))]"
  have b: "op_value_text op = json_stringify ?v"
    using assms by (simp add: buildPruneObjectsValueText_def Let_def filter_empty_conv)
  have "json_ok ?v" using pieces_object_ok [of "[[(js ''logic'', JStr (js ''AND''))]]" "[[js ''logic'']]"]
    by (simp add: key_simps del: js_Cons)
  then have p: "json_parse (json_stringify ?v) = Some ?v" by (rule parse_stringify)
  have t: "trim (json_stringify ?v) = json_stringify ?v" "json_stringify ?v \<noteq> []"
    unfolding json_stringify_def by (rule trim_write, rule write_ne)
  have m: "payload_mode op = js ''prune_objects''" using assms(4) by (simp add: str_or_def)
  have "meta_path (mode_meta (js ''prune_objects'')) = False"
    by (simp add: mode_meta_def MODE_META_def Let_def js_inject nullish_def no_meta_def del: js_Cons)
  then have "rule_problem op = None"
    unfolding rule_problem_None_iff m b t(1)
    using t(2) by (simp add: FROM_REQUIRED_MODES_def TO_REQUIRED_MODES_def js_inject del: js_Cons)
  moreover have "parseLooseValue (op_value_text op) = ?v" using p t b by (simp add: parseLooseValue_def del: js_Cons)
  then have "parsePruneObjectsOptions entries (Some (parseLooseValue (op_value_text op))) = None"
    by (simp add: parsePruneObjectsOptions_def Let_def js_inject del: js_Cons)
  ultimately show ?thesis ..
qed

definition advanced_draft :: PruneObjectsDraft where
  "advanced_draft = \<lparr>pd_simpleMode = False, pd_typeText = [], pd_logic = js ''OR'', pd_recursive = True, pd_rules = []\<rparr>"

theorem empty_prune_rule_saved_witness:
  "rule_problem (sample_rule\<lparr>op_mode := js ''prune_objects'', op_value_text := buildPruneObjectsValueText advanced_draft\<rparr>) = None
    \<and> parsePruneObjectsOptions id (Some (parseLooseValue (buildPruneObjectsValueText advanced_draft))) = None"
  using empty_prune_rule_saved [of advanced_draft
      "sample_rule\<lparr>op_mode := js ''prune_objects'', op_value_text := buildPruneObjectsValueText advanced_draft\<rparr>" id]
  by (simp add: advanced_draft_def del: js_Cons)

section \<open>Custom errors\<close>

definition draft_payload :: "ReturnErrorDraft \<Rightarrow> decimal json" where
  "draft_payload draft = JObj
     ([(js ''message'', JStr (trim (re_message draft))), (js ''status_code'', JNum (status_or_400 (re_statusCode draft)))]
      @ (if trim (re_code draft) = [] then [] else [(js ''code'', JStr (trim (re_code draft)))])
      @ (if trim (re_type draft) = [] then [] else [(js ''type'', JStr (trim (re_type draft)))])
      @ (if re_skipRetry draft then [] else [(js ''skip_retry'', JBool False)]))"

definition status_canonical :: "ReturnErrorDraft \<Rightarrow> bool" where
  "status_canonical draft = (case re_statusCode draft of None \<Rightarrow> True | Some d \<Rightarrow> canonical d)"

lemma status_400: "decimal_of_int 400 = Decimal 4 2"
  by (simp add: decimal_of_int_def norm.simps)

lemma status_or_400_canonical: "status_canonical draft \<Longrightarrow> canonical (status_or_400 (re_statusCode draft))"
  by (auto simp: status_canonical_def status_or_400_def valid_status_def status_400 split: option.splits)

lemma status_or_400_valid: "valid_status (Some (status_or_400 d))"
  by (cases d) (auto simp: status_or_400_def valid_status_def status_400 split: option.splits)

lemma status_or_400_idem [simp]: "status_or_400 (Some (status_or_400 d)) = status_or_400 d"
  using status_or_400_valid [of d] by (simp add: status_or_400_def [of "Some _"])

lemma draft_payload_ok:
  assumes "status_canonical draft"
  shows "json_ok (draft_payload draft)"
proof -
  let ?kss = "[[js ''message'', js ''status_code''], [js ''code''], [js ''type''], [js ''skip_retry'']]"
  have pieces: "json_ok (JObj (p1 @ p2 @ p3 @ p4))"
    if "list_all2 (\<lambda>p ks. subseq (map fst p) ks) [p1, p2, p3, p4] ?kss"
      "list_all (\<lambda>p. \<forall>x\<in>set p. json_ok (snd x)) [p1, p2, p3, p4]" for p1 p2 p3 p4
    using pieces_object_ok [OF that(1) _ _ that(2)] by (simp add: key_simps del: js_Cons json_ok.simps)
  show ?thesis unfolding draft_payload_def
    by (rule pieces) (simp_all add: status_or_400_canonical [OF assms] del: js_Cons)
qed

lemma draft_text:
  assumes "\<not> re_simpleMode draft" "status_canonical draft"
  shows "trim (buildReturnErrorValueText draft) = buildReturnErrorValueText draft" "buildReturnErrorValueText draft \<noteq> []"
    "json_parse (buildReturnErrorValueText draft) = Some (draft_payload draft)"
proof -
  have b: "buildReturnErrorValueText draft = json_stringify (draft_payload draft)"
    using assms(1) by (simp add: buildReturnErrorValueText_def draft_payload_def Let_def del: js_Cons)
  show "trim (buildReturnErrorValueText draft) = buildReturnErrorValueText draft" "buildReturnErrorValueText draft \<noteq> []"
    unfolding b json_stringify_def by (rule trim_write, rule write_ne)
  show "json_parse (buildReturnErrorValueText draft) = Some (draft_payload draft)"
    unfolding b by (rule parse_stringify [OF draft_payload_ok [OF assms(2)]])
qed

lemma draft_props:
  "jprop (draft_payload d) (js ''message'') = Some (JStr (trim (re_message d)))"
  "jprop (draft_payload d) (js ''msg'') = None" "jprop (draft_payload d) (js ''status'') = None"
  "jprop (draft_payload d) (js ''status_code'') = Some (JNum (status_or_400 (re_statusCode d)))"
  "jprop (draft_payload d) (js ''code'') = (if trim (re_code d) = [] then None else Some (JStr (trim (re_code d))))"
  "jprop (draft_payload d) (js ''type'') = (if trim (re_type d) = [] then None else Some (JStr (trim (re_type d))))"
  "jprop (draft_payload d) (js ''skip_retry'') = (if re_skipRetry d then None else Some (JBool False))"
  by (simp_all add: draft_payload_def js_inject del: js_Cons)

text \<open>A draft that is written and read again is the draft with its texts trimmed and an invalid status replaced.\<close>

theorem return_error_draft_roundtrip:
  assumes "\<not> re_simpleMode draft" "status_canonical draft"
  shows "parseReturnErrorDraft (buildReturnErrorValueText draft) =
    draft\<lparr>re_message := trim (re_message draft), re_statusCode := Some (status_or_400 (re_statusCode draft)),
      re_code := trim (re_code draft), re_type := trim (re_type draft)\<rparr>"
proof -
  obtain ps where ps: "draft_payload draft = JObj ps" by (simp add: draft_payload_def)
  note d = draft_text [OF assms] and p = draft_props [of draft]
  have "parseReturnErrorDraft (buildReturnErrorValueText draft) =
    \<lparr>re_message = trim (json_String (truthy_or (jprop (draft_payload draft) (js ''message''))
         (truthy_or (jprop (draft_payload draft) (js ''msg'')) (JStr [])))),
     re_statusCode = Some (status_or_400 (json_Number (jprop (draft_payload draft) (js ''status_code'')))),
     re_code = trim (or_prop (draft_payload draft) (js ''code'')), re_type = trim (or_prop (draft_payload draft) (js ''type'')),
     re_skipRetry = (jprop (draft_payload draft) (js ''skip_retry'') \<noteq> Some (JBool False)), re_simpleMode = False\<rparr>"
    using d p(4) unfolding parseReturnErrorDraft_def ps by (simp add: Let_def del: js_Cons)
  also have "\<dots> = draft\<lparr>re_message := trim (re_message draft), re_statusCode := Some (status_or_400 (re_statusCode draft)),
      re_code := trim (re_code draft), re_type := trim (re_type draft)\<rparr>"
    unfolding p truthy_or_def or_prop_def using assms(1)
    by (intro ReturnErrorDraft.equality) (simp_all del: js_Cons)
  finally show ?thesis .
qed

lemma return_error_object:
  assumes "v = JObj ps" "TrimSpace (go_string v (js ''message'')) = m" "TrimSpace (go_string v (js ''msg'')) = []"
    "(case jprop v (js ''code'') of None \<Rightarrow> [] | Some c \<Rightarrow> TrimSpace (sprint c)) = c" "TrimSpace (go_string v (js ''type'')) = k"
    "go_bool v (js ''skip_retry'') True = sr" "jprop v (js ''status_code'') = Some x" "parseOverrideInt x = Some st"
  shows "parseParamOverrideReturnError sprint (Some v) =
    (if m = [] \<or> st < 100 \<or> 511 < st then None
     else Some \<lparr>Err_Message = m, Err_StatusCode = st, Err_Code = str_or c (js ''invalid_request''),
                Err_Type = str_or k (js ''invalid_request_error''), Err_SkipRetry = sr\<rparr>)"
  using assms(2-) unfolding parseParamOverrideReturnError_def assms(1) by (simp add: Let_def del: js_Cons jprop.simps)

lemma return_error_valid:
  assumes "\<not> re_simpleMode draft" "status_canonical draft"
    and "op_mode op = js ''return_error''" "op_value_text op = buildReturnErrorValueText draft"
  shows "rule_problem op = None \<longleftrightarrow> trim (re_message draft) \<noteq> []"
proof -
  note d = draft_text [OF assms(1,2)]
  have m: "payload_mode op = js ''return_error''" using assms(3) by (simp add: str_or_def)
  have q: "meta_path (mode_meta (js ''return_error'')) = False"
    by (simp add: mode_meta_def MODE_META_def Let_def js_inject nullish_def no_meta_def del: js_Cons)
  obtain ps where ps: "draft_payload draft = JObj ps" by (simp add: draft_payload_def)
  have o: "trim (or_prop (JObj ps) (js ''message'')) = trim (re_message draft)"
    unfolding ps [symmetric] or_prop_def draft_props truthy_or_def by simp
  show ?thesis
    unfolding rule_problem_None_iff m assms(4) d(1,3) ps
    using d(2) q o by (simp add: FROM_REQUIRED_MODES_def TO_REQUIRED_MODES_def js_inject del: js_Cons)
qed

text \<open>C25: Editor and gateway agree on custom errors except for the highest status codes.  What the editor writes for an
  advanced draft the gateway reads as that error, with its defaults for an empty code or type; it refuses an empty message,
  which the editor refuses too, and a status from 512 to 599, which the editor accepts.\<close>

theorem return_error_read:
  assumes "\<not> re_simpleMode draft" "status_canonical draft" "same_space (re_message draft)" "same_space (re_code draft)" "same_space (re_type draft)"
    and "\<And>s. sprint (JStr s) = s" "decimal_int (status_or_400 (re_statusCode draft)) = Some st"
    and "op_mode op = js ''return_error''" "op_value_text op = buildReturnErrorValueText draft"
  shows "(rule_problem op = None \<longleftrightarrow> trim (re_message draft) \<noteq> []) \<and> st \<le> 599 \<and>
    parseParamOverrideReturnError sprint (Some (parseLooseValue (op_value_text op))) =
    (if trim (re_message draft) = [] \<or> 511 < st then None
     else Some \<lparr>Err_Message = trim (re_message draft), Err_StatusCode = st,
                Err_Code = str_or (trim (re_code draft)) (js ''invalid_request''),
                Err_Type = str_or (trim (re_type draft)) (js ''invalid_request_error''), Err_SkipRetry = re_skipRetry draft\<rparr>)"
proof -
  obtain ps where ps: "draft_payload draft = JObj ps" by (simp add: draft_payload_def)
  note p = draft_props [of draft]
  have v: "parseLooseValue (buildReturnErrorValueText draft) = draft_payload draft"
    using draft_text [OF assms(1,2)] by (simp add: parseLooseValue_def Let_def)
  have t: "TrimSpace (trim s) = trim s" if "same_space s" for s
    using TrimSpace_trim [OF trim_subset [OF that]] by simp
  have s: "100 \<le> st" "st \<le> 599" using status_or_400_valid [of "re_statusCode draft"] assms(7) by (simp_all add: valid_status_def)
  have g: "go_string (draft_payload draft) (js ''message'') = trim (re_message draft)"
    "go_string (draft_payload draft) (js ''msg'') = []"
    "go_string (draft_payload draft) (js ''type'') = trim (re_type draft)"
    "go_bool (draft_payload draft) (js ''skip_retry'') True = re_skipRetry draft"
    by (simp_all add: go_string_def go_bool_def p del: js_Cons)
  have e: "TrimSpace [] = []" by (simp add: TrimSpace_def)
  have code: "(case jprop (draft_payload draft) (js ''code'') of None \<Rightarrow> [] | Some c \<Rightarrow> TrimSpace (sprint c)) = trim (re_code draft)"
    by (simp add: p assms(6) t [OF assms(4)] del: js_Cons)
  have e: "TrimSpace (go_string (draft_payload draft) (js ''msg'')) = []" by (simp add: g e del: js_Cons)
  have st: "parseOverrideInt (JNum (status_or_400 (re_statusCode draft))) = Some st" using assms(7) by (simp add: parseOverrideInt_def)
  show ?thesis
    unfolding assms(9) v return_error_valid [OF assms(1,2,8,9)] return_error_object [OF ps t [OF assms(3), folded g(1)] e code t [OF assms(5), folded g(3)] g(4) p(4)
      st]
    using s by (simp add: g del: js_Cons)
qed

definition sample_error :: ReturnErrorDraft where
  "sample_error = \<lparr>re_message = js ''stop'', re_statusCode = Some (decimal_of_int 520), re_code = [], re_type = [],
     re_skipRetry = True, re_simpleMode = False\<rparr>"

text \<open>The gateway refuses the status 520, which the editor accepts.\<close>

theorem return_error_read_witness:
  "\<exists>op. rule_problem op = None
    \<and> parseParamOverrideReturnError (\<lambda>v. case v of JStr s \<Rightarrow> s | _ \<Rightarrow> []) (Some (parseLooseValue (op_value_text op))) = None"
proof -
  have n: "decimal_of_int 520 = Decimal 52 1" by (simp add: decimal_of_int_def norm.simps)
  have t: "trim (js ''stop'') = js ''stop''" "js ''stop'' \<noteq> []" by (simp_all add: trim_def is_space_def)
  have i: "decimal_int (Decimal 52 1) = Some 520" by simp
  have c: "status_canonical sample_error" by (simp add: status_canonical_def sample_error_def n)
  have st: "decimal_int (status_or_400 (re_statusCode sample_error)) = Some 520"
    by (simp add: sample_error_def n i status_or_400_def valid_status_def)
  have sp: "same_space (re_message sample_error)" "same_space (re_code sample_error)" "same_space (re_type sample_error)"
    by (simp_all add: sample_error_def same_space_def)
  let ?op = "sample_rule\<lparr>op_mode := js ''return_error'', op_value_text := buildReturnErrorValueText sample_error\<rparr>"
  have s: "\<not> re_simpleMode sample_error" "re_message sample_error = js ''stop''" by (simp_all add: sample_error_def)
  from return_error_read [OF s(1) c sp _ st, of "\<lambda>v. case v of JStr s \<Rightarrow> s | _ \<Rightarrow> []" ?op] t s(2)
  have "rule_problem ?op = None \<and> parseParamOverrideReturnError (\<lambda>v. case v of JStr s \<Rightarrow> s | _ \<Rightarrow> [])
      (Some (parseLooseValue (op_value_text ?op))) = None"
    by (simp del: js_Cons)
  then show ?thesis by blast
qed

end
