(* ===== verification/Param_Override_Templates.thy ===== *)
theory Param_Override_Templates
  imports Param_Override
begin

text \<open>
  The templates of the editor of parameter overrides, as the JSON values they are.
\<close>

definition obj :: "(string \<times> decimal json) list \<Rightarrow> decimal json" where
  "obj ps = JObj (map (\<lambda>p. (js (fst p), snd p)) ps)"

definition text_value :: "string \<Rightarrow> decimal json" where
  "text_value s = JStr (js s)"

definition condition_template :: "string \<Rightarrow> string \<Rightarrow> string \<Rightarrow> decimal json" where
  "condition_template path mode match = obj [(''path'', text_value path), (''mode'', text_value mode), (''value'', text_value match)]"

definition LEGACY_TEMPLATE :: "decimal json" where
  "LEGACY_TEMPLATE = obj [(''temperature'', JNum 0), (''max_tokens'', JNum (decimal_of_int 1000))]"

definition OPERATION_TEMPLATE :: "decimal json" where
  "OPERATION_TEMPLATE = obj [(''operations'', JArr [obj
     [(''description'', text_value ''Set default temperature for openai/* models.''),
      (''path'', text_value ''temperature''), (''mode'', text_value ''set''), (''value'', JNum (Decimal 7 (-1))),
      (''conditions'', JArr [condition_template ''model'' ''prefix'' ''openai/'']),
      (''logic'', text_value ''AND'')]])]"

definition HEADER_PASSTHROUGH_TEMPLATE :: "decimal json" where
  "HEADER_PASSTHROUGH_TEMPLATE = obj [(''operations'', JArr [obj
     [(''description'', text_value ''Pass through X-Request-Id header to upstream.''),
      (''mode'', text_value ''pass_headers''), (''value'', JArr [text_value ''X-Request-Id'']),
      (''keep_origin'', JBool True)]])]"

definition GEMINI_IMAGE_4K_TEMPLATE :: "decimal json" where
  "GEMINI_IMAGE_4K_TEMPLATE = obj [(''operations'', JArr [obj
     [(''description'', text_value ''Set imageSize to 4K when model contains gemini/image and ends with 4k.''),
      (''mode'', text_value ''set''), (''path'', text_value ''generationConfig.imageConfig.imageSize''),
      (''value'', text_value ''4K''),
      (''conditions'', JArr [condition_template ''original_model'' ''contains'' ''gemini'',
         condition_template ''original_model'' ''contains'' ''image'',
         condition_template ''original_model'' ''suffix'' ''4k'']),
      (''logic'', text_value ''AND'')]])]"

definition CODEX_CLI_HEADER_PASSTHROUGH_HEADERS :: "string list" where
  "CODEX_CLI_HEADER_PASSTHROUGH_HEADERS =
     [''Originator'', ''Session_id'', ''Thread_id'', ''Session-Id'', ''Thread-Id'', ''X-Client-Request-Id'',
      ''User-Agent'', ''X-Codex-Beta-Features'', ''X-Codex-Turn-State'', ''X-Codex-Turn-Metadata'',
      ''X-Codex-Window-Id'', ''X-Codex-Parent-Thread-Id'', ''X-OpenAI-Subagent'', ''X-OpenAI-Memgen-Request'',
      ''X-ResponsesAPI-Include-Timing-Metrics'', ''X-OpenAI-Internal-Codex-Responses-Lite'']"

definition CLAUDE_CLI_HEADER_PASSTHROUGH_HEADERS :: "string list" where
  "CLAUDE_CLI_HEADER_PASSTHROUGH_HEADERS =
     [''X-Stainless-Arch'', ''X-Stainless-Lang'', ''X-Stainless-Os'', ''X-Stainless-Package-Version'',
      ''X-Stainless-Retry-Count'', ''X-Stainless-Runtime'', ''X-Stainless-Runtime-Version'', ''X-Stainless-Timeout'',
      ''User-Agent'', ''X-App'', ''Anthropic-Beta'', ''Anthropic-Dangerous-Direct-Browser-Access'', ''Anthropic-Version'']"

definition buildPassHeadersTemplate :: "string list \<Rightarrow> decimal json" where
  "buildPassHeadersTemplate headers = obj [(''operations'', JArr [obj
     [(''mode'', text_value ''pass_headers''), (''value'', JArr (map text_value headers)), (''keep_origin'', JBool True)]])]"

definition CODEX_CLI_HEADER_PASSTHROUGH_TEMPLATE :: "decimal json" where
  "CODEX_CLI_HEADER_PASSTHROUGH_TEMPLATE = obj [(''operations'', JArr [obj
     [(''mode'', text_value ''pass_headers''), (''value'', JArr (map text_value CODEX_CLI_HEADER_PASSTHROUGH_HEADERS)),
      (''keep_origin'', JBool True)]])]"

definition CLAUDE_CLI_HEADER_PASSTHROUGH_TEMPLATE :: "decimal json" where
  "CLAUDE_CLI_HEADER_PASSTHROUGH_TEMPLATE = buildPassHeadersTemplate CLAUDE_CLI_HEADER_PASSTHROUGH_HEADERS"

definition AWS_BEDROCK_ANTHROPIC_COMPAT_TEMPLATE :: "decimal json" where
  "AWS_BEDROCK_ANTHROPIC_COMPAT_TEMPLATE = obj [(''operations'', JArr
     [obj
       [(''description'', text_value ''Normalize anthropic-beta header tokens for Bedrock compatibility.''),
        (''mode'', text_value ''set_header''), (''path'', text_value ''anthropic-beta''),
        (''value'', obj
          [(''advanced-tool-use-2025-11-20'', text_value ''tool-search-tool-2025-10-19''),
           (''bash_20241022'', JNull), (''bash_20250124'', JNull), (''code-execution-2025-08-25'', JNull),
           (''compact-2026-01-12'', text_value ''compact-2026-01-12''),
           (''computer-use-2025-01-24'', text_value ''computer-use-2025-01-24''),
           (''computer-use-2025-11-24'', text_value ''computer-use-2025-11-24''),
           (''context-1m-2025-08-07'', text_value ''context-1m-2025-08-07''),
           (''context-management-2025-06-27'', text_value ''context-management-2025-06-27''),
           (''effort-2025-11-24'', JNull), (''fast-mode-2026-02-01'', JNull), (''files-api-2025-04-14'', JNull),
           (''fine-grained-tool-streaming-2025-05-14'', JNull),
           (''interleaved-thinking-2025-05-14'', text_value ''interleaved-thinking-2025-05-14''),
           (''mcp-client-2025-11-20'', JNull), (''mcp-client-2025-04-04'', JNull), (''mcp-servers-2025-12-04'', JNull),
           (''output-128k-2025-02-19'', JNull), (''structured-output-2024-03-01'', JNull),
           (''prompt-caching-scope-2026-01-05'', JNull), (''skills-2025-10-02'', JNull),
           (''structured-outputs-2025-11-13'', JNull), (''text_editor_20241022'', JNull), (''text_editor_20250124'', JNull),
           (''token-efficient-tools-2025-02-19'', JNull),
           (''tool-search-tool-2025-10-19'', text_value ''tool-search-tool-2025-10-19''),
           (''web-fetch-2025-09-10'', JNull), (''web-search-2025-03-05'', JNull), (''oauth-2025-04-20'', JNull)])],
      obj
       [(''description'', text_value ''Remove all tools[*].custom.input_examples before upstream relay.''),
        (''mode'', text_value ''delete''), (''path'', text_value ''tools.*.custom.input_examples'')]])]"

datatype TemplateKind = TemplateOperations | TemplateLegacy

definition TEMPLATE_PRESET_CONFIG :: "(jsstring \<times> TemplateKind \<times> decimal json) list" where
  "TEMPLATE_PRESET_CONFIG =
     [(js ''operations_default'', TemplateOperations, OPERATION_TEMPLATE),
      (js ''legacy_default'', TemplateLegacy, LEGACY_TEMPLATE),
      (js ''pass_headers_auth'', TemplateOperations, HEADER_PASSTHROUGH_TEMPLATE),
      (js ''gemini_image_4k'', TemplateOperations, GEMINI_IMAGE_4K_TEMPLATE),
      (js ''claude_cli_headers_passthrough'', TemplateOperations, CLAUDE_CLI_HEADER_PASSTHROUGH_TEMPLATE),
      (js ''codex_cli_headers_passthrough'', TemplateOperations, CODEX_CLI_HEADER_PASSTHROUGH_TEMPLATE),
      (js ''aws_bedrock_anthropic_beta_override'', TemplateOperations, AWS_BEDROCK_ANTHROPIC_COMPAT_TEMPLATE)]"

text \<open>The selected template, by default the first.\<close>

definition template_preset :: "jsstring \<Rightarrow> TemplateKind \<times> decimal json" where
  "template_preset key = nullish (map_of TEMPLATE_PRESET_CONFIG key) (TemplateOperations, OPERATION_TEMPLATE)"

text \<open>The rules a template lists.\<close>

definition template_operations :: "decimal json \<Rightarrow> decimal json list" where
  "template_operations payload = (case jprop payload (js ''operations'') of Some (JArr vs) \<Rightarrow> vs | _ \<Rightarrow> [])"

end
