(* ===== verification/Param_Override_Dialog.thy ===== *)
theory Param_Override_Dialog
  imports Param_Override_Templates
begin

text \<open>
  The dialog around the rules, the component \<open>ParamOverrideEditorDialog\<close>: its state and its handlers, one
  definition each, and the events that call them.  A patch lists the fields a control changes.  \<open>eager\<close> tells
  whether React runs a state updater during the handler or later.  A handler that throws leaves the state as it
  is; an effect that throws takes the dialog down (\<open>crashed\<close>).
\<close>

section \<open>State\<close>

record Dialog = EditorState +
  selectedOperationId :: jsstring
  operationSearch :: jsstring
  expandedConditions :: "(jsstring, bool) jsmap"
  draggedOperationId :: jsstring
  dragOverOperationId :: jsstring
  dragOverAfter :: bool
  templatePresetKey :: jsstring
  localIdSeed :: nat
  saved :: "jsstring list"
  toasts :: "EditorError list"
  dialog_open :: bool
  crashed :: bool

text \<open>The effect that initialises the dialog when it opens.\<close>

definition open_dialog :: "(nat \<Rightarrow> nat) \<Rightarrow> jsstring \<Rightarrow> Dialog \<Rightarrow> Dialog" where
  "open_dialog clock v d =
     (case parseInitialState clock v (localIdSeed d) of
        None \<Rightarrow> d\<lparr>crashed := True\<rparr>
      | Some (state, seed) \<Rightarrow>
          d\<lparr>editMode := editMode state, visualMode := visualMode state, legacyValue := legacyValue state,
            operations := operations state, jsonText := jsonText state, jsonError := jsonError state,
            operationSearch := [], selectedOperationId := (case operations state of [] \<Rightarrow> [] | op # _ \<Rightarrow> op_id op),
            expandedConditions := [], draggedOperationId := [], dragOverOperationId := [], dragOverAfter := False,
            templatePresetKey := (if visualMode state = VisualLegacy then js ''legacy_default'' else js ''operations_default''),
            localIdSeed := seed, dialog_open := True\<rparr>)"

text \<open>The effect that keeps the selection valid.\<close>

definition keep_selected :: "Dialog \<Rightarrow> Dialog" where
  "keep_selected d =
     (case operations d of
        [] \<Rightarrow> d\<lparr>selectedOperationId := []\<rparr>
      | op # _ \<Rightarrow>
          if \<exists>o'\<in>set (operations d). op_id o' = selectedOperationId d then d
          else d\<lparr>selectedOperationId := op_id op\<rparr>)"

definition filteredOperations :: "(jsstring \<Rightarrow> jsstring) \<Rightarrow> Dialog \<Rightarrow> ParamOverrideOperation list" where
  "filteredOperations lower d =
     (let keyword = lower (trim (operationSearch d)) in
      if keyword = [] then operations d
      else filter (\<lambda>op. str_includes
             (lower (join [32] (filter (\<lambda>s. s \<noteq> [])
                [op_description op, op_mode op, op_path op, op_from op, op_to op, op_value_text op]))) keyword) (operations d))"

section \<open>Rules and conditions\<close>

record OperationPatch =
  patch_description :: "jsstring option"
  patch_path :: "jsstring option"
  patch_mode :: "jsstring option"
  patch_from :: "jsstring option"
  patch_to :: "jsstring option"
  patch_value_text :: "jsstring option"
  patch_keep_origin :: "bool option"
  patch_logic :: "jsstring option"

definition patch_operation :: "OperationPatch \<Rightarrow> ParamOverrideOperation \<Rightarrow> ParamOverrideOperation" where
  "patch_operation p op = op\<lparr>op_description := nullish (patch_description p) (op_description op),
     op_path := nullish (patch_path p) (op_path op), op_mode := nullish (patch_mode p) (op_mode op),
     op_from := nullish (patch_from p) (op_from op), op_to := nullish (patch_to p) (op_to op),
     op_value_text := nullish (patch_value_text p) (op_value_text op),
     op_keep_origin := nullish (patch_keep_origin p) (op_keep_origin op), op_logic := nullish (patch_logic p) (op_logic op)\<rparr>"

definition update_op :: "jsstring \<Rightarrow> (ParamOverrideOperation \<Rightarrow> ParamOverrideOperation) \<Rightarrow> Dialog \<Rightarrow> Dialog" where
  "update_op operationId f d = d\<lparr>operations := map (\<lambda>op. if op_id op = operationId then f op else op) (operations d)\<rparr>"

definition updateOperation :: "jsstring \<Rightarrow> OperationPatch \<Rightarrow> Dialog \<Rightarrow> Dialog" where
  "updateOperation operationId p d = update_op operationId (patch_operation p) d"

definition addOperation :: "(nat \<Rightarrow> nat) \<Rightarrow> Dialog \<Rightarrow> Dialog" where
  "addOperation clock d =
     (let (created, seed) = createDefaultOperation clock (localIdSeed d) in
      d\<lparr>operations := operations d @ [created], selectedOperationId := op_id created, localIdSeed := seed\<rparr>)"

definition condition_source :: "ParamOverrideCondition \<Rightarrow> decimal json" where
  "condition_source c = JObj [(js ''path'', JStr (cond_path c)), (js ''mode'', JStr (cond_mode c)),
     (js ''value'', parseLooseValue (cond_value_text c)), (js ''invert'', JBool (cond_invert c)),
     (js ''pass_missing_key'', JBool (cond_pass_missing_key c))]"

definition operation_source :: "ParamOverrideOperation \<Rightarrow> decimal json" where
  "operation_source s = JObj [(js ''description'', JStr (op_description s)), (js ''path'', JStr (op_path s)),
     (js ''mode'', JStr (op_mode s)), (js ''value'', parseLooseValue (op_value_text s)),
     (js ''keep_origin'', JBool (op_keep_origin s)), (js ''from'', JStr (op_from s)), (js ''to'', JStr (op_to s)),
     (js ''logic'', JStr (op_logic s)), (js ''conditions'', JArr (map condition_source (op_conditions s)))]"

definition duplicateOperation :: "(nat \<Rightarrow> nat) \<Rightarrow> bool \<Rightarrow> jsstring \<Rightarrow> Dialog \<Rightarrow> Dialog" where
  "duplicateOperation clock eager operationId d =
     (case findIndex (\<lambda>op. op_id op = operationId) (operations d) of
        None \<Rightarrow> d
      | Some idx \<Rightarrow>
          (case normalizeOperation clock (operation_source (operations d ! idx)) (localIdSeed d) of
             None \<Rightarrow> d
           | Some (cloned, seed) \<Rightarrow>
               d\<lparr>operations := insert_at (Suc idx) cloned (operations d), localIdSeed := seed,
                 selectedOperationId := (if eager then op_id cloned else selectedOperationId d)\<rparr>))"

definition removeOperation :: "(nat \<Rightarrow> nat) \<Rightarrow> jsstring \<Rightarrow> Dialog \<Rightarrow> Dialog" where
  "removeOperation clock operationId d =
     (if length (operations d) \<le> 1 then
        let (created, seed) = createDefaultOperation clock (localIdSeed d) in
        d\<lparr>operations := [created], localIdSeed := seed\<rparr>
      else d\<lparr>operations := filter (\<lambda>op. op_id op \<noteq> operationId) (operations d)\<rparr>)"

definition addCondition :: "(nat \<Rightarrow> nat) \<Rightarrow> jsstring \<Rightarrow> Dialog \<Rightarrow> Dialog" where
  "addCondition clock operationId d =
     (let (created, seed) = createDefaultCondition clock (localIdSeed d) in
      update_op operationId (\<lambda>op. op\<lparr>op_conditions := op_conditions op @ [created]\<rparr>)
        (d\<lparr>localIdSeed := seed, expandedConditions := map_put (expandedConditions d) (cond_id created) True\<rparr>))"

record ConditionPatch =
  cpatch_path :: "jsstring option"
  cpatch_mode :: "jsstring option"
  cpatch_value_text :: "jsstring option"
  cpatch_invert :: "bool option"
  cpatch_pass_missing_key :: "bool option"

definition patch_condition :: "ConditionPatch \<Rightarrow> ParamOverrideCondition \<Rightarrow> ParamOverrideCondition" where
  "patch_condition p c = c\<lparr>cond_path := nullish (cpatch_path p) (cond_path c), cond_mode := nullish (cpatch_mode p) (cond_mode c),
     cond_value_text := nullish (cpatch_value_text p) (cond_value_text c), cond_invert := nullish (cpatch_invert p) (cond_invert c),
     cond_pass_missing_key := nullish (cpatch_pass_missing_key p) (cond_pass_missing_key c)\<rparr>"

definition updateCondition :: "jsstring \<Rightarrow> jsstring \<Rightarrow> ConditionPatch \<Rightarrow> Dialog \<Rightarrow> Dialog" where
  "updateCondition operationId conditionId p d =
     update_op operationId (\<lambda>op. op\<lparr>op_conditions :=
       map (\<lambda>c. if cond_id c = conditionId then patch_condition p c else c) (op_conditions op)\<rparr>) d"

definition removeCondition :: "jsstring \<Rightarrow> jsstring \<Rightarrow> Dialog \<Rightarrow> Dialog" where
  "removeCondition operationId conditionId d =
     update_op operationId (\<lambda>op. op\<lparr>op_conditions := filter (\<lambda>c. cond_id c \<noteq> conditionId) (op_conditions op)\<rparr>) d"

text \<open>Expanding and collapsing all conditions of the selected rule.\<close>

definition expand_conditions :: "bool \<Rightarrow> Dialog \<Rightarrow> Dialog" where
  "expand_conditions b d =
     (case List.find (\<lambda>op. op_id op = selectedOperationId d) (operations d) of
        None \<Rightarrow> d
      | Some op \<Rightarrow> d\<lparr>expandedConditions := foldl (\<lambda>m c. map_put m (cond_id c) b) (expandedConditions d) (op_conditions op)\<rparr>)"

section \<open>Drafts\<close>

record ReturnErrorPatch =
  rpatch_message :: "jsstring option"
  rpatch_statusCode :: "decimal option"
  rpatch_code :: "jsstring option"
  rpatch_type :: "jsstring option"
  rpatch_skipRetry :: "bool option"
  rpatch_simpleMode :: "bool option"

definition patch_return_error :: "ReturnErrorPatch \<Rightarrow> ReturnErrorDraft \<Rightarrow> ReturnErrorDraft" where
  "patch_return_error p dr = dr\<lparr>re_message := nullish (rpatch_message p) (re_message dr),
     re_statusCode := nullish_opt (rpatch_statusCode p) (re_statusCode dr), re_code := nullish (rpatch_code p) (re_code dr),
     re_type := nullish (rpatch_type p) (re_type dr), re_skipRetry := nullish (rpatch_skipRetry p) (re_skipRetry dr),
     re_simpleMode := nullish (rpatch_simpleMode p) (re_simpleMode dr)\<rparr>"

definition updateReturnErrorDraft :: "jsstring \<Rightarrow> ReturnErrorPatch \<Rightarrow> Dialog \<Rightarrow> Dialog" where
  "updateReturnErrorDraft operationId p d =
     update_op operationId (\<lambda>op. op\<lparr>op_value_text :=
       buildReturnErrorValueText (patch_return_error p (parseReturnErrorDraft (op_value_text op)))\<rparr>) d"

text \<open>\<open>updatePruneObjectsDraft\<close>: the draft is read from the text of the rule again, which numbers its rules
  anew, then updated and written back.\<close>

type_synonym prune_updater = "PruneObjectsDraft \<Rightarrow> nat \<Rightarrow> PruneObjectsDraft \<times> nat"

fun update_prune :: "(nat \<Rightarrow> nat) \<Rightarrow> jsstring \<Rightarrow> prune_updater \<Rightarrow> ParamOverrideOperation list \<Rightarrow> nat \<Rightarrow> ParamOverrideOperation list \<times> nat" where
  "update_prune clock operationId upd [] seed = ([], seed)"
| "update_prune clock operationId upd (op # ops) seed =
     (let (op', seed') =
            (if op_id op \<noteq> operationId then (op, seed)
             else let (draft, s) = parsePruneObjectsDraft clock (op_value_text op) seed; (nextDraft, s') = upd draft s in
               (op\<lparr>op_value_text := buildPruneObjectsValueText nextDraft\<rparr>, s'));
          (ops', seed'') = update_prune clock operationId upd ops seed'
      in (op' # ops', seed''))"

definition updatePruneObjectsDraft :: "(nat \<Rightarrow> nat) \<Rightarrow> jsstring \<Rightarrow> prune_updater \<Rightarrow> Dialog \<Rightarrow> Dialog" where
  "updatePruneObjectsDraft clock operationId upd d =
     (let (ops, seed) = update_prune clock operationId upd (operations d) (localIdSeed d) in
      d\<lparr>operations := ops, localIdSeed := seed\<rparr>)"

record PrunePatch =
  ppatch_simpleMode :: "bool option"
  ppatch_typeText :: "jsstring option"
  ppatch_logic :: "jsstring option"
  ppatch_recursive :: "bool option"

definition patch_prune :: "PrunePatch \<Rightarrow> prune_updater" where
  "patch_prune p draft seed = (draft\<lparr>pd_simpleMode := nullish (ppatch_simpleMode p) (pd_simpleMode draft),
     pd_typeText := nullish (ppatch_typeText p) (pd_typeText draft), pd_logic := nullish (ppatch_logic p) (pd_logic draft),
     pd_recursive := nullish (ppatch_recursive p) (pd_recursive draft)\<rparr>, seed)"

definition addPruneRule :: "(nat \<Rightarrow> nat) \<Rightarrow> jsstring \<Rightarrow> Dialog \<Rightarrow> Dialog" where
  "addPruneRule clock operationId d = updatePruneObjectsDraft clock operationId (\<lambda>draft seed.
     let (rule, seed') = normalizePruneRule clock (JObj []) seed in
     (draft\<lparr>pd_simpleMode := False, pd_rules := pd_rules draft @ [rule]\<rparr>, seed')) d"

definition updatePruneRule :: "(nat \<Rightarrow> nat) \<Rightarrow> jsstring \<Rightarrow> jsstring \<Rightarrow> (PruneRule \<Rightarrow> PruneRule) \<Rightarrow> Dialog \<Rightarrow> Dialog" where
  "updatePruneRule clock operationId ruleId patch d = updatePruneObjectsDraft clock operationId (\<lambda>draft seed.
     (draft\<lparr>pd_rules := map (\<lambda>r. if pr_id r = ruleId then patch r else r) (pd_rules draft)\<rparr>, seed)) d"

definition removePruneRule :: "(nat \<Rightarrow> nat) \<Rightarrow> jsstring \<Rightarrow> jsstring \<Rightarrow> Dialog \<Rightarrow> Dialog" where
  "removePruneRule clock operationId ruleId d = updatePruneObjectsDraft clock operationId (\<lambda>draft seed.
     (draft\<lparr>pd_rules := filter (\<lambda>r. pr_id r \<noteq> ruleId) (pd_rules draft)\<rparr>, seed)) d"

section \<open>Drag and drop\<close>

definition resetDragState :: "Dialog \<Rightarrow> Dialog" where
  "resetDragState d = d\<lparr>draggedOperationId := [], dragOverOperationId := [], dragOverAfter := False\<rparr>"

definition handleDragStart :: "jsstring \<Rightarrow> Dialog \<Rightarrow> Dialog" where
  "handleDragStart operationId d = d\<lparr>draggedOperationId := operationId, selectedOperationId := operationId\<rparr>"

definition handleDragOver :: "bool \<Rightarrow> jsstring \<Rightarrow> Dialog \<Rightarrow> Dialog" where
  "handleDragOver lower_half operationId d =
     (if draggedOperationId d = [] \<or> draggedOperationId d = operationId then d
      else d\<lparr>dragOverOperationId := operationId, dragOverAfter := lower_half\<rparr>)"

definition handleDrop :: "jsstring \<Rightarrow> jsstring \<Rightarrow> Dialog \<Rightarrow> Dialog" where
  "handleDrop transferData operationId d =
     (let sourceId = str_or (draggedOperationId d) transferData;
          after = (dragOverOperationId d = operationId \<and> dragOverAfter d)
      in resetDragState
           (if sourceId \<noteq> [] \<and> operationId \<noteq> [] \<and> sourceId \<noteq> operationId
            then d\<lparr>operations := reorderOperations (operations d) sourceId operationId after, selectedOperationId := sourceId\<rparr>
            else d))"

section \<open>Modes, templates and saving\<close>

definition buildVisualJson :: "Dialog \<Rightarrow> EditorError + jsstring" where
  "buildVisualJson d =
     (if visualMode d = VisualLegacy then
        let trimmed = trim (legacyValue d) in
        if trimmed = [] then Inr []
        else case json_parse trimmed of
          None \<Rightarrow> Inl InvalidJsonFormat
        | Some (JObj ps) \<Rightarrow> Inr (json_indented (JObj ps))
        | Some _ \<Rightarrow> Inl LegacyNotObject
      else buildOperationsJson (operations d) True)"

definition switchToJsonMode :: "Dialog \<Rightarrow> Dialog" where
  "switchToJsonMode d =
     (if editMode d = EditJson then d
      else case buildVisualJson d of
        Inr t \<Rightarrow> d\<lparr>jsonText := t, jsonError := False, editMode := EditJson\<rparr>
      | Inl err \<Rightarrow>
          d\<lparr>jsonText := (if visualMode d = VisualLegacy then legacyValue d
              else (case buildOperationsJson (operations d) False of Inr t \<Rightarrow> t | Inl _ \<Rightarrow> jsonText d)),
            jsonError := True, toasts := toasts d @ [err], editMode := EditJson\<rparr>)"

definition with_default_rule :: "(nat \<Rightarrow> nat) \<Rightarrow> Dialog \<Rightarrow> Dialog" where
  "with_default_rule clock d =
     (let (fallback, seed) = createDefaultOperation clock (localIdSeed d) in
      d\<lparr>operations := [fallback], selectedOperationId := op_id fallback, localIdSeed := seed\<rparr>)"

definition switchToVisualMode :: "(nat \<Rightarrow> nat) \<Rightarrow> Dialog \<Rightarrow> Dialog" where
  "switchToVisualMode clock d =
     (if editMode d = EditVisual then d
      else let trimmed = trim (jsonText d) in
      if trimmed = [] then
        (with_default_rule clock d)\<lparr>visualMode := VisualOperations, legacyValue := [], jsonError := False, editMode := EditVisual\<rparr>
      else case json_parse trimmed of
        None \<Rightarrow> d\<lparr>toasts := toasts d @ [InvalidJsonFormat]\<rparr>
      | Some v \<Rightarrow>
          (case (v, jprop v (js ''operations'')) of
             (JObj ps, Some (JArr vs)) \<Rightarrow>
               (case opened_operations clock vs (localIdSeed d) of
                  None \<Rightarrow> d
                | Some (nextOps, seed) \<Rightarrow>
                    d\<lparr>visualMode := VisualOperations, operations := nextOps,
                      selectedOperationId := (case nextOps of [] \<Rightarrow> [] | op # _ \<Rightarrow> op_id op), legacyValue := [],
                      jsonError := False, editMode := EditVisual, templatePresetKey := js ''operations_default'', localIdSeed := seed\<rparr>)
           | (JObj ps, _) \<Rightarrow>
               (with_default_rule clock d)\<lparr>visualMode := VisualLegacy, legacyValue := json_indented v, jsonError := False,
                 editMode := EditVisual, templatePresetKey := js ''legacy_default''\<rparr>
           | _ \<Rightarrow> d\<lparr>toasts := toasts d @ [LegacyNotObject]\<rparr>))"

text \<open>\<open>{...payload, ...current}\<close>; spreading an array or string gives its elements by index, any other value nothing.\<close>

definition spread :: "decimal json \<Rightarrow> (jsstring \<times> decimal json) list" where
  "spread v = (case v of
     JObj ps \<Rightarrow> ps
   | JArr vs \<Rightarrow> map (\<lambda>i. (dec i, vs ! i)) [0..<length vs]
   | JStr s \<Rightarrow> map (\<lambda>i. (dec i, JStr [s ! i])) [0..<length s]
   | _ \<Rightarrow> [])"

definition fill_legacy :: "(nat \<Rightarrow> nat) \<Rightarrow> decimal json \<Rightarrow> Dialog \<Rightarrow> Dialog" where
  "fill_legacy clock v d =
     (let (fallback, seed) = createDefaultOperation clock (localIdSeed d) in
      d\<lparr>visualMode := VisualLegacy, legacyValue := json_indented v, operations := [fallback], localIdSeed := seed,
        jsonText := json_indented v, jsonError := False, editMode := EditVisual\<rparr>)"

definition fillTemplate :: "(nat \<Rightarrow> nat) \<Rightarrow> bool \<Rightarrow> Dialog \<Rightarrow> Dialog" where
  "fillTemplate clock adding d =
     (case template_preset (templatePresetKey d) of
        (TemplateLegacy, payload) \<Rightarrow>
          if adding \<and> visualMode d = VisualLegacy then
            let trimmed = trim (legacyValue d) in
            case (if trimmed = [] then Some (JObj []) else json_parse trimmed) of
              None \<Rightarrow> d\<lparr>toasts := toasts d @ [InvalidJsonFormat]\<rparr>
            | Some current \<Rightarrow> fill_legacy clock (JObj (object_of (spread payload @ spread current))) d
          else fill_legacy clock payload d
      | (TemplateOperations, payload) \<Rightarrow>
          (case map_alloc (normalizeOperation clock) (template_operations payload) (localIdSeed d) of
             None \<Rightarrow> d
           | Some (new, seed) \<Rightarrow>
               if adding then
                 let existing = (if visualMode d = VisualOperations then filter (\<lambda>op. \<not> isOperationBlank op) (operations d) else []);
                     nextOps = existing @ new
                 in d\<lparr>visualMode := VisualOperations, operations := nextOps,
                      selectedOperationId := (case nextOps of [] \<Rightarrow> [] | op # _ \<Rightarrow> op_id op),
                      legacyValue := [], jsonError := False, editMode := EditVisual, jsonText := [], localIdSeed := seed\<rparr>
               else
                 let (finalOps, seed') = (if new \<noteq> [] then (new, seed) else map_prod (\<lambda>x. [x]) id (createDefaultOperation clock seed))
                 in d\<lparr>visualMode := VisualOperations, operations := finalOps,
                      selectedOperationId := (case finalOps of [] \<Rightarrow> [] | op # _ \<Rightarrow> op_id op),
                      jsonText := json_indented (JObj [(js ''operations'', JArr (template_operations payload))]),
                      jsonError := False, editMode := EditVisual, localIdSeed := seed'\<rparr>))"

definition resetEditorState :: "(nat \<Rightarrow> nat) \<Rightarrow> Dialog \<Rightarrow> Dialog" where
  "resetEditorState clock d =
     (with_default_rule clock d)\<lparr>visualMode := VisualOperations, legacyValue := [], jsonText := [], jsonError := False,
       templatePresetKey := js ''operations_default'', editMode := EditVisual\<rparr>"

definition handleJsonChange :: "jsstring \<Rightarrow> Dialog \<Rightarrow> Dialog" where
  "handleJsonChange nextValue d =
     d\<lparr>jsonText := nextValue, jsonError := (trim nextValue \<noteq> [] \<and> \<not> verifyJSON (trim nextValue))\<rparr>"

definition save_result :: "Dialog \<Rightarrow> EditorError + jsstring" where
  "save_result d =
     (if editMode d = EditJson then
        let trimmed = trim (jsonText d) in
        if trimmed = [] then Inr []
        else (case json_parse trimmed of None \<Rightarrow> Inl InvalidJsonFormat | Some v \<Rightarrow> Inr (json_indented v))
      else buildVisualJson d)"

definition handleSave :: "Dialog \<Rightarrow> Dialog" where
  "handleSave d =
     (case save_result d of
        Inr result \<Rightarrow> d\<lparr>saved := saved d @ [result], dialog_open := False\<rparr>
      | Inl err \<Rightarrow> d\<lparr>toasts := toasts d @ [err]\<rparr>)"

section \<open>Events\<close>

text \<open>A render draws identifiers too: the initial rule is rebuilt and dropped, and the draft that is shown is read.\<close>

datatype DialogEvent =
    OpenDialog jsstring
  | UpdateOperation jsstring OperationPatch
  | AddOperation
  | DuplicateOperation bool jsstring
  | RemoveOperation jsstring
  | SelectOperation jsstring
  | SearchOperations jsstring
  | AddCondition jsstring
  | UpdateCondition jsstring jsstring ConditionPatch
  | RemoveCondition jsstring jsstring
  | ExpandConditions bool
  | UpdateReturnError jsstring ReturnErrorPatch
  | UpdatePrune jsstring PrunePatch
  | AddPruneRule jsstring
  | UpdatePruneRule jsstring jsstring "PruneRule \<Rightarrow> PruneRule"
  | RemovePruneRule jsstring jsstring
  | DragStart jsstring
  | DragOver bool jsstring
  | Drop jsstring jsstring
  | DragEnd
  | SwitchToJson
  | SwitchToVisual
  | SelectTemplate jsstring
  | FillTemplate bool
  | ResetEditor
  | LegacyChange jsstring
  | JsonChange jsstring
  | Save
  | Rerender nat

fun handle :: "(nat \<Rightarrow> nat) \<Rightarrow> DialogEvent \<Rightarrow> Dialog \<Rightarrow> Dialog" where
  "handle clock (OpenDialog v) d = open_dialog clock v d"
| "handle clock (UpdateOperation i p) d = updateOperation i p d"
| "handle clock AddOperation d = addOperation clock d"
| "handle clock (DuplicateOperation eager i) d = duplicateOperation clock eager i d"
| "handle clock (RemoveOperation i) d = removeOperation clock i d"
| "handle clock (SelectOperation i) d = d\<lparr>selectedOperationId := i\<rparr>"
| "handle clock (SearchOperations s) d = d\<lparr>operationSearch := s\<rparr>"
| "handle clock (AddCondition i) d = addCondition clock i d"
| "handle clock (UpdateCondition i c p) d = updateCondition i c p d"
| "handle clock (RemoveCondition i c) d = removeCondition i c d"
| "handle clock (ExpandConditions b) d = expand_conditions b d"
| "handle clock (UpdateReturnError i p) d = updateReturnErrorDraft i p d"
| "handle clock (UpdatePrune i p) d = updatePruneObjectsDraft clock i (patch_prune p) d"
| "handle clock (AddPruneRule i) d = addPruneRule clock i d"
| "handle clock (UpdatePruneRule i r f) d = updatePruneRule clock i r f d"
| "handle clock (RemovePruneRule i r) d = removePruneRule clock i r d"
| "handle clock (DragStart i) d = handleDragStart i d"
| "handle clock (DragOver b i) d = handleDragOver b i d"
| "handle clock (Drop t i) d = handleDrop t i d"
| "handle clock DragEnd d = resetDragState d"
| "handle clock SwitchToJson d = switchToJsonMode d"
| "handle clock SwitchToVisual d = switchToVisualMode clock d"
| "handle clock (SelectTemplate k) d = d\<lparr>templatePresetKey := str_or k (js ''operations_default'')\<rparr>"
| "handle clock (FillTemplate adding) d = fillTemplate clock adding d"
| "handle clock ResetEditor d = resetEditorState clock d"
| "handle clock (LegacyChange s) d = d\<lparr>legacyValue := s\<rparr>"
| "handle clock (JsonChange s) d = handleJsonChange s d"
| "handle clock Save d = handleSave d"
| "handle clock (Rerender n) d = d\<lparr>localIdSeed := localIdSeed d + n\<rparr>"

text \<open>An event: its handler, then the effect on the selection.\<close>

definition dialog_step :: "(nat \<Rightarrow> nat) \<Rightarrow> DialogEvent \<Rightarrow> Dialog \<Rightarrow> Dialog" where
  "dialog_step clock e d = (if crashed d then d else let d' = handle clock e d in if crashed d' then d' else keep_selected d')"

text \<open>The dialog as it is mounted: one default rule.\<close>

definition initial_dialog :: "(nat \<Rightarrow> nat) \<Rightarrow> nat \<Rightarrow> Dialog" where
  "initial_dialog clock seed =
     (let (d, seed') = createDefaultOperation clock seed in
      keep_selected \<lparr>editMode = EditVisual, visualMode = VisualOperations, legacyValue = [], operations = [d], jsonText = [],
        jsonError = False, selectedOperationId = [], operationSearch = [], expandedConditions = [],
        draggedOperationId = [], dragOverOperationId = [], dragOverAfter = False,
        templatePresetKey = js ''operations_default'', localIdSeed = seed', saved = [], toasts = [],
        dialog_open = False, crashed = False\<rparr>)"

end
