(* ===== verification/Param_Override_Dialog_Laws.thy ===== *)
theory Param_Override_Dialog_Laws
  imports Param_Override_Dialog Param_Override_Laws Event_Machine "HOL-Library.Multiset"
begin

text \<open>
  What the override dialog keeps while it is used, whatever the order of the events: there is a rule, rules and
  conditions have distinct identifiers, a rule that exists is selected, and modes are modes the gateway knows.
  Then what a drop does to the order of the rules, and what the edits of a pruning draft do to it.
\<close>

section \<open>Identifiers\<close>

definition local_id :: "(nat \<Rightarrow> nat) \<Rightarrow> nat \<Rightarrow> jsstring" where
  "local_id clock seed = fst (nextLocalId clock seed)"

lemma nextLocalId_eq: "nextLocalId clock seed = (local_id clock seed, Suc seed)"
  by (simp add: local_id_def nextLocalId_def)

lemma split_unique: "x \<notin> set a \<Longrightarrow> x \<notin> set b \<Longrightarrow> a @ x # c = b @ x # d \<longleftrightarrow> a = b \<and> c = d"
  by (auto simp: append_eq_append_conv2 Cons_eq_append_conv append_eq_Cons_conv)

lemma local_id_inject [simp]: "local_id clock m = local_id clock n \<longleftrightarrow> m = n"
proof -
  have "95 \<notin> set (dec k)" for k using dec_digits [of 95 k] by (auto simp: is_digit_def)
  then show ?thesis by (auto simp: local_id_def nextLocalId_def split_unique dec_inj)
qed

lemma local_id_inj: "inj_on (local_id clock) A"
  by (rule inj_onI) simp

lemma distinct_local_ids [simp]: "distinct (map (local_id clock) [m..<n])"
  by (simp add: distinct_map local_id_inj)

definition op_ids :: "ParamOverrideOperation \<Rightarrow> jsstring list" where
  "op_ids op = op_id op # map cond_id (op_conditions op)"

definition all_ids :: "ParamOverrideOperation list \<Rightarrow> jsstring list" where
  "all_ids ops = concat (map op_ids ops)"

lemma all_ids_simps [simp]:
  "all_ids [] = []" "all_ids (op # ops) = op_ids op @ all_ids ops" "all_ids (xs @ ys) = all_ids xs @ all_ids ys"
  by (simp_all add: all_ids_def)

lemma op_id_in: "op \<in> set ops \<Longrightarrow> op_id op \<in> set (all_ids ops)"
  by (auto simp: all_ids_def op_ids_def)

lemma distinct_op_ids: "distinct (all_ids ops) \<Longrightarrow> distinct (map op_id ops)"
  by (induction ops) (auto simp: op_ids_def dest: op_id_in)

text \<open>A rule the gateway understands.\<close>

definition op_wf :: "ParamOverrideOperation \<Rightarrow> bool" where
  "op_wf op \<longleftrightarrow> op_mode op \<in> set OPERATION_MODE_VALUES \<and> op_logic op \<in> {js ''OR'', js ''AND''}
     \<and> list_all (\<lambda>c. cond_mode c \<in> set CONDITION_MODE_VALUES) (op_conditions op)"

lemma mode_in_valid: "d \<in> set ms \<Longrightarrow> mode_in ms v d \<in> set ms"
  by (simp add: mode_in_def split: option.splits json.splits)

lemma default_modes: "js ''set'' \<in> set OPERATION_MODE_VALUES" "js ''full'' \<in> set CONDITION_MODE_VALUES"
  by (simp_all add: OPERATION_MODE_VALUES_def CONDITION_MODE_VALUES_def del: js_Cons)

text \<open>What reads a rule uses up a range of the counter, one number for each identifier.\<close>

lemma condition_alloc:
  "normalizeCondition clock v s = Some (c, s') \<Longrightarrow> s' = Suc s \<and> cond_id c = local_id clock s \<and> cond_mode c \<in> set CONDITION_MODE_VALUES"
  by (auto simp: normalizeCondition_def nextLocalId_eq mode_in_valid [OF default_modes(2)] simp del: js_Cons split: if_splits)

lemma conditions_alloc:
  "map_alloc (normalizeCondition clock) vs s = Some (cs, s') \<Longrightarrow>
     s \<le> s' \<and> map cond_id cs = map (local_id clock) [s..<s'] \<and> list_all (\<lambda>c. cond_mode c \<in> set CONDITION_MODE_VALUES) cs"
proof (induction vs arbitrary: s cs)
  case (Cons v vs)
  from Cons.prems obtain c cs' where c: "normalizeCondition clock v s = Some (c, Suc s)" and
    m: "map_alloc (normalizeCondition clock) vs (Suc s) = Some (cs', s')" "cs = c # cs'"
    by (auto simp: bind_eq_Some_conv dest: condition_alloc)
  from Cons.IH [OF m(1)] condition_alloc [OF c] m(2) show ?case by (simp add: upt_conv_Cons)
qed simp

lemma operation_alloc:
  assumes "normalizeOperation clock v s = Some (op, s')"
  shows "s < s'" "op_ids op = map (local_id clock) [s..<s']" "op_wf op"
proof -
  let ?cs = "case jprop v (js ''conditions'') of Some (JArr cs) \<Rightarrow> map_alloc (normalizeCondition clock) cs (Suc s) | _ \<Rightarrow> Some ([], Suc s)"
  from assms obtain cs where cs: "?cs = Some (cs, s')" and op: "op_id op = local_id clock s" "op_conditions op = cs"
      "op_mode op = mode_in OPERATION_MODE_VALUES (jprop v (js ''mode'')) (js ''set'')" "op_logic op = logic_of (jprop v (js ''logic''))"
    by (auto simp: normalizeOperation_def nextLocalId_eq bind_eq_Some_conv simp del: js_Cons split: if_splits)
  have c: "Suc s \<le> s' \<and> map cond_id cs = map (local_id clock) [Suc s..<s'] \<and> list_all (\<lambda>c. cond_mode c \<in> set CONDITION_MODE_VALUES) cs"
    using cs by (auto simp: conditions_alloc simp del: js_Cons split: option.splits json.splits)
  show "s < s'" using c by simp
  show "op_ids op = map (local_id clock) [s..<s']" using c op by (simp add: op_ids_def upt_conv_Cons)
  show "op_wf op" using c op mode_in_valid [OF default_modes(1)] by (simp add: op_wf_def logic_of_def del: js_Cons)
qed

lemma operations_alloc:
  "map_alloc (normalizeOperation clock) vs s = Some (ops, s') \<Longrightarrow>
     s \<le> s' \<and> length ops = length vs \<and> all_ids ops = map (local_id clock) [s..<s'] \<and> list_all op_wf ops"
proof (induction vs arbitrary: s ops)
  case (Cons v vs)
  from Cons.prems obtain op s1 ops' where o: "normalizeOperation clock v s = Some (op, s1)" and
    m: "map_alloc (normalizeOperation clock) vs s1 = Some (ops', s')" "ops = op # ops'"
    by (auto simp: bind_eq_Some_conv)
  have "[s..<s'] = [s..<s1] @ [s1..<s']" if "s \<le> s1" "s1 \<le> s'"
    using upt_add_eq_append [of s s1 "s' - s1"] that by simp
  with Cons.IH [OF m(1)] operation_alloc [OF o] m(2) show ?case by simp
qed simp

lemma default_operation_alloc:
  assumes "createDefaultOperation clock s = (op, s')"
  shows "s < s'" "op_ids op = map (local_id clock) [s..<s']" "op_wf op"
proof -
  have "normalizeOperation clock (JObj [(js ''mode'', JStr (js ''set''))]) s = Some (op, s')"
    using assms by (auto simp: createDefaultOperation_def normalizeOperation_def nextLocalId_eq js_inject simp del: js_Cons)
  from operation_alloc [OF this] show "s < s'" "op_ids op = map (local_id clock) [s..<s']" "op_wf op" .
qed

lemma opened_alloc:
  "opened_operations clock vs s = Some (ops, s') \<Longrightarrow>
     s \<le> s' \<and> ops \<noteq> [] \<and> all_ids ops = map (local_id clock) [s..<s'] \<and> list_all op_wf ops"
  using operations_alloc [of clock vs s ops s'] default_operation_alloc [of clock s]
  by (cases "createDefaultOperation clock s") (auto simp: opened_operations_def split: if_splits)

section \<open>The invariant\<close>

definition rules_ok :: "(nat \<Rightarrow> nat) \<Rightarrow> nat \<Rightarrow> ParamOverrideOperation list \<Rightarrow> bool" where
  "rules_ok clock seed ops \<longleftrightarrow> ops \<noteq> [] \<and> distinct (all_ids ops)
     \<and> set (all_ids ops) \<subseteq> set (map (local_id clock) [0..<seed]) \<and> list_all op_wf ops"

definition editor_ok :: "(nat \<Rightarrow> nat) \<Rightarrow> Dialog \<Rightarrow> bool" where
  "editor_ok clock d \<longleftrightarrow> rules_ok clock (localIdSeed d) (operations d) \<and> selectedOperationId d \<in> set (map op_id (operations d))"

abbreviation dialog_rules :: "(nat \<Rightarrow> nat) \<Rightarrow> Dialog \<Rightarrow> bool" where
  "dialog_rules clock d \<equiv> rules_ok clock (localIdSeed d) (operations d)"

lemma subset_distinct: "mset xs \<subseteq># mset ys \<Longrightarrow> distinct ys \<Longrightarrow> distinct xs"
proof -
  assume "mset xs \<subseteq># mset ys" and d: "distinct ys"
  then obtain C where C: "mset ys = mset xs + C" by (auto simp: mset_subset_eq_exists_conv)
  obtain zs where "mset zs = C" using ex_mset by blast
  with C have "mset ys = mset (xs @ zs)" by simp
  from mset_eq_imp_distinct_iff [OF this] d show "distinct xs" by simp
qed

lemma rules_grow:
  assumes "rules_ok clock s ops" "s \<le> s'" "ops' \<noteq> []" "list_all op_wf ops'"
    and "mset (all_ids ops') \<subseteq># mset (all_ids ops) + mset (map (local_id clock) [s..<s'])"
  shows "rules_ok clock s' ops'"
proof -
  let ?ys = "all_ids ops @ map (local_id clock) [s..<s']"
  have o: "distinct (all_ids ops)" "set (all_ids ops) \<subseteq> local_id clock ` {0..<s}"
    using assms(1) by (simp_all add: rules_ok_def)
  have "local_id clock ` {0..<s} \<inter> local_id clock ` {s..<s'} = {}" by auto
  with o(2) have "set (all_ids ops) \<inter> set (map (local_id clock) [s..<s']) = {}" unfolding set_map set_upt by blast
  with o(1) have "distinct ?ys" by (simp only: distinct_append distinct_local_ids)
  moreover have sub: "mset (all_ids ops') \<subseteq># mset ?ys" using assms(5) by simp
  ultimately have d: "distinct (all_ids ops')" by (rule subset_distinct [rotated])
  have "set (all_ids ops') \<subseteq> set ?ys" using set_mset_mono [OF sub] by simp
  moreover have "local_id clock ` {0..<s} \<subseteq> local_id clock ` {0..<s'}" "local_id clock ` {s..<s'} \<subseteq> local_id clock ` {0..<s'}"
    using assms(2) by auto
  ultimately have "set (all_ids ops') \<subseteq> local_id clock ` {0..<s'}" using o(2) unfolding set_append set_map set_upt by (meson Un_least order_trans)
  with d assms(3,4) show ?thesis by (simp add: rules_ok_def)
qed

lemma rules_later: "rules_ok clock s ops \<Longrightarrow> s \<le> s' \<Longrightarrow> rules_ok clock s' ops"
  by (rule rules_grow [OF _ _ _ _ mset_subset_eq_add_left]) (simp_all add: rules_ok_def)

lemma rules_fresh: "ops \<noteq> [] \<Longrightarrow> list_all op_wf ops \<Longrightarrow> all_ids ops = map (local_id clock) [s..<s'] \<Longrightarrow> rules_ok clock s' ops"
  by (auto simp: rules_ok_def)

lemma rules_default: "createDefaultOperation clock s = (op, s') \<Longrightarrow> rules_ok clock s' [op]"
  by (rule rules_fresh [of _ _ s]) (simp_all add: default_operation_alloc)

lemma all_ids_mset: "mset (all_ids ops) = (\<Sum>op\<in>#mset ops. mset (op_ids op))"
  by (induction ops) simp_all

lemma rules_perm: "rules_ok clock s ops \<Longrightarrow> mset ops' = mset ops \<Longrightarrow> rules_ok clock s ops'"
  by (rule rules_grow) (auto simp: rules_ok_def all_ids_mset list_all_iff dest: mset_eq_setD)

lemma update_ids:
  assumes "distinct (map op_id ops)" "\<And>op. mset (op_ids (f op)) \<subseteq># mset (op_ids op) + X"
  shows "mset (all_ids (map (\<lambda>op. if op_id op = i then f op else op) ops)) \<subseteq># mset (all_ids ops) + X"
  using assms(1)
proof (induction ops)
  case (Cons op ops)
  show ?case
  proof (cases "op_id op = i")
    case True
    with Cons.prems have "map (\<lambda>op. if op_id op = i then f op else op) ops = ops" by (intro map_idI) (force simp: image_iff)
    with True subset_mset.add_mono [OF assms(2) [of op] subset_mset.order_refl [of "mset (all_ids ops)"]] show ?thesis by (simp add: union_assoc union_commute union_lcomm)
  next
    case False
    with Cons show ?thesis by (simp add: add.assoc)
  qed
qed simp

lemma rules_update:
  assumes "rules_ok clock s ops" "s \<le> s'" "\<And>op. op_wf op \<Longrightarrow> op_wf (f op)"
    and "\<And>op. mset (op_ids (f op)) \<subseteq># mset (op_ids op) + mset (map (local_id clock) [s..<s'])"
  shows "rules_ok clock s' (map (\<lambda>op. if op_id op = i then f op else op) ops)"
proof (rule rules_grow [OF assms(1,2)])
  have o: "ops \<noteq> []" "distinct (all_ids ops)" "list_all op_wf ops" using assms(1) by (simp_all add: rules_ok_def)
  from o(1) show "map (\<lambda>op. if op_id op = i then f op else op) ops \<noteq> []" by simp
  from o(3) assms(3) show "list_all op_wf (map (\<lambda>op. if op_id op = i then f op else op) ops)" by (auto simp: list_all_iff)
  show "mset (all_ids (map (\<lambda>op. if op_id op = i then f op else op) ops))
      \<subseteq># mset (all_ids ops) + mset (map (local_id clock) [s..<s'])"
    by (rule update_ids [OF distinct_op_ids [OF o(2)] assms(4)])
qed

lemma update_op_rules:
  assumes "dialog_rules clock d" "\<And>op. op_wf op \<Longrightarrow> op_wf (f op)" "\<And>op. mset (op_ids (f op)) \<subseteq># mset (op_ids op)"
  shows "dialog_rules clock (update_op i f d)"
  using rules_update [OF assms(1) order_refl assms(2)] assms(3) by (simp add: update_op_def)

section \<open>Every handler keeps the rules\<close>

text \<open>The controls offer the modes and the logics of the editor only.\<close>

fun offered :: "DialogEvent \<Rightarrow> bool" where
  "offered (UpdateOperation i p) \<longleftrightarrow> list_all (\<lambda>m. m \<in> set OPERATION_MODE_VALUES) (case patch_mode p of None \<Rightarrow> [] | Some m \<Rightarrow> [m])
     \<and> list_all (\<lambda>l. l \<in> {js ''OR'', js ''AND''}) (case patch_logic p of None \<Rightarrow> [] | Some l \<Rightarrow> [l])"
| "offered (UpdateCondition i c p) \<longleftrightarrow>
     list_all (\<lambda>m. m \<in> set CONDITION_MODE_VALUES) (case cpatch_mode p of None \<Rightarrow> [] | Some m \<Rightarrow> [m])"
| "offered _ \<longleftrightarrow> True"

lemma op_ids_same: "op_id op' = op_id op \<Longrightarrow> op_conditions op' = op_conditions op \<Longrightarrow> op_ids op' = op_ids op"
  by (simp add: op_ids_def)

lemma updateOperation_rules:
  assumes "dialog_rules clock d" "offered (UpdateOperation i p)"
  shows "dialog_rules clock (updateOperation i p d)"
  unfolding updateOperation_def
proof (rule update_op_rules [OF assms(1)])
  fix op
  show "op_wf (patch_operation p op)" if "op_wf op"
    using that assms(2) by (simp add: op_wf_def patch_operation_def nullish_def del: js_Cons split: option.splits)
  show "mset (op_ids (patch_operation p op)) \<subseteq># mset (op_ids op)" by (simp add: op_ids_def patch_operation_def)
qed

lemma updateCondition_rules:
  assumes "dialog_rules clock d" "offered (UpdateCondition i c p)"
  shows "dialog_rules clock (updateCondition i c p d)"
  unfolding updateCondition_def
proof (rule update_op_rules [OF assms(1)])
  fix op :: ParamOverrideOperation
  let ?f = "\<lambda>x. if cond_id x = c then patch_condition p x else x"
  have k: "cond_id (?f x) = cond_id x" for x by (simp add: patch_condition_def)
  have m: "cond_mode (patch_condition p x) \<in> set CONDITION_MODE_VALUES" if "cond_mode x \<in> set CONDITION_MODE_VALUES" for x
    using that assms(2) by (simp add: patch_condition_def nullish_def split: option.splits)
  show "op_wf (op\<lparr>op_conditions := map ?f (op_conditions op)\<rparr>)" if "op_wf op"
    using that m by (auto simp: op_wf_def list_all_iff simp del: js_Cons)
  show "mset (op_ids (op\<lparr>op_conditions := map ?f (op_conditions op)\<rparr>)) \<subseteq># mset (op_ids op)"
    using k by (simp add: op_ids_def comp_def)
qed

lemma removeCondition_rules: "dialog_rules clock d \<Longrightarrow> dialog_rules clock (removeCondition i c d)"
  unfolding removeCondition_def
proof (rule update_op_rules)
  fix op :: ParamOverrideOperation
  let ?cs = "filter (\<lambda>x. cond_id x \<noteq> c) (op_conditions op)"
  show "op_wf (op\<lparr>op_conditions := ?cs\<rparr>)" if "op_wf op" using that by (simp add: op_wf_def list_all_iff del: js_Cons)
  have "mset ?cs \<subseteq># mset (op_conditions op)" by (simp add: multiset_filter_subset)
  from image_mset_subseteq_mono [OF this, of cond_id]
  show "mset (op_ids (op\<lparr>op_conditions := ?cs\<rparr>)) \<subseteq># mset (op_ids op)" by (simp add: op_ids_def del: mset_filter)
qed

lemma updateReturnError_rules: "dialog_rules clock d \<Longrightarrow> dialog_rules clock (updateReturnErrorDraft i p d)"
  unfolding updateReturnErrorDraft_def by (rule update_op_rules) (simp_all add: op_wf_def op_ids_def del: js_Cons)

lemma addOperation_rules: "dialog_rules clock d \<Longrightarrow> dialog_rules clock (addOperation clock d)"
proof (cases "createDefaultOperation clock (localIdSeed d)")
  case (Pair op s)
  note a = default_operation_alloc [OF this]
  assume d: "dialog_rules clock d"
  have "rules_ok clock s (operations d @ [op])"
    by (rule rules_grow [OF d]) (use a d in \<open>simp_all add: rules_ok_def\<close>)
  then show ?thesis by (simp add: addOperation_def Pair)
qed

lemma addCondition_rules: "dialog_rules clock d \<Longrightarrow> dialog_rules clock (addCondition clock i d)"
proof -
  assume d: "dialog_rules clock d"
  let ?s = "localIdSeed d"
  obtain c where c: "createDefaultCondition clock ?s = (c, Suc ?s)" "cond_id c = local_id clock ?s" "cond_mode c \<in> set CONDITION_MODE_VALUES"
    using default_modes(2) by (auto simp: createDefaultCondition_def normalizeCondition_def nextLocalId_eq mode_in_def simp del: js_Cons)
  have "rules_ok clock (Suc ?s) (map (\<lambda>op. if op_id op = i then op\<lparr>op_conditions := op_conditions op @ [c]\<rparr> else op) (operations d))"
    by (rule rules_update [OF d]) (use c in \<open>simp_all add: op_wf_def op_ids_def del: js_Cons\<close>)
  then show ?thesis by (simp add: addCondition_def c(1) update_op_def)
qed

lemma insert_at_mset [simp]: "mset (insert_at k x xs) = add_mset x (mset xs)"
proof -
  have "mset (take k xs) + mset (drop k xs) = mset xs" by (simp flip: mset_append)
  then show ?thesis by (simp add: insert_at_def)
qed

lemma duplicateOperation_rules: "dialog_rules clock d \<Longrightarrow> dialog_rules clock (duplicateOperation clock eager i d)"
proof -
  assume d: "dialog_rules clock d"
  have "rules_ok clock s (insert_at k op (operations d))"
    if "normalizeOperation clock v (localIdSeed d) = Some (op, s)" for k v op s
  proof (rule rules_grow [OF d])
    note a = operation_alloc [OF that]
    have set: "set (insert_at k op (operations d)) = insert op (set (operations d))"
      using insert_at_mset [of k op "operations d"] by (metis set_mset_mset set_mset_add_mset_insert)
    show "localIdSeed d \<le> s" "insert_at k op (operations d) \<noteq> []" using a(1) by (simp_all add: insert_at_def)
    show "list_all op_wf (insert_at k op (operations d))" using a(3) d by (simp add: list_all_iff set rules_ok_def)
    show "mset (all_ids (insert_at k op (operations d)))
        \<subseteq># mset (all_ids (operations d)) + mset (map (local_id clock) [localIdSeed d..<s])"
      using a(2) by (simp add: all_ids_mset union_commute)
  qed
  with d show ?thesis by (simp add: duplicateOperation_def split: option.splits)
qed

lemma rules_filter: "rules_ok clock s ops \<Longrightarrow> filter P ops \<noteq> [] \<Longrightarrow> rules_ok clock s (filter P ops)"
proof (rule rules_grow)
  have "mset (all_ids (filter P ops)) \<subseteq># mset (all_ids ops)"
    by (induction ops) (auto simp: subset_mset.add_increasing)
  then show "mset (all_ids (filter P ops)) \<subseteq># mset (all_ids ops) + mset (map (local_id clock) [s..<s])" by simp
qed (auto simp: rules_ok_def list_all_iff)

lemma removeOperation_rules: "dialog_rules clock d \<Longrightarrow> dialog_rules clock (removeOperation clock i d)"
proof (cases "length (operations d) \<le> 1")
  case True
  then show ?thesis
    by (cases "createDefaultOperation clock (localIdSeed d)") (simp add: removeOperation_def rules_default)
next
  case False
  assume d: "dialog_rules clock d"
  then have "distinct (map op_id (operations d))" by (simp add: rules_ok_def distinct_op_ids)
  with False have "filter (\<lambda>op. op_id op \<noteq> i) (operations d) \<noteq> []"
    by (cases "operations d" rule: remdups_adj.cases) auto
  from rules_filter [OF d this] False show ?thesis by (simp add: removeOperation_def)
qed

text \<open>Pruning drafts: only the value of the rule changes, and the counter moves on.\<close>

lemma prune_rules_alloc: "prune_rules clock vs s = (rs, s') \<Longrightarrow> s \<le> s' \<and> map pr_id rs = map (local_id clock) [s..<s']"
proof (induction vs arbitrary: s rs)
  case (Cons v vs)
  then obtain r rs' where r: "normalizePruneRule clock v s = (r, Suc s)" "pr_id r = local_id clock s"
      "prune_rules clock vs (Suc s) = (rs', s')" "rs = r # rs'"
    by (auto simp: normalizePruneRule_def nextLocalId_eq Let_def split: prod.splits)
  with Cons.IH [OF r(3)] show ?case by (simp add: upt_conv_Cons)
qed simp

text \<open>Two readings of a text differ in the identifiers only.\<close>

definition listed_rules :: "jsstring \<Rightarrow> decimal json list" where
  "listed_rules t = (if trim t = [] then [] else case json_parse (trim t) of Some (JObj ps) \<Rightarrow> draft_rules (JObj ps) | _ \<Rightarrow> [])"

lemma prune_draft_rules:
  "parsePruneObjectsDraft clock t s = ((fst (parsePruneObjectsDraft (\<lambda>_. 0) t 0))\<lparr>pd_rules := fst (prune_rules clock (listed_rules t) s)\<rparr>,
     snd (prune_rules clock (listed_rules t) s))"
proof (cases "trim t = []")
  case False
  then show ?thesis
  proof (cases "json_parse (trim t)")
    case (Some v)
    with False show ?thesis
      by (cases v) (simp_all add: parsePruneObjectsDraft_def listed_rules_def Let_def case_prod_beta del: js_Cons)
  qed (simp add: parsePruneObjectsDraft_def listed_rules_def)
qed (simp add: parsePruneObjectsDraft_def listed_rules_def)

lemma prune_draft_alloc:
  assumes "parsePruneObjectsDraft clock t s = (draft, s')"
  shows "s \<le> s'" "map pr_id (pd_rules draft) = map (local_id clock) [s..<s']"
  using assms prune_rules_alloc [of clock "listed_rules t" s, OF prod.collapse [symmetric]]
  unfolding prune_draft_rules [of clock t s] by auto

lemma update_prune_ids:
  assumes "\<And>draft s. s \<le> snd (upd draft s)"
  shows "update_prune clock i upd ops s = (ops', s') \<Longrightarrow>
    s \<le> s' \<and> map op_ids ops' = map op_ids ops \<and> (list_all op_wf ops \<longrightarrow> list_all op_wf ops')"
proof (induction ops arbitrary: s ops')
  case (Cons op ops)
  from Cons.prems obtain op1 s1 ops1 where o: "update_prune clock i upd ops s1 = (ops1, s')" "ops' = op1 # ops1"
      "s \<le> s1 \<and> (op1 = op \<or> (\<exists>t. op1 = op\<lparr>op_value_text := t\<rparr>))"
    using assms prune_draft_alloc(1)
    by (auto simp: Let_def split: prod.splits if_splits) (metis order_trans snd_conv)+
  have "op_ids op1 = op_ids op" "op_wf op1 = op_wf op" using o(3) by (auto simp: op_ids_def op_wf_def simp del: js_Cons)
  with Cons.IH [OF o(1)] o(2,3) show ?case by auto
qed simp

lemma updatePrune_rules:
  assumes "dialog_rules clock d" "\<And>draft s. s \<le> snd (upd draft s)"
  shows "dialog_rules clock (updatePruneObjectsDraft clock i upd d)"
proof (cases "update_prune clock i upd (operations d) (localIdSeed d)")
  case (Pair ops s)
  from update_prune_ids [OF assms(2) this] have a: "localIdSeed d \<le> s" "all_ids ops = all_ids (operations d)"
      "list_all op_wf (operations d) \<Longrightarrow> list_all op_wf ops" "ops = [] \<longleftrightarrow> operations d = []"
    by (auto simp: all_ids_def)
  have "rules_ok clock (localIdSeed d) ops" using assms(1) a(2-4) by (simp add: rules_ok_def)
  from rules_later [OF this a(1)] Pair show ?thesis by (simp add: updatePruneObjectsDraft_def)
qed

lemma reorderOperations_mset: "mset (reorderOperations ops i j after) = mset ops"
proof (cases "findIndex (\<lambda>o'. op_id o' = i) ops")
  case (Some k)
  then have k: "k < length ops" by (auto dest: findIndex_Some)
  have "ops = take k ops @ ops ! k # drop (Suc k) ops" using k by (rule id_take_nth_drop)
  then have "add_mset (ops ! k) (mset (take k ops @ drop (Suc k) ops)) = mset ops"
    by (metis add_mset_add_single mset_append union_mset_add_mset_right mset.simps(2))
  with Some show ?thesis by (simp add: reorderOperations_def Let_def split: option.splits)
qed (simp add: reorderOperations_def)

lemma handleDrop_rules: "dialog_rules clock d \<Longrightarrow> dialog_rules clock (handleDrop t i d)"
  by (simp add: handleDrop_def Let_def resetDragState_def rules_perm [OF _ reorderOperations_mset])

lemma with_default_rules: "rules_ok clock (localIdSeed (with_default_rule clock d)) (operations (with_default_rule clock d))"
  by (cases "createDefaultOperation clock (localIdSeed d)") (simp add: with_default_rule_def rules_default)

lemma opened_rules: "opened_operations clock vs s = Some (ops, s') \<Longrightarrow> rules_ok clock s' ops"
  using opened_alloc [of clock vs s ops s'] by (auto intro: rules_fresh)

lemma parseInitialState_rules: "parseInitialState clock v s = Some (st, s') \<Longrightarrow> rules_ok clock s' (operations st)"
  using rules_default [of clock s] opened_rules [of clock _ s]
  by (cases "createDefaultOperation clock s")
    (auto simp: parseInitialState_def Let_def simp del: js_Cons split: if_splits option.splits json.splits)

lemma open_dialog_rules: "dialog_rules clock d \<Longrightarrow> dialog_rules clock (open_dialog clock v d)"
  by (cases "parseInitialState clock v (localIdSeed d)") (auto simp: open_dialog_def parseInitialState_rules)

lemma switchToVisualMode_rules: "dialog_rules clock d \<Longrightarrow> dialog_rules clock (switchToVisualMode clock d)"
  using with_default_rules [of clock d] opened_rules [of clock _ "localIdSeed d"]
  by (auto simp: switchToVisualMode_def Let_def simp del: js_Cons split: option.splits json.splits)

lemma fill_legacy_rules: "dialog_rules clock (fill_legacy clock v d)"
  by (cases "createDefaultOperation clock (localIdSeed d)") (simp add: fill_legacy_def rules_default)

lemmas template_defs = OPERATION_TEMPLATE_def HEADER_PASSTHROUGH_TEMPLATE_def GEMINI_IMAGE_4K_TEMPLATE_def
  CODEX_CLI_HEADER_PASSTHROUGH_TEMPLATE_def CLAUDE_CLI_HEADER_PASSTHROUGH_TEMPLATE_def buildPassHeadersTemplate_def
  AWS_BEDROCK_ANTHROPIC_COMPAT_TEMPLATE_def obj_def

lemma template_lists_rules: "template_preset k = (TemplateOperations, payload) \<Longrightarrow> template_operations payload \<noteq> []"
proof -
  have a: "\<forall>(k, kind, payload)\<in>set TEMPLATE_PRESET_CONFIG. kind = TemplateOperations \<longrightarrow> template_operations payload \<noteq> []"
    by (simp add: TEMPLATE_PRESET_CONFIG_def template_operations_def template_defs js_inject del: js_Cons)
  have o: "template_operations OPERATION_TEMPLATE \<noteq> []"
    by (simp add: template_operations_def template_defs js_inject del: js_Cons)
  assume "template_preset k = (TemplateOperations, payload)"
  with a o show ?thesis
    by (cases "map_of TEMPLATE_PRESET_CONFIG k") (auto simp: template_preset_def nullish_def dest: map_of_SomeD)
qed

lemma rules_add:
  assumes "rules_ok clock s ops" "map_alloc (normalizeOperation clock) vs s = Some (new, s')" "vs \<noteq> []"
  shows "rules_ok clock s' (filter P ops @ new)" "rules_ok clock s' new"
proof -
  note a = operations_alloc [OF assms(2)]
  from a assms(3) show n: "rules_ok clock s' new" by (intro rules_fresh) auto
  show "rules_ok clock s' (filter P ops @ new)"
  proof (rule rules_grow [OF assms(1)])
    have "mset (all_ids (filter P ops)) \<subseteq># mset (all_ids ops)"
      by (induction ops) (auto simp: subset_mset.add_increasing)
    then show "mset (all_ids (filter P ops @ new)) \<subseteq># mset (all_ids ops) + mset (map (local_id clock) [s..<s'])"
      using a by simp
  qed (use a n assms(1) in \<open>auto simp: rules_ok_def list_all_iff\<close>)
qed

lemma fillTemplate_rules: "dialog_rules clock d \<Longrightarrow> dialog_rules clock (fillTemplate clock adding d)"
proof (cases "template_preset (templatePresetKey d)")
  case (Pair kind payload)
  assume d: "dialog_rules clock d"
  show ?thesis
  proof (cases kind)
    case TemplateLegacy
    with Pair d show ?thesis by (auto simp: fillTemplate_def Let_def fill_legacy_rules split: option.splits)
  next
    case TemplateOperations
    have ne: "template_operations payload \<noteq> []" by (rule template_lists_rules [OF Pair [unfolded TemplateOperations]])
    show ?thesis
    proof (cases "map_alloc (normalizeOperation clock) (template_operations payload) (localIdSeed d)")
      case None
      with Pair TemplateOperations d show ?thesis by (simp add: fillTemplate_def)
    next
      case (Some r)
      then obtain new s where r: "map_alloc (normalizeOperation clock) (template_operations payload) (localIdSeed d) = Some (new, s)"
        by (cases r) simp
      note a = rules_add [OF d r ne]
      have "new \<noteq> []" using a(2) by (simp add: rules_ok_def)
      with Pair TemplateOperations r a show ?thesis by (simp add: fillTemplate_def Let_def)
    qed
  qed
qed

section \<open>The editor at any time\<close>

lemma handle_rules:
  assumes "dialog_rules clock d" "offered e"
  shows "dialog_rules clock (handle clock e d)"
proof (cases e)
  case (UpdatePrune i p)
  then show ?thesis using assms(1) by (simp add: updatePrune_rules patch_prune_def)
next
  case (AddPruneRule i)
  then show ?thesis using assms(1)
    by (simp add: addPruneRule_def updatePrune_rules normalizePruneRule_def nextLocalId_eq Let_def)
next
  case (ExpandConditions b)
  then show ?thesis using assms(1) by (simp add: expand_conditions_def split: option.splits)
next
  case (Save)
  then show ?thesis using assms(1) by (simp add: handleSave_def split: sum.splits)
next
  case (SwitchToJson)
  then show ?thesis using assms(1) by (simp add: switchToJsonMode_def split: sum.splits)
qed (use assms in \<open>simp_all add: open_dialog_rules updateOperation_rules addOperation_rules duplicateOperation_rules
    removeOperation_rules addCondition_rules updateCondition_rules removeCondition_rules updateReturnError_rules
    updatePruneRule_def removePruneRule_def updatePrune_rules handleDragStart_def handleDragOver_def handleDrop_rules
    resetDragState_def switchToVisualMode_rules fillTemplate_rules resetEditorState_def with_default_rules
    handleJsonChange_def rules_later [OF _ le_add1] del: offered.simps js_Cons\<close>)

lemma keep_selected_ok:
  assumes "dialog_rules clock d"
  shows "editor_ok clock (keep_selected d)"
proof -
  obtain op ops where o: "operations d = op # ops" using assms by (auto simp: rules_ok_def neq_Nil_conv)
  show ?thesis
  proof (cases "\<exists>o'\<in>set (operations d). op_id o' = selectedOperationId d")
    case True
    then have "keep_selected d = d" using o by (simp add: keep_selected_def)
    moreover have "selectedOperationId d \<in> set (map op_id (operations d))" using True by force
    ultimately show ?thesis using assms by (simp add: editor_ok_def)
  next
    case False
    then have "keep_selected d = d\<lparr>selectedOperationId := op_id op\<rparr>" using o by (simp add: keep_selected_def)
    then show ?thesis using assms o by (simp add: editor_ok_def)
  qed
qed

lemma crash_simps [simp]:
  "crashed (update_op i f d) = crashed d" "crashed (addOperation clock d) = crashed d"
  "crashed (duplicateOperation clock eager i d) = crashed d" "crashed (removeOperation clock i d) = crashed d"
  "crashed (addCondition clock i d) = crashed d" "crashed (expand_conditions b d) = crashed d"
  "crashed (updatePruneObjectsDraft clock i upd d) = crashed d" "crashed (handleDragOver b i d) = crashed d"
  "crashed (resetDragState d) = crashed d" "crashed (with_default_rule clock d) = crashed d"
  "crashed (fill_legacy clock v d) = crashed d" "crashed (handleSave d) = crashed d" "crashed (switchToJsonMode d) = crashed d"
  by (simp_all add: update_op_def addOperation_def duplicateOperation_def removeOperation_def addCondition_def expand_conditions_def
      updatePruneObjectsDraft_def handleDragOver_def resetDragState_def with_default_rule_def fill_legacy_def handleSave_def
      switchToJsonMode_def case_prod_beta split: option.split sum.split)

lemma crash_visual [simp]: "crashed (switchToVisualMode clock d) = crashed d"
  by (auto simp: switchToVisualMode_def Let_def simp del: js_Cons split: option.split json.split)

lemma crash_template [simp]: "crashed (fillTemplate clock adding d) = crashed d"
  by (auto simp: fillTemplate_def Let_def case_prod_beta split: prod.split TemplateKind.split option.split)

lemma crash_drop [simp]: "crashed (handleDrop t i d) = crashed d"
  by (simp add: handleDrop_def Let_def)

lemma handle_crash: "crashed (handle clock e d) \<Longrightarrow> \<not> crashed d \<Longrightarrow> handle clock e d = d\<lparr>crashed := True\<rparr>"
proof (cases e)
  case (OpenDialog v)
  then show "crashed (handle clock e d) \<Longrightarrow> \<not> crashed d \<Longrightarrow> handle clock e d = d\<lparr>crashed := True\<rparr>"
    by (cases "parseInitialState clock v (localIdSeed d)") (simp_all add: open_dialog_def case_prod_beta)
qed (simp_all add: updateOperation_def updateCondition_def removeCondition_def updateReturnErrorDraft_def addPruneRule_def
    updatePruneRule_def removePruneRule_def handleDragStart_def resetEditorState_def handleJsonChange_def)

lemma step_ok: "offered e \<Longrightarrow> editor_ok clock d \<Longrightarrow> editor_ok clock (dialog_step clock e d)"
  using handle_rules [of clock d e] handle_crash [of clock e d] keep_selected_ok [of clock "handle clock e d"]
  by (auto simp: dialog_step_def Let_def editor_ok_def)

interpretation editor: kept_invariant "dialog_step clock" "editor_ok clock" offered for clock
  by unfold_locales (rule step_ok)

lemma initial_ok: "editor_ok clock (initial_dialog clock seed)"
  by (cases "createDefaultOperation clock seed") (simp add: initial_dialog_def keep_selected_ok rules_default)



section \<open>Dropping a rule\<close>

lemma findIndex_split:
  assumes "distinct (map k xs)" "x \<in> set xs"
  shows "\<exists>ys zs. xs = ys @ x # zs \<and> findIndex (\<lambda>y. k y = k x) xs = Some (length ys) \<and> filter (\<lambda>y. k y \<noteq> k x) xs = ys @ zs"
proof -
  obtain ys zs where x: "xs = ys @ x # zs" using split_list [OF assms(2)] by blast
  with assms(1) have n: "\<forall>y\<in>set ys. k y \<noteq> k x" "\<forall>y\<in>set zs. k y \<noteq> k x" by (force simp: image_iff)+
  have "findIndex (\<lambda>y. k y = k x) (ys @ x # zs) = Some (length ys)" using n(1) by (induction ys) auto
  moreover have "filter (\<lambda>y. k y \<noteq> k x) (ys @ x # zs) = ys @ zs" using n by (simp add: filter_id_conv)
  ultimately show ?thesis using x by blast
qed

lemma reorder_moves:
  assumes "distinct (map op_id ops)" "s \<in> set ops" "t \<in> set ops" "op_id s \<noteq> op_id t" "op_id s \<noteq> []" "op_id t \<noteq> []"
  shows "\<exists>xs ys. filter (\<lambda>op. op_id op \<noteq> op_id s) ops = xs @ t # ys
    \<and> reorderOperations ops (op_id s) (op_id t) after = (if after then xs @ t # s # ys else xs @ s # t # ys)"
proof -
  obtain as bs where s: "ops = as @ s # bs" "findIndex (\<lambda>y. op_id y = op_id s) ops = Some (length as)"
      "filter (\<lambda>y. op_id y \<noteq> op_id s) ops = as @ bs"
    using findIndex_split [OF assms(1,2)] by blast
  have "distinct (map op_id (as @ bs))" "t \<in> set (as @ bs)" using assms(1,3,4) s(1) by auto
  from findIndex_split [OF this] obtain xs ys where t: "as @ bs = xs @ t # ys" "findIndex (\<lambda>y. op_id y = op_id t) (as @ bs) = Some (length xs)"
    by blast
  have "reorderOperations ops (op_id s) (op_id t) after = insert_at (if after then Suc (length xs) else length xs) s (xs @ t # ys)"
    using assms(4-6) s(1,2) t by (simp add: reorderOperations_def)
  also have "\<dots> = (if after then xs @ t # s # ys else xs @ s # t # ys)" by (simp add: insert_at_def)
  finally show ?thesis using s(3) t(1) by (intro exI [of _ xs] exI [of _ ys]) simp
qed

lemma local_id_ne [simp]: "local_id clock n \<noteq> []"
  by (simp add: local_id_def nextLocalId_def)

lemma ok_ids: "editor_ok clock d \<Longrightarrow> op \<in> set (operations d) \<Longrightarrow> op_id op \<noteq> []"
  using op_id_in [of op "operations d"] by (auto simp: editor_ok_def rules_ok_def)

lemma kept_selected: "op \<in> set (operations d) \<Longrightarrow> selectedOperationId d = op_id op \<Longrightarrow> keep_selected d = d"
  by (cases "operations d") (auto simp: keep_selected_def)

text \<open>C26: A dragged rule lands next to the rule it is dropped on, after it when the pointer is in its lower half and before it
  otherwise; all other rules keep their order, and the moved rule is selected.\<close>

theorem drag_moves_rule:
  assumes "editor_ok clock d" "\<not> crashed d" "s \<in> set (operations d)" "t \<in> set (operations d)" "s \<noteq> t"
    and "d' = fold (dialog_step clock) [DragStart (op_id s), DragOver after (op_id t), Drop data (op_id t)] d"
  shows "\<exists>xs ys. filter (\<lambda>op. op_id op \<noteq> op_id s) (operations d) = xs @ t # ys
    \<and> operations d' = (if after then xs @ t # s # ys else xs @ s # t # ys) \<and> selectedOperationId d' = op_id s"
proof -
  have dist: "distinct (map op_id (operations d))" using assms(1) by (simp add: editor_ok_def rules_ok_def distinct_op_ids)
  then have ne: "op_id s \<noteq> op_id t" using assms(3-5) by (meson distinct_map inj_on_def)
  note i = ok_ids [OF assms(1,3)] ok_ids [OF assms(1,4)]
  define d1 where "d1 = d\<lparr>draggedOperationId := op_id s, selectedOperationId := op_id s\<rparr>"
  have 1: "dialog_step clock (DragStart (op_id s)) d = d1"
    using assms(2,3) kept_selected [of s d1] by (simp add: dialog_step_def handleDragStart_def d1_def)
  define d2 where "d2 = d1\<lparr>dragOverOperationId := op_id t, dragOverAfter := after\<rparr>"
  have 2: "dialog_step clock (DragOver after (op_id t)) d1 = d2"
    using assms(2,3) kept_selected [of s d2] i ne by (simp add: dialog_step_def handleDragOver_def d1_def d2_def)
  define ops where "ops = reorderOperations (operations d) (op_id s) (op_id t) after"
  have sin: "s \<in> set ops" using mset_eq_setD [OF reorderOperations_mset] assms(3) by (simp add: ops_def)
  have d': "d' = dialog_step clock (Drop data (op_id t)) d2" by (simp only: assms(6) 1 2 fold_simps comp_apply id_apply)
  have h: "handleDrop data (op_id t) d2 = resetDragState (d2\<lparr>operations := ops, selectedOperationId := op_id s\<rparr>)"
    using i ne by (simp add: handleDrop_def Let_def d1_def d2_def ops_def str_or_def)
  have "operations d' = ops \<and> selectedOperationId d' = op_id s"
    using sin assms(2) kept_selected [of s "handleDrop data (op_id t) d2"]
    by (simp add: d' dialog_step_def h) (simp add: resetDragState_def d1_def d2_def)
  with reorder_moves [OF dist assms(3,4) ne i, of after] show ?thesis by (auto simp: ops_def)
qed

definition default_rule :: "jsstring \<Rightarrow> ParamOverrideOperation" where
  "default_rule i = \<lparr>op_id = i, op_description = [], op_path = [], op_mode = js ''set'', op_from = [], op_to = [],
     op_value_text = [], op_keep_origin = False, op_logic = js ''OR'', op_conditions = []\<rparr>"

lemma createDefaultOperation_eq: "createDefaultOperation clock s = (default_rule (local_id clock s), Suc s)"
  by (simp add: createDefaultOperation_def normalizeOperation_def nextLocalId_eq str_prop_def true_prop_def default_rule_def mode_in_def
      logic_of_def truthy_or_def ascii_upper_def OPERATION_MODE_VALUES_def js_inject del: js_Cons) (simp add: ascii_upper_def)

definition two_rules :: Dialog where
  "two_rules = dialog_step (\<lambda>_. 0) AddOperation (dialog_step (\<lambda>_. 0) AddOperation (initial_dialog (\<lambda>_. 0) 0))"

lemma two_rules_ok: "editor_ok (\<lambda>_. 0) two_rules" "\<not> crashed two_rules" "operations two_rules = map default_rule (map js [''po_0_0'', ''po_0_1'', ''po_0_2''])"
proof -
  show "editor_ok (\<lambda>_. 0) two_rules" unfolding two_rules_def by (simp add: editor.keeps initial_ok)
  have l: "local_id (\<lambda>_. 0) 0 = js ''po_0_0''" "local_id (\<lambda>_. 0) (Suc 0) = js ''po_0_1''" "local_id (\<lambda>_. 0) (Suc (Suc 0)) = js ''po_0_2''"
    by (simp_all add: local_id_def nextLocalId_def dec.simps)
  have i: "op_id (default_rule i) = i" for i by (simp add: default_rule_def)
  note defs = two_rules_def initial_dialog_def createDefaultOperation_eq dialog_step_def addOperation_def Let_def keep_selected_def l i
  show "\<not> crashed two_rules" "operations two_rules = map default_rule (map js [''po_0_0'', ''po_0_1'', ''po_0_2''])"
    by (simp_all add: defs del: js_Cons)
qed

theorem drag_moves_rule_witness:
  "map op_id (operations (fold (dialog_step (\<lambda>_. 0)) [DragStart (js ''po_0_0''), DragOver True (js ''po_0_2''), Drop [] (js ''po_0_2'')] two_rules))
    = map js [''po_0_1'', ''po_0_2'', ''po_0_0'']"
proof -
  have i: "op_id (default_rule i) = i" for i by (simp add: default_rule_def)
  let ?s = "default_rule (js ''po_0_0'')" and ?t = "default_rule (js ''po_0_2'')"
  have m: "?s \<in> set (operations two_rules)" "?t \<in> set (operations two_rules)" by (simp_all add: two_rules_ok(3) del: js_Cons)
  have d: "?s \<noteq> ?t" by (simp add: default_rule_def js_inject del: js_Cons)
  from drag_moves_rule [OF two_rules_ok(1,2) m d refl, of True "[]"] obtain xs ys where
    x: "filter (\<lambda>op. op_id op \<noteq> js ''po_0_0'') (operations two_rules) = xs @ ?t # ys" and
    o: "operations (fold (dialog_step (\<lambda>_. 0)) [DragStart (js ''po_0_0''), DragOver True (js ''po_0_2''), Drop [] (js ''po_0_2'')] two_rules)
      = xs @ ?t # ?s # ys" by (auto simp: i simp del: js_Cons)
  from x have "xs = [default_rule (js ''po_0_1'')] \<and> ys = []"
    by (simp add: two_rules_ok(3) i js_inject Cons_eq_append_conv default_rule_def del: js_Cons)
  with o show ?thesis by (simp add: i del: js_Cons)
qed

section \<open>Pruning drafts and texts\<close>

text \<open>The text of a draft does not depend on the identifiers of its rules.\<close>

lemma conditions_anonymous:
  "map prune_condition (filter (\<lambda>r. trim (pr_path r) \<noteq> []) (fst (prune_rules clock vs s)))
    = map prune_condition (filter (\<lambda>r. trim (pr_path r) \<noteq> []) (fst (prune_rules clock' vs s')))"
proof (induction vs arbitrary: s s')
  case (Cons v vs)
  have n: "normalizePruneRule clock v s = ((fst (normalizePruneRule clock' v s'))\<lparr>pr_id := local_id clock s\<rparr>, Suc s)"
    "snd (normalizePruneRule clock' v s') = Suc s'" by (simp_all add: normalizePruneRule_def nextLocalId_eq)
  have c: "prune_condition (r\<lparr>pr_id := j\<rparr>) = prune_condition r" for r j by (simp add: prune_condition_def)
  from Cons.IH [of "Suc s" "Suc s'"] n(2) show ?case by (simp add: n(1) c case_prod_beta Let_def)
qed simp

lemma prune_text_anonymous:
  assumes "pd_rules draft = fst (prune_rules clock vs s)"
  shows "buildPruneObjectsValueText draft = buildPruneObjectsValueText (draft\<lparr>pd_rules := fst (prune_rules clock' vs s')\<rparr>)"
  using conditions_anonymous [of clock vs s clock' s'] assms by (simp add: buildPruneObjectsValueText_def Let_def)

definition reread_prune :: "jsstring \<Rightarrow> PruneObjectsDraft" where
  "reread_prune t = fst (parsePruneObjectsDraft (\<lambda>_. 0) t 0)"

lemma reread_text:
  assumes "parsePruneObjectsDraft clock t s = (draft, s')"
  shows "buildPruneObjectsValueText draft = buildPruneObjectsValueText (reread_prune t)"
    "buildPruneObjectsValueText (draft\<lparr>pd_simpleMode := False\<rparr>) = buildPruneObjectsValueText ((reread_prune t)\<lparr>pd_simpleMode := False\<rparr>)"
proof -
  have d: "draft = (reread_prune t)\<lparr>pd_rules := fst (prune_rules clock (listed_rules t) s)\<rparr>"
    using assms by (subst (asm) prune_draft_rules) (auto simp: reread_prune_def)
  have r: "reread_prune t = (reread_prune t)\<lparr>pd_rules := fst (prune_rules (\<lambda>_. 0) (listed_rules t) 0)\<rparr>"
    unfolding reread_prune_def by (subst prune_draft_rules) simp
  let ?R = "fst (prune_rules (\<lambda>_. 0) (listed_rules t) 0)"
  have p: "pd_rules draft = fst (prune_rules clock (listed_rules t) s)" by (simp add: d)
  have e: "draft\<lparr>pd_rules := ?R\<rparr> = reread_prune t" unfolding d using r [symmetric] by simp
  have e': "draft\<lparr>pd_simpleMode := False, pd_rules := ?R\<rparr> = (reread_prune t)\<lparr>pd_simpleMode := False\<rparr>"
    unfolding e [symmetric] by simp
  show "buildPruneObjectsValueText draft = buildPruneObjectsValueText (reread_prune t)"
    unfolding prune_text_anonymous [OF p, of "\<lambda>_. 0" 0] e ..
  have p': "pd_rules (draft\<lparr>pd_simpleMode := False\<rparr>) = fst (prune_rules clock (listed_rules t) s)" using p by simp
  show "buildPruneObjectsValueText (draft\<lparr>pd_simpleMode := False\<rparr>) = buildPruneObjectsValueText ((reread_prune t)\<lparr>pd_simpleMode := False\<rparr>)"
    unfolding prune_text_anonymous [OF p', of "\<lambda>_. 0" 0] e' ..
qed

lemma update_prune_ops:
  assumes "\<And>t s s' draft. base \<le> s \<Longrightarrow> parsePruneObjectsDraft clock t s = (draft, s') \<Longrightarrow>
      buildPruneObjectsValueText (fst (upd draft s')) = g t \<and> s' \<le> snd (upd draft s')" "base \<le> s"
  shows "fst (update_prune clock i upd ops s) = map (\<lambda>op. if op_id op = i then op\<lparr>op_value_text := g (op_value_text op)\<rparr> else op) ops"
  using assms(2)
proof (induction ops arbitrary: s)
  case (Cons op ops)
  obtain draft s' where p: "parsePruneObjectsDraft clock (op_value_text op) s = (draft, s')" by (metis surj_pair)
  have "base \<le> snd (upd draft s')" using prune_draft_alloc(1) [OF p] assms(1) [OF Cons.prems p] Cons.prems by simp
  with Cons.IH [of s] Cons.IH [of "snd (upd draft s')"] Cons.prems p assms(1) [OF Cons.prems p] show ?case
    by (simp add: Let_def case_prod_beta)
qed simp

text \<open>A rule whose value is read as a draft, changed by \<open>g\<close> and written again.\<close>

definition rewrite_prune :: "jsstring \<Rightarrow> ParamOverrideOperation list \<Rightarrow> (PruneObjectsDraft \<Rightarrow> PruneObjectsDraft) \<Rightarrow> ParamOverrideOperation list" where
  "rewrite_prune i ops g =
     map (\<lambda>op. if op_id op = i then op\<lparr>op_value_text := buildPruneObjectsValueText (g (reread_prune (op_value_text op)))\<rparr> else op) ops"

lemma rules_renumbered:
  assumes "parsePruneObjectsDraft clock t s = (draft, s')" "r \<in> set (pd_rules draft)"
    and "parsePruneObjectsDraft clock t1 s1 = (draft1, s2)" "s' \<le> s1"
  shows "draft1\<lparr>pd_rules := map (\<lambda>x. if pr_id x = pr_id r then patch x else x) (pd_rules draft1)\<rparr> = draft1"
    "draft1\<lparr>pd_rules := filter (\<lambda>x. pr_id x \<noteq> pr_id r) (pd_rules draft1)\<rparr> = draft1"
proof -
  have ids: "pr_id ` set (pd_rules draft) = local_id clock ` {s..<s'}" "pr_id ` set (pd_rules draft1) = local_id clock ` {s1..<s2}"
    using prune_draft_alloc(2) [OF assms(1)] prune_draft_alloc(2) [OF assms(3)] by (metis list.set_map set_upt)+
  have "pr_id x \<noteq> pr_id r" if "x \<in> set (pd_rules draft1)" for x
  proof -
    have "pr_id x \<in> local_id clock ` {s1..<s2}" "pr_id r \<in> local_id clock ` {s..<s'}" using ids that assms(2) by blast+
    with assms(4) show ?thesis by auto
  qed
  then have "map (\<lambda>x. if pr_id x = pr_id r then patch x else x) (pd_rules draft1) = pd_rules draft1"
    "filter (\<lambda>x. pr_id x \<noteq> pr_id r) (pd_rules draft1) = pd_rules draft1"
    by (auto intro!: map_idI simp: filter_id_conv)
  then show "draft1\<lparr>pd_rules := map (\<lambda>x. if pr_id x = pr_id r then patch x else x) (pd_rules draft1)\<rparr> = draft1"
    "draft1\<lparr>pd_rules := filter (\<lambda>x. pr_id x \<noteq> pr_id r) (pd_rules draft1)\<rparr> = draft1" by simp_all
qed

lemma blank_rule_dropped:
  "buildPruneObjectsValueText (draft\<lparr>pd_simpleMode := False, pd_rules := pd_rules draft @ [fst (normalizePruneRule clock (JObj []) n)]\<rparr>)
    = buildPruneObjectsValueText (draft\<lparr>pd_simpleMode := False\<rparr>)"
  by (simp add: buildPruneObjectsValueText_def normalizePruneRule_def nextLocalId_eq str_prop_def Let_def del: js_Cons)

text \<open>C32: The rules of a pruning draft cannot be edited.  A change or the removal of a condition that the editor shows has no
  effect: the handler reads the text again, which gives the conditions new identifiers, so none has the identifier
  of the one that is shown, and the text is only written anew.  An added condition is gone as well, because one
  without a path is not written; adding one only leaves simple mode.\<close>

theorem prune_edits_ignored:
  assumes "parsePruneObjectsDraft clock t s = (draft, s')" "s' \<le> localIdSeed d" "r \<in> set (pd_rules draft)"
  shows "operations (updatePruneRule clock i (pr_id r) patch d) = rewrite_prune i (operations d) (\<lambda>draft. draft)
    \<and> operations (removePruneRule clock i (pr_id r) d) = rewrite_prune i (operations d) (\<lambda>draft. draft)
    \<and> operations (addPruneRule clock i d) = rewrite_prune i (operations d) (\<lambda>draft. draft\<lparr>pd_simpleMode := False\<rparr>)"
proof -
  note u = rules_renumbered [OF assms(1,3) _ order_trans [OF assms(2)]]
  have e: "operations (updatePruneObjectsDraft clock i upd d) = fst (update_prune clock i upd (operations d) (localIdSeed d))" for upd
    by (simp add: updatePruneObjectsDraft_def case_prod_beta)
  have "operations (updatePruneRule clock i (pr_id r) patch d) = rewrite_prune i (operations d) (\<lambda>draft. draft)"
    unfolding updatePruneRule_def e rewrite_prune_def
    by (rule update_prune_ops [OF _ order_refl]) (simp, subst u(1), assumption+, rule reread_text(1), assumption)
  moreover have "operations (removePruneRule clock i (pr_id r) d) = rewrite_prune i (operations d) (\<lambda>draft. draft)"
    unfolding removePruneRule_def e rewrite_prune_def
    by (rule update_prune_ops [OF _ order_refl]) (simp, subst u(2), assumption+, rule reread_text(1), assumption)
  moreover have "operations (addPruneRule clock i d) = rewrite_prune i (operations d) (\<lambda>draft. draft\<lparr>pd_simpleMode := False\<rparr>)"
    unfolding addPruneRule_def e rewrite_prune_def
    by (rule update_prune_ops [OF _ order_refl]) (simp add: Let_def case_prod_beta blank_rule_dropped reread_text(2), simp add: normalizePruneRule_def nextLocalId_eq)
  ultimately show ?thesis by blast
qed

definition sample_prune :: "decimal json" where
  "sample_prune = JObj [(js ''conditions'', JObj [(js ''type'', JStr (js ''thinking''))])]"

lemma sample_prune_shown:
  "\<exists>draft s'. parsePruneObjectsDraft (\<lambda>_. 0) (json_stringify sample_prune) 0 = (draft, s') \<and> s' = 1 \<and> (\<exists>r\<in>set (pd_rules draft). pr_id r = js ''po_0_0'')"
proof -
  let ?t = "json_stringify sample_prune"
  have "json_ok (JObj [(js ''type'', JStr (js ''thinking''))])"
    using pieces_object_ok [of "[[(js ''type'', JStr (js ''thinking''))]]" "[[js ''type'']]"]
    by (simp add: key_simps del: js_Cons)
  then have "json_ok sample_prune"
    using pieces_object_ok [of "[[(js ''conditions'', JObj [(js ''type'', JStr (js ''thinking''))])]]" "[[js ''conditions'']]"]
    by (simp add: sample_prune_def key_simps del: js_Cons)
  then have p: "json_parse ?t = Some sample_prune" by (rule parse_stringify)
  have t: "trim ?t = ?t" "?t \<noteq> []" unfolding json_stringify_def by (rule trim_write, rule write_ne)
  have l: "listed_rules ?t = full_matches [(js ''type'', JStr (js ''thinking''))]"
    by (simp add: listed_rules_def t p del: js_Cons) (simp add: sample_prune_def draft_rules_def js_inject del: js_Cons)
  have i: "local_id (\<lambda>_. 0) 0 = js ''po_0_0''" by (simp add: local_id_def nextLocalId_def dec.simps)
  show ?thesis
    by (subst prune_draft_rules) (simp add: l full_matches_def normalizePruneRule_def nextLocalId_eq Let_def i del: js_Cons)
qed

definition prune_dialog :: Dialog where
  "prune_dialog = two_rules\<lparr>operations := [(default_rule (js ''po_0_1''))\<lparr>op_mode := js ''prune_objects'', op_value_text := json_stringify sample_prune\<rparr>]\<rparr>"

theorem prune_edits_ignored_witness:
  "operations (removePruneRule (\<lambda>_. 0) (js ''po_0_1'') (js ''po_0_0'') prune_dialog)
    = rewrite_prune (js ''po_0_1'') (operations prune_dialog) (\<lambda>draft. draft)"
proof -
  have "1 \<le> localIdSeed prune_dialog"
    by (simp add: prune_dialog_def two_rules_def initial_dialog_def createDefaultOperation_eq dialog_step_def addOperation_def Let_def
        keep_selected_def)
  with sample_prune_shown prune_edits_ignored [of "\<lambda>_. 0" "json_stringify sample_prune" 0 _ 1 prune_dialog _ "js ''po_0_1''" "\<lambda>r. r"]
  show ?thesis by metis
qed

text \<open>A space typed at the end of the message of a custom error is lost.  The handler writes the trimmed message and
  the control shows what is read back, so the dialog is the same as if the space had not been typed.\<close>

theorem typed_space_lost:
  assumes "is_space c"
  shows "updateReturnErrorDraft i (p\<lparr>rpatch_message := Some (m @ [c])\<rparr>) d = updateReturnErrorDraft i (p\<lparr>rpatch_message := Some m\<rparr>) d"
proof -
  have t: "trim (m @ [c]) = trim m" using assms by (auto simp: trim_def dropWhile_append dropWhile_eq_Nil_conv [THEN iffD2])
  have b: "buildReturnErrorValueText (dr\<lparr>re_message := m @ [c]\<rparr>) = buildReturnErrorValueText (dr\<lparr>re_message := m\<rparr>)" for dr
    by (simp add: buildReturnErrorValueText_def Let_def t del: js_Cons)
  have "patch_return_error (p\<lparr>rpatch_message := Some x\<rparr>) dr = (patch_return_error p dr)\<lparr>re_message := x\<rparr>" for x dr
    by (simp add: patch_return_error_def nullish_def)
  then show ?thesis by (simp add: updateReturnErrorDraft_def b)
qed

theorem typed_space_lost_witness:
  "updateReturnErrorDraft (js ''po_0_1'') \<lparr>rpatch_message = Some (js ''try ''), rpatch_statusCode = None, rpatch_code = None,
      rpatch_type = None, rpatch_skipRetry = None, rpatch_simpleMode = None\<rparr> two_rules
    = updateReturnErrorDraft (js ''po_0_1'') \<lparr>rpatch_message = Some (js ''try''), rpatch_statusCode = None, rpatch_code = None,
      rpatch_type = None, rpatch_skipRetry = None, rpatch_simpleMode = None\<rparr> two_rules"
  using typed_space_lost [where c = 32 and m = "js ''try''" and i = "js ''po_0_1''" and d = two_rules and
      p = "\<lparr>rpatch_message = None, rpatch_statusCode = None, rpatch_code = None, rpatch_type = None, rpatch_skipRetry = None,
        rpatch_simpleMode = None\<rparr>"]
  by (simp add: is_space_def)

end
