(* ===== verification/Spec2Isabelle.thy ===== *)
theory Spec2Isabelle
  imports Http_Status_Rules Playground_Page Playground_Storage_Laws
    Playground_Controls Auth_Refresh Http_Client Auth_Redirect Flow_Graph_Laws Billing_Rules_Laws Channel_Form_Laws
    Param_Override_Agreement Param_Override_Dialog_Laws
begin

text \<open>
  A verification library for the web client of the gateway (TypeScript under \<open>src/web/src\<close>) and for the part
  of the server that shares a contract with it (\<open>src/relaykit/dto/channel_settings.go\<close> and the parsing part of
  \<open>src/relay/common/override.go\<close>).

  \<^bold>\<open>The program.\<close>  The client is a React application.  A user signs in; \<open>lib/auth-session.ts\<close> keeps the
  session in the store \<open>stores/auth-store.ts\<close>, refreshes the access token and synchronises tabs;
  \<open>lib/http-client.ts\<close> attaches the token to every call, retries a call once after a refresh and shows
  errors.  The playground (\<open>features/playground\<close>) is a chat with a model: a chat handler sends requests
  through a stream controller, batches the streamed chunks into React updates and stores the conversation
  in local storage.  The dashboard (\<open>features/dashboard/lib/flow.ts\<close>) turns usage rows into a flow
  graph.  The pricing editor (\<open>features/pricing/lib/billing-expr.ts\<close>) writes and reads billing
  expressions.  The settings pages read lists of status codes (\<open>lib/http-status-code-rules.ts\<close>).
  The channel editor is a form (\<open>features/channels/lib/channel-form.ts\<close>) over the columns of a channel; a
  channel of the advanced custom type has a route table (\<open>features/channels/lib/advanced-custom.ts\<close>), which
  the server validates again and routes requests by.  A channel can also rewrite requests by rules, which a
  dialog edits (\<open>features/channels/components/dialogs/param-override-editor-dialog.tsx\<close>) and the gateway parses.

  \<^bold>\<open>Conventions.\<close>  A JavaScript string is its list of UTF-16 code units (\<open>jsstring\<close>), \<open>Map\<close> and \<open>Set\<close> are
  association lists and lists in insertion order, an optional property is an \<open>option\<close>.  The clock, drawn
  identifiers, the translation function, \<open>JSON.parse\<close>, \<open>JSON.stringify\<close> of values, the URL parser,
  \<open>localeCompare\<close>, the number format and the colour table of the chart library are arguments; a theorem
  that needs something of them says so in a hypothesis.  Only the override editor, whose text the gateway reads,
  uses \<open>JSON.parse\<close> and \<open>JSON.stringify\<close> as they are defined in \<open>Json_Text\<close>.
  An \<open>async\<close> function is cut at every \<open>await\<close>, and
  what other code does in between is an arbitrary function or an arbitrary further event.  Numbers are
  integers where the client counts and exact rationals where it adds measures; the rounding of doubles is
  not modelled.

  \<^bold>\<open>Shared theories.\<close>  \<open>Js_Prelude\<close> is the vocabulary: string operations, maps, \<open>||\<close> and \<open>??\<close>, decimal
  printing.  \<open>Js_Json\<close> has JSON values.  \<open>Json_Number\<close> has exact decimal numbers and their text, and \<open>Json_Text\<close> the
  printer (compact and indented) and the parser of JSON texts; a printed value is parsed back to itself.
  \<open>Event_Machine\<close> states in three locales what a component driven by
  events shows of one event (an invariant is kept, fuel is burnt, a budget is not exceeded) and derives
  what holds after any number of them.  \<open>Generation_Guard\<close> states the contract of a generation counter: a
  late event of a superseded request changes nothing, so it can be erased from any history.  The stream
  controller, the chat handler and the session interpret the guard; the controller, the chat handler, the
  composed page, the persistence, the session store, a token refresh, a call of the HTTP client and the
  override dialog interpret the machines.

  \<^bold>\<open>Status code rules.\<close>  \<open>Http_Status_Rules\<close> is \<open>lib/http-status-code-rules.ts\<close>.  Merging ranges keeps the set
  of codes and gives its maximal intervals; the normalised text is read back to the same ranges.

  \<^bold>\<open>Playground.\<close>
  \<^item> \<open>Playground_Types\<close>, \<open>Playground_Message\<close>, \<open>Playground_Conversation\<close>: the values of \<open>types.ts\<close> and
    \<open>constants.ts\<close> and the pure operations of \<open>lib/message\<close> and \<open>lib/streaming/payload-builder.ts\<close>.
    \<open>Playground_Message_Laws\<close> specifies the splitting of reasoning tags, the accumulation of chunks, the
    invariant of a message and what loading repairs.
  \<^item> \<open>Playground_Stream\<close>: \<open>lib/streaming\<close> and \<open>createStreamRequestController\<close> of
    \<open>hooks/use-stream-request.ts\<close>, as a machine whose events are the settled header promise and the events
    of the source.  \<open>Playground_Stream_Laws\<close> proves its callback protocol and that no source leaks.
  \<^item> \<open>Playground_Chat\<close>: \<open>hooks/use-chat-handler.ts\<close>, \<open>hooks/use-playground-conversation.ts\<close> and
    \<open>hooks/use-message-action-guard.ts\<close>.  React may evaluate an updater at once or at the next render, so
    updaters are kept in a queue.  \<open>Playground_Chat_Laws\<close> proves that stopping settles the conversation and
    that batching keeps the text, and shows where text is lost.
  \<^item> \<open>Playground_Page\<close>: the chat handler and the controller wired together as in \<open>useChatHandler\<close>.  The page
    shows a generation exactly while a request is outstanding, and what the server streams is what the
    conversation shows.
  \<^item> \<open>Playground_Storage\<close>: \<open>lib/storage\<close>, \<open>lib/state\<close> and the persistence of \<open>hooks/use-playground-state.ts\<close>.
    \<open>Playground_Storage_Laws\<close> proves that saving and loading is the identity within the limits, which part
    of a longer conversation survives, and that leaving the page saves the last change.
  \<^item> \<open>Playground_Controls\<close>: \<open>lib/parameters\<close>, \<open>lib/options\<close>, \<open>lib/input\<close> and the effects of
    \<open>hooks/use-playground-options.ts\<close>; a normalised parameter is in range.

  \<^bold>\<open>Authentication.\<close>  \<open>Auth_Store\<close> is \<open>stores/auth-store.ts\<close> and the validation of server values;
  \<open>Auth_Session\<close> is \<open>lib/auth-session.ts\<close> and \<open>lib/auth-session-sync.ts\<close> over one record of the store and
  the module variables.  \<open>Auth_Session_Laws\<close>: every refresh ends, its outcome agrees with the store, a
  superseded refresh is without effect, the store is consistent after any history.  \<open>Auth_Refresh\<close> is
  \<open>refreshAuthentication\<close> with the promise that the calls of a tab share (\<open>AuthTab\<close>, \<open>tab_step\<close>) and the lock
  that the tabs of a browser share (\<open>browser_step\<close>; the lock manager is the platform's and grants a free lock
  only): at most one tab refreshes, a refresh settles and frees the lock, a promise is settled once, and a
  rejected lock request reaches the caller.  \<open>Http_Client\<close> is
  \<open>lib/http-client.ts\<close> with \<open>lib/server-error-message.ts\<close>; a call is sent at most twice.  \<open>Auth_Redirect\<close> is
  \<open>auth-redirect.ts\<close>, \<open>oauth-callback-mode.ts\<close> and \<open>oauth-bind-window.ts\<close> of \<open>features/auth/lib\<close>; an
  accepted redirect was read as a URL of the site.

  \<^bold>\<open>Usage flow.\<close>  \<open>Flow_Graph\<close> is \<open>flow.ts\<close> from the rows to the graph, its summary and its filter options, with
  \<open>flow-selection.ts\<close> and the types.  \<open>Flow_Graph_Laws\<close>: flow is conserved at every node, every column
  carries the summary, a limit bounds the columns, masking hides labels and keeps the graph.

  \<^bold>\<open>Billing expressions.\<close>  \<open>Billing_Rules\<close> is the request-rule part of \<open>billing-expr.ts\<close>; each regular expression
  is a function that consumes the text piece by piece.  \<open>Billing_Rules_Laws\<close>: the parser reads back what
  the editor builds, base and rules are separated again, and the rules it cannot read back.

  \<^bold>\<open>Channel routes.\<close>  \<open>Channel_Routes\<close> is \<open>advanced-custom.ts\<close>: options, templates, defaults, normalisation and
  validation of a route table.  \<open>Channel_Routes_Server\<close> is the validation and the matching of the same table in
  \<open>channel_settings.go\<close>.  \<open>Channel_Routes_Laws\<close> states one step of a validator in the locale \<open>route_table\<close>,
  derives which tables are accepted, and interprets it for both validators.  \<open>Channel_Routes_Agreement\<close>:
  the accepted tables are the separated ones, the server accepts what the client saved up to regular
  expressions that do not compile, an exact rule decides the route, and an advertised endpoint is served.

  \<^bold>\<open>Channel form.\<close>  \<open>Channel_Form\<close> is \<open>channel-form.ts\<close>: the schema, the values a stored channel opens with, and
  the two payloads.  JSON, the URL parser and the conversions \<open>String\<close> and \<open>Number\<close> are one record of functions,
  \<open>js_runtime\<close>; the assignments and deletions of single settings are a list of edits.  \<open>Channel_Form_Laws\<close>:
  opening and saving again sends the same payload, settings that the form does not manage are kept, those
  of another type of channel are removed, and what the schema accepts passes the checks of the server.

  \<^bold>\<open>Parameter overrides.\<close>  \<open>Param_Override\<close> is the part of the editor above its component: reading, validating and
  writing of rules, and the drafts of the values of custom errors and pruning rules.  \<open>Param_Override_Templates\<close>
  has the templates, \<open>Param_Override_Dialog\<close> the component: its state, one definition per handler, and the events
  that call them (\<open>dialog_step\<close>).  The identifiers of rules and conditions are drawn from the clock and a counter.
  \<open>Param_Override_Server\<close> is the parsing of stored overrides in \<open>override.go\<close>.  \<open>Param_Override_Laws\<close>: opening and
  saving again writes the same text.  \<open>Param_Override_Agreement\<close>: the gateway reads exactly the rules that were
  saved, and what saving loses or the gateway refuses.  \<open>Param_Override_Dialog_Laws\<close>: the invariant of the dialog
  under any events, what a drop does to the order, and the edits that have no effect.

  \<^bold>\<open>Bounds and fuel.\<close>  Loops are structural recursion or have a termination proof (\<open>think_loop\<close>, \<open>split_top\<close>,
  \<open>unwrap_loop\<close>, \<open>split_sub\<close>).  Only the JSON parser takes fuel, \<open>json_parse\<close> giving it twice the length of the text
  and one more; \<open>json_parse_complete\<close> shows that every text that is read with any fuel is read with this one.  The refresh runner and the calls of the client are
  machines that are resumed; their measures show that 14 resumptions end a refresh (three races before
  and three after one restart, each with a response and a wait, and the two last responses) and 6 end a
  call.  Limits of the source (100 messages, 120000 characters, 1048576 characters of stored text, the
  ranges of the parameters) are the constants of the source.

  \<^bold>\<open>Not modelled.\<close>
  \<^item> React rendering, styles, routes and translations: no state of their own that the properties need.
  \<^item> The order in which the lock manager serves its queue, tab messaging itself, and the event source package:
    platform code; its events are unrestricted, apart from the lock being granted only when it is free.
  \<^item> The Sankey specification and the tooltips of the flow chart: values handed to the chart library.
  \<^item> The tier parser of \<open>billing-expr.ts\<close> and \<open>tier-expr.ts\<close>: global regular expressions with backtracking over
    floating-point coefficients, and an evaluator that calls \<open>new Function\<close>.
  \<^item> Price display (\<open>price.ts\<close>, \<open>dynamic-price.ts\<close>) and the formatters: floating-point and locale formatting.
  \<^item> Applying override rules to a request (\<open>applyOperations\<close>, \<open>parseHeaderPassThroughNames\<close> and the header functions of
    \<open>override.go\<close>), which edits JSON texts through two packages; of the override dialog the panels, labels, the
    button that reformats a value and the toggle of a single condition.
  \<^item> The administration features (models, keys, users, wallet, settings, and channels apart from their form, their
    route tables and their overrides): tables and dialogs over HTTP calls.
  \<^item> The Go server and relay, apart from the checks of channel settings, the matching of routes and the parsing of
    overrides, and the desktop shell.
\<close>

end
